(* ===== verification/Prelude.thy ===== *)
theory Prelude
  imports Main
    "HOL-Library.Word" "HOL-Library.Multiset" "HOL-Library.AList" "HOL-Library.Char_ord"
    "HOL-Library.List_Lexorder" "HOL-Library.Stream"
begin

text \<open>
  Shared vocabulary of the development: Go errors and panics as values, the sequencing of
  fallible steps, Go maps with string keys as association lists, and the hint collections the
  components use.

  A Go function that returns \<open>(T, error)\<close> is modelled by a function into \<open>'a result\<close>: \<open>Ok\<close> is
  the nil error, \<open>Err\<close> a non-nil one. A run-time panic is a third outcome: the caller's error
  handling never sees it, so it has a constructor of its own.
\<close>

section \<open>Errors and results\<close>

text \<open>
  The reasons of \<open>metav1.StatusReason\<close> which the code distinguishes; every other reason is
  \<open>ReasonUnknown\<close>.
\<close>

datatype reason =
    ReasonUnknown | NotFound | AlreadyExists | Conflict | Invalid | BadRequest

text \<open>
  \<open>StatusError\<close> is \<open>errors.StatusError\<close> (an API error with its reason), \<open>Errorf\<close> an error made
  by \<open>fmt.Errorf\<close> or \<open>errors.New\<close> with its text, and \<open>ReconcilerEvent\<close> the event of
  \<open>knative.dev/pkg/reconciler/events.go\<close>, which is an error too.
\<close>

datatype error =
    Errorf string
  | StatusError reason string
  | ReconcilerEvent (EventType: string) (EventReason: string) (EventText: string)

datatype 'a result = Ok 'a | Err error | Panic string

text \<open>\<open>err.Error()\<close>.\<close>

fun error_text :: "error \<Rightarrow> string" where
  "error_text (Errorf s) = s"
| "error_text (StatusError r s) = s"
| "error_text (ReconcilerEvent t r s) = s"

text \<open>\<open>errors.ReasonForError\<close> and the tests built on it.\<close>

fun ReasonForError :: "error \<Rightarrow> reason" where
  "ReasonForError (StatusError r s) = r"
| "ReasonForError _ = ReasonUnknown"

definition IsNotFound :: "error \<Rightarrow> bool" where
  "IsNotFound e \<longleftrightarrow> ReasonForError e = NotFound"

definition IsConflict :: "error \<Rightarrow> bool" where
  "IsConflict e \<longleftrightarrow> ReasonForError e = Conflict"

definition IsInvalid :: "error \<Rightarrow> bool" where
  "IsInvalid e \<longleftrightarrow> ReasonForError e = Invalid"

lemmas reason_tests = IsNotFound_def IsConflict_def IsInvalid_def

section \<open>Sequencing\<close>

fun bind_result :: "'a result \<Rightarrow> ('a \<Rightarrow> 'b result) \<Rightarrow> 'b result" where
  "bind_result (Ok x) f = f x"
| "bind_result (Err e) f = Err e"
| "bind_result (Panic p) f = Panic p"

fun is_ok :: "'a result \<Rightarrow> bool" where
  "is_ok (Ok x) = True"
| "is_ok _ = False"

fun is_panic :: "'a result \<Rightarrow> bool" where
  "is_panic (Panic p) = True"
| "is_panic _ = False"

text \<open>A \<open>for\<close> loop whose body updates a state and may return an error.\<close>

fun fold_result :: "('a \<Rightarrow> 's \<Rightarrow> 's result) \<Rightarrow> 'a list \<Rightarrow> 's \<Rightarrow> 's result" where
  "fold_result f [] s = Ok s"
| "fold_result f (x # xs) s = bind_result (f x s) (fold_result f xs)"

text \<open>A \<open>for\<close> loop which rewrites every element of a slice and stops at the first error.\<close>

fun map_result :: "('a \<Rightarrow> 'b result) \<Rightarrow> 'a list \<Rightarrow> 'b list result" where
  "map_result f [] = Ok []"
| "map_result f (x # xs) = bind_result (f x) (\<lambda>y. bind_result (map_result f xs) (\<lambda>ys. Ok (y # ys)))"

lemma bind_result_Ok_iff [simp]:
  "bind_result r f = Ok y \<longleftrightarrow> (\<exists>x. r = Ok x \<and> f x = Ok y)"
  by (cases r) auto

lemma bind_result_Err_iff:
  "bind_result r f = Err e \<longleftrightarrow> r = Err e \<or> (\<exists>x. r = Ok x \<and> f x = Err e)"
  by (cases r) auto

lemma bind_result_Panic_iff:
  "bind_result r f = Panic p \<longleftrightarrow> r = Panic p \<or> (\<exists>x. r = Ok x \<and> f x = Panic p)"
  by (cases r) auto

lemma bind_result_assoc:
  "bind_result (bind_result r f) g = bind_result r (\<lambda>x. bind_result (f x) g)"
  by (cases r) auto

lemma bind_result_unit [simp]: "bind_result r Ok = r"
  by (cases r) auto

lemma bind_result_cong [fundef_cong]:
  "r = r' \<Longrightarrow> (\<And>x. r' = Ok x \<Longrightarrow> f x = g x) \<Longrightarrow> bind_result r f = bind_result r' g"
  by (cases r') auto

lemma is_ok_iff: "is_ok r \<longleftrightarrow> (\<exists>x. r = Ok x)"
  by (cases r) auto

lemma is_panic_iff: "is_panic r \<longleftrightarrow> (\<exists>p. r = Panic p)"
  by (cases r) auto

lemma fold_result_append:
  "fold_result f (xs @ ys) s = bind_result (fold_result f xs s) (fold_result f ys)"
  by (induction xs arbitrary: s) (auto simp: bind_result_assoc intro: bind_result_cong)

text \<open>Any property the loop body keeps, the loop keeps.\<close>

lemma fold_result_invariant:
  assumes "fold_result f xs s = Ok s'" and "P s"
    and "\<And>x t t'. x \<in> set xs \<Longrightarrow> P t \<Longrightarrow> f x t = Ok t' \<Longrightarrow> P t'"
  shows "P s'"
  using assms
proof (induction xs arbitrary: s)
  case Nil
  then show ?case by simp
next
  case (Cons x xs)
  then obtain t where "f x s = Ok t" and "fold_result f xs t = Ok s'" by auto
  with Cons show ?case by (metis list.set_intros)
qed

lemma map_result_Ok_iff:
  "map_result f xs = Ok ys \<longleftrightarrow> list_all2 (\<lambda>x y. f x = Ok y) xs ys"
proof (induction xs arbitrary: ys)
  case Nil
  then show ?case by auto
next
  case (Cons x xs)
  then show ?case by (auto simp: list_all2_Cons1)
qed

lemma map_result_length: "map_result f xs = Ok ys \<Longrightarrow> length ys = length xs"
  by (auto simp: map_result_Ok_iff dest: list_all2_lengthD)

lemma map_result_nth:
  "map_result f xs = Ok ys \<Longrightarrow> i < length xs \<Longrightarrow> f (xs ! i) = Ok (ys ! i)"
  by (auto simp: map_result_Ok_iff list_all2_conv_all_nth)

lemma map_result_all_Ok:
  "(\<And>x. x \<in> set xs \<Longrightarrow> f x = Ok (g x)) \<Longrightarrow> map_result f xs = Ok (map g xs)"
  by (induction xs) auto

lemma map_result_map_Ok:
  "(\<And>x. x \<in> set xs \<Longrightarrow> f (h x) = Ok (g x)) \<Longrightarrow> map_result f (map h xs) = Ok (map g xs)"
  by (induction xs) auto

text \<open>The loop that rewrites a slice fails with the error of the first element that fails.\<close>

lemma map_result_first_error:
  "map_result f (xs @ x # ys) = Err e"
  if "\<And>y. y \<in> set xs \<Longrightarrow> is_ok (f y)" and "f x = Err e"
  using that by (induction xs) (auto simp: bind_result_Err_iff is_ok_iff)

section \<open>Go maps with string keys\<close>

text \<open>
  A Go map is an association list with distinct keys: \<open>map_of m k\<close> reads, \<open>AList.update k v m\<close>
  stores, \<open>AList.delete k m\<close> deletes, and the order of the list is one iteration order of
  \<open>range\<close>. The nil map of Go is the empty list unless the code tells nil from empty; then the
  model uses an option.
\<close>

type_synonym 'v gomap = "(string \<times> 'v) list"

abbreviation keys :: "'v gomap \<Rightarrow> string list" where
  "keys m \<equiv> map fst m"

definition has_key :: "string \<Rightarrow> 'v gomap \<Rightarrow> bool" where
  "has_key k m \<longleftrightarrow> map_of m k \<noteq> None"

lemma map_of_update [simp]: "map_of (AList.update k v m) = (map_of m)(k \<mapsto> v)"
  by (rule AList.update_conv')

lemma map_of_delete [simp]: "map_of (AList.delete k m) = (map_of m)(k := None)"
  by (rule AList.delete_conv')

lemma distinct_keys_update [simp, intro]:
  "distinct (keys m) \<Longrightarrow> distinct (keys (AList.update k v m))"
  by (rule AList.distinct_update)

lemma distinct_keys_delete [simp, intro]:
  "distinct (keys m) \<Longrightarrow> distinct (keys (AList.delete k m))"
  by (rule AList.distinct_delete)

lemma has_key_iff: "has_key k m \<longleftrightarrow> k \<in> set (keys m)"
  by (auto simp: has_key_def map_of_eq_None_iff)

text \<open>Reading a missing key gives the zero value of the element type.\<close>

definition lookup_or :: "'v \<Rightarrow> 'v gomap \<Rightarrow> string \<Rightarrow> 'v" where
  "lookup_or z m k = (case map_of m k of None \<Rightarrow> z | Some v \<Rightarrow> v)"

text \<open>\<open>for k, v := range src { tgt[k] = v }\<close>.\<close>

fun assign_all :: "'v gomap \<Rightarrow> 'v gomap \<Rightarrow> 'v gomap" where
  "assign_all [] tgt = tgt"
| "assign_all ((k, v) # src) tgt = assign_all src (AList.update k v tgt)"

lemma map_of_assign_all:
  "distinct (keys src) \<Longrightarrow> map_of (assign_all src tgt) = map_of tgt ++ map_of src"
proof (induction src arbitrary: tgt)
  case Nil
  then show ?case by simp
next
  case (Cons p src)
  obtain k v where p: "p = (k, v)" by force
  with Cons.prems have "map_of src k = None" and "distinct (keys src)"
    by (auto simp: map_of_eq_None_iff)
  with Cons.IH [of "AList.update k v tgt"] show ?case
    by (auto simp: p map_add_def fun_eq_iff split: option.splits)
qed

lemma distinct_keys_assign_all:
  "distinct (keys tgt) \<Longrightarrow> distinct (keys (assign_all src tgt))"
  by (induction src tgt rule: assign_all.induct) auto

section \<open>Strings and time\<close>

type_synonym time = int

text \<open>\<open>strings.HasPrefix\<close>, and a slice expression \<open>s[n:]\<close>, which panics past the end.\<close>

definition has_prefix :: "string \<Rightarrow> string \<Rightarrow> bool" where
  "has_prefix s p \<longleftrightarrow> take (length p) s = p"

definition slice_from :: "string \<Rightarrow> nat \<Rightarrow> string result" where
  "slice_from s n =
     (if n \<le> length s then Ok (drop n s) else Panic ''slice bounds out of range'')"

lemma slice_from_append [simp]: "slice_from (p @ s) (length p) = Ok s"
  by (simp add: slice_from_def)

text \<open>A number as \<open>%d\<close> prints it.\<close>

definition digit :: "nat \<Rightarrow> char" where
  "digit n = char_of (48 + n)"

fun decimal :: "nat \<Rightarrow> string" where
  "decimal n = (if n < 10 then [digit n] else decimal (n div 10) @ [digit (n mod 10)])"

definition decimal_int :: "int \<Rightarrow> string" where
  "decimal_int i = (if i < 0 then ''-'' @ decimal (nat (- i)) else decimal (nat i))"

text \<open>A list of pairwise different keys that is no shorter than a list which contains it.\<close>

lemma distinct_subset_length_eq:
  assumes "distinct xs" and "distinct ys" and "set xs \<subseteq> set ys" and "length ys \<le> length xs"
  shows "set xs = set ys"
  using assms by (metis card_seteq distinct_card finite_set)

lemma find_SomeD: "find P xs = Some x \<Longrightarrow> x \<in> set xs \<and> P x"
  by (auto simp: find_Some_iff)

lemma find_append: "find P (xs @ ys) = (case find P xs of None \<Rightarrow> find P ys | Some x \<Rightarrow> Some x)"
  by (induction xs) auto

section \<open>Hint collections\<close>

named_theorems status_simps \<open>reading a condition after an operation on the conditions\<close>
named_theorems object_simps \<open>reading an object after an accessor wrote it\<close>
named_theorems kind_simps \<open>kind, version and name of an object after a transformer\<close>

end
