(* ===== verification/Conditions.thy ===== *)
theory Conditions
  imports Prelude
begin

text \<open>
  The condition manager of \<open>vendor/knative.dev/pkg/apis\<close> (\<open>condition_types.go\<close> and
  \<open>condition_set.go\<close>), which the operator's status lifecycle is built on.

  State: the slice of conditions behind \<open>ConditionsAccessor\<close> together with the readings
  \<open>time.Now()\<close> will give, a stream of which every stored update consumes one. Operations:
  \<open>GetCondition\<close>, \<open>SetCondition\<close>, \<open>ClearCondition\<close>, \<open>MarkTrue\<close>, \<open>MarkTrueWithReason\<close>,
  \<open>MarkUnknown\<close>, \<open>MarkFalse\<close>, \<open>InitializeConditions\<close>. Message formats are applied by the caller,
  so a message argument is the formatted text. \<open>sort.Slice\<close> is modelled by a stable sort, as
  Go's insertion sort for short slices is; the keys it sorts by type are distinct, so only the
  sort by time could tell the difference.
\<close>

section \<open>Data\<close>

definition ConditionTrue :: string where "ConditionTrue = ''True''"
definition ConditionFalse :: string where "ConditionFalse = ''False''"
definition ConditionUnknown :: string where "ConditionUnknown = ''Unknown''"

definition ConditionSeverityError :: string where "ConditionSeverityError = ''''"
definition ConditionSeverityInfo :: string where "ConditionSeverityInfo = ''Info''"

definition ConditionReady :: string where "ConditionReady = ''Ready''"
definition ConditionSucceeded :: string where "ConditionSucceeded = ''Succeeded''"

lemma status_distinct [simp]:
  "ConditionTrue \<noteq> ConditionFalse" "ConditionFalse \<noteq> ConditionTrue"
  "ConditionTrue \<noteq> ConditionUnknown" "ConditionUnknown \<noteq> ConditionTrue"
  "ConditionFalse \<noteq> ConditionUnknown" "ConditionUnknown \<noteq> ConditionFalse"
  by (simp_all add: ConditionTrue_def ConditionFalse_def ConditionUnknown_def)

lemma severity_distinct [simp]:
  "ConditionSeverityError \<noteq> ConditionSeverityInfo" "ConditionSeverityInfo \<noteq> ConditionSeverityError"
  by (simp_all add: ConditionSeverityError_def ConditionSeverityInfo_def)

record Condition =
  CType :: string
  CStatus :: string
  CSeverity :: string
  LastTransitionTime :: time
  CReason :: string
  CMessage :: string

text \<open>The zero \<open>time.Time\<close>, and a condition literal which leaves the time out.\<close>

definition zero_time :: time where "zero_time = - 62135596800000000000"

definition condition_of :: "string \<Rightarrow> string \<Rightarrow> string \<Rightarrow> string \<Rightarrow> string \<Rightarrow> Condition" where
  "condition_of t st sev rsn msg =
     \<lparr>CType = t, CStatus = st, CSeverity = sev, LastTransitionTime = zero_time,
      CReason = rsn, CMessage = msg\<rparr>"

lemma condition_of_simps [simp]:
  "CType (condition_of t st sev rsn msg) = t"
  "CStatus (condition_of t st sev rsn msg) = st"
  "CSeverity (condition_of t st sev rsn msg) = sev"
  "CReason (condition_of t st sev rsn msg) = rsn"
  "CMessage (condition_of t st sev rsn msg) = msg"
  by (simp_all add: condition_of_def)

text \<open>The nil-safe tests on a condition pointer.\<close>

fun IsTrue :: "Condition option \<Rightarrow> bool" where
  "IsTrue None = False"
| "IsTrue (Some c) = (CStatus c = ConditionTrue)"

fun IsFalse :: "Condition option \<Rightarrow> bool" where
  "IsFalse None = False"
| "IsFalse (Some c) = (CStatus c = ConditionFalse)"

fun IsUnknown :: "Condition option \<Rightarrow> bool" where
  "IsUnknown None = True"
| "IsUnknown (Some c) = (CStatus c = ConditionUnknown)"

fun GetReason :: "Condition option \<Rightarrow> string" where
  "GetReason None = []"
| "GetReason (Some c) = CReason c"

fun GetMessage :: "Condition option \<Rightarrow> string" where
  "GetMessage None = []"
| "GetMessage (Some c) = CMessage c"

record ConditionSet =
  happy :: string
  dependents :: "string list"

record accessor =
  conds :: "Condition list"
  clock :: "time stream"

section \<open>Constructing a condition set\<close>

fun contains :: "string list \<Rightarrow> string \<Rightarrow> bool" where
  "contains [] t = False"
| "contains (c # ct) t = (if c = t then True else contains ct t)"

fun collect_dependents :: "string \<Rightarrow> string list \<Rightarrow> string list \<Rightarrow> string list" where
  "collect_dependents h [] deps = deps"
| "collect_dependents h (d # ds) deps =
     (if d = h \<or> contains deps d then collect_dependents h ds deps
      else collect_dependents h ds (deps @ [d]))"

definition newConditionSet :: "string \<Rightarrow> string list \<Rightarrow> ConditionSet" where
  "newConditionSet h ds = \<lparr>happy = h, dependents = collect_dependents h ds []\<rparr>"

definition NewLivingConditionSet :: "string list \<Rightarrow> ConditionSet" where
  "NewLivingConditionSet ds = newConditionSet ConditionReady ds"

definition NewBatchConditionSet :: "string list \<Rightarrow> ConditionSet" where
  "NewBatchConditionSet ds = newConditionSet ConditionSucceeded ds"

section \<open>Operations\<close>

definition GetCondition :: "string \<Rightarrow> accessor \<Rightarrow> Condition option" where
  "GetCondition t a = find (\<lambda>c. CType c = t) (conds a)"

definition GetTopLevelCondition :: "ConditionSet \<Rightarrow> accessor \<Rightarrow> Condition option" where
  "GetTopLevelCondition r a = GetCondition (happy r) a"

definition IsHappy :: "ConditionSet \<Rightarrow> accessor \<Rightarrow> bool" where
  "IsHappy r a = IsTrue (GetTopLevelCondition r a)"

text \<open>
  The loop of \<open>SetCondition\<close>: collect the conditions of other types, take over the time of the
  old condition of this type, and stop with \<open>None\<close> (the early \<open>return\<close>) when only the time would
  change.
\<close>

fun set_loop :: "Condition list \<Rightarrow> Condition \<Rightarrow> Condition list \<Rightarrow> (Condition list \<times> Condition) option" where
  "set_loop acc new [] = Some (acc, new)"
| "set_loop acc new (c # cs) =
     (if CType c \<noteq> CType new then set_loop (acc @ [c]) new cs
      else let new' = new\<lparr>LastTransitionTime := LastTransitionTime c\<rparr>
           in if new' = c then None else set_loop acc new' cs)"

definition sort_by_type :: "Condition list \<Rightarrow> Condition list" where
  "sort_by_type cs = sort_key CType cs"

definition SetCondition :: "Condition \<Rightarrow> accessor \<Rightarrow> accessor" where
  "SetCondition new a =
     (case set_loop [] new (conds a) of
        None \<Rightarrow> a
      | Some (conditions, new') \<Rightarrow>
          a\<lparr>conds := sort_by_type (conditions @ [new'\<lparr>LastTransitionTime := shd (clock a)\<rparr>]),
            clock := stl (clock a)\<rparr>)"

definition isTerminal :: "ConditionSet \<Rightarrow> string \<Rightarrow> bool" where
  "isTerminal r t = (if t \<in> set (dependents r) then True else t = happy r)"

definition severity :: "ConditionSet \<Rightarrow> string \<Rightarrow> string" where
  "severity r t = (if isTerminal r t then ConditionSeverityError else ConditionSeverityInfo)"

definition ClearCondition :: "ConditionSet \<Rightarrow> string \<Rightarrow> accessor \<Rightarrow> accessor result" where
  "ClearCondition r t a =
     (if isTerminal r t then Err (Errorf ''Clearing terminal conditions not implemented'')
      else case GetCondition t a of
             None \<Rightarrow> Ok a
           | Some _ \<Rightarrow> Ok (a\<lparr>conds := sort_by_type (filter (\<lambda>c. CType c \<noteq> t) (conds a))\<rparr>))"

definition sort_latest_first :: "Condition list \<Rightarrow> Condition list" where
  "sort_latest_first cs = sort_key (\<lambda>c. - LastTransitionTime c) cs"

definition findUnhappyDependent :: "ConditionSet \<Rightarrow> accessor \<Rightarrow> Condition option" where
  "findUnhappyDependent r a =
     (if dependents r = [] then None
      else let cs = sort_latest_first
                      (filter (\<lambda>c. CSeverity c = ConditionSeverityError \<and> CType c \<noteq> happy r) (conds a))
           in case find (\<lambda>c. IsFalse (Some c)) cs of
                Some c \<Rightarrow> Some c
              | None \<Rightarrow>
                  (case find (\<lambda>c. IsUnknown (Some c)) cs of
                     Some c \<Rightarrow> Some c
                   | None \<Rightarrow> if length (dependents r) > length cs
                             then Some (condition_of [] ConditionUnknown [] [] []) else None))"

definition recomputeHappiness :: "ConditionSet \<Rightarrow> string \<Rightarrow> accessor \<Rightarrow> accessor" where
  "recomputeHappiness r t a =
     (case findUnhappyDependent r a of
        Some c \<Rightarrow> SetCondition
                    (condition_of (happy r) (CStatus c) (severity r (happy r)) (CReason c) (CMessage c)) a
      | None \<Rightarrow> if t \<noteq> happy r
                then SetCondition (condition_of (happy r) ConditionTrue (severity r (happy r)) [] []) a
                else a)"

definition MarkTrue :: "ConditionSet \<Rightarrow> string \<Rightarrow> accessor \<Rightarrow> accessor" where
  "MarkTrue r t a =
     recomputeHappiness r t (SetCondition (condition_of t ConditionTrue (severity r t) [] []) a)"

definition MarkTrueWithReason :: "ConditionSet \<Rightarrow> string \<Rightarrow> string \<Rightarrow> string \<Rightarrow> accessor \<Rightarrow> accessor" where
  "MarkTrueWithReason r t reason msg a =
     recomputeHappiness r t (SetCondition (condition_of t ConditionTrue (severity r t) reason msg) a)"

definition MarkFalse :: "ConditionSet \<Rightarrow> string \<Rightarrow> string \<Rightarrow> string \<Rightarrow> accessor \<Rightarrow> accessor" where
  "MarkFalse r t reason msg a =
     fold (\<lambda>t'. SetCondition (condition_of t' ConditionFalse (severity r t') reason msg))
       (t # map (\<lambda>_. happy r) (filter (\<lambda>cond. cond = t) (dependents r))) a"

text \<open>
  The scan of \<open>MarkUnknown\<close> over the dependents: it returns from the whole operation at the first
  false one, and otherwise remembers whether \<open>t\<close> is a dependent.
\<close>

fun unknown_scan :: "ConditionSet \<Rightarrow> string \<Rightarrow> string \<Rightarrow> string \<Rightarrow> string list \<Rightarrow> bool \<Rightarrow> accessor \<Rightarrow> accessor" where
  "unknown_scan r t reason msg [] isDependent a =
     (if isDependent
      then SetCondition (condition_of (happy r) ConditionUnknown (severity r (happy r)) reason msg) a
      else a)"
| "unknown_scan r t reason msg (cond # ds) isDependent a =
     (if IsFalse (GetCondition cond a)
      then (if \<not> IsFalse (GetCondition (happy r) a) then MarkFalse r (happy r) reason msg a else a)
      else unknown_scan r t reason msg ds (if cond = t then True else isDependent) a)"

definition MarkUnknown :: "ConditionSet \<Rightarrow> string \<Rightarrow> string \<Rightarrow> string \<Rightarrow> accessor \<Rightarrow> accessor" where
  "MarkUnknown r t reason msg a =
     unknown_scan r t reason msg (dependents r) False
       (SetCondition (condition_of t ConditionUnknown (severity r t) reason msg) a)"

definition initializeTerminalCondition :: "string \<Rightarrow> string \<Rightarrow> accessor \<Rightarrow> accessor" where
  "initializeTerminalCondition status t a =
     (case GetCondition t a of
        Some c \<Rightarrow> a
      | None \<Rightarrow> SetCondition (condition_of t status ConditionSeverityError [] []) a)"

definition InitializeConditions :: "ConditionSet \<Rightarrow> accessor \<Rightarrow> accessor" where
  "InitializeConditions r a =
     (let fresh = condition_of (happy r) ConditionUnknown ConditionSeverityError [] [];
          (h, a1) = (case GetCondition (happy r) a of
                       None \<Rightarrow> (fresh, SetCondition fresh a)
                     | Some h \<Rightarrow> (h, a));
          status = (if CStatus h = ConditionTrue then ConditionTrue else ConditionUnknown)
      in fold (initializeTerminalCondition status) (dependents r) a1)"

section \<open>Well-formed conditions and their abstraction\<close>

text \<open>
  What the operations maintain: one condition per type, sorted by type. \<open>view a\<close> is the
  abstraction: what is recorded for each type, without the time of the last transition, and
  \<open>status_of\<close> the status alone.
\<close>

definition wf_conds :: "Condition list \<Rightarrow> bool" where
  "wf_conds cs \<longleftrightarrow> distinct (map CType cs) \<and> sorted (map CType cs)"

definition strip :: "Condition \<Rightarrow> Condition" where
  "strip c = c\<lparr>LastTransitionTime := zero_time\<rparr>"

definition view :: "accessor \<Rightarrow> string \<Rightarrow> Condition option" where
  "view a t = map_option strip (GetCondition t a)"

definition status_of :: "accessor \<Rightarrow> string \<Rightarrow> string option" where
  "status_of a t = map_option CStatus (GetCondition t a)"

lemma strip_simps [simp]:
  "CType (strip c) = CType c" "CStatus (strip c) = CStatus c" "CSeverity (strip c) = CSeverity c"
  "CReason (strip c) = CReason c" "CMessage (strip c) = CMessage c"
  "strip (c\<lparr>LastTransitionTime := x\<rparr>) = strip c"
  by (simp_all add: strip_def)

lemma strip_condition_of [simp]: "strip (condition_of t st sev rsn msg) = condition_of t st sev rsn msg"
  by (simp add: strip_def condition_of_def)

lemma option_ext: "(\<And>c. x = Some c \<longleftrightarrow> y = Some c) \<Longrightarrow> x = y"
  by (cases x; cases y) auto

lemma status_of_view: "status_of a t = map_option CStatus (view a t)"
  by (cases "GetCondition t a") (auto simp: status_of_def view_def)

lemma status_of_nil [simp]: "conds a = [] \<Longrightarrow> status_of a t = None"
  by (simp add: status_of_def GetCondition_def)

lemma find_type_eq_Some:
  "distinct (map CType cs) \<Longrightarrow>
   find (\<lambda>c. CType c = t) cs = Some c \<longleftrightarrow> c \<in> set cs \<and> CType c = t"
proof (induction cs)
  case (Cons d cs)
  then show ?case by (auto simp: image_iff)
qed simp

lemma find_type_eq_None:
  "find (\<lambda>c. CType c = t) cs = None \<longleftrightarrow> t \<notin> CType ` set cs"
  by (auto simp: find_None_iff)

lemma filter_type_absent: "t \<notin> CType ` set cs \<Longrightarrow> filter (\<lambda>c. CType c \<noteq> t) cs = cs"
  by (induction cs) auto

lemma GetCondition_Some_iff:
  "wf_conds (conds a) \<Longrightarrow> GetCondition t a = Some c \<longleftrightarrow> c \<in> set (conds a) \<and> CType c = t"
  by (simp add: GetCondition_def wf_conds_def find_type_eq_Some)

lemma GetCondition_None_iff:
  "GetCondition t a = None \<longleftrightarrow> t \<notin> CType ` set (conds a)"
  by (simp add: GetCondition_def find_type_eq_None)

lemma status_of_Some_iff:
  "wf_conds (conds a) \<Longrightarrow>
   status_of a t = Some s \<longleftrightarrow> (\<exists>c \<in> set (conds a). CType c = t \<and> CStatus c = s)"
  by (auto simp: status_of_def GetCondition_Some_iff)

lemma status_of_None_iff: "status_of a t = None \<longleftrightarrow> t \<notin> CType ` set (conds a)"
  by (simp add: status_of_def GetCondition_None_iff)

lemma IsTrue_iff: "IsTrue (GetCondition t a) \<longleftrightarrow> status_of a t = Some ConditionTrue"
  by (cases "GetCondition t a") (auto simp: status_of_def)

lemma IsFalse_iff: "IsFalse (GetCondition t a) \<longleftrightarrow> status_of a t = Some ConditionFalse"
  by (cases "GetCondition t a") (auto simp: status_of_def)

lemma IsUnknown_iff:
  "IsUnknown (GetCondition t a) \<longleftrightarrow> status_of a t = None \<or> status_of a t = Some ConditionUnknown"
  by (cases "GetCondition t a") (auto simp: status_of_def)

section \<open>SetCondition\<close>

lemma sort_by_type_simps [simp]:
  "set (sort_by_type cs) = set cs" "sorted (map CType (sort_by_type cs))"
  "distinct (map CType (sort_by_type cs)) = distinct (map CType cs)"
proof -
  show "set (sort_by_type cs) = set cs" and "sorted (map CType (sort_by_type cs))"
    by (simp_all add: sort_by_type_def)
  have "mset (map CType (sort_by_type cs)) = mset (map CType cs)"
    by (simp add: sort_by_type_def del: sort_key_simps)
  then show "distinct (map CType (sort_by_type cs)) = distinct (map CType cs)"
    by (rule mset_eq_imp_distinct_iff)
qed

lemma wf_conds_sort_by_type [simp]: "wf_conds (sort_by_type cs) = distinct (map CType cs)"
  by (simp add: wf_conds_def)

text \<open>The loop in closed form, when the types are distinct.\<close>

lemma set_loop_absent:
  "CType new \<notin> CType ` set cs \<Longrightarrow> set_loop acc new cs = Some (acc @ cs, new)"
  by (induction cs arbitrary: acc) auto

lemma set_loop_eq:
  assumes "distinct (map CType cs)"
  shows "set_loop acc new cs =
    (case find (\<lambda>c. CType c = CType new) cs of
       None \<Rightarrow> Some (acc @ cs, new)
     | Some c \<Rightarrow> (if new\<lparr>LastTransitionTime := LastTransitionTime c\<rparr> = c then None
                 else Some (acc @ filter (\<lambda>c. CType c \<noteq> CType new) cs,
                            new\<lparr>LastTransitionTime := LastTransitionTime c\<rparr>)))"
  using assms
proof (induction cs arbitrary: acc)
  case Nil
  then show ?case by simp
next
  case (Cons c cs)
  show ?case
  proof (cases "CType c = CType new")
    case True
    with Cons.prems have "CType new \<notin> CType ` set cs" by auto
    then have "filter (\<lambda>c. CType c \<noteq> CType new) cs = cs"
      and "set_loop acc (new\<lparr>LastTransitionTime := LastTransitionTime c\<rparr>) cs =
           Some (acc @ cs, new\<lparr>LastTransitionTime := LastTransitionTime c\<rparr>)"
      by (simp_all add: filter_type_absent set_loop_absent)
    with True show ?thesis by (simp add: Let_def)
  next
    case False
    with Cons show ?thesis by (simp split: option.splits)
  qed
qed

definition settled :: "Condition \<Rightarrow> accessor \<Rightarrow> bool" where
  "settled new a \<longleftrightarrow> view a (CType new) = Some (strip new)"

lemma strip_eq_iff:
  "strip c = strip d \<longleftrightarrow> d\<lparr>LastTransitionTime := LastTransitionTime c\<rparr> = c"
  by (cases c; cases d) (auto simp: strip_def)

lemma settled_iff:
  "settled new a \<longleftrightarrow>
     (\<exists>c. GetCondition (CType new) a = Some c \<and> new\<lparr>LastTransitionTime := LastTransitionTime c\<rparr> = c)"
  by (cases "GetCondition (CType new) a") (auto simp: settled_def view_def strip_eq_iff)

lemma SetCondition_settled:
  "wf_conds (conds a) \<Longrightarrow> settled new a \<Longrightarrow> SetCondition new a = a"
  by (auto simp: SetCondition_def settled_iff set_loop_eq wf_conds_def GetCondition_def)

lemma SetCondition_unsettled:
  assumes "wf_conds (conds a)" "\<not> settled new a"
  shows "SetCondition new a =
    a\<lparr>conds := sort_by_type (filter (\<lambda>c. CType c \<noteq> CType new) (conds a)
                              @ [new\<lparr>LastTransitionTime := shd (clock a)\<rparr>]),
      clock := stl (clock a)\<rparr>"
proof (cases "GetCondition (CType new) a")
  case None
  then have "filter (\<lambda>c. CType c \<noteq> CType new) (conds a) = conds a"
    by (simp add: GetCondition_None_iff filter_type_absent)
  with None assms show ?thesis
    by (simp add: SetCondition_def set_loop_eq wf_conds_def GetCondition_def)
next
  case (Some c)
  with assms show ?thesis
    by (auto simp: SetCondition_def settled_iff set_loop_eq wf_conds_def GetCondition_def)
qed

lemma distinct_filter_append:
  "distinct (map CType cs) \<Longrightarrow> distinct (map CType (filter (\<lambda>c. CType c \<noteq> t) cs @ [c])) \<longleftrightarrow> t = CType c
     \<or> CType c \<notin> CType ` (set cs \<inter> {c. CType c \<noteq> t})"
  by (auto simp: distinct_map_filter)

lemma wf_SetCondition [simp, intro]:
  assumes "wf_conds (conds a)"
  shows "wf_conds (conds (SetCondition new a))"
proof (cases "settled new a")
  case False
  then show ?thesis
    using assms by (auto simp: SetCondition_unsettled wf_conds_def distinct_map_filter)
qed (use assms in \<open>simp add: SetCondition_settled\<close>)

lemma GetCondition_SetCondition:
  assumes "wf_conds (conds a)"
  shows "GetCondition t (SetCondition new a) =
    (if t = CType new \<and> \<not> settled new a then Some (new\<lparr>LastTransitionTime := shd (clock a)\<rparr>)
     else GetCondition t a)"
proof (cases "settled new a")
  case True
  with assms show ?thesis by (simp add: SetCondition_settled)
next
  case False
  let ?new = "new\<lparr>LastTransitionTime := shd (clock a)\<rparr>"
  have type_new: "CType ?new = CType new" by simp
  have set_eq: "set (conds (SetCondition new a)) = insert ?new {c \<in> set (conds a). CType c \<noteq> CType new}"
    using False by (simp add: SetCondition_unsettled [OF assms] insert_commute)
  have iff: "GetCondition t (SetCondition new a) = Some c \<longleftrightarrow>
      (if t = CType new then c = ?new else GetCondition t a = Some c)" for c
  proof -
    have "GetCondition t (SetCondition new a) = Some c \<longleftrightarrow>
        c \<in> set (conds (SetCondition new a)) \<and> CType c = t"
      by (rule GetCondition_Some_iff) (use assms in simp)
    also have "\<dots> \<longleftrightarrow> (c = ?new \<or> c \<in> set (conds a) \<and> CType c \<noteq> CType new) \<and> CType c = t"
      by (simp add: set_eq)
    also have "\<dots> \<longleftrightarrow> (if t = CType new then c = ?new else c \<in> set (conds a) \<and> CType c = t)"
      unfolding if_bool_eq_conj using type_new by metis
    finally show ?thesis by (simp only: GetCondition_Some_iff [OF assms])
  qed
  show ?thesis
  proof (cases "t = CType new")
    case True
    with iff False show ?thesis by simp
  next
    case False
    then have "\<And>c. GetCondition t (SetCondition new a) = Some c \<longleftrightarrow> GetCondition t a = Some c"
      using iff by (simp only: if_False)
    then have "GetCondition t (SetCondition new a) = GetCondition t a" by (rule option_ext)
    with False show ?thesis by simp
  qed
qed

text \<open>\<open>SetCondition\<close> is a map update on the abstraction, whether or not it stores anything.\<close>

lemma view_SetCondition [status_simps]:
  "wf_conds (conds a) \<Longrightarrow> view (SetCondition new a) = (view a)(CType new \<mapsto> strip new)"
  by (rule ext) (auto simp: view_def GetCondition_SetCondition settled_def [unfolded view_def])

lemma status_of_SetCondition [status_simps]:
  "wf_conds (conds a) \<Longrightarrow> status_of (SetCondition new a) = (status_of a)(CType new \<mapsto> CStatus new)"
  by (rule ext) (simp add: status_of_view view_SetCondition)

end
