(* ===== verification/Group_Version.thy ===== *)
theory Group_Version
  imports Prelude
begin

text \<open>
  API groups, versions and kinds: \<open>vendor/k8s.io/apimachinery/pkg/runtime/schema/group_version.go\<close>,
  as far as the operator and its libraries use it.
\<close>

record GroupVersion =
  gvGroup :: string
  gvVersion :: string

record GroupVersionKind =
  gvkGroup :: string
  gvkVersion :: string
  gvkKind :: string

definition WithKind :: "GroupVersion \<Rightarrow> string \<Rightarrow> GroupVersionKind" where
  "WithKind gv k = \<lparr>gvkGroup = gvGroup gv, gvkVersion = gvVersion gv, gvkKind = k\<rparr>"

text \<open>\<open>GroupVersion.String()\<close> and \<open>schema.ParseGroupVersion\<close>.\<close>

definition gv_String :: "GroupVersion \<Rightarrow> string" where
  "gv_String gv =
     (if gvGroup gv = [] \<and> gvVersion gv = [] then []
      else if gvGroup gv = [] \<and> gvVersion gv = ''v1'' then gvVersion gv
      else if gvGroup gv \<noteq> [] then gvGroup gv @ ''/'' @ gvVersion gv else gvVersion gv)"

definition ParseGroupVersion :: "string \<Rightarrow> GroupVersion result" where
  "ParseGroupVersion gv =
     (if gv = [] \<or> gv = ''/'' then Ok \<lparr>gvGroup = [], gvVersion = []\<rparr>
      else if count_list gv (CHR ''/'') = 0 then Ok \<lparr>gvGroup = [], gvVersion = gv\<rparr>
      else if count_list gv (CHR ''/'') = 1
           then Ok \<lparr>gvGroup = takeWhile (\<lambda>c. c \<noteq> CHR ''/'') gv,
                    gvVersion = tl (dropWhile (\<lambda>c. c \<noteq> CHR ''/'') gv)\<rparr>
      else Err (Errorf (''unexpected GroupVersion string: '' @ gv)))"

lemma takeWhile_slash:
  "CHR ''/'' \<notin> set g \<Longrightarrow> takeWhile (\<lambda>c. c \<noteq> CHR ''/'') (g @ CHR ''/'' # v) = g"
  "CHR ''/'' \<notin> set g \<Longrightarrow> dropWhile (\<lambda>c. c \<noteq> CHR ''/'') (g @ CHR ''/'' # v) = CHR ''/'' # v"
  by (induction g) auto

text \<open>Parsing the text of a group and version without slashes gives them back.\<close>

lemma ParseGroupVersion_gv_String:
  assumes "CHR ''/'' \<notin> set (gvGroup gv)" "CHR ''/'' \<notin> set (gvVersion gv)" "gvVersion gv \<noteq> []"
  shows "ParseGroupVersion (gv_String gv) = Ok gv"
proof (cases "gvGroup gv = []")
  case True
  then show ?thesis using assms by (auto simp: ParseGroupVersion_def gv_String_def count_list_0_iff)
next
  case False
  have "count_list (gvGroup gv) (CHR ''/'') = 0" "count_list (gvVersion gv) (CHR ''/'') = 0"
    using assms by (simp_all add: count_list_0_iff)
  then show ?thesis using assms False
    by (cases "gvGroup gv") (auto simp: ParseGroupVersion_def gv_String_def takeWhile_slash)
qed

end
