(* ===== verification/Serving_Types.thy ===== *)
theory Serving_Types
  imports Conditions Group_Version
begin

text \<open>
  The API types of \<open>pkg/apis/serving/v1alpha1\<close> (\<open>knativeserving_types.go\<close>, \<open>register.go\<close>) as
  records. Of the embedded \<open>metav1.ObjectMeta\<close> the fields the operator reads or writes are
  kept. A \<open>corev1.LocalObjectReference\<close> is its only field, the name; a \<open>resource.Quantity\<close> is
  its text; machine integers keep their width.
\<close>

definition DependenciesInstalled :: string where "DependenciesInstalled = ''DependenciesInstalled''"
definition InstallSucceeded :: string where "InstallSucceeded = ''InstallSucceeded''"
definition DeploymentsAvailable :: string where "DeploymentsAvailable = ''DeploymentsAvailable''"

lemma condition_types_distinct [simp]:
  "DependenciesInstalled \<noteq> InstallSucceeded" "InstallSucceeded \<noteq> DependenciesInstalled"
  "DependenciesInstalled \<noteq> DeploymentsAvailable" "DeploymentsAvailable \<noteq> DependenciesInstalled"
  "InstallSucceeded \<noteq> DeploymentsAvailable" "DeploymentsAvailable \<noteq> InstallSucceeded"
  "DependenciesInstalled \<noteq> ConditionReady" "InstallSucceeded \<noteq> ConditionReady"
  "DeploymentsAvailable \<noteq> ConditionReady" "ConditionReady \<noteq> DependenciesInstalled"
  "ConditionReady \<noteq> InstallSucceeded" "ConditionReady \<noteq> DeploymentsAvailable"
  by (simp_all add: DependenciesInstalled_def InstallSucceeded_def DeploymentsAvailable_def
      ConditionReady_def)

type_synonym ResourceList = "string gomap"

record RegistryT =
  Default :: string
  Override :: "string gomap"
  ImagePullSecrets :: "string list"

record IstioGatewayOverride =
  Selector :: "string gomap"

record CustomCertsT =
  certs_Type :: string
  certs_Name :: string

record HighAvailabilityT =
  Replicas :: "32 word"

record ResourceRequirementsOverride =
  Container :: string
  Limits :: ResourceList
  Requests :: ResourceList

record KnativeServingSpec =
  Config :: "string gomap gomap"
  Registry :: RegistryT
  KnativeIngressGateway :: IstioGatewayOverride
  ClusterLocalGateway :: IstioGatewayOverride
  ControllerCustomCerts :: CustomCertsT
  HighAvailability :: "HighAvailabilityT option"
  Resources :: "ResourceRequirementsOverride list"

record KnativeServingStatus =
  ObservedGeneration :: "64 word"
  Conditions :: "Condition list"
  Version :: string

record KnativeServing =
  ksName :: string
  ksNamespace :: string
  ksUID :: string
  ResourceVersion :: string
  Generation :: "64 word"
  DeletionTimestamp :: "time option"
  Finalizers :: "string list"
  Spec :: KnativeServingSpec
  Status :: KnativeServingStatus

text \<open>The zero values of the types, as Go's composite literals give them.\<close>

definition empty_spec :: KnativeServingSpec where
  "empty_spec =
     \<lparr>Config = [], Registry = \<lparr>Default = [], Override = [], ImagePullSecrets = []\<rparr>,
      KnativeIngressGateway = \<lparr>Selector = []\<rparr>, ClusterLocalGateway = \<lparr>Selector = []\<rparr>,
      ControllerCustomCerts = \<lparr>certs_Type = [], certs_Name = []\<rparr>,
      HighAvailability = None, Resources = []\<rparr>"

definition empty_status :: KnativeServingStatus where
  "empty_status = \<lparr>ObservedGeneration = 0, Conditions = [], Version = []\<rparr>"

text \<open>Group, version and kind under which the type is registered.\<close>

definition GroupName :: string where "GroupName = ''operator.knative.dev''"
definition SchemaVersion :: string where "SchemaVersion = ''v1alpha1''"
definition Kind :: string where "Kind = ''KnativeServing''"

definition SchemeGroupVersion :: GroupVersion where
  "SchemeGroupVersion = \<lparr>gvGroup = GroupName, gvVersion = SchemaVersion\<rparr>"

definition ks_GroupVersionKind :: GroupVersionKind where
  "ks_GroupVersionKind = WithKind SchemeGroupVersion Kind"

end
