(* ===== verification/Condition_Refinement.thy ===== *)
theory Condition_Refinement
  imports Conditions
begin

text \<open>
  What the condition manager promises, and the proof that the operations of \<open>Conditions\<close>
  implement it. The abstract state is the status recorded for each condition type; an abstract
  operation sets the status of one dependent and recomputes the status of the happy condition as
  the aggregate of the dependents: false if one is false, else unknown if one is unknown or
  missing, else true.
\<close>

section \<open>The abstract specification\<close>

definition aggregate :: "ConditionSet \<Rightarrow> (string \<Rightarrow> string option) \<Rightarrow> string" where
  "aggregate r m =
     (if \<exists>d \<in> set (dependents r). m d = Some ConditionFalse then ConditionFalse
      else if \<exists>d \<in> set (dependents r). m d = Some ConditionUnknown \<or> m d = None then ConditionUnknown
      else ConditionTrue)"

definition spec_mark :: "ConditionSet \<Rightarrow> string \<Rightarrow> string \<Rightarrow> (string \<Rightarrow> string option) \<Rightarrow> string \<Rightarrow> string option" where
  "spec_mark r t s m = (let m' = m(t \<mapsto> s) in m'(happy r \<mapsto> aggregate r m'))"

section \<open>Well-formed managers\<close>

definition wf_set :: "ConditionSet \<Rightarrow> bool" where
  "wf_set r \<longleftrightarrow> distinct (dependents r) \<and> happy r \<notin> set (dependents r)"

definition valid_status :: "string \<Rightarrow> bool" where
  "valid_status s \<longleftrightarrow> s \<in> {ConditionTrue, ConditionFalse, ConditionUnknown}"

definition wf_accessor :: "ConditionSet \<Rightarrow> accessor \<Rightarrow> bool" where
  "wf_accessor r a \<longleftrightarrow>
     wf_conds (conds a) \<and>
     (\<forall>c \<in> set (conds a). isTerminal r (CType c) \<and> CSeverity c = ConditionSeverityError
                        \<and> valid_status (CStatus c))"

text \<open>The happy condition agrees with the dependents, once there is any condition at all.\<close>

definition happy_agrees :: "ConditionSet \<Rightarrow> accessor \<Rightarrow> bool" where
  "happy_agrees r a \<longleftrightarrow>
     (conds a = [] \<or> status_of a (happy r) = Some (aggregate r (status_of a)))"

lemma valid_status_simps [simp]:
  "valid_status ConditionTrue" "valid_status ConditionFalse" "valid_status ConditionUnknown"
  by (simp_all add: valid_status_def)

lemma isTerminal_iff: "isTerminal r t \<longleftrightarrow> t \<in> set (dependents r) \<or> t = happy r"
  by (simp add: isTerminal_def)

lemma isTerminal_happy [simp]: "isTerminal r (happy r)"
  by (simp add: isTerminal_def)

lemma isTerminal_dependent [simp]: "t \<in> set (dependents r) \<Longrightarrow> isTerminal r t"
  by (simp add: isTerminal_def)

lemma severity_terminal [simp]: "isTerminal r t \<Longrightarrow> severity r t = ConditionSeverityError"
  by (simp add: severity_def)

lemma wf_accessor_conds [simp]: "wf_accessor r a \<Longrightarrow> wf_conds (conds a)"
  by (simp add: wf_accessor_def)

lemma contains_iff [simp]: "contains ct t \<longleftrightarrow> t \<in> set ct"
  by (induction ct) auto

lemma collect_dependents_spec:
  "distinct deps \<Longrightarrow> h \<notin> set deps \<Longrightarrow>
   distinct (collect_dependents h ds deps) \<and> h \<notin> set (collect_dependents h ds deps) \<and>
   set (collect_dependents h ds deps) = set deps \<union> (set ds - {h})"
  by (induction h ds deps rule: collect_dependents.induct) auto

text \<open>Every set the constructors build is well formed, whatever duplicates the caller passed.\<close>

lemma wf_newConditionSet: "wf_set (newConditionSet h ds)"
  using collect_dependents_spec [of "[]" h ds] by (simp add: wf_set_def newConditionSet_def)

lemma set_newConditionSet: "set (dependents (newConditionSet h ds)) = set ds - {h}"
  using collect_dependents_spec [of "[]" h ds] by (simp add: newConditionSet_def)

lemma wf_accessor_SetCondition:
  assumes "wf_accessor r a" "isTerminal r (CType new)" "CSeverity new = ConditionSeverityError"
    "valid_status (CStatus new)"
  shows "wf_accessor r (SetCondition new a)"
proof -
  have wf: "wf_conds (conds a)" using assms(1) by simp
  have "set (conds (SetCondition new a)) \<subseteq> set (conds a) \<union> {new\<lparr>LastTransitionTime := shd (clock a)\<rparr>}"
    by (cases "settled new a") (auto simp: SetCondition_settled [OF wf] SetCondition_unsettled [OF wf])
  with assms wf show ?thesis by (fastforce simp: wf_accessor_def)
qed

lemma status_of_valid: "wf_accessor r a \<Longrightarrow> status_of a t = Some s \<Longrightarrow> valid_status s"
  by (auto simp: status_of_Some_iff wf_accessor_def)

lemma SetCondition_nonempty: "wf_conds (conds a) \<Longrightarrow> conds (SetCondition new a) \<noteq> []"
  by (metis status_of_SetCondition status_of_nil fun_upd_same option.distinct(1))

lemma aggregate_fun_upd_happy [simp]:
  "wf_set r \<Longrightarrow> aggregate r (m(happy r := x)) = aggregate r m"
  by (auto simp: aggregate_def wf_set_def)

lemma aggregate_valid [simp]: "valid_status (aggregate r m)"
  by (simp add: aggregate_def)

section \<open>The search for an unhappy dependent\<close>

lemma set_sort_latest_first [simp]: "set (sort_latest_first cs) = set cs"
  by (simp add: sort_latest_first_def)

lemma length_sort_latest_first [simp]: "length (sort_latest_first cs) = length cs"
  by (simp add: sort_latest_first_def)

definition dependent_conds :: "ConditionSet \<Rightarrow> accessor \<Rightarrow> Condition list" where
  "dependent_conds r a =
     filter (\<lambda>c. CSeverity c = ConditionSeverityError \<and> CType c \<noteq> happy r) (conds a)"

lemma dependent_conds_types:
  assumes "wf_accessor r a" "wf_set r"
  shows "CType ` set (dependent_conds r a) = {d \<in> set (dependents r). status_of a d \<noteq> None}"
    and "distinct (map CType (dependent_conds r a))"
proof -
  show "CType ` set (dependent_conds r a) = {d \<in> set (dependents r). status_of a d \<noteq> None}"
  proof (intro equalityI subsetI)
    fix t assume "t \<in> CType ` set (dependent_conds r a)"
    then obtain c where c: "c \<in> set (conds a)" "CType c = t" "t \<noteq> happy r"
      by (auto simp: dependent_conds_def)
    then have "isTerminal r t" using assms(1) by (auto simp: wf_accessor_def)
    with c show "t \<in> {d \<in> set (dependents r). status_of a d \<noteq> None}"
      by (auto simp: isTerminal_iff status_of_None_iff)
  next
    fix t assume t: "t \<in> {d \<in> set (dependents r). status_of a d \<noteq> None}"
    then obtain c where "c \<in> set (conds a)" "CType c = t"
      by (auto simp: status_of_None_iff)
    moreover have "t \<noteq> happy r" using t assms(2) by (auto simp: wf_set_def)
    ultimately show "t \<in> CType ` set (dependent_conds r a)"
      using assms(1) by (auto simp: dependent_conds_def wf_accessor_def)
  qed
  show "distinct (map CType (dependent_conds r a))"
    using assms(1) by (simp add: dependent_conds_def wf_accessor_def wf_conds_def distinct_map_filter)
qed

lemma dependent_conds_status:
  assumes "wf_accessor r a" "wf_set r"
  shows "(\<exists>c \<in> set (dependent_conds r a). CStatus c = s) \<longleftrightarrow>
    (\<exists>d \<in> set (dependents r). status_of a d = Some s)"
proof
  assume "\<exists>c \<in> set (dependent_conds r a). CStatus c = s"
  then obtain c where c: "c \<in> set (dependent_conds r a)" "CStatus c = s" by blast
  then have "CType c \<in> set (dependents r)" using dependent_conds_types(1) [OF assms] by blast
  moreover have "status_of a (CType c) = Some s"
    using c assms(1) by (auto simp: status_of_Some_iff dependent_conds_def)
  ultimately show "\<exists>d \<in> set (dependents r). status_of a d = Some s" by blast
next
  assume "\<exists>d \<in> set (dependents r). status_of a d = Some s"
  then obtain d where d: "d \<in> set (dependents r)" "status_of a d = Some s" by blast
  then obtain c where "c \<in> set (conds a)" "CType c = d" "CStatus c = s"
    using assms(1) by (auto simp: status_of_Some_iff)
  moreover have "CSeverity c = ConditionSeverityError" if "c \<in> set (conds a)" for c
    using that assms(1) by (simp add: wf_accessor_def)
  ultimately show "\<exists>c \<in> set (dependent_conds r a). CStatus c = s"
    using d(1) assms(2) by (auto simp: dependent_conds_def wf_set_def)
qed

lemma dependent_conds_missing:
  assumes "wf_accessor r a" "wf_set r"
  shows "length (dependents r) > length (dependent_conds r a) \<longleftrightarrow>
    (\<exists>d \<in> set (dependents r). status_of a d = None)"
proof -
  let ?D = "set (dependents r)" and ?T = "CType ` set (dependent_conds r a)"
  have "length (dependents r) = card ?D"
    using assms(2) by (simp add: wf_set_def distinct_card)
  moreover have "length (dependent_conds r a) = card ?T"
    using dependent_conds_types(2) [OF assms] by (metis distinct_card length_map set_map)
  moreover have "?T = {d \<in> ?D. status_of a d \<noteq> None}"
    by (rule dependent_conds_types(1) [OF assms])
  moreover have "card {d \<in> ?D. status_of a d \<noteq> None} < card ?D \<longleftrightarrow> (\<exists>d \<in> ?D. status_of a d = None)"
    (is "card ?S < card ?D \<longleftrightarrow> ?rhs")
  proof
    assume "card ?S < card ?D"
    then have "?S \<noteq> ?D" by (metis less_irrefl)
    then show ?rhs by auto
  next
    assume ?rhs
    then have "?S \<subset> ?D" by blast
    then show "card ?S < card ?D" by (rule psubset_card_mono [OF finite_set])
  qed
  ultimately show ?thesis by simp
qed

lemma findUnhappyDependent_unfold:
  "dependents r \<noteq> [] \<Longrightarrow> findUnhappyDependent r a =
    (let cs = sort_latest_first (dependent_conds r a) in
     case find (\<lambda>c. CStatus c = ConditionFalse) cs of
       Some c \<Rightarrow> Some c
     | None \<Rightarrow> (case find (\<lambda>c. CStatus c = ConditionUnknown) cs of
                 Some c \<Rightarrow> Some c
               | None \<Rightarrow> if length (dependents r) > length cs
                         then Some (condition_of [] ConditionUnknown [] [] []) else None))"
  unfolding findUnhappyDependent_def dependent_conds_def IsFalse.simps IsUnknown.simps by simp

text \<open>
  The condition found has the aggregate as its status, and none is found exactly when the
  aggregate is true.
\<close>

lemma findUnhappyDependent_aggregate:
  assumes wf: "wf_accessor r a" "wf_set r" and ne: "dependents r \<noteq> []"
  shows "map_option CStatus (findUnhappyDependent r a) =
    (let s = aggregate r (status_of a) in if s = ConditionTrue then None else Some s)"
proof -
  let ?cs = "sort_latest_first (dependent_conds r a)"
  note status = dependent_conds_status [OF wf] and missing = dependent_conds_missing [OF wf]
  show ?thesis
  proof (cases "\<exists>d \<in> set (dependents r). status_of a d = Some ConditionFalse")
    case True
    with status obtain c where "find (\<lambda>c. CStatus c = ConditionFalse) ?cs = Some c" "CStatus c = ConditionFalse"
      by (cases "find (\<lambda>c. CStatus c = ConditionFalse) ?cs") (auto simp: find_None_iff find_Some_iff)
    with True show ?thesis by (simp add: findUnhappyDependent_unfold [OF ne] aggregate_def)
  next
    case False
    with status have no_false: "find (\<lambda>c. CStatus c = ConditionFalse) ?cs = None"
      by (auto simp: find_None_iff)
    show ?thesis
    proof (cases "find (\<lambda>c. CStatus c = ConditionUnknown) ?cs")
      case None
      with status have "\<not> (\<exists>d \<in> set (dependents r). status_of a d = Some ConditionUnknown)"
        by (auto simp: find_None_iff)
      with None no_false False missing show ?thesis
        by (auto simp: findUnhappyDependent_unfold [OF ne] aggregate_def)
    next
      case (Some c)
      then have "c \<in> set (dependent_conds r a)" "CStatus c = ConditionUnknown"
        by (auto dest: find_SomeD)
      with status have "\<exists>d \<in> set (dependents r). status_of a d = Some ConditionUnknown" by blast
      with Some no_false False \<open>CStatus c = ConditionUnknown\<close> show ?thesis
        by (auto simp: findUnhappyDependent_unfold [OF ne] aggregate_def)
    qed
  qed
qed

section \<open>The operations refine the specification\<close>

lemma recomputeHappiness_refines:
  assumes wf: "wf_accessor r a" "wf_set r" and ne: "dependents r \<noteq> []" and t: "t \<noteq> happy r"
  shows "status_of (recomputeHappiness r t a) = (status_of a)(happy r \<mapsto> aggregate r (status_of a))"
    and "wf_accessor r (recomputeHappiness r t a)"
    and "conds (recomputeHappiness r t a) \<noteq> []"
proof -
  have found: "findUnhappyDependent r a = Some c \<Longrightarrow> CStatus c = aggregate r (status_of a)"
    and none: "findUnhappyDependent r a = None \<Longrightarrow> aggregate r (status_of a) = ConditionTrue" for c
    using findUnhappyDependent_aggregate [OF wf ne] by (auto simp: Let_def split: if_splits)
  let ?s = "aggregate r (status_of a)"
  obtain rsn msg where eq: "recomputeHappiness r t a =
      SetCondition (condition_of (happy r) ?s ConditionSeverityError rsn msg) a"
    using found none t by (cases "findUnhappyDependent r a") (auto simp: recomputeHappiness_def)
  show "status_of (recomputeHappiness r t a) = (status_of a)(happy r \<mapsto> ?s)"
    using wf(1) by (simp add: eq status_simps)
  show "wf_accessor r (recomputeHappiness r t a)"
    unfolding eq by (rule wf_accessor_SetCondition [OF wf(1)]) simp_all
  show "conds (recomputeHappiness r t a) \<noteq> []"
    unfolding eq by (rule SetCondition_nonempty) (use wf in simp)
qed

text \<open>A result of an operation: well formed, not empty, and with the statuses of the specification.\<close>

definition refines_mark :: "ConditionSet \<Rightarrow> string \<Rightarrow> string \<Rightarrow> accessor \<Rightarrow> accessor \<Rightarrow> bool" where
  "refines_mark r t s a b \<longleftrightarrow>
     wf_accessor r b \<and> conds b \<noteq> [] \<and> status_of b = spec_mark r t s (status_of a)"

lemma refines_markD:
  assumes "refines_mark r t s a b"
  shows "wf_accessor r b" "conds b \<noteq> []" "status_of b = spec_mark r t s (status_of a)"
  using assms by (simp_all add: refines_mark_def)

lemma refines_mark_agrees:
  "refines_mark r t s a b \<Longrightarrow> wf_set r \<Longrightarrow> happy_agrees r b"
  by (simp add: refines_mark_def happy_agrees_def spec_mark_def Let_def)

lemma dependent_facts:
  assumes "wf_set r" "t \<in> set (dependents r)"
  shows "t \<noteq> happy r" "dependents r \<noteq> []"
  using assms by (auto simp: wf_set_def)

lemma MarkTrueWithReason_refines:
  assumes "wf_set r" "wf_accessor r a" "t \<in> set (dependents r)"
  shows "refines_mark r t ConditionTrue a (MarkTrueWithReason r t reason msg a)"
proof -
  let ?b = "SetCondition (condition_of t ConditionTrue (severity r t) reason msg) a"
  have wf: "wf_accessor r ?b" by (rule wf_accessor_SetCondition) (use assms in simp_all)
  note facts = dependent_facts [OF assms(1,3)]
  have "status_of ?b = (status_of a)(t \<mapsto> ConditionTrue)" using assms by (simp add: status_simps)
  with recomputeHappiness_refines [OF wf assms(1) facts(2) facts(1)] show ?thesis
    by (simp add: refines_mark_def MarkTrueWithReason_def spec_mark_def Let_def)
qed

lemma MarkTrue_refines:
  assumes "wf_set r" "wf_accessor r a" "t \<in> set (dependents r)"
  shows "refines_mark r t ConditionTrue a (MarkTrue r t a)"
  using MarkTrueWithReason_refines [OF assms, of "[]" "[]"]
  by (simp add: MarkTrue_def MarkTrueWithReason_def)

lemma filter_eq_singleton: "distinct xs \<Longrightarrow> t \<in> set xs \<Longrightarrow> filter (\<lambda>x. x = t) xs = [t]"
  by (induction xs) (auto simp: filter_empty_conv)

lemma aggregate_ConditionFalse:
  "t \<in> set (dependents r) \<Longrightarrow> m t = Some ConditionFalse \<Longrightarrow> aggregate r m = ConditionFalse"
  by (auto simp: aggregate_def)

lemma MarkFalse_refines:
  assumes "wf_set r" "wf_accessor r a" "t \<in> set (dependents r)"
  shows "refines_mark r t ConditionFalse a (MarkFalse r t reason msg a)"
proof -
  let ?b = "SetCondition (condition_of t ConditionFalse (severity r t) reason msg) a"
  let ?c = "SetCondition (condition_of (happy r) ConditionFalse (severity r (happy r)) reason msg) ?b"
  have eq: "MarkFalse r t reason msg a = ?c"
    using assms by (simp add: MarkFalse_def filter_eq_singleton wf_set_def)
  have b: "wf_accessor r ?b" by (rule wf_accessor_SetCondition) (use assms in simp_all)
  have c: "wf_accessor r ?c" by (rule wf_accessor_SetCondition [OF b]) simp_all
  have "status_of ?c = spec_mark r t ConditionFalse (status_of a)"
    using assms b by (simp add: status_simps spec_mark_def Let_def aggregate_ConditionFalse)
  with c b show ?thesis by (simp add: refines_mark_def eq SetCondition_nonempty)
qed

text \<open>
  \<open>MarkUnknown\<close>: the scan stops at the first false dependent and then only makes sure that the
  happy condition is false too.
\<close>

lemma unknown_scan_refines:
  assumes "wf_set r" "wf_accessor r a" and "isDep \<or> t \<in> set ds" and "conds a \<noteq> []"
    and "set ds \<subseteq> set (dependents r)"
    and "(\<exists>d \<in> set ds. status_of a d = Some ConditionFalse) \<longleftrightarrow>
         (\<exists>d \<in> set (dependents r). status_of a d = Some ConditionFalse)"
    and "t \<in> set (dependents r)" and "status_of a t = Some ConditionUnknown"
  shows "wf_accessor r (unknown_scan r t reason msg ds isDep a) \<and>
    conds (unknown_scan r t reason msg ds isDep a) \<noteq> [] \<and>
    status_of (unknown_scan r t reason msg ds isDep a) =
      (status_of a)(happy r \<mapsto> aggregate r (status_of a))"
  using assms
proof (induction ds arbitrary: isDep)
  case Nil
  then have "aggregate r (status_of a) = ConditionUnknown" by (auto simp: aggregate_def)
  moreover have "isDep" using Nil by simp
  moreover have "wf_accessor r (SetCondition
      (condition_of (happy r) ConditionUnknown (severity r (happy r)) reason msg) a)"
    by (rule wf_accessor_SetCondition) (use Nil in simp_all)
  ultimately show ?case using Nil by (simp add: status_simps SetCondition_nonempty)
next
  case (Cons d ds)
  show ?case
  proof (cases "status_of a d = Some ConditionFalse")
    case True
    then have agg: "aggregate r (status_of a) = ConditionFalse"
      using Cons.prems(5) by (intro aggregate_ConditionFalse [of d]) auto
    show ?thesis
    proof (cases "status_of a (happy r) = Some ConditionFalse")
      case happy: True
      with True agg Cons.prems show ?thesis by (auto simp: IsFalse_iff)
    next
      case happy: False
      let ?b = "SetCondition (condition_of (happy r) ConditionFalse (severity r (happy r)) reason msg) a"
      have "filter (\<lambda>cond. cond = happy r) (dependents r) = []"
        using Cons.prems(1) by (auto simp: wf_set_def filter_empty_conv)
      then have "MarkFalse r (happy r) reason msg a = ?b" by (simp add: MarkFalse_def)
      moreover have "wf_accessor r ?b"
        by (rule wf_accessor_SetCondition [OF Cons.prems(2)]) simp_all
      ultimately show ?thesis
        using True happy agg Cons.prems by (simp add: IsFalse_iff status_simps SetCondition_nonempty)
    qed
  next
    case False
    with Cons.prems Cons.IH [of "if d = t then True else isDep"] show ?thesis
      by (auto simp: IsFalse_iff)
  qed
qed

lemma MarkUnknown_refines:
  assumes "wf_set r" "wf_accessor r a" "t \<in> set (dependents r)"
  shows "refines_mark r t ConditionUnknown a (MarkUnknown r t reason msg a)"
proof -
  let ?b = "SetCondition (condition_of t ConditionUnknown (severity r t) reason msg) a"
  have b: "wf_accessor r ?b" by (rule wf_accessor_SetCondition) (use assms in simp_all)
  have st: "status_of ?b = (status_of a)(t \<mapsto> ConditionUnknown)" using assms by (simp add: status_simps)
  have "conds ?b \<noteq> []" by (rule SetCondition_nonempty) (use assms in simp)
  from unknown_scan_refines [OF assms(1) b, of False t "dependents r" reason msg] this st assms(3)
  show ?thesis by (simp add: refines_mark_def MarkUnknown_def spec_mark_def Let_def)
qed

lemma initializeTerminalCondition_refines:
  assumes "wf_accessor r a" "isTerminal r t" "valid_status s"
  shows "wf_accessor r (initializeTerminalCondition s t a)"
    and "status_of (initializeTerminalCondition s t a) =
      (\<lambda>x. if x = t \<and> status_of a t = None then Some s else status_of a x)"
    and "conds a \<noteq> [] \<Longrightarrow> conds (initializeTerminalCondition s t a) \<noteq> []"
proof -
  have wf: "wf_accessor r (SetCondition (condition_of t s ConditionSeverityError [] []) a)"
    by (rule wf_accessor_SetCondition) (use assms in simp_all)
  show "wf_accessor r (initializeTerminalCondition s t a)"
    using wf assms(1) by (simp add: initializeTerminalCondition_def split: option.splits)
  show "conds a \<noteq> [] \<Longrightarrow> conds (initializeTerminalCondition s t a) \<noteq> []"
    using assms(1) by (simp add: initializeTerminalCondition_def SetCondition_nonempty split: option.splits)
  have "GetCondition t a = None \<longleftrightarrow> status_of a t = None" by (simp add: status_of_def)
  then show "status_of (initializeTerminalCondition s t a) =
      (\<lambda>x. if x = t \<and> status_of a t = None then Some s else status_of a x)"
    using assms(1)
    by (cases "GetCondition t a") (auto simp: initializeTerminalCondition_def status_simps fun_eq_iff)
qed

lemma fold_initialize_refines:
  assumes "wf_accessor r a" "\<And>t. t \<in> set ts \<Longrightarrow> isTerminal r t" "valid_status s" "conds a \<noteq> []"
  shows "wf_accessor r (fold (initializeTerminalCondition s) ts a) \<and>
    conds (fold (initializeTerminalCondition s) ts a) \<noteq> [] \<and>
    status_of (fold (initializeTerminalCondition s) ts a) =
      (\<lambda>x. if x \<in> set ts \<and> status_of a x = None then Some s else status_of a x)"
  using assms
proof (induction ts arbitrary: a)
  case Nil
  then show ?case by simp
next
  case (Cons t ts)
  note step = initializeTerminalCondition_refines [OF Cons.prems(1), of t s]
  have "isTerminal r t" using Cons.prems(2) by simp
  with Cons.prems Cons.IH [of "initializeTerminalCondition s t a"] step show ?case
    by (auto simp: fun_eq_iff)
qed

text \<open>
  \<open>InitializeConditions\<close> keeps every recorded status and makes the missing ones unknown, or true
  when the happy condition is true already; in a state where the happy condition agrees with the
  dependents the second case adds nothing.
\<close>

lemma InitializeConditions_refines:
  assumes wf: "wf_set r" "wf_accessor r a" and agrees: "happy_agrees r a"
  shows "wf_accessor r (InitializeConditions r a) \<and> conds (InitializeConditions r a) \<noteq> [] \<and>
    status_of (InitializeConditions r a) =
      (\<lambda>x. if isTerminal r x \<and> status_of a x = None then Some ConditionUnknown else status_of a x)"
proof (cases "GetCondition (happy r) a")
  case None
  with agrees have empty: "conds a = []"
    by (auto simp: happy_agrees_def status_of_def)
  let ?b = "SetCondition (condition_of (happy r) ConditionUnknown ConditionSeverityError [] []) a"
  have b: "wf_accessor r ?b" by (rule wf_accessor_SetCondition) (use wf in simp_all)
  have ne: "conds ?b \<noteq> []" by (rule SetCondition_nonempty) (use wf in simp)
  have init: "InitializeConditions r a =
      fold (initializeTerminalCondition ConditionUnknown) (dependents r) ?b"
    using None by (simp add: InitializeConditions_def)
  have "status_of ?b = (status_of a)(happy r \<mapsto> ConditionUnknown)" using wf by (simp add: status_simps)
  with fold_initialize_refines [OF b _ _ ne, of "dependents r" ConditionUnknown] empty wf(1)
  show ?thesis unfolding init by (auto simp: isTerminal_iff fun_eq_iff wf_set_def)
next
  case (Some h)
  then have ne: "conds a \<noteq> []" by (auto simp: GetCondition_def)
  have st: "status_of a (happy r) = Some (CStatus h)" using Some by (simp add: status_of_def)
  have no_missing: "status_of a x \<noteq> None" if "CStatus h = ConditionTrue" "x \<in> set (dependents r)" for x
    using that st agrees ne by (auto simp: happy_agrees_def aggregate_def split: if_splits)
  let ?s = "if CStatus h = ConditionTrue then ConditionTrue else ConditionUnknown"
  have "valid_status ?s" by simp
  from fold_initialize_refines [OF wf(2) _ this ne, of "dependents r"] Some st no_missing
  show ?thesis
    by (auto simp: InitializeConditions_def Let_def isTerminal_iff fun_eq_iff)
qed

text \<open>A missing dependent counts as unknown, so recording it as unknown changes no aggregate.\<close>

lemma aggregate_default:
  "aggregate r (\<lambda>x. if isTerminal r x \<and> m x = None then Some ConditionUnknown else m x) = aggregate r m"
  by (auto simp: aggregate_def)

lemma aggregate_all_missing:
  "dependents r \<noteq> [] \<Longrightarrow> aggregate r (\<lambda>_. None) = ConditionUnknown"
  by (cases "dependents r") (auto simp: aggregate_def)

lemma InitializeConditions_agrees:
  assumes "wf_set r" "wf_accessor r a" "happy_agrees r a" "dependents r \<noteq> []"
  shows "happy_agrees r (InitializeConditions r a)"
proof -
  note st = InitializeConditions_refines [OF assms(1-3), THEN conjunct2, THEN conjunct2]
  show ?thesis
  proof (cases "conds a = []")
    case True
    then have "status_of a = (\<lambda>_. None)" by (simp add: fun_eq_iff)
    then show ?thesis
      using assms(4) unfolding happy_agrees_def st by (simp only: aggregate_default) (simp add: aggregate_all_missing)
  next
    case False
    with assms(3) show ?thesis unfolding happy_agrees_def st by (simp only: aggregate_default) simp
  qed
qed

end
