(* ===== verification/Lifecycle.thy ===== *)
theory Lifecycle
  imports Serving_Types Condition_Refinement
begin

text \<open>
  The status lifecycle of \<open>pkg/apis/serving/v1alpha1/knativeserving_lifecycle.go\<close>. The state is
  the status record with the clock its updates read; every operation goes through the condition
  manager of \<open>Conditions\<close>. \<open>lifecycle_reachable\<close> is the state machine of all statuses the
  operations can build from an empty one.
\<close>

section \<open>Operations\<close>

definition conditions :: ConditionSet where
  "conditions = NewLivingConditionSet [DependenciesInstalled, DeploymentsAvailable, InstallSucceeded]"

type_synonym status_clock = "KnativeServingStatus \<times> time stream"

text \<open>
  \<open>conditions.Manage(is)\<close> gives the manager access to the conditions of the status through
  \<open>GetConditions\<close> and \<open>SetConditions\<close> of \<open>duckv1.Status\<close>.
\<close>

definition accessor_of :: "status_clock \<Rightarrow> accessor" where
  "accessor_of s = \<lparr>conds = Conditions (fst s), clock = snd s\<rparr>"

definition Manage :: "(accessor \<Rightarrow> accessor) \<Rightarrow> status_clock \<Rightarrow> status_clock" where
  "Manage f s =
     (let a = f (accessor_of s) in ((fst s)\<lparr>Conditions := conds a\<rparr>, clock a))"

definition ks_GetCondition :: "string \<Rightarrow> KnativeServingStatus \<Rightarrow> Condition option" where
  "ks_GetCondition t st = GetCondition t \<lparr>conds = Conditions st, clock = sconst 0\<rparr>"

definition IsReady :: "KnativeServingStatus \<Rightarrow> bool" where
  "IsReady st = IsHappy conditions \<lparr>conds = Conditions st, clock = sconst 0\<rparr>"

definition IsInstalled :: "KnativeServingStatus \<Rightarrow> bool" where
  "IsInstalled st = IsTrue (ks_GetCondition InstallSucceeded st)"

definition IsAvailable :: "KnativeServingStatus \<Rightarrow> bool" where
  "IsAvailable st = IsTrue (ks_GetCondition DeploymentsAvailable st)"

definition IsDeploying :: "KnativeServingStatus \<Rightarrow> bool" where
  "IsDeploying st \<longleftrightarrow> IsInstalled st \<and> \<not> IsAvailable st"

definition IsFullySupported :: "KnativeServingStatus \<Rightarrow> bool" where
  "IsFullySupported st = IsTrue (ks_GetCondition DependenciesInstalled st)"

definition ks_InitializeConditions :: "status_clock \<Rightarrow> status_clock" where
  "ks_InitializeConditions = Manage (InitializeConditions conditions)"

definition MarkInstallFailed :: "string \<Rightarrow> status_clock \<Rightarrow> status_clock" where
  "MarkInstallFailed msg =
     Manage (MarkFalse conditions InstallSucceeded ''Error'' (''Install failed with message: '' @ msg))"

definition MarkDependenciesInstalled :: "status_clock \<Rightarrow> status_clock" where
  "MarkDependenciesInstalled = Manage (MarkTrue conditions DependenciesInstalled)"

definition MarkInstallSucceeded :: "status_clock \<Rightarrow> status_clock" where
  "MarkInstallSucceeded s =
     (let s1 = Manage (MarkTrue conditions InstallSucceeded) s
      in if IsUnknown (ks_GetCondition DependenciesInstalled (fst s1))
         then MarkDependenciesInstalled s1 else s1)"

definition MarkDeploymentsAvailable :: "status_clock \<Rightarrow> status_clock" where
  "MarkDeploymentsAvailable = Manage (MarkTrue conditions DeploymentsAvailable)"

definition MarkDeploymentsNotReady :: "status_clock \<Rightarrow> status_clock" where
  "MarkDeploymentsNotReady =
     Manage (MarkFalse conditions DeploymentsAvailable ''NotReady'' ''Waiting on deployments'')"

definition MarkDependencyInstalling :: "string \<Rightarrow> status_clock \<Rightarrow> status_clock" where
  "MarkDependencyInstalling msg =
     Manage (MarkFalse conditions DependenciesInstalled ''Installing'' (''Dependency installing: '' @ msg))"

definition MarkDependencyMissing :: "string \<Rightarrow> status_clock \<Rightarrow> status_clock" where
  "MarkDependencyMissing msg =
     Manage (MarkFalse conditions DependenciesInstalled ''Error'' (''Dependency missing: '' @ msg))"

section \<open>The state machine\<close>

datatype lifecycle_op =
    OpInitialize
  | OpInstallFailed string
  | OpInstallSucceeded
  | OpDeploymentsAvailable
  | OpDeploymentsNotReady
  | OpDependenciesInstalled
  | OpDependencyInstalling string
  | OpDependencyMissing string

fun run_op :: "lifecycle_op \<Rightarrow> status_clock \<Rightarrow> status_clock" where
  "run_op OpInitialize = ks_InitializeConditions"
| "run_op (OpInstallFailed msg) = MarkInstallFailed msg"
| "run_op OpInstallSucceeded = MarkInstallSucceeded"
| "run_op OpDeploymentsAvailable = MarkDeploymentsAvailable"
| "run_op OpDeploymentsNotReady = MarkDeploymentsNotReady"
| "run_op OpDependenciesInstalled = MarkDependenciesInstalled"
| "run_op (OpDependencyInstalling msg) = MarkDependencyInstalling msg"
| "run_op (OpDependencyMissing msg) = MarkDependencyMissing msg"

inductive lifecycle_reachable :: "status_clock \<Rightarrow> bool" where
  lc_start: "Conditions st = [] \<Longrightarrow> lifecycle_reachable (st, clk)"
| lc_step: "lifecycle_reachable s \<Longrightarrow> lifecycle_reachable (run_op op s)"

section \<open>The invariant\<close>

definition lifecycle_inv :: "KnativeServingStatus \<Rightarrow> bool" where
  "lifecycle_inv st \<longleftrightarrow>
     (let a = \<lparr>conds = Conditions st, clock = sconst 0\<rparr>
      in wf_accessor conditions a \<and> happy_agrees conditions a)"

definition ks_status :: "KnativeServingStatus \<Rightarrow> string \<Rightarrow> string option" where
  "ks_status st t = map_option CStatus (ks_GetCondition t st)"

lemma conditions_simps [simp]:
  "happy conditions = ConditionReady"
  "dependents conditions = [DependenciesInstalled, DeploymentsAvailable, InstallSucceeded]"
  by (simp_all add: conditions_def NewLivingConditionSet_def newConditionSet_def)

lemma wf_conditions [simp]: "wf_set conditions"
  by (simp add: conditions_def NewLivingConditionSet_def wf_newConditionSet)

text \<open>None of the reading operations looks at the clock.\<close>

lemma clock_irrelevant:
  "wf_accessor r \<lparr>conds = cs, clock = k\<rparr> \<longleftrightarrow> wf_accessor r \<lparr>conds = cs, clock = k'\<rparr>"
  "status_of \<lparr>conds = cs, clock = k\<rparr> = status_of \<lparr>conds = cs, clock = k'\<rparr>"
  by (simp_all add: wf_accessor_def status_of_def GetCondition_def fun_eq_iff)

lemma ks_status_accessor: "status_of (accessor_of s) = ks_status (fst s)"
  by (simp add: fun_eq_iff ks_status_def ks_GetCondition_def status_of_def accessor_of_def GetCondition_def)

lemma lifecycle_inv_accessor:
  "lifecycle_inv (fst s) \<longleftrightarrow> wf_accessor conditions (accessor_of s) \<and> happy_agrees conditions (accessor_of s)"
  using clock_irrelevant [where k = "sconst 0" and k' = "snd s" and cs = "Conditions (fst s)"]
  by (simp add: lifecycle_inv_def accessor_of_def happy_agrees_def)

lemma accessor_of_Manage: "accessor_of (Manage f s) = f (accessor_of s)"
  by (simp add: Manage_def accessor_of_def Let_def)

lemma Manage_frame [simp]:
  "Version (fst (Manage f s)) = Version (fst s)"
  "ObservedGeneration (fst (Manage f s)) = ObservedGeneration (fst s)"
  by (simp_all add: Manage_def Let_def)

text \<open>
  A lifecycle operation \<^emph>\<open>marks\<close> the condition \<open>t\<close> with status \<open>v\<close>: it keeps the invariant, and
  on the statuses it is the abstract mark.
\<close>

definition marks :: "string \<Rightarrow> string \<Rightarrow> KnativeServingStatus \<Rightarrow> KnativeServingStatus \<Rightarrow> bool" where
  "marks t v st st' \<longleftrightarrow>
     lifecycle_inv st' \<and> Conditions st' \<noteq> [] \<and> ks_status st' = spec_mark conditions t v (ks_status st)"

lemma Manage_marks:
  assumes "lifecycle_inv (fst s)"
    and "refines_mark conditions t v (accessor_of s) (f (accessor_of s))"
  shows "marks t v (fst s) (fst (Manage f s))"
proof -
  have "lifecycle_inv (fst (Manage f s))"
    unfolding lifecycle_inv_accessor accessor_of_Manage
    using assms(2) by (auto intro: refines_mark_agrees refines_markD(1))
  moreover have "ks_status (fst (Manage f s)) = spec_mark conditions t v (ks_status (fst s))"
    using refines_markD(3) [OF assms(2)] by (simp add: ks_status_accessor [symmetric] accessor_of_Manage)
  moreover have "Conditions (fst (Manage f s)) \<noteq> []"
    using refines_markD(2) [OF assms(2)] accessor_of_Manage [of f s] by (simp add: Manage_def Let_def)
  ultimately show ?thesis by (simp add: marks_def)
qed

lemma lifecycle_marks:
  assumes inv: "lifecycle_inv (fst s)"
  shows "marks InstallSucceeded ConditionFalse (fst s) (fst (MarkInstallFailed msg s))"
    and "marks DependenciesInstalled ConditionTrue (fst s) (fst (MarkDependenciesInstalled s))"
    and "marks DeploymentsAvailable ConditionTrue (fst s) (fst (MarkDeploymentsAvailable s))"
    and "marks DeploymentsAvailable ConditionFalse (fst s) (fst (MarkDeploymentsNotReady s))"
    and "marks DependenciesInstalled ConditionFalse (fst s) (fst (MarkDependencyInstalling msg s))"
    and "marks DependenciesInstalled ConditionFalse (fst s) (fst (MarkDependencyMissing msg s))"
    and "marks InstallSucceeded ConditionTrue (fst s) (fst (Manage (MarkTrue conditions InstallSucceeded) s))"
proof -
  have wf: "wf_accessor conditions (accessor_of s)" using inv by (simp add: lifecycle_inv_accessor)
  note refs = MarkTrue_refines [OF wf_conditions wf] MarkFalse_refines [OF wf_conditions wf]
  show "marks InstallSucceeded ConditionFalse (fst s) (fst (MarkInstallFailed msg s))"
    and "marks DependenciesInstalled ConditionTrue (fst s) (fst (MarkDependenciesInstalled s))"
    and "marks DeploymentsAvailable ConditionTrue (fst s) (fst (MarkDeploymentsAvailable s))"
    and "marks DeploymentsAvailable ConditionFalse (fst s) (fst (MarkDeploymentsNotReady s))"
    and "marks DependenciesInstalled ConditionFalse (fst s) (fst (MarkDependencyInstalling msg s))"
    and "marks DependenciesInstalled ConditionFalse (fst s) (fst (MarkDependencyMissing msg s))"
    and "marks InstallSucceeded ConditionTrue (fst s) (fst (Manage (MarkTrue conditions InstallSucceeded) s))"
    unfolding MarkInstallFailed_def MarkDependenciesInstalled_def MarkDeploymentsAvailable_def
      MarkDeploymentsNotReady_def MarkDependencyInstalling_def MarkDependencyMissing_def
    by (rule Manage_marks [OF inv], rule refs, simp)+
qed

lemma lifecycle_frame [simp]:
  "Version (fst (ks_InitializeConditions s)) = Version (fst s)"
  "Version (fst (MarkInstallFailed msg s)) = Version (fst s)"
  "Version (fst (MarkDependenciesInstalled s)) = Version (fst s)"
  "Version (fst (MarkDeploymentsAvailable s)) = Version (fst s)"
  "Version (fst (MarkDeploymentsNotReady s)) = Version (fst s)"
  "Version (fst (MarkInstallSucceeded s)) = Version (fst s)"
  by (simp_all add: ks_InitializeConditions_def MarkInstallFailed_def MarkDependenciesInstalled_def
      MarkDeploymentsAvailable_def MarkDeploymentsNotReady_def MarkInstallSucceeded_def Let_def)

lemma marksD:
  assumes "marks t v st st'"
  shows "lifecycle_inv st'" "Conditions st' \<noteq> []" "ks_status st' = spec_mark conditions t v (ks_status st)"
  using assms by (simp_all add: marks_def)

text \<open>
  \<open>MarkInstallSucceeded\<close> settles the dependencies as well, unless they are known to be missing.
\<close>

lemma MarkInstallSucceeded_facts:
  assumes "lifecycle_inv (fst s)"
  shows "lifecycle_inv (fst (MarkInstallSucceeded s)) \<and> Conditions (fst (MarkInstallSucceeded s)) \<noteq> [] \<and>
    ks_status (fst (MarkInstallSucceeded s)) =
      (let m = spec_mark conditions InstallSucceeded ConditionTrue (ks_status (fst s))
       in if ks_status (fst s) DependenciesInstalled \<in> {None, Some ConditionUnknown}
          then spec_mark conditions DependenciesInstalled ConditionTrue m else m)"
proof -
  let ?s1 = "Manage (MarkTrue conditions InstallSucceeded) s"
  note one = marksD [OF lifecycle_marks(7) [OF assms]]
  note two = marksD [OF lifecycle_marks(2) [OF one(1)]]
  have "IsUnknown (ks_GetCondition DependenciesInstalled (fst ?s1)) \<longleftrightarrow>
      ks_status (fst ?s1) DependenciesInstalled \<in> {None, Some ConditionUnknown}"
    by (cases "ks_GetCondition DependenciesInstalled (fst ?s1)") (auto simp: ks_status_def)
  also have "ks_status (fst ?s1) DependenciesInstalled = ks_status (fst s) DependenciesInstalled"
    by (simp add: one(3) spec_mark_def Let_def)
  finally show ?thesis using one two by (simp add: MarkInstallSucceeded_def Let_def)
qed

text \<open>\<open>InitializeConditions\<close>: the recorded statuses stay, the missing ones become unknown.\<close>

lemma ks_InitializeConditions_facts:
  assumes "lifecycle_inv (fst s)"
  shows "lifecycle_inv (fst (ks_InitializeConditions s)) \<and> Conditions (fst (ks_InitializeConditions s)) \<noteq> [] \<and>
    ks_status (fst (ks_InitializeConditions s)) =
      (\<lambda>t. if isTerminal conditions t \<and> ks_status (fst s) t = None then Some ConditionUnknown
           else ks_status (fst s) t)"
proof -
  let ?a = "accessor_of s" and ?b = "InitializeConditions conditions (accessor_of s)"
  have wf: "wf_accessor conditions ?a" and agrees: "happy_agrees conditions ?a"
    using assms by (simp_all add: lifecycle_inv_accessor)
  note init = InitializeConditions_refines [OF wf_conditions wf agrees]
  have "happy_agrees conditions ?b"
    by (rule InitializeConditions_agrees [OF wf_conditions wf agrees]) simp
  with init show ?thesis
    unfolding lifecycle_inv_accessor ks_InitializeConditions_def accessor_of_Manage
      ks_status_accessor [symmetric]
    by (simp add: accessor_of_Manage [symmetric] Manage_def Let_def accessor_of_def)
qed

lemma run_op_inv: "lifecycle_inv (fst s) \<Longrightarrow> lifecycle_inv (fst (run_op op s))"
  by (cases op)
    (simp_all add: lifecycle_marks [THEN marksD(1)] ks_InitializeConditions_facts MarkInstallSucceeded_facts)

lemma lifecycle_inv_empty: "Conditions st = [] \<Longrightarrow> lifecycle_inv st"
  by (simp add: lifecycle_inv_def wf_accessor_def wf_conds_def happy_agrees_def)

lemma lifecycle_reachable_inv: "lifecycle_reachable s \<Longrightarrow> lifecycle_inv (fst s)"
  by (induction rule: lifecycle_reachable.induct) (auto simp: lifecycle_inv_empty run_op_inv)

lemma test_facts:
  "IsInstalled st \<longleftrightarrow> ks_status st InstallSucceeded = Some ConditionTrue"
  "IsAvailable st \<longleftrightarrow> ks_status st DeploymentsAvailable = Some ConditionTrue"
  "IsFullySupported st \<longleftrightarrow> ks_status st DependenciesInstalled = Some ConditionTrue"
  "IsReady st \<longleftrightarrow> ks_status st ConditionReady = Some ConditionTrue"
  by (auto simp: IsInstalled_def IsAvailable_def IsFullySupported_def IsReady_def IsHappy_def
      GetTopLevelCondition_def ks_status_def ks_GetCondition_def elim: IsTrue.elims)

lemma ready_iff:
  assumes "lifecycle_inv st"
  shows "IsReady st \<longleftrightarrow> IsFullySupported st \<and> IsAvailable st \<and> IsInstalled st"
proof (cases "Conditions st = []")
  case True
  then have "ks_status st t = None" for t by (simp add: ks_status_def ks_GetCondition_def GetCondition_def)
  then show ?thesis by (simp add: test_facts)
next
  case False
  let ?a = "\<lparr>conds = Conditions st, clock = sconst 0\<rparr>"
  have eq: "status_of ?a = ks_status st"
    by (simp add: fun_eq_iff ks_status_def ks_GetCondition_def status_of_def)
  have "wf_accessor conditions ?a" and "status_of ?a ConditionReady = Some (aggregate conditions (status_of ?a))"
    using assms False by (simp_all add: lifecycle_inv_def happy_agrees_def Let_def)
  then have agg: "ks_status st ConditionReady = Some (aggregate conditions (ks_status st))"
    and valid: "\<And>t s. ks_status st t = Some s \<Longrightarrow> valid_status s"
    unfolding eq by (simp, metis eq status_of_valid)
  have "aggregate conditions (ks_status st) = ConditionTrue \<longleftrightarrow>
      (\<forall>d \<in> {DependenciesInstalled, DeploymentsAvailable, InstallSucceeded}. ks_status st d = Some ConditionTrue)"
    using valid by (auto simp: aggregate_def valid_status_def split: if_splits)
  with agg show ?thesis by (simp add: test_facts)
qed

end
