(* ===== verification/Unstructured.thy ===== *)
theory Unstructured
  imports Complex_Main Prelude
begin

text \<open>
  Unstructured objects: the JSON values of \<open>vendor/k8s.io/apimachinery\<close> and the nested-field
  helpers and metadata accessors of its package \<open>unstructured\<close> (\<open>helpers.go\<close>,
  \<open>unstructured.go\<close>), with \<open>DeepCopyJSONValue\<close> of \<open>runtime/converter.go\<close>.

  A JSON object is a Go map with string keys; \<open>u.Object\<close> is such a map. A 64-bit float is the
  rational number it stands for. \<open>(value, found, err)\<close> is modelled by a result of an option:
  \<open>Ok None\<close> is a missing field, \<open>Ok (Some v)\<close> a found one. In the text of an accessor error the
  printed value (\<open>%v\<close>) is left out.
\<close>

section \<open>JSON values\<close>

datatype json =
    JNull
  | JBool bool
  | JInt "64 word"
  | JFloat rat
  | JStr string
  | JArr "json list"
  | JObj "(string \<times> json) list"

type_synonym obj = "json gomap"

fun DeepCopyJSONValue :: "json \<Rightarrow> json" where
  "DeepCopyJSONValue (JObj m) = JObj (map (\<lambda>(k, v). (k, DeepCopyJSONValue v)) m)"
| "DeepCopyJSONValue (JArr xs) = JArr (map DeepCopyJSONValue xs)"
| "DeepCopyJSONValue (JStr s) = JStr s"
| "DeepCopyJSONValue (JInt i) = JInt i"
| "DeepCopyJSONValue (JBool b) = JBool b"
| "DeepCopyJSONValue (JFloat f) = JFloat f"
| "DeepCopyJSONValue JNull = JNull"

lemma DeepCopyJSONValue_id [simp]: "DeepCopyJSONValue v = v"
proof (induction v rule: DeepCopyJSONValue.induct)
  case (1 m)
  then have "map (\<lambda>(k, v). (k, DeepCopyJSONValue v)) m = map (\<lambda>p. p) m"
    by (intro map_cong) (auto split: prod.splits)
  then show ?case by simp
next
  case (2 xs)
  then show ?case by (simp add: map_idI)
qed simp_all

text \<open>The type name Go prints for the dynamic type of a value (\<open>%T\<close>).\<close>

fun go_type :: "json \<Rightarrow> string" where
  "go_type JNull = ''<nil>''"
| "go_type (JBool b) = ''bool''"
| "go_type (JInt i) = ''int64''"
| "go_type (JFloat f) = ''float64''"
| "go_type (JStr s) = ''string''"
| "go_type (JArr xs) = ''[]interface {}''"
| "go_type (JObj m) = ''map[string]interface {}''"

section \<open>Nested fields\<close>

fun join_dots :: "string list \<Rightarrow> string" where
  "join_dots [] = []"
| "join_dots [f] = f"
| "join_dots (f # fs) = f @ ''.'' @ join_dots fs"

definition jsonPath :: "string list \<Rightarrow> string" where
  "jsonPath fields = ''.'' @ join_dots fields"

definition accessor_error :: "string list \<Rightarrow> json \<Rightarrow> string \<Rightarrow> error" where
  "accessor_error fields v expected =
     Errorf (jsonPath fields @ '' accessor error: value is of the type '' @ go_type v
             @ '', expected '' @ expected)"

text \<open>The loop of \<open>NestedFieldNoCopy\<close>; \<open>seen\<close> is \<open>fields[:i]\<close>.\<close>

fun nested_from :: "string list \<Rightarrow> json \<Rightarrow> string list \<Rightarrow> json option result" where
  "nested_from seen v [] = Ok (Some v)"
| "nested_from seen JNull (f # fs) = Ok None"
| "nested_from seen (JObj m) (f # fs) =
     (case map_of m f of
        None \<Rightarrow> Ok None
      | Some v \<Rightarrow> nested_from (seen @ [f]) v fs)"
| "nested_from seen v (f # fs) =
     Err (accessor_error (seen @ [f]) v ''map[string]interface{}'')"

definition NestedFieldNoCopy :: "obj \<Rightarrow> string list \<Rightarrow> json option result" where
  "NestedFieldNoCopy m fields = nested_from [] (JObj m) fields"

definition NestedFieldCopy :: "obj \<Rightarrow> string list \<Rightarrow> json option result" where
  "NestedFieldCopy m fields =
     bind_result (NestedFieldNoCopy m fields) (\<lambda>v. Ok (map_option DeepCopyJSONValue v))"

text \<open>
  The typed getters share one shape: look the field up, and when it is there, cast it or fail.
\<close>

definition typed_field :: "(json \<Rightarrow> 'a option) \<Rightarrow> string \<Rightarrow> obj \<Rightarrow> string list \<Rightarrow> 'a option result" where
  "typed_field cast expected m fields =
     bind_result (NestedFieldNoCopy m fields)
       (\<lambda>found. case found of
                  None \<Rightarrow> Ok None
                | Some v \<Rightarrow> (case cast v of
                               Some x \<Rightarrow> Ok (Some x)
                             | None \<Rightarrow> Err (accessor_error fields v expected)))"

fun as_string :: "json \<Rightarrow> string option" where
  "as_string (JStr s) = Some s"
| "as_string _ = None"

fun as_bool :: "json \<Rightarrow> bool option" where
  "as_bool (JBool b) = Some b"
| "as_bool _ = None"

fun as_int64 :: "json \<Rightarrow> 64 word option" where
  "as_int64 (JInt i) = Some i"
| "as_int64 _ = None"

fun as_float64 :: "json \<Rightarrow> rat option" where
  "as_float64 (JFloat f) = Some f"
| "as_float64 _ = None"

fun as_slice :: "json \<Rightarrow> json list option" where
  "as_slice (JArr xs) = Some xs"
| "as_slice _ = None"

fun as_map :: "json \<Rightarrow> obj option" where
  "as_map (JObj m) = Some m"
| "as_map _ = None"

definition NestedString :: "obj \<Rightarrow> string list \<Rightarrow> string option result" where
  "NestedString = typed_field as_string ''string''"

definition NestedBool :: "obj \<Rightarrow> string list \<Rightarrow> bool option result" where
  "NestedBool = typed_field as_bool ''bool''"

definition NestedInt64 :: "obj \<Rightarrow> string list \<Rightarrow> 64 word option result" where
  "NestedInt64 = typed_field as_int64 ''int64''"

definition NestedFloat64 :: "obj \<Rightarrow> string list \<Rightarrow> rat option result" where
  "NestedFloat64 = typed_field as_float64 ''float64''"

definition NestedSlice :: "obj \<Rightarrow> string list \<Rightarrow> json list option result" where
  "NestedSlice m fields =
     bind_result (typed_field as_slice ''[]interface{}'' m fields)
       (\<lambda>v. Ok (map_option (map DeepCopyJSONValue) v))"

definition nestedMapNoCopy :: "obj \<Rightarrow> string list \<Rightarrow> obj option result" where
  "nestedMapNoCopy = typed_field as_map ''map[string]interface{}''"

definition NestedMap :: "obj \<Rightarrow> string list \<Rightarrow> obj option result" where
  "NestedMap m fields =
     bind_result (nestedMapNoCopy m fields)
       (\<lambda>v. Ok (map_option (map (\<lambda>(k, x). (k, DeepCopyJSONValue x))) v))"

definition element_error :: "string list \<Rightarrow> string \<Rightarrow> json \<Rightarrow> error" where
  "element_error fields what v =
     Errorf (jsonPath fields @ '' accessor error: contains non-string key in the '' @ what
             @ '': value is of the type '' @ go_type v @ '', expected string'')"

definition string_element :: "string list \<Rightarrow> string \<Rightarrow> json \<Rightarrow> string result" where
  "string_element fields what v =
     (case as_string v of Some s \<Rightarrow> Ok s | None \<Rightarrow> Err (element_error fields what v))"

definition NestedStringSlice :: "obj \<Rightarrow> string list \<Rightarrow> string list option result" where
  "NestedStringSlice m fields =
     bind_result (typed_field as_slice ''[]interface{}'' m fields)
       (\<lambda>found. case found of
                  None \<Rightarrow> Ok None
                | Some xs \<Rightarrow> bind_result (map_result (string_element fields ''slice'') xs)
                               (\<lambda>ss. Ok (Some ss)))"

definition NestedStringMap :: "obj \<Rightarrow> string list \<Rightarrow> string gomap option result" where
  "NestedStringMap m fields =
     bind_result (nestedMapNoCopy m fields)
       (\<lambda>found. case found of
                  None \<Rightarrow> Ok None
                | Some kvs \<Rightarrow>
                    bind_result
                      (map_result
                        (\<lambda>(k, v). bind_result (string_element fields ''map'' v) (\<lambda>s. Ok (k, s))) kvs)
                      (\<lambda>ss. Ok (Some ss)))"

text \<open>
  Writing: missing levels are created, an existing level must be an object. On an error nothing
  was written, because a level is created only below the last existing one.
\<close>

fun set_nested :: "string list \<Rightarrow> obj \<Rightarrow> json \<Rightarrow> string list \<Rightarrow> obj result" where
  "set_nested seen m v [] = Panic ''slice bounds out of range''"
| "set_nested seen m v [f] = Ok (AList.update f v m)"
| "set_nested seen m v (f # g # fs) =
     (case map_of m f of
        None \<Rightarrow>
          bind_result (set_nested (seen @ [f]) [] v (g # fs)) (\<lambda>m'. Ok (AList.update f (JObj m') m))
      | Some (JObj m1) \<Rightarrow>
          bind_result (set_nested (seen @ [f]) m1 v (g # fs)) (\<lambda>m'. Ok (AList.update f (JObj m') m))
      | Some _ \<Rightarrow>
          Err (Errorf (''value cannot be set because '' @ jsonPath (seen @ [f])
                       @ '' is not a map[string]interface{}'')))"

definition setNestedFieldNoCopy :: "obj \<Rightarrow> json \<Rightarrow> string list \<Rightarrow> obj result" where
  "setNestedFieldNoCopy m v fields = set_nested [] m v fields"

definition SetNestedField :: "obj \<Rightarrow> json \<Rightarrow> string list \<Rightarrow> obj result" where
  "SetNestedField m v fields = setNestedFieldNoCopy m (DeepCopyJSONValue v) fields"

definition string_map :: "string gomap \<Rightarrow> obj" where
  "string_map kvs = map (\<lambda>(k, s). (k, JStr s)) kvs"

definition SetNestedStringMap :: "obj \<Rightarrow> string gomap \<Rightarrow> string list \<Rightarrow> obj result" where
  "SetNestedStringMap m value fields = setNestedFieldNoCopy m (JObj (string_map value)) fields"

definition SetNestedStringSlice :: "obj \<Rightarrow> string list \<Rightarrow> string list \<Rightarrow> obj result" where
  "SetNestedStringSlice m value fields = setNestedFieldNoCopy m (JArr (map JStr value)) fields"

definition SetNestedSlice :: "obj \<Rightarrow> json list \<Rightarrow> string list \<Rightarrow> obj result" where
  "SetNestedSlice m value fields = SetNestedField m (JArr value) fields"

definition SetNestedMap :: "obj \<Rightarrow> obj \<Rightarrow> string list \<Rightarrow> obj result" where
  "SetNestedMap m value fields = SetNestedField m (JObj value) fields"

fun RemoveNestedField :: "obj \<Rightarrow> string list \<Rightarrow> obj" where
  "RemoveNestedField m [] = m"
| "RemoveNestedField m [f] = AList.delete f m"
| "RemoveNestedField m (f # g # fs) =
     (case map_of m f of
        Some (JObj m1) \<Rightarrow> AList.update f (JObj (RemoveNestedField m1 (g # fs))) m
      | _ \<Rightarrow> m)"

definition getNestedString :: "obj \<Rightarrow> string list \<Rightarrow> string" where
  "getNestedString m fields =
     (case NestedString m fields of Ok (Some s) \<Rightarrow> s | _ \<Rightarrow> [])"

definition getNestedInt64 :: "obj \<Rightarrow> string list \<Rightarrow> 64 word" where
  "getNestedInt64 m fields = (case NestedInt64 m fields of Ok (Some i) \<Rightarrow> i | _ \<Rightarrow> 0)"

definition getNestedInt64Pointer :: "obj \<Rightarrow> string list \<Rightarrow> 64 word option" where
  "getNestedInt64Pointer m fields = (case NestedInt64 m fields of Ok (Some i) \<Rightarrow> Some i | _ \<Rightarrow> None)"

end
