(* ===== verification/Nested_Laws.thy ===== *)
theory Nested_Laws
  imports Unstructured
begin

text \<open>
  The laws of the nested-field helpers: what is read at a path after a write or a removal, at the
  same path and at paths that part from it, and when a write succeeds.
\<close>

section \<open>Paths\<close>

text \<open>Two paths part when they differ at a position both have; neither is then a prefix of the other.\<close>

fun apart :: "string list \<Rightarrow> string list \<Rightarrow> bool" where
  "apart (x # xs) (y # ys) = (x \<noteq> y \<or> apart xs ys)"
| "apart _ _ = False"

lemma apart_sym: "apart xs ys \<longleftrightarrow> apart ys xs"
  by (induction xs ys rule: apart.induct) auto

text \<open>A write succeeds when every existing level above the last key is an object.\<close>

fun settable :: "obj \<Rightarrow> string list \<Rightarrow> bool" where
  "settable m [] = False"
| "settable m [f] = True"
| "settable m (f # g # fs) =
     (case map_of m f of
        None \<Rightarrow> True
      | Some (JObj m1) \<Rightarrow> settable m1 (g # fs)
      | Some _ \<Rightarrow> False)"

lemma settable_empty [simp]: "settable [] (f # fs)"
  by (cases fs) auto

lemma set_nested_Ok_iff: "(\<exists>m'. set_nested seen m v fs = Ok m') \<longleftrightarrow> settable m fs"
proof (induction seen m v fs rule: set_nested.induct)
  case (3 seen m v f g fs)
  show ?case
  proof (cases "map_of m f")
    case None
    with "3.IH"(1) [OF None] show ?thesis by auto
  next
    case (Some x)
    with "3.IH"(2) [OF Some] show ?thesis by (cases x) auto
  qed
qed auto

lemma set_nested_no_panic: "fs \<noteq> [] \<Longrightarrow> set_nested seen m v fs \<noteq> Panic p"
proof (induction seen m v fs rule: set_nested.induct)
  case (3 seen m v f g fs)
  show ?case
  proof (cases "map_of m f")
    case None
    with "3.IH"(1) [OF None] show ?thesis by (auto simp: bind_result_Panic_iff)
  next
    case (Some x)
    with "3.IH"(2) [OF Some] show ?thesis by (cases x) (auto simp: bind_result_Panic_iff)
  qed
qed auto

section \<open>Reading after writing\<close>

lemma nested_from_set_same:
  "set_nested seen m v fs = Ok m' \<Longrightarrow> nested_from seen' (JObj m') fs = Ok (Some v)"
proof (induction seen m v fs arbitrary: m' seen' rule: set_nested.induct)
  case (3 seen m v f g fs)
  show ?case
  proof (cases "map_of m f")
    case None
    with "3.prems" "3.IH"(1) [OF None] show ?thesis by auto
  next
    case (Some x)
    with "3.prems" "3.IH"(2) [OF Some] show ?thesis by (cases x) auto
  qed
qed auto

lemma nested_from_empty_obj [simp]: "nested_from seen (JObj []) (f # fs) = Ok None"
  by simp

lemma nested_from_set_apart:
  "set_nested seen m v fs = Ok m' \<Longrightarrow> apart fs gs \<Longrightarrow>
   nested_from seen' (JObj m') gs = nested_from seen' (JObj m) gs"
proof (induction seen m v fs arbitrary: m' gs seen' rule: set_nested.induct)
  case (1 seen m v)
  then show ?case by simp
next
  case (2 seen m v f)
  then show ?case by (cases gs) (auto split: option.splits)
next
  case (3 seen m v f g fs)
  then obtain h hs where gs: "gs = h # hs" by (cases gs) auto
  show ?case
  proof (cases "h = f")
    case False
    with 3 gs show ?thesis by (auto split: option.splits json.splits)
  next
    case True
    with "3.prems"(2) gs have ap: "apart (g # fs) hs" by simp
    then obtain k ks where hs: "hs = k # ks" by (cases hs) auto
    show ?thesis
    proof (cases "map_of m f")
      case None
      with "3.prems"(1) obtain m1 where m1: "set_nested (seen @ [f]) [] v (g # fs) = Ok m1"
        "m' = AList.update f (JObj m1) m" by auto
      from "3.IH"(1) [OF None m1(1) ap] gs hs True m1(2) None show ?thesis by simp
    next
      case (Some x)
      with "3.prems"(1) obtain m1 m2 where m1: "x = JObj m1"
        "set_nested (seen @ [f]) m1 v (g # fs) = Ok m2" "m' = AList.update f (JObj m2) m"
        by (cases x) auto
      from "3.IH"(2) [OF Some m1(1) m1(2) ap] gs True m1 Some show ?thesis by simp
    qed
  qed
qed

lemma nested_from_remove_same:
  "fs \<noteq> [] \<Longrightarrow> settable m fs \<Longrightarrow> nested_from seen (JObj (RemoveNestedField m fs)) fs = Ok None"
proof (induction m fs arbitrary: seen rule: RemoveNestedField.induct)
  case (3 m f g fs)
  show ?case
  proof (cases "map_of m f")
    case None
    then show ?thesis by simp
  next
    case (Some x)
    with "3.prems" obtain m1 where x: "x = JObj m1" "settable m1 (g # fs)" by (cases x) auto
    then have "nested_from (seen @ [f]) (JObj (RemoveNestedField m1 (g # fs))) (g # fs) = Ok None"
      by (intro "3.IH" [OF Some]) simp_all
    with Some x(1) show ?thesis by simp
  qed
qed auto

lemma nested_from_remove_apart:
  "apart fs gs \<Longrightarrow> nested_from seen (JObj (RemoveNestedField m fs)) gs = nested_from seen (JObj m) gs"
proof (induction m fs arbitrary: gs seen rule: RemoveNestedField.induct)
  case (1 m)
  then show ?case by simp
next
  case (2 m f)
  then show ?case by (cases gs) (auto split: option.splits)
next
  case (3 m f g fs)
  then obtain h hs where gs: "gs = h # hs" by (cases gs) auto
  with 3 show ?case by (auto split: option.splits json.splits)
qed

section \<open>The same, for the exported helpers\<close>

lemma SetNestedField_eq: "SetNestedField m v fs = set_nested [] m v fs"
  by (simp add: SetNestedField_def setNestedFieldNoCopy_def)

lemma SetNestedField_Ok_iff: "(\<exists>m'. SetNestedField m v fs = Ok m') \<longleftrightarrow> settable m fs"
  by (simp add: SetNestedField_eq set_nested_Ok_iff)

lemma NestedFieldNoCopy_set_same [object_simps]:
  "SetNestedField m v fs = Ok m' \<Longrightarrow> NestedFieldNoCopy m' fs = Ok (Some v)"
  by (simp add: SetNestedField_eq NestedFieldNoCopy_def nested_from_set_same)

lemma NestedFieldNoCopy_set_apart [object_simps]:
  "SetNestedField m v fs = Ok m' \<Longrightarrow> apart fs gs \<Longrightarrow> NestedFieldNoCopy m' gs = NestedFieldNoCopy m gs"
  by (simp add: SetNestedField_eq NestedFieldNoCopy_def nested_from_set_apart)

lemma NestedFieldNoCopy_remove_same [object_simps]:
  "fs \<noteq> [] \<Longrightarrow> settable m fs \<Longrightarrow> NestedFieldNoCopy (RemoveNestedField m fs) fs = Ok None"
  by (simp add: NestedFieldNoCopy_def nested_from_remove_same)

lemma NestedFieldNoCopy_remove_apart [object_simps]:
  "apart fs gs \<Longrightarrow> NestedFieldNoCopy (RemoveNestedField m fs) gs = NestedFieldNoCopy m gs"
  by (simp add: NestedFieldNoCopy_def nested_from_remove_apart)

text \<open>All typed readers look only at the field they read.\<close>

lemma typed_field_cong:
  "NestedFieldNoCopy m fs = NestedFieldNoCopy m' fs \<Longrightarrow> typed_field c e m fs = typed_field c e m' fs"
  by (simp add: typed_field_def)

lemma getNestedString_cong:
  "NestedFieldNoCopy m fs = NestedFieldNoCopy m' fs \<Longrightarrow> getNestedString m fs = getNestedString m' fs"
  by (simp add: getNestedString_def NestedString_def typed_field_cong [of m fs m'])

lemma NestedInt64_cong:
  "NestedFieldNoCopy m fs = NestedFieldNoCopy m' fs \<Longrightarrow> NestedInt64 m fs = NestedInt64 m' fs"
  unfolding NestedInt64_def by (rule typed_field_cong)

lemma NestedStringMap_cong:
  "NestedFieldNoCopy m fs = NestedFieldNoCopy m' fs \<Longrightarrow> NestedStringMap m fs = NestedStringMap m' fs"
  unfolding NestedStringMap_def nestedMapNoCopy_def by (simp only: typed_field_cong [of m fs m'])

lemma NestedStringSlice_cong:
  "NestedFieldNoCopy m fs = NestedFieldNoCopy m' fs \<Longrightarrow> NestedStringSlice m fs = NestedStringSlice m' fs"
  unfolding NestedStringSlice_def by (simp only: typed_field_cong [of m fs m'])

lemma getNestedString_found:
  "NestedFieldNoCopy m fs = Ok (Some (JStr s)) \<Longrightarrow> getNestedString m fs = s"
  by (simp add: getNestedString_def NestedString_def typed_field_def)

lemma getNestedString_missing:
  "NestedFieldNoCopy m fs = Ok None \<Longrightarrow> getNestedString m fs = []"
  by (simp add: getNestedString_def NestedString_def typed_field_def)

lemma map_result_string_map:
  "map_result (\<lambda>(k, v). bind_result (string_element fs what v) (\<lambda>s. Ok (k, s))) (string_map kvs) = Ok kvs"
  by (induction kvs) (auto simp: string_map_def string_element_def)

lemma NestedStringMap_found:
  "NestedFieldNoCopy m fs = Ok (Some (JObj (string_map kvs))) \<Longrightarrow> NestedStringMap m fs = Ok (Some kvs)"
  by (simp add: NestedStringMap_def nestedMapNoCopy_def typed_field_def map_result_string_map)

lemma map_result_JStr: "map_result (string_element fs what) (map JStr ss) = Ok ss"
  by (induction ss) (auto simp: string_element_def)

lemma NestedStringSlice_found:
  "NestedFieldNoCopy m fs = Ok (Some (JArr (map JStr ss))) \<Longrightarrow> NestedStringSlice m fs = Ok (Some ss)"
  by (simp add: NestedStringSlice_def typed_field_def map_result_JStr)

lemma SetNestedStringMap_eq: "SetNestedStringMap m kvs fs = SetNestedField m (JObj (string_map kvs)) fs"
  by (simp add: SetNestedStringMap_def SetNestedField_def)

lemma SetNestedStringSlice_eq: "SetNestedStringSlice m ss fs = SetNestedField m (JArr (map JStr ss)) fs"
  by (simp add: SetNestedStringSlice_def SetNestedField_def)

text \<open>Writing and reading back a string map, a string slice, an integer: the round trips.\<close>

lemma NestedStringMap_roundtrip:
  "SetNestedStringMap m kvs fs = Ok m' \<Longrightarrow> NestedStringMap m' fs = Ok (Some kvs)"
  by (simp add: SetNestedStringMap_eq NestedFieldNoCopy_set_same NestedStringMap_found)

lemma NestedStringSlice_roundtrip:
  "SetNestedStringSlice m ss fs = Ok m' \<Longrightarrow> NestedStringSlice m' fs = Ok (Some ss)"
  by (simp add: SetNestedStringSlice_eq NestedFieldNoCopy_set_same NestedStringSlice_found)

lemma NestedInt64_roundtrip:
  "SetNestedField m (JInt i) fs = Ok m' \<Longrightarrow> NestedInt64 m' fs = Ok (Some i)"
  using NestedFieldNoCopy_set_same [of m "JInt i" fs m'] by (simp add: NestedInt64_def typed_field_def)

text \<open>Whether a second level can be written below a top-level field.\<close>

definition level_ok :: "obj \<Rightarrow> string \<Rightarrow> bool" where
  "level_ok m f \<longleftrightarrow> (case map_of m f of None \<Rightarrow> True | Some (JObj m1) \<Rightarrow> True | Some _ \<Rightarrow> False)"

lemma settable_two [simp]: "settable m [f, k] \<longleftrightarrow> level_ok m f"
  by (simp add: level_ok_def split: option.splits json.splits)

lemma level_ok_empty [simp]: "level_ok [] f"
  by (simp add: level_ok_def)

lemma set_nested_map_of_other:
  "set_nested seen m v (g # fs) = Ok m' \<Longrightarrow> f \<noteq> g \<Longrightarrow> map_of m' f = map_of m f"
  by (cases fs) (auto split: option.splits json.splits)

lemma set_nested_level_ok: "set_nested seen m v (f # k # fs) = Ok m' \<Longrightarrow> level_ok m' f"
  by (auto simp: level_ok_def split: option.splits json.splits)

lemma SetNestedField_level_ok:
  "SetNestedField m v (g # k # fs) = Ok m' \<Longrightarrow> level_ok m f \<Longrightarrow> level_ok m' f"
  using set_nested_level_ok [of "[]" m v g k fs m'] set_nested_map_of_other [of "[]" m v g "k # fs" m' f]
  by (cases "f = g") (auto simp: SetNestedField_eq level_ok_def)

lemma RemoveNestedField_level_ok [simp]:
  "level_ok m f \<Longrightarrow> level_ok (RemoveNestedField m (g # k # fs)) f"
  by (cases "map_of m g") (auto simp: level_ok_def split: json.splits)

text \<open>From here on the recursive definitions are used through their laws.\<close>

declare RemoveNestedField.simps [simp del] settable.simps [simp del] set_nested.simps [simp del]

lemma settable_short [simp]: "\<not> settable m []" "settable m [f]"
  by (simp_all add: settable.simps)

end
