(* ===== verification/Object_Meta.thy ===== *)
theory Object_Meta
  imports Nested_Laws Group_Version
begin

text \<open>
  The metadata accessors of \<open>unstructured.Unstructured\<close> (\<open>unstructured.go\<close>) and their laws. A
  setter drops the error of the write, so it leaves the object alone when a level of the path is
  not an object; \<open>meta_ok\<close> says that the metadata can be written.
\<close>

section \<open>Accessors\<close>

definition set_field :: "obj \<Rightarrow> json \<Rightarrow> string list \<Rightarrow> obj" where
  "set_field u v path = (case SetNestedField u v path of Ok u' \<Rightarrow> u' | _ \<Rightarrow> u)"

definition set_string :: "string \<Rightarrow> string list \<Rightarrow> obj \<Rightarrow> obj" where
  "set_string s path u =
     (if s = [] then RemoveNestedField u path else set_field u (JStr s) path)"

definition GetAPIVersion :: "obj \<Rightarrow> string" where
  "GetAPIVersion u = getNestedString u [''apiVersion'']"

definition SetAPIVersion :: "string \<Rightarrow> obj \<Rightarrow> obj" where
  "SetAPIVersion version u = set_field u (JStr version) [''apiVersion'']"

definition GetKind :: "obj \<Rightarrow> string" where
  "GetKind u = getNestedString u [''kind'']"

definition SetKind :: "string \<Rightarrow> obj \<Rightarrow> obj" where
  "SetKind kind u = set_field u (JStr kind) [''kind'']"

definition GetNamespace :: "obj \<Rightarrow> string" where
  "GetNamespace u = getNestedString u [''metadata'', ''namespace'']"

definition SetNamespace :: "string \<Rightarrow> obj \<Rightarrow> obj" where
  "SetNamespace namespace = set_string namespace [''metadata'', ''namespace'']"

definition GetName :: "obj \<Rightarrow> string" where
  "GetName u = getNestedString u [''metadata'', ''name'']"

definition SetName :: "string \<Rightarrow> obj \<Rightarrow> obj" where
  "SetName name = set_string name [''metadata'', ''name'']"

definition GetUID :: "obj \<Rightarrow> string" where
  "GetUID u = getNestedString u [''metadata'', ''uid'']"

definition GetResourceVersion :: "obj \<Rightarrow> string" where
  "GetResourceVersion u = getNestedString u [''metadata'', ''resourceVersion'']"

definition SetResourceVersion :: "string \<Rightarrow> obj \<Rightarrow> obj" where
  "SetResourceVersion rv = set_string rv [''metadata'', ''resourceVersion'']"

text \<open>The argument is the marshalled text of the time, which is empty for the zero time.\<close>

definition SetCreationTimestamp :: "string \<Rightarrow> obj \<Rightarrow> obj" where
  "SetCreationTimestamp ts = set_string ts [''metadata'', ''creationTimestamp'']"

definition GetLabels :: "obj \<Rightarrow> string gomap" where
  "GetLabels u = (case NestedStringMap u [''metadata'', ''labels''] of Ok (Some m) \<Rightarrow> m | _ \<Rightarrow> [])"

definition GetAnnotations :: "obj \<Rightarrow> string gomap" where
  "GetAnnotations u = (case NestedStringMap u [''metadata'', ''annotations''] of Ok (Some m) \<Rightarrow> m | _ \<Rightarrow> [])"

text \<open>\<open>None\<close> is the nil map, which removes the field.\<close>

definition SetAnnotations :: "string gomap option \<Rightarrow> obj \<Rightarrow> obj" where
  "SetAnnotations annotations u =
     (case annotations of
        None \<Rightarrow> RemoveNestedField u [''metadata'', ''annotations'']
      | Some m \<Rightarrow> (case SetNestedStringMap u m [''metadata'', ''annotations''] of Ok u' \<Rightarrow> u' | _ \<Rightarrow> u))"

definition GetFinalizers :: "obj \<Rightarrow> string list" where
  "GetFinalizers u = (case NestedStringSlice u [''metadata'', ''finalizers''] of Ok (Some m) \<Rightarrow> m | _ \<Rightarrow> [])"

definition GroupVersionKind_of :: "obj \<Rightarrow> GroupVersionKind" where
  "GroupVersionKind_of u =
     (case ParseGroupVersion (GetAPIVersion u) of
        Ok gv \<Rightarrow> WithKind gv (GetKind u)
      | _ \<Rightarrow> \<lparr>gvkGroup = [], gvkVersion = [], gvkKind = []\<rparr>)"

section \<open>Owner references\<close>

record OwnerReference =
  or_APIVersion :: string
  or_Kind :: string
  or_Name :: string
  or_UID :: string
  or_Controller :: "bool option"
  or_BlockOwnerDeletion :: "bool option"

text \<open>
  \<open>DefaultUnstructuredConverter.ToUnstructured\<close> of an owner reference: the two pointers have
  \<open>omitempty\<close>.
\<close>

definition OwnerReference_json :: "OwnerReference \<Rightarrow> obj" where
  "OwnerReference_json ref =
     [(''apiVersion'', JStr (or_APIVersion ref)), (''kind'', JStr (or_Kind ref)),
      (''name'', JStr (or_Name ref)), (''uid'', JStr (or_UID ref))]
     @ (case or_Controller ref of None \<Rightarrow> [] | Some b \<Rightarrow> [(''controller'', JBool b)])
     @ (case or_BlockOwnerDeletion ref of None \<Rightarrow> [] | Some b \<Rightarrow> [(''blockOwnerDeletion'', JBool b)])"

definition extractOwnerReference :: "obj \<Rightarrow> OwnerReference" where
  "extractOwnerReference v =
     \<lparr>or_APIVersion = getNestedString v [''apiVersion''], or_Kind = getNestedString v [''kind''],
      or_Name = getNestedString v [''name''], or_UID = getNestedString v [''uid''],
      or_Controller = (case NestedBool v [''controller''] of Ok (Some b) \<Rightarrow> Some b | _ \<Rightarrow> None),
      or_BlockOwnerDeletion =
        (case NestedBool v [''blockOwnerDeletion''] of Ok (Some b) \<Rightarrow> Some b | _ \<Rightarrow> None)\<rparr>"

text \<open>\<open>None\<close> is the nil slice.\<close>

definition SetOwnerReferences :: "OwnerReference list option \<Rightarrow> obj \<Rightarrow> obj" where
  "SetOwnerReferences references u =
     (case references of
        None \<Rightarrow> RemoveNestedField u [''metadata'', ''ownerReferences'']
      | Some refs \<Rightarrow> set_field u (JArr (map (\<lambda>r. JObj (OwnerReference_json r)) refs))
                      [''metadata'', ''ownerReferences''])"

fun extract_all :: "json list \<Rightarrow> OwnerReference list option" where
  "extract_all [] = Some []"
| "extract_all (JObj o1 # rest) = map_option (\<lambda>rs. extractOwnerReference o1 # rs) (extract_all rest)"
| "extract_all (_ # rest) = None"

definition GetOwnerReferences :: "obj \<Rightarrow> OwnerReference list" where
  "GetOwnerReferences u =
     (case NestedFieldNoCopy u [''metadata'', ''ownerReferences''] of
        Ok (Some (JArr original)) \<Rightarrow> (case extract_all original of Some rs \<Rightarrow> rs | None \<Rightarrow> [])
      | _ \<Rightarrow> [])"

text \<open>\<open>metav1.NewControllerRef\<close> for an owner with this group, version, kind, name and UID.\<close>

definition NewControllerRef :: "GroupVersionKind \<Rightarrow> string \<Rightarrow> string \<Rightarrow> OwnerReference" where
  "NewControllerRef gvk name uid =
     \<lparr>or_APIVersion = gv_String \<lparr>gvGroup = gvkGroup gvk, gvVersion = gvkVersion gvk\<rparr>,
      or_Kind = gvkKind gvk, or_Name = name, or_UID = uid,
      or_Controller = Some True, or_BlockOwnerDeletion = Some True\<rparr>"

section \<open>Laws\<close>

abbreviation meta_ok :: "obj \<Rightarrow> bool" where
  "meta_ok u \<equiv> level_ok u ''metadata''"

lemma set_field_apart [object_simps]:
  "apart fs gs \<Longrightarrow> NestedFieldNoCopy (set_field u v fs) gs = NestedFieldNoCopy u gs"
  by (auto simp: set_field_def object_simps split: result.splits)

lemma set_field_same [object_simps]:
  "settable u fs \<Longrightarrow> NestedFieldNoCopy (set_field u v fs) fs = Ok (Some v)"
  using SetNestedField_Ok_iff [of u v fs] by (auto simp: set_field_def object_simps)

lemma set_field_level_ok [simp]: "level_ok u f \<Longrightarrow> level_ok (set_field u v (g # k # fs)) f"
  by (auto simp: set_field_def split: result.splits dest: SetNestedField_level_ok)

lemma set_string_level_ok [simp]: "level_ok u f \<Longrightarrow> level_ok (set_string s (g # k # fs) u) f"
  by (simp add: set_string_def)

lemma set_string_apart [object_simps]:
  "apart fs gs \<Longrightarrow> NestedFieldNoCopy (set_string s fs u) gs = NestedFieldNoCopy u gs"
  by (simp add: set_string_def object_simps)

lemma set_string_same [object_simps]:
  "settable u fs \<Longrightarrow> getNestedString (set_string s fs u) fs = s"
proof (cases "s = []")
  case True
  assume "settable u fs"
  moreover from this have "fs \<noteq> []" by auto
  ultimately show ?thesis using True by (simp add: set_string_def object_simps getNestedString_missing)
next
  case False
  assume "settable u fs"
  with False show ?thesis by (simp add: set_string_def object_simps getNestedString_found)
qed

lemma SetAnnotations_apart [object_simps]:
  "apart [''metadata'', ''annotations''] gs \<Longrightarrow>
   NestedFieldNoCopy (SetAnnotations a u) gs = NestedFieldNoCopy u gs"
  by (auto simp: SetAnnotations_def SetNestedStringMap_eq object_simps split: option.splits result.splits)

lemma SetOwnerReferences_apart [object_simps]:
  "apart [''metadata'', ''ownerReferences''] gs \<Longrightarrow>
   NestedFieldNoCopy (SetOwnerReferences refs u) gs = NestedFieldNoCopy u gs"
  by (auto simp: SetOwnerReferences_def object_simps split: option.splits)

text \<open>Reading the identity of an object depends on four fields only.\<close>

lemmas identity_defs = GetAPIVersion_def GetKind_def GetNamespace_def GetName_def

lemma identity_cong:
  "NestedFieldNoCopy u [''apiVersion''] = NestedFieldNoCopy u' [''apiVersion''] \<Longrightarrow> GetAPIVersion u = GetAPIVersion u'"
  "NestedFieldNoCopy u [''kind''] = NestedFieldNoCopy u' [''kind''] \<Longrightarrow> GetKind u = GetKind u'"
  "NestedFieldNoCopy u [''metadata'', ''namespace''] = NestedFieldNoCopy u' [''metadata'', ''namespace''] \<Longrightarrow>
     GetNamespace u = GetNamespace u'"
  "NestedFieldNoCopy u [''metadata'', ''name''] = NestedFieldNoCopy u' [''metadata'', ''name''] \<Longrightarrow>
     GetName u = GetName u'"
  unfolding identity_defs by (rule getNestedString_cong, assumption)+

lemma GetNamespace_SetNamespace [object_simps]:
  "meta_ok u \<Longrightarrow> GetNamespace (SetNamespace ns u) = ns"
  by (simp add: GetNamespace_def SetNamespace_def object_simps)

lemma GetName_SetName [object_simps]: "meta_ok u \<Longrightarrow> GetName (SetName n u) = n"
  by (simp add: GetName_def SetName_def object_simps)

lemma GetKind_SetKind [object_simps]: "GetKind (SetKind k u) = k"
  unfolding GetKind_def SetKind_def by (rule getNestedString_found) (simp add: object_simps)

lemma GetAPIVersion_SetAPIVersion [object_simps]: "GetAPIVersion (SetAPIVersion v u) = v"
  unfolding GetAPIVersion_def SetAPIVersion_def by (rule getNestedString_found) (simp add: object_simps)

lemma identity_SetNamespace [kind_simps]:
  "GetAPIVersion (SetNamespace ns u) = GetAPIVersion u" "GetKind (SetNamespace ns u) = GetKind u"
  "GetName (SetNamespace ns u) = GetName u"
  by (rule identity_cong, simp add: SetNamespace_def object_simps)+

lemma identity_SetName [kind_simps]:
  "GetAPIVersion (SetName n u) = GetAPIVersion u" "GetKind (SetName n u) = GetKind u"
  "GetNamespace (SetName n u) = GetNamespace u"
  by (rule identity_cong, simp add: SetName_def object_simps)+

lemma identity_SetOwnerReferences [kind_simps]:
  "GetAPIVersion (SetOwnerReferences r u) = GetAPIVersion u" "GetKind (SetOwnerReferences r u) = GetKind u"
  "GetName (SetOwnerReferences r u) = GetName u" "GetNamespace (SetOwnerReferences r u) = GetNamespace u"
  by (rule identity_cong, simp add: object_simps)+

lemma identity_SetCreationTimestamp [kind_simps]:
  "GetAPIVersion (SetCreationTimestamp t u) = GetAPIVersion u" "GetKind (SetCreationTimestamp t u) = GetKind u"
  "GetName (SetCreationTimestamp t u) = GetName u" "GetNamespace (SetCreationTimestamp t u) = GetNamespace u"
  by (rule identity_cong, simp add: SetCreationTimestamp_def object_simps)+

lemma identity_SetAnnotations [kind_simps]:
  "GetAPIVersion (SetAnnotations a u) = GetAPIVersion u" "GetKind (SetAnnotations a u) = GetKind u"
  "GetName (SetAnnotations a u) = GetName u" "GetNamespace (SetAnnotations a u) = GetNamespace u"
  by (rule identity_cong, simp add: object_simps)+

text \<open>Reading an owner reference back.\<close>

lemma extract_OwnerReference_json [simp]: "extractOwnerReference (OwnerReference_json r) = r"
  by (cases r)
    (auto simp: extractOwnerReference_def OwnerReference_json_def getNestedString_def NestedString_def
      NestedBool_def typed_field_def NestedFieldNoCopy_def split: option.splits)

lemma extract_all_json [simp]: "extract_all (map (\<lambda>r. JObj (OwnerReference_json r)) rs) = Some rs"
  by (induction rs) auto

lemma GetOwnerReferences_SetOwnerReferences:
  "meta_ok u \<Longrightarrow> GetOwnerReferences (SetOwnerReferences (Some refs) u) = refs"
  by (simp add: GetOwnerReferences_def SetOwnerReferences_def object_simps)

lemma GetAnnotations_SetAnnotations:
  assumes "meta_ok u"
  shows "GetAnnotations (SetAnnotations (Some a) u) = a"
proof -
  from assms obtain u' where "SetNestedStringMap u a [''metadata'', ''annotations''] = Ok u'"
    using SetNestedField_Ok_iff [of u "JObj (string_map a)" "[''metadata'', ''annotations'']"]
    by (auto simp: SetNestedStringMap_eq)
  then show ?thesis by (simp add: SetAnnotations_def GetAnnotations_def NestedStringMap_roundtrip)
qed

end
