(* ===== verification/Manifest_Filter.thy ===== *)
theory Manifest_Filter
  imports Object_Meta
begin

text \<open>
  Selecting resources of a manifest: \<open>vendor/github.com/manifestival/manifestival/filter.go\<close> and
  \<open>Manifest.Resources\<close>. A manifest is the list of its resources; its client and its logger are
  arguments of the operations that use them. The predicates the operator uses do not change the
  objects they look at, so a predicate is a Boolean function.
\<close>

type_synonym manifest = "obj list"
type_synonym predicate = "obj \<Rightarrow> bool"

text \<open>\<open>m.Resources()\<close>: a deep copy of every resource.\<close>

definition DeepCopy :: "obj \<Rightarrow> obj" where
  "DeepCopy u = map (\<lambda>(k, v). (k, DeepCopyJSONValue v)) u"

definition resources_of :: "manifest \<Rightarrow> obj list" where
  "resources_of m = map DeepCopy m"

fun All_of :: "predicate list \<Rightarrow> predicate" where
  "All_of [] u = True"
| "All_of (p # preds) u = (if \<not> p u then False else All_of preds u)"

fun Any_of :: "predicate list \<Rightarrow> predicate" where
  "Any_of [] u = False"
| "Any_of (p # preds) u = (if p u then True else Any_of preds u)"

definition None_of :: "predicate list \<Rightarrow> predicate" where
  "None_of preds u = (\<not> Any_of preds u)"

fun filter_loop :: "predicate \<Rightarrow> obj list \<Rightarrow> obj list \<Rightarrow> obj list" where
  "filter_loop pred [] acc = acc"
| "filter_loop pred (spec # specs) acc =
     (if \<not> pred spec then filter_loop pred specs acc else filter_loop pred specs (acc @ [spec]))"

definition Filter :: "predicate list \<Rightarrow> manifest \<Rightarrow> manifest" where
  "Filter preds m = filter_loop (All_of preds) (resources_of m) []"

definition ByName :: "string \<Rightarrow> predicate" where
  "ByName name u = (GetName u = name)"

definition ByKind :: "string \<Rightarrow> predicate" where
  "ByKind kind u = (GetKind u = kind)"

definition CRDs :: predicate where
  "CRDs = ByKind ''CustomResourceDefinition''"

definition NoCRDs :: predicate where
  "NoCRDs = None_of [CRDs]"

text \<open>A value of \<open>''''\<close> stands for any value of the label.\<close>

definition ByLabel :: "string \<Rightarrow> string \<Rightarrow> predicate" where
  "ByLabel label value u =
     (if value = [] then has_key label (GetLabels u)
      else lookup_or [] (GetLabels u) label = value)"

definition ByLabels :: "string gomap \<Rightarrow> predicate" where
  "ByLabels labels u = (\<exists>(k, v) \<in> set labels. lookup_or [] (GetLabels u) k = v)"

definition ByGVK :: "GroupVersionKind \<Rightarrow> predicate" where
  "ByGVK gvk u = (GroupVersionKind_of u = gvk)"

section \<open>Laws\<close>

lemma DeepCopy_id [simp]: "DeepCopy u = u"
  by (simp add: DeepCopy_def split_def)

lemma resources_of_id [simp]: "resources_of m = m"
  by (simp add: resources_of_def map_idI)

lemma All_of_iff [simp]: "All_of preds u \<longleftrightarrow> (\<forall>p \<in> set preds. p u)"
  by (induction preds u rule: All_of.induct) auto

lemma Any_of_iff [simp]: "Any_of preds u \<longleftrightarrow> (\<exists>p \<in> set preds. p u)"
  by (induction preds u rule: Any_of.induct) auto

lemma None_of_iff [simp]: "None_of preds u \<longleftrightarrow> (\<forall>p \<in> set preds. \<not> p u)"
  by (simp add: None_of_def)

lemma filter_loop_eq: "filter_loop pred specs acc = acc @ filter pred specs"
  by (induction pred specs acc rule: filter_loop.induct) auto

text \<open>\<open>Filter\<close> keeps exactly the resources every predicate accepts, in the order of the manifest.\<close>

lemma Filter_eq: "Filter preds m = filter (\<lambda>u. \<forall>p \<in> set preds. p u) m"
  by (auto simp: Filter_def filter_loop_eq intro!: filter_cong)

lemma Filter_append: "Filter ps (Filter qs m) = Filter (ps @ qs) m"
  by (auto simp: Filter_eq intro: filter_cong)

lemma NoCRDs_iff: "NoCRDs u \<longleftrightarrow> GetKind u \<noteq> ''CustomResourceDefinition''"
  by (simp add: NoCRDs_def CRDs_def ByKind_def)

end
