(* ===== verification/Manifest_Transform.thy ===== *)
theory Manifest_Transform
  imports Manifest_Filter
begin

text \<open>
  Transforming the resources of a manifest: \<open>manifestival/transform.go\<close>. A transformer changes one
  object in place and may fail; the model returns the changed object. A failed type assertion
  panics. \<open>os.Getenv\<close> is the argument \<open>getenv\<close>.

  The locale \<open>transformer_chain\<close> is the contract between \<open>Manifest.Transform\<close> and the transformers it
  is given: each keeps a relation between an object and what it becomes. Under it, transforming a manifest keeps its resources in
  order and selecting by kind commutes with it.
\<close>

section \<open>Transform\<close>

type_synonym transformer = "obj \<Rightarrow> obj result"

definition run_transformer :: "transformer option \<Rightarrow> obj \<Rightarrow> obj result" where
  "run_transformer t spec = (case t of None \<Rightarrow> Ok spec | Some f \<Rightarrow> f spec)"

definition Transform :: "transformer option list \<Rightarrow> manifest \<Rightarrow> manifest result" where
  "Transform fns m = map_result (fold_result run_transformer fns) (resources_of m)"

section \<open>The transformers of the library\<close>

definition lower_char :: "char \<Rightarrow> char" where
  "lower_char c = (if CHR ''A'' \<le> c \<and> c \<le> CHR ''Z'' then char_of (of_char c + 32 :: nat) else c)"

definition ToLower :: "string \<Rightarrow> string" where
  "ToLower s = map lower_char s"

definition cluster_scoped_kinds :: "string list" where
  "cluster_scoped_kinds =
     [''componentstatus'', ''namespace'', ''node'', ''persistentvolume'',
      ''mutatingwebhookconfiguration'', ''validatingwebhookconfiguration'',
      ''customresourcedefinition'', ''apiservice'', ''meshpolicy'', ''tokenreview'',
      ''selfsubjectaccessreview'', ''selfsubjectrulesreview'', ''subjectaccessreview'',
      ''certificatesigningrequest'', ''podsecuritypolicy'', ''clusterrolebinding'', ''clusterrole'',
      ''priorityclass'', ''storageclass'', ''volumeattachment'']"

definition isClusterScoped :: "string \<Rightarrow> bool" where
  "isClusterScoped kind \<longleftrightarrow> ToLower kind \<in> set cluster_scoped_kinds"

definition resolveEnv :: "(string \<Rightarrow> string) \<Rightarrow> string \<Rightarrow> string" where
  "resolveEnv getenv x =
     (if length x > 1 \<and> take 1 x = ''$'' then getenv (drop 1 x) else x)"

definition bad_assertion :: "'a result" where
  "bad_assertion = Panic ''interface conversion''"

text \<open>\<open>m["namespace"] = namespace\<close>, for the service of a webhook or an API service.\<close>

fun inject_service :: "string \<Rightarrow> obj \<Rightarrow> obj result" where
  "inject_service ns m =
     (case map_of m ''service'' of
        None \<Rightarrow> Ok m
      | Some (JObj srv) \<Rightarrow> Ok (AList.update ''service'' (JObj (AList.update ''namespace'' (JStr ns) srv)) m)
      | Some _ \<Rightarrow> bad_assertion)"

fun inject_subject :: "string \<Rightarrow> json \<Rightarrow> json result" where
  "inject_subject ns (JObj m) =
     Ok (JObj (if has_key ''namespace'' m then AList.update ''namespace'' (JStr ns) m else m))"
| "inject_subject ns _ = bad_assertion"

fun inject_hook :: "string \<Rightarrow> json \<Rightarrow> json result" where
  "inject_hook ns (JObj m) =
     (case map_of m ''clientConfig'' of
        None \<Rightarrow> Ok (JObj m)
      | Some (JObj cfg) \<Rightarrow>
          bind_result (inject_service ns cfg) (\<lambda>cfg'. Ok (JObj (AList.update ''clientConfig'' (JObj cfg') m)))
      | Some _ \<Rightarrow> bad_assertion)"
| "inject_hook ns _ = bad_assertion"

text \<open>Ranging over the slice at a top-level field, which must be there and be a slice.\<close>

definition inject_each :: "(json \<Rightarrow> json result) \<Rightarrow> string \<Rightarrow> obj \<Rightarrow> obj result" where
  "inject_each f field u =
     (case map_of u field of
        Some (JArr xs) \<Rightarrow> bind_result (map_result f xs) (\<lambda>ys. Ok (AList.update field (JArr ys) u))
      | _ \<Rightarrow> bad_assertion)"

definition inject_spec_service :: "string \<Rightarrow> obj \<Rightarrow> obj result" where
  "inject_spec_service ns u =
     (case map_of u ''spec'' of
        Some (JObj m) \<Rightarrow> bind_result (inject_service ns m) (\<lambda>m'. Ok (AList.update ''spec'' (JObj m') u))
      | _ \<Rightarrow> bad_assertion)"

text \<open>The \<open>switch\<close> on the lower-cased kind.\<close>

definition inject_by_kind :: "string \<Rightarrow> obj \<Rightarrow> obj result" where
  "inject_by_kind ns u =
     (let kind = ToLower (GetKind u) in
      if kind = ''namespace'' then Ok (SetName ns u)
      else if kind = ''clusterrolebinding'' \<or> kind = ''rolebinding''
      then inject_each (inject_subject ns) ''subjects'' u
      else if kind = ''validatingwebhookconfiguration'' \<or> kind = ''mutatingwebhookconfiguration''
      then inject_each (inject_hook ns) ''webhooks'' u
      else if kind = ''apiservice'' then inject_spec_service ns u
      else Ok u)"

definition InjectNamespace :: "(string \<Rightarrow> string) \<Rightarrow> string \<Rightarrow> transformer" where
  "InjectNamespace getenv ns u =
     (let namespace = resolveEnv getenv ns in
      bind_result (inject_by_kind namespace u)
        (\<lambda>u'. Ok (if \<not> isClusterScoped (GetKind u') then SetNamespace namespace u' else u')))"

definition InjectOwner :: "OwnerReference \<Rightarrow> transformer" where
  "InjectOwner ref u =
     Ok (if \<not> isClusterScoped (GetKind u) then SetOwnerReferences (Some [ref]) u else u)"

section \<open>The contract of a transformer\<close>

text \<open>Two versions of one object: same kind, and the same name unless it is a namespace.\<close>

definition is_namespace :: "obj \<Rightarrow> bool" where
  "is_namespace u \<longleftrightarrow> ToLower (GetKind u) = ''namespace''"

definition same_object :: "obj \<Rightarrow> obj \<Rightarrow> bool" where
  "same_object u u' \<longleftrightarrow> GetKind u' = GetKind u \<and> (\<not> is_namespace u \<longrightarrow> GetName u' = GetName u)"

lemma same_object_refl [simp]: "same_object u u"
  by (simp add: same_object_def)

lemma same_object_trans: "same_object u v \<Longrightarrow> same_object v w \<Longrightarrow> same_object u w"
  by (auto simp: same_object_def is_namespace_def)

text \<open>What is checked of an object before and after a conversion, besides its kind and name.\<close>

definition owned_by :: "obj \<Rightarrow> OwnerReference list \<Rightarrow> bool" where
  "owned_by u refs \<longleftrightarrow>
     NestedFieldNoCopy u [''metadata'', ''ownerReferences''] = Ok (Some (JArr (map (\<lambda>r. JObj (OwnerReference_json r)) refs)))"

lemma owned_by_GetOwnerReferences: "owned_by u refs \<Longrightarrow> GetOwnerReferences u = refs"
  by (simp add: owned_by_def GetOwnerReferences_def)

text \<open>Another version of the same object: same kind, name, namespace and owners.\<close>

definition same_meta :: "obj \<Rightarrow> obj \<Rightarrow> bool" where
  "same_meta u u' \<longleftrightarrow>
     GetKind u' = GetKind u \<and> GetName u' = GetName u \<and> GetNamespace u' = GetNamespace u \<and>
     (\<forall>refs. refs \<noteq> [] \<longrightarrow> owned_by u refs \<longrightarrow> owned_by u' refs)"

lemma same_meta_refl [simp]: "same_meta u u"
  by (simp add: same_meta_def)

lemma same_meta_trans: "same_meta u v \<Longrightarrow> same_meta v w \<Longrightarrow> same_meta u w"
  by (simp add: same_meta_def)

lemma owned_by_cong:
  "NestedFieldNoCopy u [''metadata'', ''ownerReferences''] = NestedFieldNoCopy u' [''metadata'', ''ownerReferences'']
   \<Longrightarrow> owned_by u refs = owned_by u' refs"
  by (simp add: owned_by_def)

text \<open>Four fields decide.\<close>

lemma same_metaI:
  assumes "\<And>g path. g \<in> {''kind'', ''metadata''} \<Longrightarrow> NestedFieldNoCopy u' (g # path) = NestedFieldNoCopy u (g # path)"
  shows "same_meta u u'"
  unfolding same_meta_def
  by (intro conjI allI impI identity_cong assms) (auto simp: owned_by_cong [OF assms])

lemma NestedFieldNoCopy_delete:
  "g \<noteq> f \<Longrightarrow> NestedFieldNoCopy (AList.delete f u) (g # path) = NestedFieldNoCopy u (g # path)"
  by (simp add: NestedFieldNoCopy_def)

lemma delete_same_meta: "f \<noteq> ''kind'' \<Longrightarrow> f \<noteq> ''metadata'' \<Longrightarrow> same_meta u (AList.delete f u)"
  by (rule same_metaI) (auto intro!: NestedFieldNoCopy_delete)

lemma SetCreationTimestamp_same_meta: "same_meta u (SetCreationTimestamp t u)"
proof -
  have "owned_by (SetCreationTimestamp t u) refs = owned_by u refs" for refs
    by (rule owned_by_cong) (simp add: SetCreationTimestamp_def object_simps)
  then show ?thesis by (simp add: same_meta_def kind_simps)
qed

lemma same_meta_same_object: "same_meta u u' \<Longrightarrow> same_object u u'"
  by (simp add: same_meta_def same_object_def)

text \<open>
  What every transformer of the chain keeps, the chain keeps; a selection that depends on nothing
  else commutes with transforming.
\<close>

locale transformer_chain =
  fixes fns :: "transformer option list" and R :: "obj \<Rightarrow> obj \<Rightarrow> bool"
  assumes refl: "R u u"
    and trans: "R u v \<Longrightarrow> R v w \<Longrightarrow> R u w"
    and keeps: "Some f \<in> set fns \<Longrightarrow> f u = Ok u' \<Longrightarrow> R u u'"
begin

lemma run_keeps: "t \<in> set fns \<Longrightarrow> run_transformer t u = Ok u' \<Longrightarrow> R u u'"
  by (cases t) (auto simp: run_transformer_def refl dest: keeps)

lemma chain_keeps: "fold_result run_transformer fns u = Ok u' \<Longrightarrow> R u u'"
  by (rule fold_result_invariant [where P = "R u" and s = u]) (auto intro: refl trans run_keeps)

lemma Transform_related: "Transform fns m = Ok m' \<Longrightarrow> list_all2 R m m'"
  by (auto simp: Transform_def map_result_Ok_iff elim: list.rel_mono_strong chain_keeps)

lemma Transform_Filter:
  assumes "\<And>u u'. R u u' \<Longrightarrow> p u' = p u" and "Transform fns m = Ok m'"
  shows "Transform fns (Filter [p] m) = Ok (Filter [p] m')"
proof -
  have "list_all2 (\<lambda>u u'. fold_result run_transformer fns u = Ok u') m m'"
    using assms(2) by (simp add: Transform_def map_result_Ok_iff)
  then have "list_all2 (\<lambda>u u'. fold_result run_transformer fns u = Ok u') (filter p m) (filter p m')"
    by (induction rule: list_all2_induct) (auto dest!: chain_keeps assms(1))
  then show ?thesis by (simp add: Transform_def map_result_Ok_iff Filter_eq)
qed

end

locale object_chain = transformer_chain fns same_object for fns
begin

lemma Transform_kinds: "Transform fns m = Ok m' \<Longrightarrow> map GetKind m' = map GetKind m"
  using Transform_related [of m m']
  by (auto simp: list_all2_conv_all_nth same_object_def list_eq_iff_nth_eq)

lemma Transform_ByKind: "Transform fns m = Ok m' \<Longrightarrow> Transform fns (Filter [ByKind k] m) = Ok (Filter [ByKind k] m')"
  by (rule Transform_Filter) (simp add: same_object_def ByKind_def)

end

section \<open>The library's transformers meet the contract\<close>

lemma identity_update_other:
  assumes "field \<noteq> ''apiVersion''" "field \<noteq> ''kind''" "field \<noteq> ''metadata''"
  shows "GetAPIVersion (AList.update field v u) = GetAPIVersion u"
    "GetKind (AList.update field v u) = GetKind u"
    "GetName (AList.update field v u) = GetName u"
    "GetNamespace (AList.update field v u) = GetNamespace u"
  using assms by (simp_all add: identity_defs getNestedString_def NestedString_def typed_field_def
      NestedFieldNoCopy_def)

lemma inject_by_kind_keeps: "inject_by_kind ns u = Ok u' \<Longrightarrow> same_object u u'"
  by (auto simp: inject_by_kind_def Let_def inject_each_def inject_spec_service_def bad_assertion_def
      same_object_def is_namespace_def identity_update_other kind_simps
      split: if_splits option.splits json.splits)

lemma InjectNamespace_keeps: "InjectNamespace getenv ns u = Ok u' \<Longrightarrow> same_object u u'"
  by (auto simp: InjectNamespace_def Let_def kind_simps same_object_def is_namespace_def
      dest!: inject_by_kind_keeps split: if_splits)

lemma InjectOwner_keeps: "InjectOwner ref u = Ok u' \<Longrightarrow> same_object u u'"
  by (auto simp: InjectOwner_def same_object_def kind_simps)

text \<open>What the first two transformers of a pipeline establish.\<close>

lemma InjectOwner_owned:
  assumes "InjectOwner ref u = Ok u'" and "\<not> isClusterScoped (GetKind u)" and "meta_ok u"
  shows "owned_by u' [ref]" and "meta_ok u'"
  using assms by (auto simp: InjectOwner_def owned_by_def SetOwnerReferences_def set_field_same)

lemma inject_by_kind_other:
  assumes "inject_by_kind ns u = Ok u'" and "\<not> isClusterScoped (GetKind u)"
  shows "map_of u' ''metadata'' = map_of u ''metadata''"
  using assms by (auto simp: inject_by_kind_def Let_def inject_each_def inject_spec_service_def bad_assertion_def
      isClusterScoped_def cluster_scoped_kinds_def split: if_splits option.splits json.splits)

lemma InjectNamespace_place:
  assumes run: "InjectNamespace getenv ns u = Ok u'" and local: "\<not> isClusterScoped (GetKind u)" and ok: "meta_ok u"
  shows "GetNamespace u' = resolveEnv getenv ns" and "owned_by u refs \<Longrightarrow> owned_by u' refs"
proof -
  from run local obtain v where v: "inject_by_kind (resolveEnv getenv ns) u = Ok v"
      "u' = SetNamespace (resolveEnv getenv ns) v"
    using inject_by_kind_keeps [of "resolveEnv getenv ns" u]
    by (auto simp: InjectNamespace_def Let_def same_object_def split: if_splits)
  from inject_by_kind_other [OF v(1) local] ok have "meta_ok v" by (simp add: level_ok_def)
  then show "GetNamespace u' = resolveEnv getenv ns" by (simp add: v(2) GetNamespace_SetNamespace)
  have "NestedFieldNoCopy v [''metadata'', ''ownerReferences''] = NestedFieldNoCopy u [''metadata'', ''ownerReferences'']"
    by (simp add: NestedFieldNoCopy_def inject_by_kind_other [OF v(1) local])
  then show "owned_by u' refs" if "owned_by u refs"
    using that by (simp add: v(2) owned_by_def SetNamespace_def set_string_apart)
qed

end
