(* ===== verification/Config_Maps.thy ===== *)
theory Config_Maps
  imports Manifest_Transform Serving_Types
begin

text \<open>
  \<open>pkg/reconciler/knativeserving/common/config_maps.go\<close>: the overrides of \<open>spec.config\<close> are written
  into the data of the config maps. The config map's entry of \<open>spec.config\<close> is found by its name
  without the first seven characters; a shorter name makes the slice expression panic. The error of
  \<open>SetNestedField\<close> is dropped, as in the code.
\<close>

text \<open>One round of the loop of \<open>UpdateConfigMap\<close>.\<close>

definition update_entry :: "string \<times> string \<Rightarrow> obj \<Rightarrow> obj" where
  "update_entry kv cm =
     (case kv of (k, v) \<Rightarrow>
       case NestedFieldNoCopy cm [''data'', k] of
         Ok (Some x) \<Rightarrow> if x = JStr v then cm else set_field cm (JStr v) [''data'', k]
       | _ \<Rightarrow> set_field cm (JStr v) [''data'', k])"

fun UpdateConfigMap :: "string gomap \<Rightarrow> obj \<Rightarrow> obj" where
  "UpdateConfigMap [] cm = cm"
| "UpdateConfigMap (kv # data) cm = UpdateConfigMap data (update_entry kv cm)"

definition ConfigMapTransform :: "KnativeServing \<Rightarrow> transformer" where
  "ConfigMapTransform ks u =
     (if GetKind u = ''ConfigMap''
      then bind_result (slice_from (GetName u) (length ''config-''))
             (\<lambda>key. case map_of (Config (Spec ks)) key of
                      Some data \<Rightarrow> Ok (UpdateConfigMap data u)
                    | None \<Rightarrow> Ok u)
      else Ok u)"

section \<open>Properties of the update\<close>

text \<open>An entry that is up to date is not written again, which writing it would not show.\<close>

abbreviation data_ok :: "obj \<Rightarrow> bool" where
  "data_ok cm \<equiv> level_ok cm ''data''"

lemma update_entry_data_ok: "data_ok cm \<Longrightarrow> data_ok (update_entry kv cm)"
  by (auto simp: update_entry_def split: prod.splits option.splits result.splits)

lemma update_entry_same:
  "data_ok cm \<Longrightarrow> NestedFieldNoCopy (update_entry (k, v) cm) [''data'', k] = Ok (Some (JStr v))"
  by (auto simp: update_entry_def object_simps split: result.splits option.splits)

lemma update_entry_apart:
  "apart [''data'', fst kv] gs \<Longrightarrow> NestedFieldNoCopy (update_entry kv cm) gs = NestedFieldNoCopy cm gs"
  by (auto simp: update_entry_def object_simps split: prod.splits result.splits option.splits)

text \<open>
  The loop over the whole map: every override is read back, every other entry of the data and
  every other field of the object is as before.
\<close>

lemma UpdateConfigMap_data_ok: "data_ok cm \<Longrightarrow> data_ok (UpdateConfigMap data cm)"
  by (induction data cm rule: UpdateConfigMap.induct) (auto simp: update_entry_data_ok)

lemma UpdateConfigMap_other_entry:
  "k \<notin> set (keys data) \<Longrightarrow>
   NestedFieldNoCopy (UpdateConfigMap data cm) [''data'', k] = NestedFieldNoCopy cm [''data'', k]"
proof (induction data cm rule: UpdateConfigMap.induct)
  case (2 kv data cm)
  then show ?case using update_entry_apart [of kv "[''data'', k]" cm] by auto
qed simp

lemma UpdateConfigMap_other_field:
  "f \<noteq> ''data'' \<Longrightarrow>
   NestedFieldNoCopy (UpdateConfigMap data cm) (f # fs) = NestedFieldNoCopy cm (f # fs)"
proof (induction data cm rule: UpdateConfigMap.induct)
  case (2 kv data cm)
  then show ?case using update_entry_apart [of kv "f # fs" cm] by auto
qed simp

lemma UpdateConfigMap_entry:
  assumes "data_ok cm" "distinct (keys data)" "map_of data k = Some v"
  shows "NestedFieldNoCopy (UpdateConfigMap data cm) [''data'', k] = Ok (Some (JStr v))"
  using assms
proof (induction data cm rule: UpdateConfigMap.induct)
  case (2 kv data cm)
  obtain k' v' where kv: "kv = (k', v')" by force
  show ?case
  proof (cases "k' = k")
    case True
    with 2 kv have "k \<notin> set (keys data)" "v' = v" by auto
    with True 2 kv show ?thesis by (simp add: UpdateConfigMap_other_entry update_entry_same)
  next
    case False
    with 2 kv show ?thesis by (simp add: update_entry_data_ok)
  qed
qed simp

lemma ConfigMapTransform_cases:
  assumes "GetKind u = ''ConfigMap''"
  shows "ConfigMapTransform ks u =
    (if length (GetName u) < 7 then Panic ''slice bounds out of range''
     else case map_of (Config (Spec ks)) (drop 7 (GetName u)) of
            Some data \<Rightarrow> Ok (UpdateConfigMap data u) | None \<Rightarrow> Ok u)"
  using assms by (auto simp: ConfigMapTransform_def slice_from_def eval_nat_numeral split: option.splits)

lemma ConfigMapTransform_keeps: "ConfigMapTransform ks u = Ok u' \<Longrightarrow> same_meta u u'"
  by (auto simp: ConfigMapTransform_def intro!: same_metaI UpdateConfigMap_other_field
      split: if_splits option.splits)

end
