(* ===== verification/Gateways.thy ===== *)
theory Gateways
  imports Manifest_Transform Serving_Types
begin

text \<open>
  \<open>pkg/reconciler/knativeserving/common/gateway.go\<close>: the selectors of the two Istio gateways are
  replaced by those of the spec. The error of \<open>SetNestedStringMap\<close> is dropped, as in the code.
\<close>

definition updateKnativeIngressGateway :: "IstioGatewayOverride \<Rightarrow> obj \<Rightarrow> obj" where
  "updateKnativeIngressGateway overrides u =
     (if length (Selector overrides) > 0
      then (case SetNestedStringMap u (Selector overrides) [''spec'', ''selector''] of
              Ok u' \<Rightarrow> u' | _ \<Rightarrow> u)
      else u)"

definition GatewayTransform :: "KnativeServing \<Rightarrow> transformer" where
  "GatewayTransform ks u =
     (if GetAPIVersion u = ''networking.istio.io/v1alpha3'' \<and> GetKind u = ''Gateway''
      then if GetName u = ''knative-ingress-gateway''
           then Ok (updateKnativeIngressGateway (KnativeIngressGateway (Spec ks)) u)
           else if GetName u = ''cluster-local-gateway''
           then Ok (updateKnativeIngressGateway (ClusterLocalGateway (Spec ks)) u)
           else Ok u
      else Ok u)"

lemma updateKnativeIngressGateway_other:
  "f \<noteq> ''spec'' \<Longrightarrow>
   NestedFieldNoCopy (updateKnativeIngressGateway g u) (f # fs) = NestedFieldNoCopy u (f # fs)"
  by (auto simp: updateKnativeIngressGateway_def SetNestedStringMap_eq object_simps split: result.splits)

lemma updateKnativeIngressGateway_selector:
  assumes "level_ok u ''spec''" "Selector g \<noteq> []"
  shows "NestedStringMap (updateKnativeIngressGateway g u) [''spec'', ''selector''] = Ok (Some (Selector g))"
proof -
  obtain u' where "SetNestedStringMap u (Selector g) [''spec'', ''selector''] = Ok u'"
    using assms(1) SetNestedField_Ok_iff [of u "JObj (string_map (Selector g))" "[''spec'', ''selector'']"]
    by (auto simp: SetNestedStringMap_eq)
  with assms(2) show ?thesis by (simp add: updateKnativeIngressGateway_def NestedStringMap_roundtrip)
qed

lemma updateKnativeIngressGateway_none: "Selector g = [] \<Longrightarrow> updateKnativeIngressGateway g u = u"
  by (simp add: updateKnativeIngressGateway_def)

lemma GatewayTransform_keeps: "GatewayTransform ks u = Ok u' \<Longrightarrow> same_meta u u'"
  by (auto simp: GatewayTransform_def intro!: same_metaI updateKnativeIngressGateway_other split: if_splits)

end
