(* ===== verification/High_Availability.thy ===== *)
theory High_Availability
  imports Manifest_Transform Serving_Types
begin

text \<open>
  \<open>pkg/reconciler/knativeserving/common/ha.go\<close>: leader election is switched on in its config map, and
  the replicas of the deployments that support it and the minimum of the autoscalers are raised. The
  replica count is the sign extension of a 32-bit integer to 64 bits, and the comparison is signed.
\<close>

definition configMapName :: string where "configMapName = ''config-leader-election''"
definition enabledComponentsKey :: string where "enabledComponentsKey = ''enabledComponents''"
definition componentsValue :: string where
  "componentsValue = ''controller,hpaautoscaler,certcontroller,istiocontroller,nscontroller''"

definition deploymentNames :: "string list" where
  "deploymentNames =
     [''controller'', ''autoscaler-hpa'', ''networking-certmanager'', ''networking-ns-cert'',
      ''networking-istio'']"

definition int64_of :: "32 word \<Rightarrow> 64 word" where
  "int64_of w = scast w"

definition ha_deployment :: "64 word \<Rightarrow> transformer" where
  "ha_deployment replicas u =
     (if GetKind u = ''Deployment'' \<and> GetName u \<in> set deploymentNames
      then SetNestedField u (JInt replicas) [''spec'', ''replicas''] else Ok u)"

definition ha_autoscaler :: "64 word \<Rightarrow> transformer" where
  "ha_autoscaler replicas u =
     (if GetKind u = ''HorizontalPodAutoscaler''
      then bind_result (NestedInt64 u [''spec'', ''minReplicas''])
             (\<lambda>found. let min = (case found of Some i \<Rightarrow> i | None \<Rightarrow> 0) in
                if sint replicas < sint min then Ok u
                else SetNestedField u (JInt replicas) [''spec'', ''minReplicas''])
      else Ok u)"

text \<open>
  The config map: an accessor error ends the whole transformer without an error, so the result
  says whether the code goes on.
\<close>

datatype ha_step = GoOn obj | StopHere obj

definition ha_config_map :: "obj \<Rightarrow> ha_step result" where
  "ha_config_map u =
     (if GetKind u = ''ConfigMap'' \<and> GetName u = configMapName
      then (case NestedStringMap u [''data''] of
              Err e \<Rightarrow> Ok (StopHere u)
            | Panic p \<Rightarrow> Panic p
            | Ok found \<Rightarrow>
                let data = (case found of Some m \<Rightarrow> m | None \<Rightarrow> []) in
                bind_result
                  (SetNestedStringMap u (AList.update enabledComponentsKey componentsValue data) [''data''])
                  (\<lambda>u'. Ok (GoOn u')))
      else Ok (GoOn u))"

definition HighAvailabilityTransform :: "KnativeServing \<Rightarrow> transformer" where
  "HighAvailabilityTransform ks u =
     (case HighAvailability (Spec ks) of
        None \<Rightarrow> Ok u
      | Some ha \<Rightarrow>
          bind_result (ha_config_map u)
            (\<lambda>st. case st of
                    StopHere u' \<Rightarrow> Ok u'
                  | GoOn u1 \<Rightarrow>
                      let replicas = int64_of (Replicas ha) in
                      bind_result (ha_deployment replicas u1) (ha_autoscaler replicas)))"

section \<open>Properties\<close>

lemma sint_int64_of [simp]: "sint (int64_of w) = sint w"
  by (simp add: int64_of_def sint_up_scast is_up)

lemma SetNestedField_identity:
  assumes "SetNestedField u v (f # fs) = Ok u'" "f \<notin> {''apiVersion'', ''kind'', ''metadata''}"
  shows "GetAPIVersion u' = GetAPIVersion u" "GetKind u' = GetKind u" "GetName u' = GetName u"
    "GetNamespace u' = GetNamespace u"
  using assms by (auto intro!: identity_cong simp: NestedFieldNoCopy_set_apart)

lemma ha_config_map_other:
  "GetKind u \<noteq> ''ConfigMap'' \<Longrightarrow> ha_config_map u = Ok (GoOn u)"
  by (simp add: ha_config_map_def)

text \<open>Each step keeps the identity of the object.\<close>

lemma SetNestedField_keeps:
  "SetNestedField u v (f # fs) = Ok u' \<Longrightarrow> f \<notin> {''kind'', ''metadata''} \<Longrightarrow> same_meta u u'"
  by (rule same_metaI) (auto intro!: NestedFieldNoCopy_set_apart)

lemma ha_deployment_keeps: "ha_deployment r u = Ok u' \<Longrightarrow> same_meta u u'"
  by (auto simp: ha_deployment_def intro: SetNestedField_keeps split: if_splits)

lemma ha_autoscaler_keeps: "ha_autoscaler r u = Ok u' \<Longrightarrow> same_meta u u'"
  by (auto simp: ha_autoscaler_def Let_def intro: SetNestedField_keeps split: if_splits option.splits)

fun step_object :: "ha_step \<Rightarrow> obj" where
  "step_object (GoOn u) = u"
| "step_object (StopHere u) = u"

lemma ha_config_map_keeps: "ha_config_map u = Ok st \<Longrightarrow> same_meta u (step_object st)"
  by (auto simp: ha_config_map_def Let_def SetNestedStringMap_eq intro: SetNestedField_keeps
      split: if_splits result.splits)

lemma HighAvailabilityTransform_keeps:
  assumes "HighAvailabilityTransform ks u = Ok u'"
  shows "same_meta u u'"
proof (cases "HighAvailability (Spec ks)")
  case None
  with assms show ?thesis by (simp add: HighAvailabilityTransform_def)
next
  case (Some ha)
  with assms obtain st where st: "ha_config_map u = Ok st"
    and rest: "(case st of StopHere u' \<Rightarrow> Ok u' | GoOn u1 \<Rightarrow>
      bind_result (ha_deployment (int64_of (Replicas ha)) u1) (ha_autoscaler (int64_of (Replicas ha)))) = Ok u'"
    by (auto simp: HighAvailabilityTransform_def Let_def)
  from rest have "same_meta (step_object st) u'"
    by (cases st) (auto dest!: ha_deployment_keeps ha_autoscaler_keeps intro: same_meta_trans)
  with ha_config_map_keeps [OF st] show ?thesis by (rule same_meta_trans)
qed

text \<open>A deployment of the control plane: exactly the listed names get the replica count.\<close>

lemma HighAvailability_deployment:
  assumes "HighAvailability (Spec ks) = Some ha" "GetKind u = ''Deployment''"
  shows "HighAvailabilityTransform ks u =
    (if GetName u \<in> set deploymentNames
     then SetNestedField u (JInt (int64_of (Replicas ha))) [''spec'', ''replicas''] else Ok u)"
proof -
  have "ha_autoscaler r u' = Ok u'" if "GetKind u' = ''Deployment''" for r u'
    using that by (simp add: ha_autoscaler_def)
  then have "bind_result (ha_deployment r u) (ha_autoscaler r) = ha_deployment r u" for r
    using assms(2) SetNestedField_identity(2) [of u _ "''spec''"]
    by (cases "ha_deployment r u") (auto simp: ha_deployment_def split: if_splits)
  with assms show ?thesis
    by (simp add: HighAvailabilityTransform_def ha_config_map_other ha_deployment_def Let_def)
qed

text \<open>An autoscaler: the minimum is only ever raised.\<close>

lemma HighAvailability_autoscaler:
  assumes "HighAvailability (Spec ks) = Some ha" "GetKind u = ''HorizontalPodAutoscaler''"
  shows "HighAvailabilityTransform ks u = ha_autoscaler (int64_of (Replicas ha)) u"
  using assms by (simp add: HighAvailabilityTransform_def ha_config_map_other ha_deployment_def Let_def)

lemma ha_autoscaler_min:
  assumes "ha_autoscaler r u = Ok u'" "GetKind u = ''HorizontalPodAutoscaler''"
    and "NestedInt64 u [''spec'', ''minReplicas''] = Ok found"
  shows "\<exists>i. NestedInt64 u' [''spec'', ''minReplicas''] = Ok (Some i) \<and>
    sint i = max (sint r) (sint (case found of Some i \<Rightarrow> i | None \<Rightarrow> 0))
    \<or> found = None \<and> sint r < 0 \<and> u' = u"
proof (cases "sint r < sint (case found of Some i \<Rightarrow> i | None \<Rightarrow> 0)")
  case True
  with assms have "u' = u" by (simp add: ha_autoscaler_def Let_def)
  with True assms(3) show ?thesis by (cases found) auto
next
  case False
  with assms have "SetNestedField u (JInt r) [''spec'', ''minReplicas''] = Ok u'"
    by (simp add: ha_autoscaler_def Let_def)
  then have "NestedInt64 u' [''spec'', ''minReplicas''] = Ok (Some r)" by (rule NestedInt64_roundtrip)
  with False show ?thesis by auto
qed

end
