(* ===== verification/Go_Converter.thy ===== *)
theory Go_Converter
  imports Object_Meta
begin

text \<open>
  Conversion between unstructured objects and Go structs:
  \<open>vendor/k8s.io/apimachinery/pkg/runtime/converter.go\<close>. The reflective walk over a Go type is
  modelled by recursion on a description of the type. A struct field carries its Go name, the name in
  its \<open>json\<close> tag (empty for an inlined struct) and its \<open>omitempty\<close> flag.

  Types with their own \<open>UnmarshalJSON\<close> and \<open>MarshalJSON\<close> (\<open>metav1.Time\<close>, \<open>resource.Quantity\<close>,
  \<open>intstr.IntOrString\<close>, \<open>metav1.FieldsV1\<close>) are \<open>TCustom\<close>: a value of such a type is represented by
  the JSON it marshals to, and the codec gives the unmarshalled value and the zero value of the
  named type. The kinds are those which occur in the converted types; there are no floats, byte
  slices or interfaces among them.
\<close>

section \<open>Types and values\<close>

datatype gotype =
    TString
  | TBool
  | TInt nat
  | TSlice gotype
  | TMap gotype
  | TPtr gotype
  | TStruct "gofield list"
  | TCustom string
and gofield = Field (go_name: string) (json_name: string) (omitempty: bool) (field_type: gotype)

text \<open>Induction over a type and the fields of its structs, in step with the functions below.\<close>

fun walk_type :: "gotype \<Rightarrow> nat" and walk_fields :: "gofield list \<Rightarrow> nat" where
  "walk_type TString = 0"
| "walk_type TBool = 0"
| "walk_type (TInt n) = 0"
| "walk_type (TCustom n) = 0"
| "walk_type (TMap t) = walk_type t"
| "walk_type (TSlice t) = walk_type t"
| "walk_type (TPtr t) = walk_type t"
| "walk_type (TStruct fs) = walk_fields fs"
| "walk_fields [] = 0"
| "walk_fields (Field g jn oe t # fs) = walk_type t + walk_fields fs"

lemmas gotype_fields_induct =
  walk_type_walk_fields.induct [case_names TString TBool TInt TCustom TMap TSlice TPtr TStruct Nil Field]

text \<open>\<open>None\<close> is the nil slice, map or pointer.\<close>

datatype goval =
    VString string
  | VBool bool
  | VInt "64 word"
  | VSlice "goval list option"
  | VMap "(string \<times> goval) list option"
  | VPtr "goval option"
  | VStruct "(string \<times> goval) list"
  | VCustom json

record codec =
  unmarshal :: "string \<Rightarrow> json \<Rightarrow> json result"
  zero_custom :: "string \<Rightarrow> json"

text \<open>\<open>reflect.Zero\<close> and \<open>isZero\<close>, which is false for every struct.\<close>

fun zero :: "codec \<Rightarrow> gotype \<Rightarrow> goval"
and zero_fields :: "codec \<Rightarrow> gofield list \<Rightarrow> (string \<times> goval) list" where
  "zero c TString = VString []"
| "zero c TBool = VBool False"
| "zero c (TInt n) = VInt 0"
| "zero c (TSlice t) = VSlice None"
| "zero c (TMap t) = VMap None"
| "zero c (TPtr t) = VPtr None"
| "zero c (TStruct fs) = VStruct (zero_fields c fs)"
| "zero c (TCustom n) = VCustom (zero_custom c n)"
| "zero_fields c [] = []"
| "zero_fields c (Field g j oe t # fs) = (g, zero c t) # zero_fields c fs"

fun isZero :: "goval \<Rightarrow> bool" where
  "isZero (VString s) = (s = [])"
| "isZero (VBool b) = (\<not> b)"
| "isZero (VInt i) = (i = 0)"
| "isZero (VSlice xs) = (case xs of None \<Rightarrow> True | Some l \<Rightarrow> l = [])"
| "isZero (VMap xs) = (case xs of None \<Rightarrow> True | Some l \<Rightarrow> l = [])"
| "isZero (VPtr p) = (p = None)"
| "isZero (VStruct vs) = False"
| "isZero (VCustom j) = False"

section \<open>From unstructured\<close>

fun kind_name :: "gotype \<Rightarrow> string" where
  "kind_name TString = ''string''"
| "kind_name TBool = ''bool''"
| "kind_name (TInt n) = (if n = 32 then ''int32'' else ''int64'')"
| "kind_name (TSlice t) = ''slice''"
| "kind_name (TMap t) = ''map''"
| "kind_name (TPtr t) = ''ptr''"
| "kind_name (TStruct fs) = ''struct''"
| "kind_name (TCustom n) = n"

fun json_kind :: "json \<Rightarrow> string" where
  "json_kind (JArr xs) = ''slice''"
| "json_kind (JObj m) = ''map''"
| "json_kind j = go_type j"

text \<open>
  Of the JSON values only an integer is convertible to a string and a number to another number; the
  message of such a conversion names the two types, every other one falls through to the last case
  of the switch. A named string type is shown by its underlying type.
\<close>

fun convert_error :: "json \<Rightarrow> gotype \<Rightarrow> error" where
  "convert_error j (TMap t) = Errorf (''cannot restore map from '' @ json_kind j)"
| "convert_error j (TSlice t) = Errorf (''cannot restore slice from '' @ json_kind j)"
| "convert_error j (TStruct fs) = Errorf (''cannot restore struct from: '' @ json_kind j)"
| "convert_error (JInt i) TString = Errorf (''cannot convert int64 to string'')"
| "convert_error (JFloat f) (TInt n) = Errorf (''cannot convert float64 to '' @ kind_name (TInt n))"
| "convert_error j t = Errorf (''unrecognized type: '' @ kind_name t)"

text \<open>
  \<open>sv.Convert(dt)\<close> to an integer of \<open>n\<close> bits keeps the low bits. (Go leaves the conversion of a
  float outside the range of the integer type to the implementation; the model keeps the low bits
  there too.)
\<close>

definition convert_int :: "nat \<Rightarrow> 64 word \<Rightarrow> 64 word" where
  "convert_int n w = signed_take_bit (n - 1) w"

fun fromUnstructured :: "codec \<Rightarrow> gotype \<Rightarrow> json \<Rightarrow> goval result"
and structFromUnstructured :: "codec \<Rightarrow> gofield list \<Rightarrow> obj \<Rightarrow> (string \<times> goval) list result" where
  "fromUnstructured c TString j =
     (case j of JNull \<Rightarrow> Ok (VString []) | JStr s \<Rightarrow> Ok (VString s) | _ \<Rightarrow> Err (convert_error j TString))"
| "fromUnstructured c TBool j =
     (case j of JNull \<Rightarrow> Ok (VBool False) | JBool b \<Rightarrow> Ok (VBool b) | _ \<Rightarrow> Err (convert_error j TBool))"
| "fromUnstructured c (TInt n) j =
     (case j of
        JNull \<Rightarrow> Ok (VInt 0)
      | JInt i \<Rightarrow> Ok (VInt (convert_int n i))
      | JFloat f \<Rightarrow> (if f \<in> \<int> then Ok (VInt (convert_int n (of_int \<lfloor>f\<rfloor>))) else Err (convert_error j (TInt n)))
      | _ \<Rightarrow> Err (convert_error j (TInt n)))"
| "fromUnstructured c (TCustom name) j =
     (if j = JNull then Ok (VCustom (zero_custom c name))
      else bind_result (unmarshal c name j) (\<lambda>v. Ok (VCustom v)))"
| "fromUnstructured c (TMap t) j =
     (case j of
        JNull \<Rightarrow> Ok (VMap None)
      | JObj m \<Rightarrow>
          bind_result
            (map_result (\<lambda>(k, v). bind_result (fromUnstructured c t v) (\<lambda>x. Ok (k, x))) m)
            (\<lambda>kvs. Ok (VMap (Some kvs)))
      | _ \<Rightarrow> Err (convert_error j (TMap t)))"
| "fromUnstructured c (TSlice t) j =
     (case j of
        JNull \<Rightarrow> Ok (VSlice None)
      | JArr xs \<Rightarrow> bind_result (map_result (fromUnstructured c t) xs) (\<lambda>vs. Ok (VSlice (Some vs)))
      | _ \<Rightarrow> Err (convert_error j (TSlice t)))"
| "fromUnstructured c (TPtr t) j =
     (if j = JNull then Ok (VPtr None)
      else bind_result (fromUnstructured c t j) (\<lambda>v. Ok (VPtr (Some v))))"
| "fromUnstructured c (TStruct fs) j =
     (case j of
        JNull \<Rightarrow> Ok (zero c (TStruct fs))
      | JObj m \<Rightarrow> bind_result (structFromUnstructured c fs m) (\<lambda>vs. Ok (VStruct vs))
      | _ \<Rightarrow> Err (convert_error j (TStruct fs)))"
| "structFromUnstructured c [] m = Ok []"
| "structFromUnstructured c (Field g jn oe t # fs) m =
     bind_result
       (if jn = [] then fromUnstructured c t (JObj m)
        else (case map_of m jn of
                None \<Rightarrow> Ok (zero c t)
              | Some v \<Rightarrow> fromUnstructured c t v))
       (\<lambda>x. bind_result (structFromUnstructured c fs m) (\<lambda>xs. Ok ((g, x) # xs)))"

section \<open>To unstructured\<close>

text \<open>
  A value which does not fit its type cannot exist in Go; the model writes null for it. A struct
  adds its fields to the object of the struct it is inlined in.
\<close>

fun toUnstructured :: "gotype \<Rightarrow> goval \<Rightarrow> json"
and structToUnstructured :: "gofield list \<Rightarrow> (string \<times> goval) list \<Rightarrow> obj \<Rightarrow> obj" where
  "toUnstructured TString v = (case v of VString s \<Rightarrow> JStr s | _ \<Rightarrow> JNull)"
| "toUnstructured TBool v = (case v of VBool b \<Rightarrow> JBool b | _ \<Rightarrow> JNull)"
| "toUnstructured (TInt n) v = (case v of VInt i \<Rightarrow> JInt i | _ \<Rightarrow> JNull)"
| "toUnstructured (TCustom n) v = (case v of VCustom j \<Rightarrow> j | _ \<Rightarrow> JNull)"
| "toUnstructured (TMap t) v =
     (case v of VMap (Some kvs) \<Rightarrow> JObj (map (\<lambda>(k, x). (k, toUnstructured t x)) kvs) | _ \<Rightarrow> JNull)"
| "toUnstructured (TSlice t) v =
     (case v of VSlice (Some vs) \<Rightarrow> JArr (map (toUnstructured t) vs) | _ \<Rightarrow> JNull)"
| "toUnstructured (TPtr t) v = (case v of VPtr (Some x) \<Rightarrow> toUnstructured t x | _ \<Rightarrow> JNull)"
| "toUnstructured (TStruct fs) v =
     (case v of VStruct vs \<Rightarrow> JObj (structToUnstructured fs vs []) | _ \<Rightarrow> JNull)"
| "structToUnstructured [] vs m = m"
| "structToUnstructured (Field g jn oe t # fs) vs m =
     (case vs of
        [] \<Rightarrow> m
      | (g', v) # vs' \<Rightarrow>
          structToUnstructured fs vs'
            (if jn = ''-'' then m
             else if oe \<and> isZero v then m
             else if jn = [] then
               (case t of
                  TStruct fs1 \<Rightarrow> (case v of VStruct vs1 \<Rightarrow> structToUnstructured fs1 vs1 m | _ \<Rightarrow> m)
                | _ \<Rightarrow> m)
             else AList.update jn (toUnstructured t v) m))"

section \<open>Typing\<close>

fun has_type :: "gotype \<Rightarrow> goval \<Rightarrow> bool"
and has_fields :: "gofield list \<Rightarrow> (string \<times> goval) list \<Rightarrow> bool" where
  "has_type TString v = (case v of VString s \<Rightarrow> True | _ \<Rightarrow> False)"
| "has_type TBool v = (case v of VBool b \<Rightarrow> True | _ \<Rightarrow> False)"
| "has_type (TInt n) v = (case v of VInt i \<Rightarrow> convert_int n i = i | _ \<Rightarrow> False)"
| "has_type (TCustom n) v = (case v of VCustom j \<Rightarrow> True | _ \<Rightarrow> False)"
| "has_type (TMap t) v =
     (case v of VMap None \<Rightarrow> True | VMap (Some l) \<Rightarrow> list_all (\<lambda>(k, x). has_type t x) l | _ \<Rightarrow> False)"
| "has_type (TSlice t) v =
     (case v of VSlice None \<Rightarrow> True | VSlice (Some l) \<Rightarrow> list_all (has_type t) l | _ \<Rightarrow> False)"
| "has_type (TPtr t) v = (case v of VPtr None \<Rightarrow> True | VPtr (Some x) \<Rightarrow> has_type t x | _ \<Rightarrow> False)"
| "has_type (TStruct fs) v = (case v of VStruct vs \<Rightarrow> has_fields fs vs | _ \<Rightarrow> False)"
| "has_fields [] vs = (vs = [])"
| "has_fields (Field g jn oe t # fs) vs =
     (case vs of [] \<Rightarrow> False | (g', v) # vs' \<Rightarrow> g' = g \<and> has_type t v \<and> has_fields fs vs')"

lemma convert_int_0 [simp]: "convert_int n 0 = 0"
  by (simp add: convert_int_def)

lemma convert_int_idem [simp]: "convert_int n (convert_int n w) = convert_int n w"
  by (simp add: convert_int_def)

lemma zero_has_type: "has_type t (zero c t)" and zero_has_fields: "has_fields fs (zero_fields c fs)"
  by (induction c t and c fs rule: zero_zero_fields.induct) auto

lemma fromUnstructured_null [simp]: "fromUnstructured c t JNull = Ok (zero c t)"
  by (cases t) auto

text \<open>Elements of a decoded slice or map come from decoding.\<close>

lemma map_result_in_set:
  assumes "map_result f xs = Ok ys" and "y \<in> set ys"
  shows "\<exists>x \<in> set xs. f x = Ok y"
proof -
  from assms(2) obtain i where "i < length ys" and "ys ! i = y" by (auto simp: in_set_conv_nth)
  with map_result_length [OF assms(1)] map_result_nth [OF assms(1), of i] show ?thesis
    by (metis nth_mem)
qed

lemma map_result_entry:
  "map_result (\<lambda>(k, v). bind_result (f v) (\<lambda>x. Ok (k, x))) m = Ok kvs \<Longrightarrow> (k, x) \<in> set kvs \<Longrightarrow>
   \<exists>v. (k, v) \<in> set m \<and> f v = Ok x"
  by (drule (1) map_result_in_set) auto

text \<open>Type safety: whatever is decoded without an error has the type it was decoded at.\<close>

lemma fromUnstructured_type: "fromUnstructured c t j = Ok v \<Longrightarrow> has_type t v"
  and structFromUnstructured_type: "structFromUnstructured c fs m = Ok vs \<Longrightarrow> has_fields fs vs"
proof (induction t and fs arbitrary: j v and m vs rule: gotype_fields_induct)
  case (TMap t)
  have "has_type t x" if "map_result (\<lambda>(k, v). bind_result (fromUnstructured c t v) (\<lambda>x. Ok (k, x))) m = Ok kvs"
      and "(k, x) \<in> set kvs" for m kvs k x
    using map_result_entry [OF that] TMap.IH by blast
  with TMap.prems show ?case
    by (auto simp: list_all_iff split: json.splits)
next
  case (TSlice t)
  have "has_type t y" if "map_result (fromUnstructured c t) xs = Ok ys" and "y \<in> set ys" for xs ys y
    using map_result_in_set [OF that] TSlice.IH by blast
  with TSlice.prems show ?case
    by (auto simp: list_all_iff split: json.splits)
qed (auto simp: zero_has_type zero_has_fields split: if_splits option.splits json.splits)

section \<open>Fields of an encoded struct\<close>

text \<open>The JSON names a struct writes, inlined structs included, and the Go names of its own fields.\<close>

fun json_names :: "gotype \<Rightarrow> string list" and field_names :: "gofield list \<Rightarrow> string list" where
  "json_names t = (case t of TStruct fs \<Rightarrow> field_names fs | _ \<Rightarrow> [])"
| "field_names [] = []"
| "field_names (Field g jn oe t # fs) = (if jn = [] then json_names t else [jn]) @ field_names fs"

abbreviation go_names :: "gofield list \<Rightarrow> string list" where
  "go_names fs \<equiv> map go_name fs"

lemma structToUnstructured_other:
  "k \<notin> set (field_names fs) \<Longrightarrow> map_of (structToUnstructured fs vs m) k = map_of m k"
proof (induction fs arbitrary: vs m rule: walk_type_walk_fields.induct(2) [where P = "\<lambda>t. case t of TStruct fs \<Rightarrow>
    (\<forall>vs m. k \<notin> set (field_names fs) \<longrightarrow> map_of (structToUnstructured fs vs m) k = map_of m k) | _ \<Rightarrow> True"])
qed (auto split: list.splits gotype.splits goval.splits)

lemma has_fields_go_names: "has_fields fs vs \<Longrightarrow> keys vs = go_names fs"
proof (induction fs arbitrary: vs)
  case (Cons f fs)
  then show ?case by (cases f) (auto split: list.splits)
qed simp

lemma field_in_names:
  "Field g jn oe t \<in> set fs \<Longrightarrow> jn \<noteq> [] \<Longrightarrow> g \<in> set (go_names fs) \<and> jn \<in> set (field_names fs)"
proof (induction fs)
  case (Cons f fs)
  then show ?case by (cases f) auto
qed simp

lemma structToUnstructured_field:
  assumes "has_fields fs vs" and "distinct (field_names fs)" and "distinct (go_names fs)"
    and "Field g jn oe t \<in> set fs" and "map_of vs g = Some v" and "jn \<noteq> []" and "jn \<noteq> ''-''"
  shows "map_of (structToUnstructured fs vs m) jn =
    (if oe \<and> isZero v then map_of m jn else Some (toUnstructured t v))"
  using assms
proof (induction fs arbitrary: vs m)
  case Nil
  then show ?case by simp
next
  case (Cons f fs)
  obtain g1 j1 o1 t1 where f: "f = Field g1 j1 o1 t1" by (cases f)
  with Cons.prems(1) obtain v1 vs1 where vs: "vs = (g1, v1) # vs1" "has_fields fs vs1"
    by (auto split: list.splits)
  show ?case
  proof (cases "Field g jn oe t = f")
    case True
    with f vs Cons.prems show ?thesis by (auto simp: structToUnstructured_other)
  next
    case False
    then have in_fs: "Field g jn oe t \<in> set fs" using Cons.prems by auto
    then have g: "g \<in> set (go_names fs)" and jn: "jn \<in> set (field_names fs)"
      using field_in_names Cons.prems(6) by blast+
    with f vs g Cons.prems have "map_of vs1 g = Some v" by (auto split: if_splits)
    moreover have "map_of (structToUnstructured fs vs1 m') jn =
       (if oe \<and> isZero v then map_of m' jn else Some (toUnstructured t v))" for m'
      using Cons.IH [OF vs(2) _ _ in_fs calculation] f Cons.prems by simp
    moreover have "j1 \<noteq> jn" and "j1 = [] \<Longrightarrow> jn \<notin> set (json_names t1)"
      using f Cons.prems(2) \<open>jn \<noteq> []\<close> jn by (auto split: if_splits)
    ultimately show ?thesis
      using f vs by (auto simp: structToUnstructured_other split: gotype.splits goval.splits)
  qed
qed

text \<open>The fields of a decoded struct.\<close>

lemma structFromUnstructured_field:
  assumes "structFromUnstructured c fs m = Ok vs" and "distinct (go_names fs)"
    and "Field g jn oe t \<in> set fs"
  shows "\<exists>v. map_of vs g = Some v \<and>
    (if jn = [] then fromUnstructured c t (JObj m)
     else case map_of m jn of None \<Rightarrow> Ok (zero c t) | Some j \<Rightarrow> fromUnstructured c t j) = Ok v"
  using assms
proof (induction fs arbitrary: vs)
  case (Cons f fs)
  obtain g1 j1 o1 t1 where f: "f = Field g1 j1 o1 t1" by (cases f)
  with Cons.prems Cons.IH show ?case by (force simp: rev_image_eqI)
qed simp

end
