(* ===== verification/Converter_Roundtrip.thy ===== *)
theory Converter_Roundtrip
  imports Go_Converter
begin

text \<open>
  Decoding an encoded Go value. What comes back is the value itself up to the differences that the
  encoding cannot express: an empty slice or map behind \<open>omitempty\<close> comes back nil, and a pointer
  to a value which marshals to null comes back nil.
\<close>

section \<open>What survives the encoding\<close>

fun normal :: "codec \<Rightarrow> gotype \<Rightarrow> goval \<Rightarrow> goval"
and normal_fields :: "codec \<Rightarrow> gofield list \<Rightarrow> (string \<times> goval) list \<Rightarrow> (string \<times> goval) list" where
  "normal c TString v = v"
| "normal c TBool v = v"
| "normal c (TInt n) v = v"
| "normal c (TCustom n) v = v"
| "normal c (TMap t) v =
     (case v of VMap (Some kvs) \<Rightarrow> VMap (Some (map (\<lambda>(k, x). (k, normal c t x)) kvs)) | _ \<Rightarrow> v)"
| "normal c (TSlice t) v =
     (case v of VSlice (Some vs) \<Rightarrow> VSlice (Some (map (normal c t) vs)) | _ \<Rightarrow> v)"
| "normal c (TPtr t) v =
     (case v of
        VPtr (Some x) \<Rightarrow> (if toUnstructured t x = JNull then VPtr None else VPtr (Some (normal c t x)))
      | _ \<Rightarrow> v)"
| "normal c (TStruct fs) v = (case v of VStruct vs \<Rightarrow> VStruct (normal_fields c fs vs) | _ \<Rightarrow> v)"
| "normal_fields c [] vs = []"
| "normal_fields c (Field g jn oe t # fs) vs =
     (case vs of
        [] \<Rightarrow> []
      | (g', v) # vs' \<Rightarrow> (g, if oe \<and> isZero v then zero c t else normal c t v) # normal_fields c fs vs')"

text \<open>The types of the Kubernetes API: JSON names are distinct, only structs are inlined.\<close>

fun wf_type :: "gotype \<Rightarrow> bool" and wf_fields :: "gofield list \<Rightarrow> bool" where
  "wf_type TString = True"
| "wf_type TBool = True"
| "wf_type (TInt n) = True"
| "wf_type (TCustom n) = True"
| "wf_type (TMap t) = wf_type t"
| "wf_type (TSlice t) = wf_type t"
| "wf_type (TPtr t) = wf_type t"
| "wf_type (TStruct fs) = (distinct (field_names fs) \<and> wf_fields fs)"
| "wf_fields [] = True"
| "wf_fields (Field g jn oe t # fs) =
     (jn \<noteq> ''-'' \<and> (jn = [] \<longrightarrow> (case t of TStruct _ \<Rightarrow> True | _ \<Rightarrow> False)) \<and> wf_type t \<and> wf_fields fs)"

text \<open>Every custom value inside comes back from its own codec.\<close>

definition codec_fits :: "codec \<Rightarrow> string \<Rightarrow> json \<Rightarrow> bool" where
  "codec_fits c n j \<longleftrightarrow> (if j = JNull then zero_custom c n = JNull else unmarshal c n j = Ok j)"

fun fits :: "codec \<Rightarrow> gotype \<Rightarrow> goval \<Rightarrow> bool"
and fits_fields :: "codec \<Rightarrow> gofield list \<Rightarrow> (string \<times> goval) list \<Rightarrow> bool" where
  "fits c TString v = (case v of VString s \<Rightarrow> True | _ \<Rightarrow> False)"
| "fits c TBool v = (case v of VBool b \<Rightarrow> True | _ \<Rightarrow> False)"
| "fits c (TInt n) v = (case v of VInt i \<Rightarrow> convert_int n i = i | _ \<Rightarrow> False)"
| "fits c (TCustom n) v = (case v of VCustom j \<Rightarrow> codec_fits c n j | _ \<Rightarrow> False)"
| "fits c (TMap t) v =
     (case v of VMap None \<Rightarrow> True | VMap (Some l) \<Rightarrow> list_all (\<lambda>(k, x). fits c t x) l | _ \<Rightarrow> False)"
| "fits c (TSlice t) v =
     (case v of VSlice None \<Rightarrow> True | VSlice (Some l) \<Rightarrow> list_all (fits c t) l | _ \<Rightarrow> False)"
| "fits c (TPtr t) v = (case v of VPtr None \<Rightarrow> True | VPtr (Some x) \<Rightarrow> fits c t x | _ \<Rightarrow> False)"
| "fits c (TStruct fs) v = (case v of VStruct vs \<Rightarrow> fits_fields c fs vs | _ \<Rightarrow> False)"
| "fits_fields c [] vs = (vs = [])"
| "fits_fields c (Field g jn oe t # fs) vs =
     (case vs of [] \<Rightarrow> False | (g', v) # vs' \<Rightarrow> g' = g \<and> fits c t v \<and> fits_fields c fs vs')"

section \<open>The round trip\<close>

text \<open>
  The statement for a struct is about any object \<open>M\<close> which agrees with the encoding on the names the
  struct writes, because an inlined struct is decoded from the object of the struct around it.
\<close>

definition decodes_fields :: "codec \<Rightarrow> gofield list \<Rightarrow> bool" where
  "decodes_fields c fs \<longleftrightarrow>
     (\<forall>vs m M. wf_fields fs \<longrightarrow> distinct (field_names fs) \<longrightarrow> fits_fields c fs vs \<longrightarrow>
        (\<forall>k \<in> set (field_names fs). map_of m k = None) \<longrightarrow>
        (\<forall>k \<in> set (field_names fs). map_of M k = map_of (structToUnstructured fs vs m) k) \<longrightarrow>
        structFromUnstructured c fs M = Ok (normal_fields c fs vs))"

definition decodes :: "codec \<Rightarrow> gotype \<Rightarrow> bool" where
  "decodes c t \<longleftrightarrow>
     (\<forall>v. wf_type t \<longrightarrow> fits c t v \<longrightarrow> fromUnstructured c t (toUnstructured t v) = Ok (normal c t v)) \<and>
     (case t of TStruct fs \<Rightarrow> decodes_fields c fs | _ \<Rightarrow> True)"

lemma decodesD:
  "decodes c t \<Longrightarrow> wf_type t \<Longrightarrow> fits c t v \<Longrightarrow>
   fromUnstructured c t (toUnstructured t v) = Ok (normal c t v)"
  by (simp add: decodes_def)

lemma decodes_fields_Cons:
  assumes t: "decodes c t" and fs: "decodes_fields c fs"
  shows "decodes_fields c (Field g jn oe t # fs)"
  unfolding decodes_fields_def
proof (intro allI impI)
  fix vs0 m M
  let ?f = "Field g jn oe t"
  assume wf: "wf_fields (?f # fs)" and dist: "distinct (field_names (?f # fs))"
    and fits0: "fits_fields c (?f # fs) vs0"
    and fresh: "\<forall>k \<in> set (field_names (?f # fs)). map_of m k = None"
    and agree: "\<forall>k \<in> set (field_names (?f # fs)). map_of M k = map_of (structToUnstructured (?f # fs) vs0 m) k"
  from fits0 obtain v vs where vs0: "vs0 = (g, v) # vs" and v: "fits c t v" and vs: "fits_fields c fs vs"
    by (auto split: list.splits)
  let ?n = "if jn = [] then json_names t else [jn]"
  define m1 where "m1 = (if oe \<and> isZero v then m
      else if jn = [] then
        (case t of TStruct fs1 \<Rightarrow> (case v of VStruct vs1 \<Rightarrow> structToUnstructured fs1 vs1 m | _ \<Rightarrow> m) | _ \<Rightarrow> m)
      else AList.update jn (toUnstructured t v) m)"
  have step: "structToUnstructured (?f # fs) vs0 m = structToUnstructured fs vs m1"
    using wf by (simp add: vs0 m1_def)
  have other: "map_of m1 k = map_of m k" if "k \<notin> set ?n" for k
    using that by (auto simp: m1_def structToUnstructured_other split: gotype.splits goval.splits if_splits)
  have disj: "set ?n \<inter> set (field_names fs) = {}" using dist by simp
  have tail: "structFromUnstructured c fs M = Ok (normal_fields c fs vs)"
    using fs [unfolded decodes_fields_def, rule_format, of vs m1 M] wf dist vs fresh agree step other disj
    by fastforce
  have head: "map_of M k = map_of m1 k" if "k \<in> set ?n" for k
    using agree step that disj by (auto simp: structToUnstructured_other disjoint_iff)
  have "(if jn = [] then fromUnstructured c t (JObj M)
        else (case map_of M jn of None \<Rightarrow> Ok (zero c t) | Some j \<Rightarrow> fromUnstructured c t j))
      = Ok (if oe \<and> isZero v then zero c t else normal c t v)"
  proof (cases "jn = []")
    case True
    with wf obtain fs1 where t1: "t = TStruct fs1" by (auto split: gotype.splits)
    with v obtain vs1 where v1: "v = VStruct vs1" "fits_fields c fs1 vs1" by (auto split: goval.splits)
    have "structFromUnstructured c fs1 M = Ok (normal_fields c fs1 vs1)"
      using t [unfolded decodes_def t1, simplified, THEN conjunct2, unfolded decodes_fields_def,
          rule_format, of vs1 m M] wf v1 fresh head True t1 by (simp add: m1_def)
    with True t1 v1 show ?thesis by simp
  next
    case False
    with head fresh show ?thesis using decodesD [OF t _ v] wf by (simp add: m1_def)
  qed
  with tail show "structFromUnstructured c (?f # fs) M = Ok (normal_fields c (?f # fs) vs0)"
    by (simp add: vs0)
qed

lemma decodes_all: "decodes c t" and "decodes_fields c fs"
proof (induction t and fs rule: gotype_fields_induct)
  case (TMap t)
  then show ?case
    by (auto simp: decodes_def list_all_iff split: goval.splits option.splits intro!: map_result_map_Ok)
next
  case (TSlice t)
  then show ?case
    by (auto simp: decodes_def list_all_iff split: goval.splits option.splits intro!: map_result_map_Ok)
next
  case (TStruct fs)
  have "structFromUnstructured c fs (structToUnstructured fs vs []) = Ok (normal_fields c fs vs)"
    if "wf_fields fs" and "distinct (field_names fs)" and "fits_fields c fs vs" for vs
    using TStruct.IH [unfolded decodes_fields_def, rule_format, OF that, of "[]"] by simp
  with TStruct.IH show ?case by (auto simp: decodes_def split: goval.splits)
next
  case (Field g jn oe t fs)
  then show ?case by (rule decodes_fields_Cons)
qed (auto simp: decodes_def decodes_fields_def codec_fits_def split: goval.splits option.splits)

lemma fromUnstructured_toUnstructured:
  "wf_type t \<Longrightarrow> fits c t v \<Longrightarrow> fromUnstructured c t (toUnstructured t v) = Ok (normal c t v)"
  using decodesD [OF decodes_all] .

end
