(* ===== verification/Api_Types.thy ===== *)
theory Api_Types
  imports Converter_Roundtrip
begin

text \<open>
  The Go structs the transformers convert manifest resources to, as type descriptions of
  \<open>Go_Converter\<close>: \<open>apps/v1\<close> \<open>Deployment\<close> and \<open>DaemonSet\<close>, the caching \<open>Image\<close>, and every struct
  they contain (\<open>vendor/k8s.io/api/core/v1/types.go\<close>, \<open>vendor/k8s.io/api/apps/v1/types.go\<close>,
  \<open>vendor/k8s.io/apimachinery/pkg/apis/meta/v1/types.go\<close>,
  \<open>vendor/knative.dev/caching/pkg/apis/caching/v1alpha1/image_types.go\<close>). The fields are in the
  order of the source, each with its \<open>json\<close> tag; a named string or number type is its underlying type.
\<close>

definition fs_TypeMeta :: "gofield list" where
  "fs_TypeMeta =
    [Field ''Kind'' ''kind'' True TString,
     Field ''APIVersion'' ''apiVersion'' True TString]"

definition fs_OwnerReference :: "gofield list" where
  "fs_OwnerReference =
    [Field ''APIVersion'' ''apiVersion'' False TString,
     Field ''Kind'' ''kind'' False TString,
     Field ''Name'' ''name'' False TString,
     Field ''UID'' ''uid'' False TString,
     Field ''Controller'' ''controller'' True (TPtr TBool),
     Field ''BlockOwnerDeletion'' ''blockOwnerDeletion'' True (TPtr TBool)]"

definition fs_ManagedFieldsEntry :: "gofield list" where
  "fs_ManagedFieldsEntry =
    [Field ''Manager'' ''manager'' True TString,
     Field ''Operation'' ''operation'' True TString,
     Field ''APIVersion'' ''apiVersion'' True TString,
     Field ''Time'' ''time'' True (TPtr (TCustom ''Time'')),
     Field ''FieldsType'' ''fieldsType'' True TString,
     Field ''FieldsV1'' ''fieldsV1'' True (TPtr (TCustom ''FieldsV1''))]"

definition fs_ObjectMeta :: "gofield list" where
  "fs_ObjectMeta =
    [Field ''Name'' ''name'' True TString,
     Field ''GenerateName'' ''generateName'' True TString,
     Field ''Namespace'' ''namespace'' True TString,
     Field ''SelfLink'' ''selfLink'' True TString,
     Field ''UID'' ''uid'' True TString,
     Field ''ResourceVersion'' ''resourceVersion'' True TString,
     Field ''Generation'' ''generation'' True (TInt 64),
     Field ''CreationTimestamp'' ''creationTimestamp'' True (TCustom ''Time''),
     Field ''DeletionTimestamp'' ''deletionTimestamp'' True (TPtr (TCustom ''Time'')),
     Field ''DeletionGracePeriodSeconds'' ''deletionGracePeriodSeconds'' True (TPtr (TInt 64)),
     Field ''Labels'' ''labels'' True (TMap TString),
     Field ''Annotations'' ''annotations'' True (TMap TString),
     Field ''OwnerReferences'' ''ownerReferences'' True (TSlice (TStruct fs_OwnerReference)),
     Field ''Finalizers'' ''finalizers'' True (TSlice TString),
     Field ''ClusterName'' ''clusterName'' True TString,
     Field ''ManagedFields'' ''managedFields'' True (TSlice (TStruct fs_ManagedFieldsEntry))]"

definition fs_LabelSelectorRequirement :: "gofield list" where
  "fs_LabelSelectorRequirement =
    [Field ''Key'' ''key'' False TString,
     Field ''Operator'' ''operator'' False TString,
     Field ''Values'' ''values'' True (TSlice TString)]"

definition fs_LabelSelector :: "gofield list" where
  "fs_LabelSelector =
    [Field ''MatchLabels'' ''matchLabels'' True (TMap TString),
     Field ''MatchExpressions'' ''matchExpressions'' True (TSlice (TStruct fs_LabelSelectorRequirement))]"

definition fs_HostPathVolumeSource :: "gofield list" where
  "fs_HostPathVolumeSource =
    [Field ''Path'' ''path'' False TString,
     Field ''Type'' ''type'' True (TPtr TString)]"

definition fs_EmptyDirVolumeSource :: "gofield list" where
  "fs_EmptyDirVolumeSource =
    [Field ''Medium'' ''medium'' True TString,
     Field ''SizeLimit'' ''sizeLimit'' True (TPtr (TCustom ''Quantity''))]"

definition fs_GCEPersistentDiskVolumeSource :: "gofield list" where
  "fs_GCEPersistentDiskVolumeSource =
    [Field ''PDName'' ''pdName'' False TString,
     Field ''FSType'' ''fsType'' True TString,
     Field ''Partition'' ''partition'' True (TInt 32),
     Field ''ReadOnly'' ''readOnly'' True TBool]"

definition fs_AWSElasticBlockStoreVolumeSource :: "gofield list" where
  "fs_AWSElasticBlockStoreVolumeSource =
    [Field ''VolumeID'' ''volumeID'' False TString,
     Field ''FSType'' ''fsType'' True TString,
     Field ''Partition'' ''partition'' True (TInt 32),
     Field ''ReadOnly'' ''readOnly'' True TBool]"

definition fs_GitRepoVolumeSource :: "gofield list" where
  "fs_GitRepoVolumeSource =
    [Field ''Repository'' ''repository'' False TString,
     Field ''Revision'' ''revision'' True TString,
     Field ''Directory'' ''directory'' True TString]"

definition fs_KeyToPath :: "gofield list" where
  "fs_KeyToPath =
    [Field ''Key'' ''key'' False TString,
     Field ''Path'' ''path'' False TString,
     Field ''Mode'' ''mode'' True (TPtr (TInt 32))]"

definition fs_SecretVolumeSource :: "gofield list" where
  "fs_SecretVolumeSource =
    [Field ''SecretName'' ''secretName'' True TString,
     Field ''Items'' ''items'' True (TSlice (TStruct fs_KeyToPath)),
     Field ''DefaultMode'' ''defaultMode'' True (TPtr (TInt 32)),
     Field ''Optional'' ''optional'' True (TPtr TBool)]"

definition fs_NFSVolumeSource :: "gofield list" where
  "fs_NFSVolumeSource =
    [Field ''Server'' ''server'' False TString,
     Field ''Path'' ''path'' False TString,
     Field ''ReadOnly'' ''readOnly'' True TBool]"

definition fs_LocalObjectReference :: "gofield list" where
  "fs_LocalObjectReference =
    [Field ''Name'' ''name'' True TString]"

definition fs_ISCSIVolumeSource :: "gofield list" where
  "fs_ISCSIVolumeSource =
    [Field ''TargetPortal'' ''targetPortal'' False TString,
     Field ''IQN'' ''iqn'' False TString,
     Field ''Lun'' ''lun'' False (TInt 32),
     Field ''ISCSIInterface'' ''iscsiInterface'' True TString,
     Field ''FSType'' ''fsType'' True TString,
     Field ''ReadOnly'' ''readOnly'' True TBool,
     Field ''Portals'' ''portals'' True (TSlice TString),
     Field ''DiscoveryCHAPAuth'' ''chapAuthDiscovery'' True TBool,
     Field ''SessionCHAPAuth'' ''chapAuthSession'' True TBool,
     Field ''SecretRef'' ''secretRef'' True (TPtr (TStruct fs_LocalObjectReference)),
     Field ''InitiatorName'' ''initiatorName'' True (TPtr TString)]"

definition fs_GlusterfsVolumeSource :: "gofield list" where
  "fs_GlusterfsVolumeSource =
    [Field ''EndpointsName'' ''endpoints'' False TString,
     Field ''Path'' ''path'' False TString,
     Field ''ReadOnly'' ''readOnly'' True TBool]"

definition fs_PersistentVolumeClaimVolumeSource :: "gofield list" where
  "fs_PersistentVolumeClaimVolumeSource =
    [Field ''ClaimName'' ''claimName'' False TString,
     Field ''ReadOnly'' ''readOnly'' True TBool]"

definition fs_RBDVolumeSource :: "gofield list" where
  "fs_RBDVolumeSource =
    [Field ''CephMonitors'' ''monitors'' False (TSlice TString),
     Field ''RBDImage'' ''image'' False TString,
     Field ''FSType'' ''fsType'' True TString,
     Field ''RBDPool'' ''pool'' True TString,
     Field ''RadosUser'' ''user'' True TString,
     Field ''Keyring'' ''keyring'' True TString,
     Field ''SecretRef'' ''secretRef'' True (TPtr (TStruct fs_LocalObjectReference)),
     Field ''ReadOnly'' ''readOnly'' True TBool]"

definition fs_FlexVolumeSource :: "gofield list" where
  "fs_FlexVolumeSource =
    [Field ''Driver'' ''driver'' False TString,
     Field ''FSType'' ''fsType'' True TString,
     Field ''SecretRef'' ''secretRef'' True (TPtr (TStruct fs_LocalObjectReference)),
     Field ''ReadOnly'' ''readOnly'' True TBool,
     Field ''Options'' ''options'' True (TMap TString)]"

definition fs_CinderVolumeSource :: "gofield list" where
  "fs_CinderVolumeSource =
    [Field ''VolumeID'' ''volumeID'' False TString,
     Field ''FSType'' ''fsType'' True TString,
     Field ''ReadOnly'' ''readOnly'' True TBool,
     Field ''SecretRef'' ''secretRef'' True (TPtr (TStruct fs_LocalObjectReference))]"

definition fs_CephFSVolumeSource :: "gofield list" where
  "fs_CephFSVolumeSource =
    [Field ''Monitors'' ''monitors'' False (TSlice TString),
     Field ''Path'' ''path'' True TString,
     Field ''User'' ''user'' True TString,
     Field ''SecretFile'' ''secretFile'' True TString,
     Field ''SecretRef'' ''secretRef'' True (TPtr (TStruct fs_LocalObjectReference)),
     Field ''ReadOnly'' ''readOnly'' True TBool]"

definition fs_FlockerVolumeSource :: "gofield list" where
  "fs_FlockerVolumeSource =
    [Field ''DatasetName'' ''datasetName'' True TString,
     Field ''DatasetUUID'' ''datasetUUID'' True TString]"

definition fs_ObjectFieldSelector :: "gofield list" where
  "fs_ObjectFieldSelector =
    [Field ''APIVersion'' ''apiVersion'' True TString,
     Field ''FieldPath'' ''fieldPath'' False TString]"

definition fs_ResourceFieldSelector :: "gofield list" where
  "fs_ResourceFieldSelector =
    [Field ''ContainerName'' ''containerName'' True TString,
     Field ''Resource'' ''resource'' False TString,
     Field ''Divisor'' ''divisor'' True (TCustom ''Quantity'')]"

definition fs_DownwardAPIVolumeFile :: "gofield list" where
  "fs_DownwardAPIVolumeFile =
    [Field ''Path'' ''path'' False TString,
     Field ''FieldRef'' ''fieldRef'' True (TPtr (TStruct fs_ObjectFieldSelector)),
     Field ''ResourceFieldRef'' ''resourceFieldRef'' True (TPtr (TStruct fs_ResourceFieldSelector)),
     Field ''Mode'' ''mode'' True (TPtr (TInt 32))]"

definition fs_DownwardAPIVolumeSource :: "gofield list" where
  "fs_DownwardAPIVolumeSource =
    [Field ''Items'' ''items'' True (TSlice (TStruct fs_DownwardAPIVolumeFile)),
     Field ''DefaultMode'' ''defaultMode'' True (TPtr (TInt 32))]"

definition fs_FCVolumeSource :: "gofield list" where
  "fs_FCVolumeSource =
    [Field ''TargetWWNs'' ''targetWWNs'' True (TSlice TString),
     Field ''Lun'' ''lun'' True (TPtr (TInt 32)),
     Field ''FSType'' ''fsType'' True TString,
     Field ''ReadOnly'' ''readOnly'' True TBool,
     Field ''WWIDs'' ''wwids'' True (TSlice TString)]"

definition fs_AzureFileVolumeSource :: "gofield list" where
  "fs_AzureFileVolumeSource =
    [Field ''SecretName'' ''secretName'' False TString,
     Field ''ShareName'' ''shareName'' False TString,
     Field ''ReadOnly'' ''readOnly'' True TBool]"

definition fs_ConfigMapVolumeSource :: "gofield list" where
  "fs_ConfigMapVolumeSource =
    [Field ''LocalObjectReference'' '''' False (TStruct fs_LocalObjectReference),
     Field ''Items'' ''items'' True (TSlice (TStruct fs_KeyToPath)),
     Field ''DefaultMode'' ''defaultMode'' True (TPtr (TInt 32)),
     Field ''Optional'' ''optional'' True (TPtr TBool)]"

definition fs_VsphereVirtualDiskVolumeSource :: "gofield list" where
  "fs_VsphereVirtualDiskVolumeSource =
    [Field ''VolumePath'' ''volumePath'' False TString,
     Field ''FSType'' ''fsType'' True TString,
     Field ''StoragePolicyName'' ''storagePolicyName'' True TString,
     Field ''StoragePolicyID'' ''storagePolicyID'' True TString]"

definition fs_QuobyteVolumeSource :: "gofield list" where
  "fs_QuobyteVolumeSource =
    [Field ''Registry'' ''registry'' False TString,
     Field ''Volume'' ''volume'' False TString,
     Field ''ReadOnly'' ''readOnly'' True TBool,
     Field ''User'' ''user'' True TString,
     Field ''Group'' ''group'' True TString,
     Field ''Tenant'' ''tenant'' True TString]"

definition fs_AzureDiskVolumeSource :: "gofield list" where
  "fs_AzureDiskVolumeSource =
    [Field ''DiskName'' ''diskName'' False TString,
     Field ''DataDiskURI'' ''diskURI'' False TString,
     Field ''CachingMode'' ''cachingMode'' True (TPtr TString),
     Field ''FSType'' ''fsType'' True (TPtr TString),
     Field ''ReadOnly'' ''readOnly'' True (TPtr TBool),
     Field ''Kind'' ''kind'' True (TPtr TString)]"

definition fs_PhotonPersistentDiskVolumeSource :: "gofield list" where
  "fs_PhotonPersistentDiskVolumeSource =
    [Field ''PdID'' ''pdID'' False TString,
     Field ''FSType'' ''fsType'' True TString]"

definition fs_SecretProjection :: "gofield list" where
  "fs_SecretProjection =
    [Field ''LocalObjectReference'' '''' False (TStruct fs_LocalObjectReference),
     Field ''Items'' ''items'' True (TSlice (TStruct fs_KeyToPath)),
     Field ''Optional'' ''optional'' True (TPtr TBool)]"

definition fs_DownwardAPIProjection :: "gofield list" where
  "fs_DownwardAPIProjection =
    [Field ''Items'' ''items'' True (TSlice (TStruct fs_DownwardAPIVolumeFile))]"

definition fs_ConfigMapProjection :: "gofield list" where
  "fs_ConfigMapProjection =
    [Field ''LocalObjectReference'' '''' False (TStruct fs_LocalObjectReference),
     Field ''Items'' ''items'' True (TSlice (TStruct fs_KeyToPath)),
     Field ''Optional'' ''optional'' True (TPtr TBool)]"

definition fs_ServiceAccountTokenProjection :: "gofield list" where
  "fs_ServiceAccountTokenProjection =
    [Field ''Audience'' ''audience'' True TString,
     Field ''ExpirationSeconds'' ''expirationSeconds'' True (TPtr (TInt 64)),
     Field ''Path'' ''path'' False TString]"

definition fs_VolumeProjection :: "gofield list" where
  "fs_VolumeProjection =
    [Field ''Secret'' ''secret'' True (TPtr (TStruct fs_SecretProjection)),
     Field ''DownwardAPI'' ''downwardAPI'' True (TPtr (TStruct fs_DownwardAPIProjection)),
     Field ''ConfigMap'' ''configMap'' True (TPtr (TStruct fs_ConfigMapProjection)),
     Field ''ServiceAccountToken'' ''serviceAccountToken'' True (TPtr (TStruct fs_ServiceAccountTokenProjection))]"

definition fs_ProjectedVolumeSource :: "gofield list" where
  "fs_ProjectedVolumeSource =
    [Field ''Sources'' ''sources'' False (TSlice (TStruct fs_VolumeProjection)),
     Field ''DefaultMode'' ''defaultMode'' True (TPtr (TInt 32))]"

definition fs_PortworxVolumeSource :: "gofield list" where
  "fs_PortworxVolumeSource =
    [Field ''VolumeID'' ''volumeID'' False TString,
     Field ''FSType'' ''fsType'' True TString,
     Field ''ReadOnly'' ''readOnly'' True TBool]"

definition fs_ScaleIOVolumeSource :: "gofield list" where
  "fs_ScaleIOVolumeSource =
    [Field ''Gateway'' ''gateway'' False TString,
     Field ''System'' ''system'' False TString,
     Field ''SecretRef'' ''secretRef'' False (TPtr (TStruct fs_LocalObjectReference)),
     Field ''SSLEnabled'' ''sslEnabled'' True TBool,
     Field ''ProtectionDomain'' ''protectionDomain'' True TString,
     Field ''StoragePool'' ''storagePool'' True TString,
     Field ''StorageMode'' ''storageMode'' True TString,
     Field ''VolumeName'' ''volumeName'' True TString,
     Field ''FSType'' ''fsType'' True TString,
     Field ''ReadOnly'' ''readOnly'' True TBool]"

definition fs_StorageOSVolumeSource :: "gofield list" where
  "fs_StorageOSVolumeSource =
    [Field ''VolumeName'' ''volumeName'' True TString,
     Field ''VolumeNamespace'' ''volumeNamespace'' True TString,
     Field ''FSType'' ''fsType'' True TString,
     Field ''ReadOnly'' ''readOnly'' True TBool,
     Field ''SecretRef'' ''secretRef'' True (TPtr (TStruct fs_LocalObjectReference))]"

definition fs_CSIVolumeSource :: "gofield list" where
  "fs_CSIVolumeSource =
    [Field ''Driver'' ''driver'' False TString,
     Field ''ReadOnly'' ''readOnly'' True (TPtr TBool),
     Field ''FSType'' ''fsType'' True (TPtr TString),
     Field ''VolumeAttributes'' ''volumeAttributes'' True (TMap TString),
     Field ''NodePublishSecretRef'' ''nodePublishSecretRef'' True (TPtr (TStruct fs_LocalObjectReference))]"

definition fs_VolumeSource :: "gofield list" where
  "fs_VolumeSource =
    [Field ''HostPath'' ''hostPath'' True (TPtr (TStruct fs_HostPathVolumeSource)),
     Field ''EmptyDir'' ''emptyDir'' True (TPtr (TStruct fs_EmptyDirVolumeSource)),
     Field ''GCEPersistentDisk'' ''gcePersistentDisk'' True (TPtr (TStruct fs_GCEPersistentDiskVolumeSource)),
     Field ''AWSElasticBlockStore'' ''awsElasticBlockStore'' True (TPtr (TStruct fs_AWSElasticBlockStoreVolumeSource)),
     Field ''GitRepo'' ''gitRepo'' True (TPtr (TStruct fs_GitRepoVolumeSource)),
     Field ''Secret'' ''secret'' True (TPtr (TStruct fs_SecretVolumeSource)),
     Field ''NFS'' ''nfs'' True (TPtr (TStruct fs_NFSVolumeSource)),
     Field ''ISCSI'' ''iscsi'' True (TPtr (TStruct fs_ISCSIVolumeSource)),
     Field ''Glusterfs'' ''glusterfs'' True (TPtr (TStruct fs_GlusterfsVolumeSource)),
     Field ''PersistentVolumeClaim'' ''persistentVolumeClaim'' True (TPtr (TStruct fs_PersistentVolumeClaimVolumeSource)),
     Field ''RBD'' ''rbd'' True (TPtr (TStruct fs_RBDVolumeSource)),
     Field ''FlexVolume'' ''flexVolume'' True (TPtr (TStruct fs_FlexVolumeSource)),
     Field ''Cinder'' ''cinder'' True (TPtr (TStruct fs_CinderVolumeSource)),
     Field ''CephFS'' ''cephfs'' True (TPtr (TStruct fs_CephFSVolumeSource)),
     Field ''Flocker'' ''flocker'' True (TPtr (TStruct fs_FlockerVolumeSource)),
     Field ''DownwardAPI'' ''downwardAPI'' True (TPtr (TStruct fs_DownwardAPIVolumeSource)),
     Field ''FC'' ''fc'' True (TPtr (TStruct fs_FCVolumeSource)),
     Field ''AzureFile'' ''azureFile'' True (TPtr (TStruct fs_AzureFileVolumeSource)),
     Field ''ConfigMap'' ''configMap'' True (TPtr (TStruct fs_ConfigMapVolumeSource)),
     Field ''VsphereVolume'' ''vsphereVolume'' True (TPtr (TStruct fs_VsphereVirtualDiskVolumeSource)),
     Field ''Quobyte'' ''quobyte'' True (TPtr (TStruct fs_QuobyteVolumeSource)),
     Field ''AzureDisk'' ''azureDisk'' True (TPtr (TStruct fs_AzureDiskVolumeSource)),
     Field ''PhotonPersistentDisk'' ''photonPersistentDisk'' True (TPtr (TStruct fs_PhotonPersistentDiskVolumeSource)),
     Field ''Projected'' ''projected'' True (TPtr (TStruct fs_ProjectedVolumeSource)),
     Field ''PortworxVolume'' ''portworxVolume'' True (TPtr (TStruct fs_PortworxVolumeSource)),
     Field ''ScaleIO'' ''scaleIO'' True (TPtr (TStruct fs_ScaleIOVolumeSource)),
     Field ''StorageOS'' ''storageos'' True (TPtr (TStruct fs_StorageOSVolumeSource)),
     Field ''CSI'' ''csi'' True (TPtr (TStruct fs_CSIVolumeSource))]"

definition fs_Volume :: "gofield list" where
  "fs_Volume =
    [Field ''Name'' ''name'' False TString,
     Field ''VolumeSource'' '''' False (TStruct fs_VolumeSource)]"

definition fs_ContainerPort :: "gofield list" where
  "fs_ContainerPort =
    [Field ''Name'' ''name'' True TString,
     Field ''HostPort'' ''hostPort'' True (TInt 32),
     Field ''ContainerPort'' ''containerPort'' False (TInt 32),
     Field ''Protocol'' ''protocol'' True TString,
     Field ''HostIP'' ''hostIP'' True TString]"

definition fs_ConfigMapEnvSource :: "gofield list" where
  "fs_ConfigMapEnvSource =
    [Field ''LocalObjectReference'' '''' False (TStruct fs_LocalObjectReference),
     Field ''Optional'' ''optional'' True (TPtr TBool)]"

definition fs_SecretEnvSource :: "gofield list" where
  "fs_SecretEnvSource =
    [Field ''LocalObjectReference'' '''' False (TStruct fs_LocalObjectReference),
     Field ''Optional'' ''optional'' True (TPtr TBool)]"

definition fs_EnvFromSource :: "gofield list" where
  "fs_EnvFromSource =
    [Field ''Prefix'' ''prefix'' True TString,
     Field ''ConfigMapRef'' ''configMapRef'' True (TPtr (TStruct fs_ConfigMapEnvSource)),
     Field ''SecretRef'' ''secretRef'' True (TPtr (TStruct fs_SecretEnvSource))]"

definition fs_ConfigMapKeySelector :: "gofield list" where
  "fs_ConfigMapKeySelector =
    [Field ''LocalObjectReference'' '''' False (TStruct fs_LocalObjectReference),
     Field ''Key'' ''key'' False TString,
     Field ''Optional'' ''optional'' True (TPtr TBool)]"

definition fs_SecretKeySelector :: "gofield list" where
  "fs_SecretKeySelector =
    [Field ''LocalObjectReference'' '''' False (TStruct fs_LocalObjectReference),
     Field ''Key'' ''key'' False TString,
     Field ''Optional'' ''optional'' True (TPtr TBool)]"

definition fs_EnvVarSource :: "gofield list" where
  "fs_EnvVarSource =
    [Field ''FieldRef'' ''fieldRef'' True (TPtr (TStruct fs_ObjectFieldSelector)),
     Field ''ResourceFieldRef'' ''resourceFieldRef'' True (TPtr (TStruct fs_ResourceFieldSelector)),
     Field ''ConfigMapKeyRef'' ''configMapKeyRef'' True (TPtr (TStruct fs_ConfigMapKeySelector)),
     Field ''SecretKeyRef'' ''secretKeyRef'' True (TPtr (TStruct fs_SecretKeySelector))]"

definition fs_EnvVar :: "gofield list" where
  "fs_EnvVar =
    [Field ''Name'' ''name'' False TString,
     Field ''Value'' ''value'' True TString,
     Field ''ValueFrom'' ''valueFrom'' True (TPtr (TStruct fs_EnvVarSource))]"

definition fs_ResourceRequirements :: "gofield list" where
  "fs_ResourceRequirements =
    [Field ''Limits'' ''limits'' True (TMap (TCustom ''Quantity'')),
     Field ''Requests'' ''requests'' True (TMap (TCustom ''Quantity''))]"

definition fs_VolumeMount :: "gofield list" where
  "fs_VolumeMount =
    [Field ''Name'' ''name'' False TString,
     Field ''ReadOnly'' ''readOnly'' True TBool,
     Field ''MountPath'' ''mountPath'' False TString,
     Field ''SubPath'' ''subPath'' True TString,
     Field ''MountPropagation'' ''mountPropagation'' True (TPtr TString),
     Field ''SubPathExpr'' ''subPathExpr'' True TString]"

definition fs_VolumeDevice :: "gofield list" where
  "fs_VolumeDevice =
    [Field ''Name'' ''name'' False TString,
     Field ''DevicePath'' ''devicePath'' False TString]"

definition fs_ExecAction :: "gofield list" where
  "fs_ExecAction =
    [Field ''Command'' ''command'' True (TSlice TString)]"

definition fs_HTTPHeader :: "gofield list" where
  "fs_HTTPHeader =
    [Field ''Name'' ''name'' False TString,
     Field ''Value'' ''value'' False TString]"

definition fs_HTTPGetAction :: "gofield list" where
  "fs_HTTPGetAction =
    [Field ''Path'' ''path'' True TString,
     Field ''Port'' ''port'' False (TCustom ''IntOrString''),
     Field ''Host'' ''host'' True TString,
     Field ''Scheme'' ''scheme'' True TString,
     Field ''HTTPHeaders'' ''httpHeaders'' True (TSlice (TStruct fs_HTTPHeader))]"

definition fs_TCPSocketAction :: "gofield list" where
  "fs_TCPSocketAction =
    [Field ''Port'' ''port'' False (TCustom ''IntOrString''),
     Field ''Host'' ''host'' True TString]"

definition fs_Handler :: "gofield list" where
  "fs_Handler =
    [Field ''Exec'' ''exec'' True (TPtr (TStruct fs_ExecAction)),
     Field ''HTTPGet'' ''httpGet'' True (TPtr (TStruct fs_HTTPGetAction)),
     Field ''TCPSocket'' ''tcpSocket'' True (TPtr (TStruct fs_TCPSocketAction))]"

definition fs_Probe :: "gofield list" where
  "fs_Probe =
    [Field ''Handler'' '''' False (TStruct fs_Handler),
     Field ''InitialDelaySeconds'' ''initialDelaySeconds'' True (TInt 32),
     Field ''TimeoutSeconds'' ''timeoutSeconds'' True (TInt 32),
     Field ''PeriodSeconds'' ''periodSeconds'' True (TInt 32),
     Field ''SuccessThreshold'' ''successThreshold'' True (TInt 32),
     Field ''FailureThreshold'' ''failureThreshold'' True (TInt 32)]"

definition fs_Lifecycle :: "gofield list" where
  "fs_Lifecycle =
    [Field ''PostStart'' ''postStart'' True (TPtr (TStruct fs_Handler)),
     Field ''PreStop'' ''preStop'' True (TPtr (TStruct fs_Handler))]"

definition fs_Capabilities :: "gofield list" where
  "fs_Capabilities =
    [Field ''Add'' ''add'' True (TSlice TString),
     Field ''Drop'' ''drop'' True (TSlice TString)]"

definition fs_SELinuxOptions :: "gofield list" where
  "fs_SELinuxOptions =
    [Field ''User'' ''user'' True TString,
     Field ''Role'' ''role'' True TString,
     Field ''Type'' ''type'' True TString,
     Field ''Level'' ''level'' True TString]"

definition fs_WindowsSecurityContextOptions :: "gofield list" where
  "fs_WindowsSecurityContextOptions =
    [Field ''GMSACredentialSpecName'' ''gmsaCredentialSpecName'' True (TPtr TString),
     Field ''GMSACredentialSpec'' ''gmsaCredentialSpec'' True (TPtr TString),
     Field ''RunAsUserName'' ''runAsUserName'' True (TPtr TString)]"

definition fs_SecurityContext :: "gofield list" where
  "fs_SecurityContext =
    [Field ''Capabilities'' ''capabilities'' True (TPtr (TStruct fs_Capabilities)),
     Field ''Privileged'' ''privileged'' True (TPtr TBool),
     Field ''SELinuxOptions'' ''seLinuxOptions'' True (TPtr (TStruct fs_SELinuxOptions)),
     Field ''WindowsOptions'' ''windowsOptions'' True (TPtr (TStruct fs_WindowsSecurityContextOptions)),
     Field ''RunAsUser'' ''runAsUser'' True (TPtr (TInt 64)),
     Field ''RunAsGroup'' ''runAsGroup'' True (TPtr (TInt 64)),
     Field ''RunAsNonRoot'' ''runAsNonRoot'' True (TPtr TBool),
     Field ''ReadOnlyRootFilesystem'' ''readOnlyRootFilesystem'' True (TPtr TBool),
     Field ''AllowPrivilegeEscalation'' ''allowPrivilegeEscalation'' True (TPtr TBool),
     Field ''ProcMount'' ''procMount'' True (TPtr TString)]"

definition fs_Container :: "gofield list" where
  "fs_Container =
    [Field ''Name'' ''name'' False TString,
     Field ''Image'' ''image'' True TString,
     Field ''Command'' ''command'' True (TSlice TString),
     Field ''Args'' ''args'' True (TSlice TString),
     Field ''WorkingDir'' ''workingDir'' True TString,
     Field ''Ports'' ''ports'' True (TSlice (TStruct fs_ContainerPort)),
     Field ''EnvFrom'' ''envFrom'' True (TSlice (TStruct fs_EnvFromSource)),
     Field ''Env'' ''env'' True (TSlice (TStruct fs_EnvVar)),
     Field ''Resources'' ''resources'' True (TStruct fs_ResourceRequirements),
     Field ''VolumeMounts'' ''volumeMounts'' True (TSlice (TStruct fs_VolumeMount)),
     Field ''VolumeDevices'' ''volumeDevices'' True (TSlice (TStruct fs_VolumeDevice)),
     Field ''LivenessProbe'' ''livenessProbe'' True (TPtr (TStruct fs_Probe)),
     Field ''ReadinessProbe'' ''readinessProbe'' True (TPtr (TStruct fs_Probe)),
     Field ''StartupProbe'' ''startupProbe'' True (TPtr (TStruct fs_Probe)),
     Field ''Lifecycle'' ''lifecycle'' True (TPtr (TStruct fs_Lifecycle)),
     Field ''TerminationMessagePath'' ''terminationMessagePath'' True TString,
     Field ''TerminationMessagePolicy'' ''terminationMessagePolicy'' True TString,
     Field ''ImagePullPolicy'' ''imagePullPolicy'' True TString,
     Field ''SecurityContext'' ''securityContext'' True (TPtr (TStruct fs_SecurityContext)),
     Field ''Stdin'' ''stdin'' True TBool,
     Field ''StdinOnce'' ''stdinOnce'' True TBool,
     Field ''TTY'' ''tty'' True TBool]"

definition fs_EphemeralContainerCommon :: "gofield list" where
  "fs_EphemeralContainerCommon =
    [Field ''Name'' ''name'' False TString,
     Field ''Image'' ''image'' True TString,
     Field ''Command'' ''command'' True (TSlice TString),
     Field ''Args'' ''args'' True (TSlice TString),
     Field ''WorkingDir'' ''workingDir'' True TString,
     Field ''Ports'' ''ports'' True (TSlice (TStruct fs_ContainerPort)),
     Field ''EnvFrom'' ''envFrom'' True (TSlice (TStruct fs_EnvFromSource)),
     Field ''Env'' ''env'' True (TSlice (TStruct fs_EnvVar)),
     Field ''Resources'' ''resources'' True (TStruct fs_ResourceRequirements),
     Field ''VolumeMounts'' ''volumeMounts'' True (TSlice (TStruct fs_VolumeMount)),
     Field ''VolumeDevices'' ''volumeDevices'' True (TSlice (TStruct fs_VolumeDevice)),
     Field ''LivenessProbe'' ''livenessProbe'' True (TPtr (TStruct fs_Probe)),
     Field ''ReadinessProbe'' ''readinessProbe'' True (TPtr (TStruct fs_Probe)),
     Field ''StartupProbe'' ''startupProbe'' True (TPtr (TStruct fs_Probe)),
     Field ''Lifecycle'' ''lifecycle'' True (TPtr (TStruct fs_Lifecycle)),
     Field ''TerminationMessagePath'' ''terminationMessagePath'' True TString,
     Field ''TerminationMessagePolicy'' ''terminationMessagePolicy'' True TString,
     Field ''ImagePullPolicy'' ''imagePullPolicy'' True TString,
     Field ''SecurityContext'' ''securityContext'' True (TPtr (TStruct fs_SecurityContext)),
     Field ''Stdin'' ''stdin'' True TBool,
     Field ''StdinOnce'' ''stdinOnce'' True TBool,
     Field ''TTY'' ''tty'' True TBool]"

definition fs_EphemeralContainer :: "gofield list" where
  "fs_EphemeralContainer =
    [Field ''EphemeralContainerCommon'' '''' False (TStruct fs_EphemeralContainerCommon),
     Field ''TargetContainerName'' ''targetContainerName'' True TString]"

definition fs_Sysctl :: "gofield list" where
  "fs_Sysctl =
    [Field ''Name'' ''name'' False TString,
     Field ''Value'' ''value'' False TString]"

definition fs_PodSecurityContext :: "gofield list" where
  "fs_PodSecurityContext =
    [Field ''SELinuxOptions'' ''seLinuxOptions'' True (TPtr (TStruct fs_SELinuxOptions)),
     Field ''WindowsOptions'' ''windowsOptions'' True (TPtr (TStruct fs_WindowsSecurityContextOptions)),
     Field ''RunAsUser'' ''runAsUser'' True (TPtr (TInt 64)),
     Field ''RunAsGroup'' ''runAsGroup'' True (TPtr (TInt 64)),
     Field ''RunAsNonRoot'' ''runAsNonRoot'' True (TPtr TBool),
     Field ''SupplementalGroups'' ''supplementalGroups'' True (TSlice (TInt 64)),
     Field ''FSGroup'' ''fsGroup'' True (TPtr (TInt 64)),
     Field ''Sysctls'' ''sysctls'' True (TSlice (TStruct fs_Sysctl))]"

definition fs_NodeSelectorRequirement :: "gofield list" where
  "fs_NodeSelectorRequirement =
    [Field ''Key'' ''key'' False TString,
     Field ''Operator'' ''operator'' False TString,
     Field ''Values'' ''values'' True (TSlice TString)]"

definition fs_NodeSelectorTerm :: "gofield list" where
  "fs_NodeSelectorTerm =
    [Field ''MatchExpressions'' ''matchExpressions'' True (TSlice (TStruct fs_NodeSelectorRequirement)),
     Field ''MatchFields'' ''matchFields'' True (TSlice (TStruct fs_NodeSelectorRequirement))]"

definition fs_NodeSelector :: "gofield list" where
  "fs_NodeSelector =
    [Field ''NodeSelectorTerms'' ''nodeSelectorTerms'' False (TSlice (TStruct fs_NodeSelectorTerm))]"

definition fs_PreferredSchedulingTerm :: "gofield list" where
  "fs_PreferredSchedulingTerm =
    [Field ''Weight'' ''weight'' False (TInt 32),
     Field ''Preference'' ''preference'' False (TStruct fs_NodeSelectorTerm)]"

definition fs_NodeAffinity :: "gofield list" where
  "fs_NodeAffinity =
    [Field ''RequiredDuringSchedulingIgnoredDuringExecution'' ''requiredDuringSchedulingIgnoredDuringExecution'' True (TPtr (TStruct fs_NodeSelector)),
     Field ''PreferredDuringSchedulingIgnoredDuringExecution'' ''preferredDuringSchedulingIgnoredDuringExecution'' True (TSlice (TStruct fs_PreferredSchedulingTerm))]"

definition fs_PodAffinityTerm :: "gofield list" where
  "fs_PodAffinityTerm =
    [Field ''LabelSelector'' ''labelSelector'' True (TPtr (TStruct fs_LabelSelector)),
     Field ''Namespaces'' ''namespaces'' True (TSlice TString),
     Field ''TopologyKey'' ''topologyKey'' False TString]"

definition fs_WeightedPodAffinityTerm :: "gofield list" where
  "fs_WeightedPodAffinityTerm =
    [Field ''Weight'' ''weight'' False (TInt 32),
     Field ''PodAffinityTerm'' ''podAffinityTerm'' False (TStruct fs_PodAffinityTerm)]"

definition fs_PodAffinity :: "gofield list" where
  "fs_PodAffinity =
    [Field ''RequiredDuringSchedulingIgnoredDuringExecution'' ''requiredDuringSchedulingIgnoredDuringExecution'' True (TSlice (TStruct fs_PodAffinityTerm)),
     Field ''PreferredDuringSchedulingIgnoredDuringExecution'' ''preferredDuringSchedulingIgnoredDuringExecution'' True (TSlice (TStruct fs_WeightedPodAffinityTerm))]"

definition fs_PodAntiAffinity :: "gofield list" where
  "fs_PodAntiAffinity =
    [Field ''RequiredDuringSchedulingIgnoredDuringExecution'' ''requiredDuringSchedulingIgnoredDuringExecution'' True (TSlice (TStruct fs_PodAffinityTerm)),
     Field ''PreferredDuringSchedulingIgnoredDuringExecution'' ''preferredDuringSchedulingIgnoredDuringExecution'' True (TSlice (TStruct fs_WeightedPodAffinityTerm))]"

definition fs_Affinity :: "gofield list" where
  "fs_Affinity =
    [Field ''NodeAffinity'' ''nodeAffinity'' True (TPtr (TStruct fs_NodeAffinity)),
     Field ''PodAffinity'' ''podAffinity'' True (TPtr (TStruct fs_PodAffinity)),
     Field ''PodAntiAffinity'' ''podAntiAffinity'' True (TPtr (TStruct fs_PodAntiAffinity))]"

definition fs_Toleration :: "gofield list" where
  "fs_Toleration =
    [Field ''Key'' ''key'' True TString,
     Field ''Operator'' ''operator'' True TString,
     Field ''Value'' ''value'' True TString,
     Field ''Effect'' ''effect'' True TString,
     Field ''TolerationSeconds'' ''tolerationSeconds'' True (TPtr (TInt 64))]"

definition fs_HostAlias :: "gofield list" where
  "fs_HostAlias =
    [Field ''IP'' ''ip'' True TString,
     Field ''Hostnames'' ''hostnames'' True (TSlice TString)]"

definition fs_PodDNSConfigOption :: "gofield list" where
  "fs_PodDNSConfigOption =
    [Field ''Name'' ''name'' True TString,
     Field ''Value'' ''value'' True (TPtr TString)]"

definition fs_PodDNSConfig :: "gofield list" where
  "fs_PodDNSConfig =
    [Field ''Nameservers'' ''nameservers'' True (TSlice TString),
     Field ''Searches'' ''searches'' True (TSlice TString),
     Field ''Options'' ''options'' True (TSlice (TStruct fs_PodDNSConfigOption))]"

definition fs_PodReadinessGate :: "gofield list" where
  "fs_PodReadinessGate =
    [Field ''ConditionType'' ''conditionType'' False TString]"

definition fs_TopologySpreadConstraint :: "gofield list" where
  "fs_TopologySpreadConstraint =
    [Field ''MaxSkew'' ''maxSkew'' False (TInt 32),
     Field ''TopologyKey'' ''topologyKey'' False TString,
     Field ''WhenUnsatisfiable'' ''whenUnsatisfiable'' False TString,
     Field ''LabelSelector'' ''labelSelector'' True (TPtr (TStruct fs_LabelSelector))]"

definition fs_PodSpec :: "gofield list" where
  "fs_PodSpec =
    [Field ''Volumes'' ''volumes'' True (TSlice (TStruct fs_Volume)),
     Field ''InitContainers'' ''initContainers'' True (TSlice (TStruct fs_Container)),
     Field ''Containers'' ''containers'' False (TSlice (TStruct fs_Container)),
     Field ''EphemeralContainers'' ''ephemeralContainers'' True (TSlice (TStruct fs_EphemeralContainer)),
     Field ''RestartPolicy'' ''restartPolicy'' True TString,
     Field ''TerminationGracePeriodSeconds'' ''terminationGracePeriodSeconds'' True (TPtr (TInt 64)),
     Field ''ActiveDeadlineSeconds'' ''activeDeadlineSeconds'' True (TPtr (TInt 64)),
     Field ''DNSPolicy'' ''dnsPolicy'' True TString,
     Field ''NodeSelector'' ''nodeSelector'' True (TMap TString),
     Field ''ServiceAccountName'' ''serviceAccountName'' True TString,
     Field ''DeprecatedServiceAccount'' ''serviceAccount'' True TString,
     Field ''AutomountServiceAccountToken'' ''automountServiceAccountToken'' True (TPtr TBool),
     Field ''NodeName'' ''nodeName'' True TString,
     Field ''HostNetwork'' ''hostNetwork'' True TBool,
     Field ''HostPID'' ''hostPID'' True TBool,
     Field ''HostIPC'' ''hostIPC'' True TBool,
     Field ''ShareProcessNamespace'' ''shareProcessNamespace'' True (TPtr TBool),
     Field ''SecurityContext'' ''securityContext'' True (TPtr (TStruct fs_PodSecurityContext)),
     Field ''ImagePullSecrets'' ''imagePullSecrets'' True (TSlice (TStruct fs_LocalObjectReference)),
     Field ''Hostname'' ''hostname'' True TString,
     Field ''Subdomain'' ''subdomain'' True TString,
     Field ''Affinity'' ''affinity'' True (TPtr (TStruct fs_Affinity)),
     Field ''SchedulerName'' ''schedulerName'' True TString,
     Field ''Tolerations'' ''tolerations'' True (TSlice (TStruct fs_Toleration)),
     Field ''HostAliases'' ''hostAliases'' True (TSlice (TStruct fs_HostAlias)),
     Field ''PriorityClassName'' ''priorityClassName'' True TString,
     Field ''Priority'' ''priority'' True (TPtr (TInt 32)),
     Field ''DNSConfig'' ''dnsConfig'' True (TPtr (TStruct fs_PodDNSConfig)),
     Field ''ReadinessGates'' ''readinessGates'' True (TSlice (TStruct fs_PodReadinessGate)),
     Field ''RuntimeClassName'' ''runtimeClassName'' True (TPtr TString),
     Field ''EnableServiceLinks'' ''enableServiceLinks'' True (TPtr TBool),
     Field ''PreemptionPolicy'' ''preemptionPolicy'' True (TPtr TString),
     Field ''Overhead'' ''overhead'' True (TMap (TCustom ''Quantity'')),
     Field ''TopologySpreadConstraints'' ''topologySpreadConstraints'' True (TSlice (TStruct fs_TopologySpreadConstraint))]"

definition fs_PodTemplateSpec :: "gofield list" where
  "fs_PodTemplateSpec =
    [Field ''ObjectMeta'' ''metadata'' True (TStruct fs_ObjectMeta),
     Field ''Spec'' ''spec'' True (TStruct fs_PodSpec)]"

definition fs_RollingUpdateDeployment :: "gofield list" where
  "fs_RollingUpdateDeployment =
    [Field ''MaxUnavailable'' ''maxUnavailable'' True (TPtr (TCustom ''IntOrString'')),
     Field ''MaxSurge'' ''maxSurge'' True (TPtr (TCustom ''IntOrString''))]"

definition fs_DeploymentStrategy :: "gofield list" where
  "fs_DeploymentStrategy =
    [Field ''Type'' ''type'' True TString,
     Field ''RollingUpdate'' ''rollingUpdate'' True (TPtr (TStruct fs_RollingUpdateDeployment))]"

definition fs_DeploymentSpec :: "gofield list" where
  "fs_DeploymentSpec =
    [Field ''Replicas'' ''replicas'' True (TPtr (TInt 32)),
     Field ''Selector'' ''selector'' False (TPtr (TStruct fs_LabelSelector)),
     Field ''Template'' ''template'' False (TStruct fs_PodTemplateSpec),
     Field ''Strategy'' ''strategy'' True (TStruct fs_DeploymentStrategy),
     Field ''MinReadySeconds'' ''minReadySeconds'' True (TInt 32),
     Field ''RevisionHistoryLimit'' ''revisionHistoryLimit'' True (TPtr (TInt 32)),
     Field ''Paused'' ''paused'' True TBool,
     Field ''ProgressDeadlineSeconds'' ''progressDeadlineSeconds'' True (TPtr (TInt 32))]"

definition fs_DeploymentCondition :: "gofield list" where
  "fs_DeploymentCondition =
    [Field ''Type'' ''type'' False TString,
     Field ''Status'' ''status'' False TString,
     Field ''LastUpdateTime'' ''lastUpdateTime'' True (TCustom ''Time''),
     Field ''LastTransitionTime'' ''lastTransitionTime'' True (TCustom ''Time''),
     Field ''Reason'' ''reason'' True TString,
     Field ''Message'' ''message'' True TString]"

definition fs_DeploymentStatus :: "gofield list" where
  "fs_DeploymentStatus =
    [Field ''ObservedGeneration'' ''observedGeneration'' True (TInt 64),
     Field ''Replicas'' ''replicas'' True (TInt 32),
     Field ''UpdatedReplicas'' ''updatedReplicas'' True (TInt 32),
     Field ''ReadyReplicas'' ''readyReplicas'' True (TInt 32),
     Field ''AvailableReplicas'' ''availableReplicas'' True (TInt 32),
     Field ''UnavailableReplicas'' ''unavailableReplicas'' True (TInt 32),
     Field ''Conditions'' ''conditions'' True (TSlice (TStruct fs_DeploymentCondition)),
     Field ''CollisionCount'' ''collisionCount'' True (TPtr (TInt 32))]"

definition fs_Deployment :: "gofield list" where
  "fs_Deployment =
    [Field ''TypeMeta'' '''' False (TStruct fs_TypeMeta),
     Field ''ObjectMeta'' ''metadata'' True (TStruct fs_ObjectMeta),
     Field ''Spec'' ''spec'' True (TStruct fs_DeploymentSpec),
     Field ''Status'' ''status'' True (TStruct fs_DeploymentStatus)]"

definition fs_RollingUpdateDaemonSet :: "gofield list" where
  "fs_RollingUpdateDaemonSet =
    [Field ''MaxUnavailable'' ''maxUnavailable'' True (TPtr (TCustom ''IntOrString''))]"

definition fs_DaemonSetUpdateStrategy :: "gofield list" where
  "fs_DaemonSetUpdateStrategy =
    [Field ''Type'' ''type'' True TString,
     Field ''RollingUpdate'' ''rollingUpdate'' True (TPtr (TStruct fs_RollingUpdateDaemonSet))]"

definition fs_DaemonSetSpec :: "gofield list" where
  "fs_DaemonSetSpec =
    [Field ''Selector'' ''selector'' False (TPtr (TStruct fs_LabelSelector)),
     Field ''Template'' ''template'' False (TStruct fs_PodTemplateSpec),
     Field ''UpdateStrategy'' ''updateStrategy'' True (TStruct fs_DaemonSetUpdateStrategy),
     Field ''MinReadySeconds'' ''minReadySeconds'' True (TInt 32),
     Field ''RevisionHistoryLimit'' ''revisionHistoryLimit'' True (TPtr (TInt 32))]"

definition fs_DaemonSetCondition :: "gofield list" where
  "fs_DaemonSetCondition =
    [Field ''Type'' ''type'' False TString,
     Field ''Status'' ''status'' False TString,
     Field ''LastTransitionTime'' ''lastTransitionTime'' True (TCustom ''Time''),
     Field ''Reason'' ''reason'' True TString,
     Field ''Message'' ''message'' True TString]"

definition fs_DaemonSetStatus :: "gofield list" where
  "fs_DaemonSetStatus =
    [Field ''CurrentNumberScheduled'' ''currentNumberScheduled'' False (TInt 32),
     Field ''NumberMisscheduled'' ''numberMisscheduled'' False (TInt 32),
     Field ''DesiredNumberScheduled'' ''desiredNumberScheduled'' False (TInt 32),
     Field ''NumberReady'' ''numberReady'' False (TInt 32),
     Field ''ObservedGeneration'' ''observedGeneration'' True (TInt 64),
     Field ''UpdatedNumberScheduled'' ''updatedNumberScheduled'' True (TInt 32),
     Field ''NumberAvailable'' ''numberAvailable'' True (TInt 32),
     Field ''NumberUnavailable'' ''numberUnavailable'' True (TInt 32),
     Field ''CollisionCount'' ''collisionCount'' True (TPtr (TInt 32)),
     Field ''Conditions'' ''conditions'' True (TSlice (TStruct fs_DaemonSetCondition))]"

definition fs_DaemonSet :: "gofield list" where
  "fs_DaemonSet =
    [Field ''TypeMeta'' '''' False (TStruct fs_TypeMeta),
     Field ''ObjectMeta'' ''metadata'' True (TStruct fs_ObjectMeta),
     Field ''Spec'' ''spec'' True (TStruct fs_DaemonSetSpec),
     Field ''Status'' ''status'' True (TStruct fs_DaemonSetStatus)]"

definition fs_ImageSpec :: "gofield list" where
  "fs_ImageSpec =
    [Field ''Image'' ''image'' False TString,
     Field ''ServiceAccountName'' ''serviceAccountName'' True TString,
     Field ''ImagePullSecrets'' ''imagePullSecrets'' True (TSlice (TStruct fs_LocalObjectReference))]"

definition fs_ImageCondition :: "gofield list" where
  "fs_ImageCondition =
    [Field ''Type'' ''type'' False TString,
     Field ''Status'' ''status'' False TString,
     Field ''LastTransitionTime'' ''lastTransitionTime'' True (TCustom ''VolatileTime''),
     Field ''Reason'' ''reason'' True TString,
     Field ''Message'' ''message'' True TString]"

definition fs_ImageStatus :: "gofield list" where
  "fs_ImageStatus =
    [Field ''Conditions'' ''conditions'' True (TSlice (TStruct fs_ImageCondition))]"

definition fs_Image :: "gofield list" where
  "fs_Image =
    [Field ''TypeMeta'' '''' False (TStruct fs_TypeMeta),
     Field ''ObjectMeta'' ''metadata'' True (TStruct fs_ObjectMeta),
     Field ''Spec'' ''spec'' True (TStruct fs_ImageSpec),
     Field ''Status'' ''status'' True (TStruct fs_ImageStatus)]"

lemmas api_types =
  fs_TypeMeta_def
  fs_OwnerReference_def
  fs_ManagedFieldsEntry_def
  fs_ObjectMeta_def
  fs_LabelSelectorRequirement_def
  fs_LabelSelector_def
  fs_HostPathVolumeSource_def
  fs_EmptyDirVolumeSource_def
  fs_GCEPersistentDiskVolumeSource_def
  fs_AWSElasticBlockStoreVolumeSource_def
  fs_GitRepoVolumeSource_def
  fs_KeyToPath_def
  fs_SecretVolumeSource_def
  fs_NFSVolumeSource_def
  fs_LocalObjectReference_def
  fs_ISCSIVolumeSource_def
  fs_GlusterfsVolumeSource_def
  fs_PersistentVolumeClaimVolumeSource_def
  fs_RBDVolumeSource_def
  fs_FlexVolumeSource_def
  fs_CinderVolumeSource_def
  fs_CephFSVolumeSource_def
  fs_FlockerVolumeSource_def
  fs_ObjectFieldSelector_def
  fs_ResourceFieldSelector_def
  fs_DownwardAPIVolumeFile_def
  fs_DownwardAPIVolumeSource_def
  fs_FCVolumeSource_def
  fs_AzureFileVolumeSource_def
  fs_ConfigMapVolumeSource_def
  fs_VsphereVirtualDiskVolumeSource_def
  fs_QuobyteVolumeSource_def
  fs_AzureDiskVolumeSource_def
  fs_PhotonPersistentDiskVolumeSource_def
  fs_SecretProjection_def
  fs_DownwardAPIProjection_def
  fs_ConfigMapProjection_def
  fs_ServiceAccountTokenProjection_def
  fs_VolumeProjection_def
  fs_ProjectedVolumeSource_def
  fs_PortworxVolumeSource_def
  fs_ScaleIOVolumeSource_def
  fs_StorageOSVolumeSource_def
  fs_CSIVolumeSource_def
  fs_VolumeSource_def
  fs_Volume_def
  fs_ContainerPort_def
  fs_ConfigMapEnvSource_def
  fs_SecretEnvSource_def
  fs_EnvFromSource_def
  fs_ConfigMapKeySelector_def
  fs_SecretKeySelector_def
  fs_EnvVarSource_def
  fs_EnvVar_def
  fs_ResourceRequirements_def
  fs_VolumeMount_def
  fs_VolumeDevice_def
  fs_ExecAction_def
  fs_HTTPHeader_def
  fs_HTTPGetAction_def
  fs_TCPSocketAction_def
  fs_Handler_def
  fs_Probe_def
  fs_Lifecycle_def
  fs_Capabilities_def
  fs_SELinuxOptions_def
  fs_WindowsSecurityContextOptions_def
  fs_SecurityContext_def
  fs_Container_def
  fs_EphemeralContainerCommon_def
  fs_EphemeralContainer_def
  fs_Sysctl_def
  fs_PodSecurityContext_def
  fs_NodeSelectorRequirement_def
  fs_NodeSelectorTerm_def
  fs_NodeSelector_def
  fs_PreferredSchedulingTerm_def
  fs_NodeAffinity_def
  fs_PodAffinityTerm_def
  fs_WeightedPodAffinityTerm_def
  fs_PodAffinity_def
  fs_PodAntiAffinity_def
  fs_Affinity_def
  fs_Toleration_def
  fs_HostAlias_def
  fs_PodDNSConfigOption_def
  fs_PodDNSConfig_def
  fs_PodReadinessGate_def
  fs_TopologySpreadConstraint_def
  fs_PodSpec_def
  fs_PodTemplateSpec_def
  fs_RollingUpdateDeployment_def
  fs_DeploymentStrategy_def
  fs_DeploymentSpec_def
  fs_DeploymentCondition_def
  fs_DeploymentStatus_def
  fs_Deployment_def
  fs_RollingUpdateDaemonSet_def
  fs_DaemonSetUpdateStrategy_def
  fs_DaemonSetSpec_def
  fs_DaemonSetCondition_def
  fs_DaemonSetStatus_def
  fs_DaemonSet_def
  fs_ImageSpec_def
  fs_ImageCondition_def
  fs_ImageStatus_def
  fs_Image_def

text \<open>All of them are well formed: within a struct, inlined structs included, no two fields share a JSON name.\<close>

lemma wf_Deployment: "wf_type (TStruct fs_Deployment)"
  by code_simp

lemma wf_DaemonSet: "wf_type (TStruct fs_DaemonSet)"
  by code_simp

lemma wf_Image: "wf_type (TStruct fs_Image)"
  by code_simp

end
