(* ===== verification/Scheme.thy ===== *)
theory Scheme
  imports Manifest_Transform Api_Types
begin

text \<open>
  \<open>runtime.Scheme\<close> as the transformers use it (\<open>vendor/k8s.io/apimachinery/pkg/runtime/scheme.go\<close>):
  an unstructured object is converted to a Go struct, the struct is changed, and the struct is
  converted back.

  What is registered in the scheme, the conversion functions between registered versions and the
  codecs of the custom types are the fields of \<open>scheme\<close>. A conversion between equal types copies
  the value; any other goes through \<open>convert_version\<close>.
\<close>

section \<open>Schemes\<close>

record scheme =
  schemeName :: string
  gvkToType :: "GroupVersionKind \<Rightarrow> gofield list option"
  convert_version :: "GroupVersionKind \<Rightarrow> GroupVersionKind \<Rightarrow> goval \<Rightarrow> goval result"
  codecs :: codec

text \<open>\<open>GroupVersionKind.String\<close> and the error texts of \<open>runtime/error.go\<close>.\<close>

definition gvk_String :: "GroupVersionKind \<Rightarrow> string" where
  "gvk_String gvk = gvkGroup gvk @ ''/'' @ gvkVersion gvk @ '', Kind='' @ gvkKind gvk"

definition gvk_GroupVersion :: "GroupVersionKind \<Rightarrow> GroupVersion" where
  "gvk_GroupVersion gvk = \<lparr>gvGroup = gvkGroup gvk, gvVersion = gvkVersion gvk\<rparr>"

definition quoted :: "string \<Rightarrow> string" where
  "quoted s = [CHR 0x22] @ s @ [CHR 0x22]"

definition NewNotRegisteredErrForKind :: "string \<Rightarrow> GroupVersionKind \<Rightarrow> error" where
  "NewNotRegisteredErrForKind name gvk =
     Errorf
       (if gvkKind gvk = [] then
          ''no version '' @ quoted (gv_String (gvk_GroupVersion gvk)) @ '' has been registered in scheme ''
            @ quoted name
        else if gvkVersion gvk = ''__internal'' then
          ''no kind '' @ quoted (gvkKind gvk) @ '' is registered for the internal version of group ''
            @ quoted (gvkGroup gvk) @ '' in scheme '' @ quoted name
        else
          ''no kind '' @ quoted (gvkKind gvk) @ '' is registered for version ''
            @ quoted (gv_String (gvk_GroupVersion gvk)) @ '' in scheme '' @ quoted name)"

definition missing_error :: "string \<Rightarrow> string \<Rightarrow> error" where
  "missing_error field data =
     Errorf (''Object '' @ [CHR 0x27] @ field @ [CHR 0x27] @ '' is missing in '' @ [CHR 0x27] @ data @ [CHR 0x27])"

text \<open>\<open>ObjectKinds\<close> of an unstructured object.\<close>

definition ObjectKinds :: "obj \<Rightarrow> GroupVersionKind result" where
  "ObjectKinds u =
     (let gvk = GroupVersionKind_of u in
      if gvkKind gvk = [] then Err (missing_error ''Kind'' ''unstructured object has no kind'')
      else if gvkVersion gvk = []
      then Err (missing_error ''apiVersion'' ''unstructured object has no version'')
      else Ok gvk)"

definition New :: "scheme \<Rightarrow> GroupVersionKind \<Rightarrow> gofield list result" where
  "New s gvk =
     (case gvkToType s gvk of
        Some fs \<Rightarrow> Ok fs
      | None \<Rightarrow> Err (NewNotRegisteredErrForKind (schemeName s) gvk))"

definition unstructuredToTyped :: "scheme \<Rightarrow> obj \<Rightarrow> (GroupVersionKind \<times> goval) result" where
  "unstructuredToTyped s u =
     bind_result (ObjectKinds u)
       (\<lambda>gvk. bind_result (New s gvk)
         (\<lambda>fs. case fromUnstructured (codecs s) (TStruct fs) (JObj u) of
                 Ok v \<Rightarrow> Ok (gvk, v)
               | Err e \<Rightarrow> Err (Errorf (''unable to convert unstructured object to '' @ gvk_String gvk
                                       @ '': '' @ error_text e))
               | Panic p \<Rightarrow> Panic p))"

text \<open>\<open>Scheme.Convert\<close> from an unstructured object to a struct registered at \<open>target\<close>, and back.\<close>

definition convert_to_typed :: "scheme \<Rightarrow> GroupVersionKind \<Rightarrow> obj \<Rightarrow> goval result" where
  "convert_to_typed s target u =
     bind_result (unstructuredToTyped s u)
       (\<lambda>(gvk, v). if gvk = target then Ok v else convert_version s gvk target v)"

definition SetGroupVersionKind :: "GroupVersionKind \<Rightarrow> obj \<Rightarrow> obj" where
  "SetGroupVersionKind gvk u = SetKind (gvkKind gvk) (SetAPIVersion (gv_String (gvk_GroupVersion gvk)) u)"

definition convert_to_unstructured :: "GroupVersionKind \<Rightarrow> gofield list \<Rightarrow> goval \<Rightarrow> obj" where
  "convert_to_unstructured gvk fs v =
     (case toUnstructured (TStruct fs) v of
        JObj content \<Rightarrow> SetGroupVersionKind gvk content
      | _ \<Rightarrow> [])"

section \<open>Registered kinds\<close>

definition gvk_Deployment :: GroupVersionKind where
  "gvk_Deployment = \<lparr>gvkGroup = ''apps'', gvkVersion = ''v1'', gvkKind = ''Deployment''\<rparr>"

definition gvk_DaemonSet :: GroupVersionKind where
  "gvk_DaemonSet = \<lparr>gvkGroup = ''apps'', gvkVersion = ''v1'', gvkKind = ''DaemonSet''\<rparr>"

definition gvk_Image :: GroupVersionKind where
  "gvk_Image = \<lparr>gvkGroup = ''caching.internal.knative.dev'', gvkVersion = ''v1alpha1'', gvkKind = ''Image''\<rparr>"

section \<open>Fields of Go structs\<close>

text \<open>\<open>v.Field\<close> and \<open>v.Field = f(v.Field)\<close>; \<open>at_path\<close> changes a field of nested structs.\<close>

fun sfield :: "string \<Rightarrow> goval \<Rightarrow> goval" where
  "sfield g (VStruct vs) = (case map_of vs g of Some v \<Rightarrow> v | None \<Rightarrow> VStruct [])"
| "sfield g v = VStruct []"

fun set_sfield :: "string \<Rightarrow> goval \<Rightarrow> goval \<Rightarrow> goval" where
  "set_sfield g x (VStruct vs) = VStruct (map (\<lambda>(h, y). (h, if h = g then x else y)) vs)"
| "set_sfield g x v = v"

fun as_gostring :: "goval \<Rightarrow> string" where
  "as_gostring (VString s) = s"
| "as_gostring v = []"

text \<open>\<open>len\<close> and \<open>range\<close> treat a nil slice as an empty one, and so does \<open>append\<close>.\<close>

fun elems :: "goval \<Rightarrow> goval list" where
  "elems (VSlice (Some xs)) = xs"
| "elems v = []"

text \<open>\<open>append(s, xs...)\<close>: appending nothing to a nil slice leaves it nil.\<close>

definition append_all :: "goval \<Rightarrow> goval list \<Rightarrow> goval" where
  "append_all s xs = (if xs = [] then s else VSlice (Some (elems s @ xs)))"

text \<open>\<open>for i := range s { s[i] = f(s[i]) }\<close>.\<close>

fun map_elems :: "(goval \<Rightarrow> goval) \<Rightarrow> goval \<Rightarrow> goval" where
  "map_elems f (VSlice (Some xs)) = VSlice (Some (map f xs))"
| "map_elems f v = v"

text \<open>\<open>Spec.Template.Spec\<close>, where a deployment and a daemon set have their \<open>PodSpec\<close>.\<close>

definition pod_spec :: "goval \<Rightarrow> goval" where
  "pod_spec v = sfield ''Spec'' (sfield ''Template'' (sfield ''Spec'' v))"

definition set_pod_spec :: "goval \<Rightarrow> goval \<Rightarrow> goval" where
  "set_pod_spec p v =
     set_sfield ''Spec'' (set_sfield ''Template'' (set_sfield ''Spec'' p (sfield ''Template'' (sfield ''Spec'' v)))
       (sfield ''Spec'' v)) v"

definition meta_Name :: "goval \<Rightarrow> string" where
  "meta_Name v = as_gostring (sfield ''Name'' (sfield ''ObjectMeta'' v))"

end
