(* ===== verification/Typed_Objects.thy ===== *)
theory Typed_Objects
  imports Scheme
begin

text \<open>
  What a resource looks like after it was converted to a Go struct, changed there, and converted
  back: which JSON field shows which Go field, and that the identity, the namespace and the owner
  of the resource survive. The locale \<open>workload\<close> states what the code uses of \<open>Deployment\<close> and
  \<open>DaemonSet\<close>: metadata and a pod template.
\<close>

section \<open>Fields of typed values\<close>

definition good_struct :: "gofield list \<Rightarrow> bool" where
  "good_struct fs \<longleftrightarrow> distinct (field_names fs) \<and> distinct (go_names fs)"

lemma good_structs [simp]:
  "good_struct fs_Deployment" "good_struct fs_DeploymentSpec" "good_struct fs_DaemonSet"
  "good_struct fs_DaemonSetSpec" "good_struct fs_PodTemplateSpec" "good_struct fs_PodSpec"
  "good_struct fs_Container" "good_struct fs_ObjectMeta" "good_struct fs_Image"
  "good_struct fs_ImageSpec" "good_struct fs_OwnerReference"
  "good_struct fs_LocalObjectReference" "good_struct fs_ResourceRequirements"
  by code_simp+

lemma ObjectMeta_fields [simp]:
  "Field ''Name'' ''name'' True TString \<in> set fs_ObjectMeta"
  "Field ''Namespace'' ''namespace'' True TString \<in> set fs_ObjectMeta"
  "Field ''OwnerReferences'' ''ownerReferences'' True (TSlice (TStruct fs_OwnerReference)) \<in> set fs_ObjectMeta"
  by (simp_all add: fs_ObjectMeta_def)

lemma sfield_found:
  "has_fields fs vs \<Longrightarrow> good_struct fs \<Longrightarrow> Field g jn oe t \<in> set fs \<Longrightarrow>
   \<exists>y. map_of vs g = Some y \<and> has_type t y"
proof (induction fs arbitrary: vs)
  case (Cons f fs)
  obtain g1 j1 o1 t1 where f: "f = Field g1 j1 o1 t1" by (cases f)
  with Cons.prems(1) obtain v1 vs1 where vs: "vs = (g1, v1) # vs1" "has_fields fs vs1" "has_type t1 v1"
    by (auto split: list.splits)
  show ?case
  proof (cases "Field g jn oe t = f")
    case True
    with f vs show ?thesis by simp
  next
    case False
    with Cons.prems(3) have in_fs: "Field g jn oe t \<in> set fs" by auto
    then have "g \<in> set (go_names fs)" by force
    with f Cons.prems(2) have "g \<noteq> g1" and "good_struct fs" by (auto simp: good_struct_def)
    with Cons.IH [OF vs(2) _ in_fs] vs show ?thesis by simp
  qed
qed simp

lemma sfield_type:
  "has_type (TStruct fs) v \<Longrightarrow> good_struct fs \<Longrightarrow> Field g jn oe t \<in> set fs \<Longrightarrow> has_type t (sfield g v)"
  using sfield_found by (fastforce split: goval.splits)

lemma set_sfield_fields:
  "has_fields fs vs \<Longrightarrow> \<forall>f \<in> set fs. go_name f = g \<longrightarrow> has_type (field_type f) x \<Longrightarrow>
   has_fields fs (map (\<lambda>(h, y). (h, if h = g then x else y)) vs)"
proof (induction fs arbitrary: vs)
  case (Cons f fs)
  then show ?case by (cases f) (auto split: list.splits)
qed simp

lemma set_sfield_type:
  assumes "has_type (TStruct fs) v" and "good_struct fs" and "Field g jn oe t \<in> set fs" and "has_type t x"
  shows "has_type (TStruct fs) (set_sfield g x v)"
proof -
  have "f = Field g jn oe t" if "f \<in> set fs" "go_name f = g" for f
    using that assms(2,3) by (auto simp: good_struct_def distinct_map inj_on_def)
  with assms(4) have "\<forall>f \<in> set fs. go_name f = g \<longrightarrow> has_type (field_type f) x"
    by (metis gofield.sel(4))
  with assms(1) set_sfield_fields show ?thesis by (auto split: goval.splits)
qed

lemma map_of_set_sfield:
  "map_of (map (\<lambda>(h, y). (h, if h = g then x else y)) vs) k =
   (case map_of vs k of None \<Rightarrow> None | Some y \<Rightarrow> Some (if k = g then x else y))"
  by (induction vs) auto

lemma sfield_set_other [simp]: "h \<noteq> g \<Longrightarrow> sfield h (set_sfield g x v) = sfield h v"
  by (cases v) (simp_all add: map_of_set_sfield split: option.splits)

lemma sfield_set_same:
  assumes "has_type (TStruct fs) v" and "good_struct fs" and "Field g jn oe t \<in> set fs"
  shows "sfield g (set_sfield g x v) = x"
proof -
  from assms(1) obtain vs where v: "v = VStruct vs" "has_fields fs vs" by (auto split: goval.splits)
  with sfield_found [OF v(2) assms(2,3)] show ?thesis by (auto simp: map_of_set_sfield)
qed

text \<open>The JSON of a struct, field by field.\<close>

lemma struct_json:
  assumes "has_type (TStruct fs) v" and "good_struct fs" and "Field g jn oe t \<in> set fs"
    and "jn \<noteq> []" and "jn \<noteq> ''-''"
  obtains m where "toUnstructured (TStruct fs) v = JObj m"
    and "map_of m jn = (if oe \<and> isZero (sfield g v) then None else Some (toUnstructured t (sfield g v)))"
proof -
  from assms(1) obtain vs where v: "v = VStruct vs" "has_fields fs vs" by (auto split: goval.splits)
  from sfield_found [OF v(2) assms(2,3)] obtain y where y: "map_of vs g = Some y" by auto
  have "map_of (structToUnstructured fs vs []) jn = (if oe \<and> isZero y then None else Some (toUnstructured t y))"
    using structToUnstructured_field [OF v(2) _ _ assms(3) y assms(4,5), of "[]"] assms(2)
    by (simp add: good_struct_def)
  with v y that show ?thesis by simp
qed

lemma nested_struct:
  assumes "has_type (TStruct fs) v" and "good_struct fs" and "Field g jn oe t \<in> set fs"
    and "jn \<noteq> []" and "jn \<noteq> ''-''"
  shows "nested_from seen (toUnstructured (TStruct fs) v) (jn # path) =
    (if oe \<and> isZero (sfield g v) then Ok None
     else nested_from (seen @ [jn]) (toUnstructured t (sfield g v)) path)"
proof -
  obtain m where "toUnstructured (TStruct fs) v = JObj m"
    and "map_of m jn = (if oe \<and> isZero (sfield g v) then None else Some (toUnstructured t (sfield g v)))"
    by (rule struct_json [OF assms])
  then show ?thesis by (simp split: option.splits)
qed

lemma struct_not_zero [simp]: "has_type (TStruct fs) v \<Longrightarrow> \<not> isZero v"
  by (auto split: goval.splits)

lemma struct_decoded:
  assumes "fromUnstructured c (TStruct fs) (JObj u) = Ok v" and "good_struct fs"
    and "Field g jn oe t \<in> set fs" and "jn \<noteq> []"
  shows "(case map_of u jn of None \<Rightarrow> Ok (zero c t) | Some j \<Rightarrow> fromUnstructured c t j) = Ok (sfield g v)"
proof -
  from assms(1) obtain vs where v: "v = VStruct vs" "structFromUnstructured c fs u = Ok vs" by auto
  with structFromUnstructured_field [OF v(2) _ assms(3)] assms(2,4) show ?thesis
    by (auto simp: good_struct_def)
qed

lemma decode_nonobject:
  "fromUnstructured c (TStruct fs) j = Ok v \<Longrightarrow> (\<exists>m. j = JObj m) \<or> j = JNull \<and> v = zero c (TStruct fs)"
  by (cases j) auto

lemma zero_fields_lookup:
  "distinct (go_names fs) \<Longrightarrow> Field g jn oe t \<in> set fs \<Longrightarrow> map_of (zero_fields c fs) g = Some (zero c t)"
proof (induction fs)
  case (Cons f fs)
  then show ?case by (cases f) force
qed simp

lemma zero_field:
  "good_struct fs \<Longrightarrow> Field g jn oe t \<in> set fs \<Longrightarrow> sfield g (zero c (TStruct fs)) = zero c t"
  by (simp add: zero_fields_lookup good_struct_def)

text \<open>A string below a struct field reads as the unstructured accessors read it.\<close>

lemma decoded_string:
  assumes v: "fromUnstructured c (TStruct fs) (JObj u) = Ok v" and fs: "good_struct fs" "Field gm jm om (TStruct ms) \<in> set fs"
    and ms: "good_struct ms" "Field g jn oe TString \<in> set ms" and "jm \<noteq> []" "jn \<noteq> []"
  shows "sfield g (sfield gm v) = VString (getNestedString u [jm, jn])"
proof -
  have meta: "(case map_of u jm of None \<Rightarrow> Ok (zero c (TStruct ms)) | Some j \<Rightarrow> fromUnstructured c (TStruct ms) j)
      = Ok (sfield gm v)"
    by (rule struct_decoded [OF v fs \<open>jm \<noteq> []\<close>])
  show ?thesis
  proof (cases "\<exists>md. map_of u jm = Some (JObj md)")
    case True
    then obtain md where md: "map_of u jm = Some (JObj md)" by blast
    with meta have "fromUnstructured c (TStruct ms) (JObj md) = Ok (sfield gm v)" by simp
    from struct_decoded [OF this ms \<open>jn \<noteq> []\<close>] md show ?thesis
      by (auto simp: getNestedString_def NestedString_def typed_field_def NestedFieldNoCopy_def
          split: option.splits json.splits)
  next
    case False
    with meta have zero: "sfield gm v = zero c (TStruct ms)"
      by (auto dest: decode_nonobject split: option.splits simp del: fromUnstructured.simps)
    from False meta have "map_of u jm = None \<or> map_of u jm = Some JNull"
      by (auto dest: decode_nonobject split: option.splits simp del: fromUnstructured.simps)
    then have "getNestedString u [jm, jn] = []"
      by (auto simp: getNestedString_def NestedString_def typed_field_def NestedFieldNoCopy_def)
    with zero zero_field [OF ms, of c] show ?thesis by simp
  qed
qed

section \<open>Objects with metadata\<close>

fun ref_value :: "OwnerReference \<Rightarrow> goval" where
  "ref_value r = VStruct
     [(''APIVersion'', VString (or_APIVersion r)), (''Kind'', VString (or_Kind r)),
      (''Name'', VString (or_Name r)), (''UID'', VString (or_UID r)),
      (''Controller'', VPtr (map_option VBool (or_Controller r))),
      (''BlockOwnerDeletion'', VPtr (map_option VBool (or_BlockOwnerDeletion r)))]"

lemma decode_ref: "fromUnstructured c (TStruct fs_OwnerReference) (JObj (OwnerReference_json r)) = Ok (ref_value r)"
  by (simp add: fs_OwnerReference_def OwnerReference_json_def split: option.splits)

lemma encode_ref: "toUnstructured (TStruct fs_OwnerReference) (ref_value r) = JObj (OwnerReference_json r)"
  by (auto simp: fs_OwnerReference_def OwnerReference_json_def split: option.splits)

locale api_object =
  fixes fs :: "gofield list" and gvk :: GroupVersionKind
  assumes good: "good_struct fs"
    and meta: "Field ''ObjectMeta'' ''metadata'' True (TStruct fs_ObjectMeta) \<in> set fs"
begin

lemma nested_unstructured:
  assumes "has_type (TStruct fs) v" and "jn \<noteq> ''apiVersion''" and "jn \<noteq> ''kind''"
  shows "NestedFieldNoCopy (convert_to_unstructured gvk fs v) (jn # path) =
    nested_from [] (toUnstructured (TStruct fs) v) (jn # path)"
proof -
  from assms(1) obtain m where "toUnstructured (TStruct fs) v = JObj m" by (auto split: goval.splits)
  with assms(2,3) show ?thesis
    by (simp add: convert_to_unstructured_def SetGroupVersionKind_def SetKind_def SetAPIVersion_def
        set_field_apart NestedFieldNoCopy_def [of m])
qed

lemma nested_meta:
  assumes "has_type (TStruct fs) v" and "Field g jn oe t \<in> set fs_ObjectMeta" and "jn \<noteq> []" "jn \<noteq> ''-''"
  shows "NestedFieldNoCopy (convert_to_unstructured gvk fs v) [''metadata'', jn] =
    (let x = sfield g (sfield ''ObjectMeta'' v) in
     if oe \<and> isZero x then Ok None else Ok (Some (toUnstructured t x)))"
proof -
  have om: "has_type (TStruct fs_ObjectMeta) (sfield ''ObjectMeta'' v)"
    by (rule sfield_type [OF assms(1) good meta])
  show ?thesis
    using nested_struct [OF assms(1) good meta, of "[]" "[jn]"] nested_struct [OF om _ assms(2-4)] om
    by (simp add: nested_unstructured [OF assms(1)] Let_def del: toUnstructured.simps has_type.simps)
qed

lemma meta_string:
  assumes "has_type (TStruct fs) v" and "Field g jn oe TString \<in> set fs_ObjectMeta" and "jn \<noteq> []" "jn \<noteq> ''-''"
  shows "getNestedString (convert_to_unstructured gvk fs v) [''metadata'', jn] = as_gostring (sfield g (sfield ''ObjectMeta'' v))"
proof -
  have "has_type TString (sfield g (sfield ''ObjectMeta'' v))"
    by (rule sfield_type [OF sfield_type [OF assms(1) good meta] _ assms(2)]) simp
  then obtain s where s: "sfield g (sfield ''ObjectMeta'' v) = VString s" by (auto split: goval.splits)
  with nested_meta [OF assms] show ?thesis
    by (auto simp: getNestedString_def NestedString_def typed_field_def split: if_splits)
qed

lemma GetName_unstructured:
  "has_type (TStruct fs) v \<Longrightarrow> GetName (convert_to_unstructured gvk fs v) = meta_Name v"
  using meta_string [of v "''Name''" "''name''" True] by (simp add: GetName_def meta_Name_def)

lemma GetNamespace_unstructured:
  "has_type (TStruct fs) v \<Longrightarrow>
   GetNamespace (convert_to_unstructured gvk fs v) = as_gostring (sfield ''Namespace'' (sfield ''ObjectMeta'' v))"
  using meta_string [of v "''Namespace''" "''namespace''" True] by (simp add: GetNamespace_def)

lemma GetKind_unstructured:
  "has_type (TStruct fs) v \<Longrightarrow> GetKind (convert_to_unstructured gvk fs v) = gvkKind gvk"
  by (auto simp: convert_to_unstructured_def SetGroupVersionKind_def GetKind_SetKind split: goval.splits)

lemma decoded_names:
  assumes "fromUnstructured c (TStruct fs) (JObj u) = Ok v"
  shows "meta_Name v = GetName u"
    and "sfield ''Namespace'' (sfield ''ObjectMeta'' v) = VString (GetNamespace u)"
proof -
  show "meta_Name v = GetName u"
    using decoded_string [OF assms good meta, of "''Name''" "''name''" True]
    by (simp add: meta_Name_def GetName_def)
  show "sfield ''Namespace'' (sfield ''ObjectMeta'' v) = VString (GetNamespace u)"
    using decoded_string [OF assms good meta, of "''Namespace''" "''namespace''" True]
    by (simp add: GetNamespace_def)
qed

lemma decoded_owners:
  assumes "fromUnstructured c (TStruct fs) (JObj u) = Ok v" and "owned_by u refs"
  shows "sfield ''OwnerReferences'' (sfield ''ObjectMeta'' v) = VSlice (Some (map ref_value refs))"
proof -
  from assms(2) obtain md where md: "map_of u ''metadata'' = Some (JObj md)"
      "map_of md ''ownerReferences'' = Some (JArr (map (\<lambda>r. JObj (OwnerReference_json r)) refs))"
    by (auto simp: owned_by_def NestedFieldNoCopy_def split: option.splits elim!: nested_from.elims)
  have "fromUnstructured c (TStruct fs_ObjectMeta) (JObj md) = Ok (sfield ''ObjectMeta'' v)"
    using struct_decoded [OF assms(1) good meta] md by (simp del: fromUnstructured.simps)
  from struct_decoded [OF this, of "''OwnerReferences''" "''ownerReferences''" True "TSlice (TStruct fs_OwnerReference)"]
  have "fromUnstructured c (TSlice (TStruct fs_OwnerReference)) (JArr (map (\<lambda>r. JObj (OwnerReference_json r)) refs))
      = Ok (sfield ''OwnerReferences'' (sfield ''ObjectMeta'' v))"
    by (simp add: md)
  moreover have "map_result (fromUnstructured c (TStruct fs_OwnerReference)) (map (\<lambda>r. JObj (OwnerReference_json r)) refs)
      = Ok (map ref_value refs)"
    by (rule map_result_map_Ok) (rule decode_ref)
  ultimately show ?thesis by (simp del: ref_value.simps fromUnstructured.simps(8))
qed

lemma encoded_owners:
  assumes "has_type (TStruct fs) v" and "refs \<noteq> []"
    and "sfield ''OwnerReferences'' (sfield ''ObjectMeta'' v) = VSlice (Some (map ref_value refs))"
  shows "owned_by (convert_to_unstructured gvk fs v) refs"
  using nested_meta [OF assms(1), of "''OwnerReferences''" "''ownerReferences''" True "TSlice (TStruct fs_OwnerReference)"]
    assms(2,3)
  by (simp add: owned_by_def comp_def encode_ref del: ref_value.simps toUnstructured.simps(8))

end

section \<open>Converting there and back\<close>

text \<open>
  What the code relies on in the registered conversions: they produce a value of the target type and
  copy the metadata. The kinds of the workloads are registered at their own types.
\<close>

definition scheme_ok :: "scheme \<Rightarrow> GroupVersionKind \<Rightarrow> gofield list \<Rightarrow> bool" where
  "scheme_ok s target fs \<longleftrightarrow>
     gvkToType s target = Some fs \<and>
     (\<forall>gvk fs' u v v'. gvkToType s gvk = Some fs' \<longrightarrow>
        fromUnstructured (codecs s) (TStruct fs') (JObj u) = Ok v \<longrightarrow> convert_version s gvk target v = Ok v' \<longrightarrow>
        has_type (TStruct fs) v' \<and> sfield ''ObjectMeta'' v' = sfield ''ObjectMeta'' v \<and>
        good_struct fs' \<and> Field ''ObjectMeta'' ''metadata'' True (TStruct fs_ObjectMeta) \<in> set fs')"

lemma unstructuredToTyped_Ok:
  assumes "unstructuredToTyped s u = Ok (g, w)"
  obtains fs where "ObjectKinds u = Ok g" and "gvkToType s g = Some fs"
    and "fromUnstructured (codecs s) (TStruct fs) (JObj u) = Ok w"
proof -
  from assms obtain k fs where k: "ObjectKinds u = Ok k" "New s k = Ok fs"
      and r: "(case fromUnstructured (codecs s) (TStruct fs) (JObj u) of
            Ok v \<Rightarrow> Ok (k, v)
          | Err e \<Rightarrow> Err (Errorf (''unable to convert unstructured object to '' @ gvk_String k @ '': '' @ error_text e))
          | Panic p \<Rightarrow> Panic p) = Ok (g, w)"
    unfolding unstructuredToTyped_def bind_result_Ok_iff by blast
  from r have "k = g" and "fromUnstructured (codecs s) (TStruct fs) (JObj u) = Ok w"
    by (simp_all del: fromUnstructured.simps split: result.splits)
  with k that show ?thesis by (simp add: New_def split: option.splits)
qed

context api_object begin

lemma convert_to_typed_meta:
  assumes "scheme_ok s gvk fs" and "convert_to_typed s gvk u = Ok v"
  shows "has_type (TStruct fs) v" and "meta_Name v = GetName u"
    and "sfield ''Namespace'' (sfield ''ObjectMeta'' v) = VString (GetNamespace u)"
    and "owned_by u refs \<Longrightarrow> sfield ''OwnerReferences'' (sfield ''ObjectMeta'' v) = VSlice (Some (map ref_value refs))"
proof -
  from assms(2) obtain g w where gw: "unstructuredToTyped s u = Ok (g, w)"
      "(if g = gvk then Ok w else convert_version s g gvk w) = Ok v"
    by (auto simp: convert_to_typed_def)
  then obtain fs0 where w: "gvkToType s g = Some fs0"
      "fromUnstructured (codecs s) (TStruct fs0) (JObj u) = Ok w"
    by (auto elim: unstructuredToTyped_Ok)
  have same: "has_type (TStruct fs) v \<and> sfield ''ObjectMeta'' v = sfield ''ObjectMeta'' w \<and>
      good_struct fs0 \<and> Field ''ObjectMeta'' ''metadata'' True (TStruct fs_ObjectMeta) \<in> set fs0"
  proof (cases "g = gvk")
    case True
    with w gw assms(1) have "fs0 = fs" and "v = w" by (simp_all add: scheme_ok_def)
    with w(2) fromUnstructured_type good meta show ?thesis by blast
  next
    case False
    with gw have "convert_version s g gvk w = Ok v" by simp
    with w(1,2) assms(1) show ?thesis unfolding scheme_ok_def by blast
  qed
  have src: "api_object fs0" by unfold_locales (use same in auto)
  note dec = api_object.decoded_names [OF src w(2)] api_object.decoded_owners [OF src w(2)]
  show "has_type (TStruct fs) v" using same by blast
  show "meta_Name v = GetName u" using dec same by (simp add: meta_Name_def)
  show "sfield ''Namespace'' (sfield ''ObjectMeta'' v) = VString (GetNamespace u)" using dec same by simp
  show "sfield ''OwnerReferences'' (sfield ''ObjectMeta'' v) = VSlice (Some (map ref_value refs))" if "owned_by u refs"
    using dec(3) [OF that] same by simp
qed

text \<open>A change of the typed object that leaves its metadata alone.\<close>

lemma convert_back_same_meta:
  assumes "scheme_ok s gvk fs" and "convert_to_typed s gvk u = Ok v" and "GetKind u = gvkKind gvk"
    and "has_type (TStruct fs) v'" and "sfield ''ObjectMeta'' v' = sfield ''ObjectMeta'' v"
  shows "same_meta u (convert_to_unstructured gvk fs v')"
  using convert_to_typed_meta [OF assms(1,2)] assms(3-5) GetName_unstructured [OF assms(4)]
    GetNamespace_unstructured [OF assms(4)] GetKind_unstructured [OF assms(4)] encoded_owners [OF assms(4)]
  by (simp add: same_meta_def meta_Name_def)

lemma converted_same_meta:
  assumes "scheme_ok s gvk fs" and "convert_to_typed s gvk u = Ok v" and "GetKind u = gvkKind gvk"
    and "has_type (TStruct fs) v'" and "sfield ''ObjectMeta'' v' = sfield ''ObjectMeta'' v"
  shows "same_meta u (SetCreationTimestamp t (convert_to_unstructured gvk fs v'))"
  by (rule same_meta_trans [OF convert_back_same_meta [OF assms] SetCreationTimestamp_same_meta])

end

section \<open>Workloads\<close>

locale workload = api_object fs gvk for fs :: "gofield list" and gvk +
  fixes spec :: "gofield list"
  assumes good_spec: "good_struct spec"
    and spec: "Field ''Spec'' ''spec'' True (TStruct spec) \<in> set fs"
    and template: "Field ''Template'' ''template'' False (TStruct fs_PodTemplateSpec) \<in> set spec"
begin

lemma pod_template_spec: "Field ''Spec'' ''spec'' True (TStruct fs_PodSpec) \<in> set fs_PodTemplateSpec"
  by (simp add: fs_PodTemplateSpec_def)

lemma workload_types:
  assumes "has_type (TStruct fs) v"
  shows "has_type (TStruct spec) (sfield ''Spec'' v)"
    and "has_type (TStruct fs_PodTemplateSpec) (sfield ''Template'' (sfield ''Spec'' v))"
    and "has_type (TStruct fs_PodSpec) (pod_spec v)"
proof -
  show s: "has_type (TStruct spec) (sfield ''Spec'' v)"
    by (rule sfield_type [OF assms good spec])
  show t: "has_type (TStruct fs_PodTemplateSpec) (sfield ''Template'' (sfield ''Spec'' v))"
    by (rule sfield_type [OF s good_spec template])
  show "has_type (TStruct fs_PodSpec) (pod_spec v)"
    unfolding pod_spec_def by (rule sfield_type [OF t _ pod_template_spec]) simp
qed

lemma set_pod_spec_laws:
  assumes "has_type (TStruct fs) v" and "has_type (TStruct fs_PodSpec) p"
  shows "has_type (TStruct fs) (set_pod_spec p v)"
    and "pod_spec (set_pod_spec p v) = p"
    and "sfield ''ObjectMeta'' (set_pod_spec p v) = sfield ''ObjectMeta'' v"
proof -
  note ts = workload_types [OF assms(1)]
  let ?t = "set_sfield ''Spec'' p (sfield ''Template'' (sfield ''Spec'' v))"
  let ?s = "set_sfield ''Template'' ?t (sfield ''Spec'' v)"
  have t: "has_type (TStruct fs_PodTemplateSpec) ?t"
    by (rule set_sfield_type [OF ts(2) _ pod_template_spec assms(2)]) simp
  have s: "has_type (TStruct spec) ?s"
    by (rule set_sfield_type [OF ts(1) good_spec template t])
  show "has_type (TStruct fs) (set_pod_spec p v)"
    unfolding set_pod_spec_def by (rule set_sfield_type [OF assms(1) good spec s])
  show "pod_spec (set_pod_spec p v) = p"
    unfolding pod_spec_def set_pod_spec_def
    by (simp only: sfield_set_same [OF assms(1) good spec] sfield_set_same [OF ts(1) good_spec template]
        sfield_set_same [OF ts(2) _ pod_template_spec] good_structs)
  show "sfield ''ObjectMeta'' (set_pod_spec p v) = sfield ''ObjectMeta'' v"
    by (simp add: set_pod_spec_def)
qed

text \<open>The fields of the \<open>PodSpec\<close> in the converted object.\<close>

lemma nested_pod_spec:
  assumes "has_type (TStruct fs) v" and "Field g jn oe t \<in> set fs_PodSpec" and "jn \<noteq> []" "jn \<noteq> ''-''"
  shows "NestedFieldNoCopy (convert_to_unstructured gvk fs v) [''spec'', ''template'', ''spec'', jn] =
    (let x = sfield g (pod_spec v) in if oe \<and> isZero x then Ok None else Ok (Some (toUnstructured t x)))"
  using workload_types [OF assms(1)] nested_struct [OF workload_types(3) [OF assms(1)] _ assms(2-4)]
    nested_struct [OF assms(1) good spec] nested_struct [OF workload_types(1) [OF assms(1)] good_spec template]
    nested_struct [OF workload_types(2) [OF assms(1)] _ pod_template_spec]
  by (simp add: nested_unstructured [OF assms(1)] Let_def pod_spec_def del: toUnstructured.simps has_type.simps)

text \<open>Decoding follows the same path.\<close>

lemma nested_object_step:
  "nested_from seen (JObj m) (f # g # path) = Ok (Some j) \<Longrightarrow>
   \<exists>m'. map_of m f = Some (JObj m') \<and> nested_from (seen @ [f]) (JObj m') (g # path) = Ok (Some j)"
proof -
  assume nested: "nested_from seen (JObj m) (f # g # path) = Ok (Some j)"
  then obtain x where x: "map_of m f = Some x" "nested_from (seen @ [f]) x (g # path) = Ok (Some j)"
    by (auto split: option.splits)
  then obtain m' where "x = JObj m'" by (cases x) auto
  with x show ?thesis by blast
qed

lemma decoded_pod_field:
  assumes v: "fromUnstructured c (TStruct fs) (JObj u) = Ok v"
    and j: "NestedFieldNoCopy u [''spec'', ''template'', ''spec'', jn] = Ok (Some j)"
    and f: "Field g jn oe t \<in> set fs_PodSpec" "jn \<noteq> []"
  shows "fromUnstructured c t j = Ok (sfield g (pod_spec v))"
proof -
  from j obtain m1 where m1: "map_of u ''spec'' = Some (JObj m1)"
      "nested_from [''spec''] (JObj m1) [''template'', ''spec'', jn] = Ok (Some j)"
    unfolding NestedFieldNoCopy_def by (metis nested_object_step append_Nil)
  then obtain m2 where m2: "map_of m1 ''template'' = Some (JObj m2)"
      "nested_from [''spec'', ''template''] (JObj m2) [''spec'', jn] = Ok (Some j)"
    using nested_object_step [OF m1(2)] by auto
  then obtain m3 where m3: "map_of m2 ''spec'' = Some (JObj m3)" "map_of m3 jn = Some j"
    using nested_object_step [OF m2(2)] by (auto split: option.splits)
  have "fromUnstructured c (TStruct spec) (JObj m1) = Ok (sfield ''Spec'' v)"
    using struct_decoded [OF v good spec] m1 by (simp del: fromUnstructured.simps)
  from struct_decoded [OF this good_spec template] m2
  have "fromUnstructured c (TStruct fs_PodTemplateSpec) (JObj m2) = Ok (sfield ''Template'' (sfield ''Spec'' v))"
    by (simp del: fromUnstructured.simps)
  from struct_decoded [OF this _ pod_template_spec] m3
  have "fromUnstructured c (TStruct fs_PodSpec) (JObj m3) = Ok (pod_spec v)"
    by (simp add: pod_spec_def del: fromUnstructured.simps)
  from struct_decoded [OF this _ f] m3 show ?thesis by simp
qed

end

text \<open>String fields of one struct.\<close>

lemma decoded_string_field:
  assumes "fromUnstructured c (TStruct fs) (JObj m) = Ok v" and "good_struct fs"
    and "Field g jn oe TString \<in> set fs" and "jn \<noteq> []"
  shows "sfield g v = VString (getNestedString m [jn])"
  using struct_decoded [OF assms]
  by (auto simp: getNestedString_def NestedString_def typed_field_def NestedFieldNoCopy_def
      split: option.splits json.splits)

lemma encoded_string_field:
  assumes "has_type (TStruct fs) v" and "good_struct fs"
    and "Field g jn oe TString \<in> set fs" and "jn \<noteq> []" "jn \<noteq> ''-''"
  obtains m where "toUnstructured (TStruct fs) v = JObj m"
    and "getNestedString m [jn] = as_gostring (sfield g v)"
proof -
  obtain m where m: "toUnstructured (TStruct fs) v = JObj m"
      "map_of m jn = (if oe \<and> isZero (sfield g v) then None else Some (toUnstructured TString (sfield g v)))"
    by (rule struct_json [OF assms])
  obtain s where "sfield g v = VString s"
    using sfield_type [OF assms(1-3)] by (auto split: goval.splits)
  with m have "getNestedString m [jn] = as_gostring (sfield g v)"
    by (auto simp: getNestedString_def NestedString_def typed_field_def NestedFieldNoCopy_def
        split: option.splits if_splits)
  with m(1) that show ?thesis by blast
qed

section \<open>The kinds the operator converts\<close>

interpretation deployment: workload fs_Deployment gvk_Deployment fs_DeploymentSpec
  by unfold_locales (simp_all add: fs_Deployment_def fs_DeploymentSpec_def
      good_structs [unfolded fs_Deployment_def fs_DeploymentSpec_def])

interpretation daemon_set: workload fs_DaemonSet gvk_DaemonSet fs_DaemonSetSpec
  by unfold_locales (simp_all add: fs_DaemonSet_def fs_DaemonSetSpec_def
      good_structs [unfolded fs_DaemonSet_def fs_DaemonSetSpec_def])

interpretation caching_image: api_object fs_Image gvk_Image
  by unfold_locales (simp_all add: fs_Image_def good_structs [unfolded fs_Image_def])

end
