(* ===== verification/Images.thy ===== *)
theory Images
  imports Typed_Objects Serving_Types
begin

text \<open>
  \<open>pkg/reconciler/knativeserving/common/images.go\<close>: the images of containers and of caching
  \<open>Image\<close> resources, and the image pull secrets, are taken from the registry of the custom resource.
\<close>

section \<open>Choosing an image\<close>

definition containerNameVariable :: string where
  "containerNameVariable = ''${NAME}''"

text \<open>\<open>strings.ReplaceAll\<close> for a pattern which is not empty.\<close>

function ReplaceAll :: "string \<Rightarrow> string \<Rightarrow> string \<Rightarrow> string" where
  "ReplaceAll old new [] = []"
| "ReplaceAll old new (c # cs) =
     (if old \<noteq> [] \<and> has_prefix (c # cs) old
      then new @ ReplaceAll old new (drop (length old) (c # cs))
      else c # ReplaceAll old new cs)"
  by pat_completeness auto
termination
  by (relation "measure (\<lambda>(old, new, s). length s)") (auto simp: Suc_diff_le neq_Nil_conv)

definition replaceName :: "string \<Rightarrow> string \<Rightarrow> string" where
  "replaceName imageTemplate name = ReplaceAll containerNameVariable name imageTemplate"

definition getNewImage :: "RegistryT \<Rightarrow> string \<Rightarrow> string" where
  "getNewImage registry containerName =
     (let overrideImage = lookup_or [] (Override registry) containerName in
      if overrideImage \<noteq> [] then overrideImage else replaceName (Default registry) containerName)"

section \<open>Updating the typed objects\<close>

definition updateContainer :: "string \<Rightarrow> goval \<Rightarrow> goval" where
  "updateContainer newImage container = set_sfield ''Image'' (VString newImage) container"

definition updateImage :: "RegistryT \<Rightarrow> goval \<Rightarrow> goval" where
  "updateImage registry spec =
     set_sfield ''Containers''
       (map_elems
          (\<lambda>container.
             let newImage = getNewImage registry (as_gostring (sfield ''Name'' container))
             in if newImage \<noteq> [] then updateContainer newImage container else container)
          (sfield ''Containers'' spec))
       spec"

definition addImagePullSecrets :: "RegistryT \<Rightarrow> goval \<Rightarrow> goval" where
  "addImagePullSecrets registry imagePullSecrets =
     append_all imagePullSecrets (map (\<lambda>n. VStruct [(''Name'', VString n)]) (ImagePullSecrets registry))"

definition updateRegistry :: "RegistryT \<Rightarrow> goval \<Rightarrow> goval" where
  "updateRegistry registry spec =
     (let spec' = updateImage registry spec
      in set_sfield ''ImagePullSecrets'' (addImagePullSecrets registry (sfield ''ImagePullSecrets'' spec')) spec')"

definition updateImageSpec :: "RegistryT \<Rightarrow> goval \<Rightarrow> goval" where
  "updateImageSpec registry img =
     (let newImage = getNewImage registry (meta_Name img);
          spec = sfield ''Spec'' img;
          spec' = if newImage \<noteq> [] then set_sfield ''Image'' (VString newImage) spec else spec
      in set_sfield ''Spec''
           (set_sfield ''ImagePullSecrets'' (addImagePullSecrets registry (sfield ''ImagePullSecrets'' spec')) spec')
           img)"

section \<open>The transformer\<close>

definition updateDeployment :: "scheme \<Rightarrow> KnativeServing \<Rightarrow> obj \<Rightarrow> obj result" where
  "updateDeployment s ks u =
     bind_result (convert_to_typed s gvk_Deployment u)
       (\<lambda>deployment.
          Ok (SetCreationTimestamp []
               (convert_to_unstructured gvk_Deployment fs_Deployment
                  (set_pod_spec (updateRegistry (Registry (Spec ks)) (pod_spec deployment)) deployment))))"

definition updateDaemonSet :: "scheme \<Rightarrow> KnativeServing \<Rightarrow> obj \<Rightarrow> obj result" where
  "updateDaemonSet s ks u =
     bind_result (convert_to_typed s gvk_DaemonSet u)
       (\<lambda>daemonSet.
          Ok (SetCreationTimestamp []
               (convert_to_unstructured gvk_DaemonSet fs_DaemonSet
                  (set_pod_spec (updateRegistry (Registry (Spec ks)) (pod_spec daemonSet)) daemonSet))))"

definition updateCachingImage :: "scheme \<Rightarrow> KnativeServing \<Rightarrow> obj \<Rightarrow> obj result" where
  "updateCachingImage s ks u =
     bind_result (convert_to_typed s gvk_Image u)
       (\<lambda>image.
          Ok (AList.delete ''status''
               (SetCreationTimestamp []
                 (convert_to_unstructured gvk_Image fs_Image (updateImageSpec (Registry (Spec ks)) image)))))"

definition ImageTransform :: "scheme \<Rightarrow> KnativeServing \<Rightarrow> transformer" where
  "ImageTransform s ks u =
     (if GetKind u = ''Deployment'' then updateDeployment s ks u
      else if GetKind u = ''DaemonSet'' then updateDaemonSet s ks u
      else if GetKind u = ''Image'' \<and> GetAPIVersion u = ''caching.internal.knative.dev/v1alpha1''
      then updateCachingImage s ks u
      else Ok u)"

section \<open>Replacing the variable\<close>

lemma ReplaceAll_none:
  "(\<And>i. \<not> has_prefix (drop i s) old) \<Longrightarrow> ReplaceAll old new s = s"
proof (induction old new s rule: ReplaceAll.induct)
  case (2 old new c cs)
  have "\<not> has_prefix (drop i cs) old" for i using 2(3) [of "Suc i"] by simp
  moreover have "\<not> has_prefix (c # cs) old" using 2(3) [of 0] by simp
  ultimately show ?case using 2(2) by auto
qed simp

lemma ReplaceAll_split:
  assumes "old \<noteq> []" and "\<And>i. i < length p \<Longrightarrow> \<not> has_prefix (drop i (p @ old @ q)) old"
  shows "ReplaceAll old new (p @ old @ q) = p @ new @ ReplaceAll old new q"
  using assms(2)
proof (induction p)
  case Nil
  then show ?case using assms(1) by (cases old) (simp_all add: has_prefix_def)
next
  case (Cons c p)
  from Cons.prems [of 0] have "\<not> has_prefix (c # p @ old @ q) old" by simp
  moreover have "ReplaceAll old new (p @ old @ q) = p @ new @ ReplaceAll old new q"
    using Cons.IH Cons.prems [of "Suc _"] by simp
  ultimately show ?case by simp
qed

lemma getNewImage_override:
  "map_of (Override r) n = Some i \<Longrightarrow> i \<noteq> [] \<Longrightarrow> getNewImage r n = i"
  by (simp add: getNewImage_def lookup_or_def)

lemma getNewImage_default:
  "map_of (Override r) n = None \<Longrightarrow> getNewImage r n = replaceName (Default r) n"
  by (simp add: getNewImage_def lookup_or_def)

section \<open>Typing\<close>

lemma Container_fields [simp]:
  "Field ''Name'' ''name'' False TString \<in> set fs_Container"
  "Field ''Image'' ''image'' True TString \<in> set fs_Container"
  by (simp_all add: fs_Container_def)

lemma PodSpec_fields [simp]:
  "Field ''Volumes'' ''volumes'' True (TSlice (TStruct fs_Volume)) \<in> set fs_PodSpec"
  "Field ''Containers'' ''containers'' False (TSlice (TStruct fs_Container)) \<in> set fs_PodSpec"
  "Field ''ImagePullSecrets'' ''imagePullSecrets'' True (TSlice (TStruct fs_LocalObjectReference)) \<in> set fs_PodSpec"
  by (simp_all add: fs_PodSpec_def)

lemma Image_fields [simp]:
  "Field ''Spec'' ''spec'' True (TStruct fs_ImageSpec) \<in> set fs_Image"
  "Field ''Image'' ''image'' False TString \<in> set fs_ImageSpec"
  "Field ''ImagePullSecrets'' ''imagePullSecrets'' True (TSlice (TStruct fs_LocalObjectReference)) \<in> set fs_ImageSpec"
  by (simp_all add: fs_Image_def fs_ImageSpec_def)

lemma map_elems_type:
  "has_type (TSlice t) s \<Longrightarrow> (\<And>x. has_type t x \<Longrightarrow> has_type t (f x)) \<Longrightarrow> has_type (TSlice t) (map_elems f s)"
  by (auto simp: list_all_iff split: goval.splits option.splits)

lemma append_all_type:
  "has_type (TSlice t) s \<Longrightarrow> list_all (has_type t) xs \<Longrightarrow> has_type (TSlice t) (append_all s xs)"
  by (auto simp: append_all_def split: goval.splits option.splits)

lemma updateContainer_type:
  "has_type (TStruct fs_Container) c \<Longrightarrow> has_type (TStruct fs_Container) (updateContainer i c)"
  unfolding updateContainer_def by (rule set_sfield_type [where jn = "''image''" and oe = True and t = TString]) simp_all

lemma updateImage_type:
  assumes "has_type (TStruct fs_PodSpec) p"
  shows "has_type (TStruct fs_PodSpec) (updateImage r p)"
  unfolding updateImage_def
  by (rule set_sfield_type [OF assms _ PodSpec_fields(2)])
    (auto simp: Let_def updateContainer_type simp del: has_type.simps
      intro!: map_elems_type sfield_type [OF assms _ PodSpec_fields(2)])

lemma addImagePullSecrets_type:
  "has_type (TSlice (TStruct fs_LocalObjectReference)) s \<Longrightarrow>
   has_type (TSlice (TStruct fs_LocalObjectReference)) (addImagePullSecrets r s)"
  unfolding addImagePullSecrets_def
  by (rule append_all_type) (simp_all add: list_all_iff fs_LocalObjectReference_def)

lemma updateRegistry_type:
  assumes "has_type (TStruct fs_PodSpec) p"
  shows "has_type (TStruct fs_PodSpec) (updateRegistry r p)"
  unfolding updateRegistry_def Let_def
  by (rule set_sfield_type [OF updateImage_type [OF assms] _ PodSpec_fields(3)], simp)
    (rule addImagePullSecrets_type, rule sfield_type [OF updateImage_type [OF assms] _ PodSpec_fields(3)], simp)

lemma updateImageSpec_type:
  assumes "has_type (TStruct fs_Image) v"
  shows "has_type (TStruct fs_Image) (updateImageSpec r v)"
proof -
  have s: "has_type (TStruct fs_ImageSpec) (sfield ''Spec'' v)"
    by (rule sfield_type [OF assms _ Image_fields(1)]) simp
  then have s': "has_type (TStruct fs_ImageSpec)
      (if getNewImage r (meta_Name v) \<noteq> [] then set_sfield ''Image'' (VString (getNewImage r (meta_Name v))) (sfield ''Spec'' v)
       else sfield ''Spec'' v)" (is "has_type _ ?s")
    using set_sfield_type [OF s _ Image_fields(2)] by (simp del: has_type.simps(8)) 
  have "has_type (TStruct fs_ImageSpec)
      (set_sfield ''ImagePullSecrets'' (addImagePullSecrets r (sfield ''ImagePullSecrets'' ?s)) ?s)"
    by (rule set_sfield_type [OF s' _ Image_fields(3)], simp)
      (rule addImagePullSecrets_type, rule sfield_type [OF s' _ Image_fields(3)], simp)
  then show ?thesis
    unfolding updateImageSpec_def Let_def by (rule set_sfield_type [OF assms _ Image_fields(1), rotated]) simp
qed

section \<open>What the transformer does\<close>

abbreviation schemes_ok :: "scheme \<Rightarrow> bool" where
  "schemes_ok s \<equiv> scheme_ok s gvk_Deployment fs_Deployment \<and> scheme_ok s gvk_DaemonSet fs_DaemonSet
     \<and> scheme_ok s gvk_Image fs_Image"

lemma gvk_kinds [simp]:
  "gvkKind gvk_Deployment = ''Deployment''" "gvkKind gvk_DaemonSet = ''DaemonSet''" "gvkKind gvk_Image = ''Image''"
  by (simp_all add: gvk_Deployment_def gvk_DaemonSet_def gvk_Image_def)

lemma ImageTransform_same_meta:
  assumes ok: "schemes_ok s" and run: "ImageTransform s ks u = Ok u'"
  shows "same_meta u u'"
proof -
  consider "GetKind u = ''Deployment''" "updateDeployment s ks u = Ok u'"
    | "GetKind u = ''DaemonSet''" "updateDaemonSet s ks u = Ok u'"
    | "GetKind u = ''Image''" "updateCachingImage s ks u = Ok u'" | "u' = u"
    using run by (auto simp: ImageTransform_def split: if_splits)
  then show ?thesis
  proof cases
    case 1
    then obtain v where v: "convert_to_typed s gvk_Deployment u = Ok v"
        "u' = SetCreationTimestamp [] (convert_to_unstructured gvk_Deployment fs_Deployment
           (set_pod_spec (updateRegistry (Registry (Spec ks)) (pod_spec v)) v))"
      by (auto simp: updateDeployment_def)
    note t = deployment.convert_to_typed_meta(1) [OF _ v(1)]
    show ?thesis
      unfolding v(2) using ok 1 deployment.set_pod_spec_laws [OF t updateRegistry_type [OF deployment.workload_types(3) [OF t]]]
      by (intro deployment.converted_same_meta [OF _ v(1)]) auto
  next
    case 2
    then obtain v where v: "convert_to_typed s gvk_DaemonSet u = Ok v"
        "u' = SetCreationTimestamp [] (convert_to_unstructured gvk_DaemonSet fs_DaemonSet
           (set_pod_spec (updateRegistry (Registry (Spec ks)) (pod_spec v)) v))"
      by (auto simp: updateDaemonSet_def)
    note t = daemon_set.convert_to_typed_meta(1) [OF _ v(1)]
    show ?thesis
      unfolding v(2) using ok 2 daemon_set.set_pod_spec_laws [OF t updateRegistry_type [OF daemon_set.workload_types(3) [OF t]]]
      by (intro daemon_set.converted_same_meta [OF _ v(1)]) auto
  next
    case 3
    then obtain v where v: "convert_to_typed s gvk_Image u = Ok v"
        "u' = AList.delete ''status'' (SetCreationTimestamp []
           (convert_to_unstructured gvk_Image fs_Image (updateImageSpec (Registry (Spec ks)) v)))"
      by (auto simp: updateCachingImage_def)
    have "same_meta u (SetCreationTimestamp [] (convert_to_unstructured gvk_Image fs_Image
        (updateImageSpec (Registry (Spec ks)) v)))"
      using ok 3 updateImageSpec_type [OF caching_image.convert_to_typed_meta(1) [OF _ v(1)]]
      by (intro caching_image.converted_same_meta [OF _ v(1)]) (auto simp: updateImageSpec_def Let_def)
    then show ?thesis unfolding v(2) by (rule same_meta_trans) (rule delete_same_meta, simp_all)
  qed simp
qed

text \<open>The containers of a deployment of the registered version, before and after.\<close>

lemma SetCreationTimestamp_other:
  "f \<noteq> ''metadata'' \<Longrightarrow> NestedFieldNoCopy (SetCreationTimestamp t u) (f # path) = NestedFieldNoCopy u (f # path)"
  by (simp add: SetCreationTimestamp_def set_string_apart)

lemma convert_same_version:
  assumes "scheme_ok s gvk fs" and "GroupVersionKind_of u = gvk" and "convert_to_typed s gvk u = Ok v"
  shows "fromUnstructured (codecs s) (TStruct fs) (JObj u) = Ok v"
proof -
  from assms(3) obtain g w where "unstructuredToTyped s u = Ok (g, w)"
      "(if g = gvk then Ok w else convert_version s g gvk w) = Ok v"
    by (auto simp: convert_to_typed_def)
  moreover from this obtain fs0 where "ObjectKinds u = Ok g" "gvkToType s g = Some fs0"
      "fromUnstructured (codecs s) (TStruct fs0) (JObj u) = Ok w"
    by (auto elim: unstructuredToTyped_Ok)
  moreover from this have "g = gvk" using assms(2) by (auto simp: ObjectKinds_def Let_def split: if_splits)
  ultimately show ?thesis using assms(1) by (simp add: scheme_ok_def del: fromUnstructured.simps)
qed

text \<open>Name and image of a container in its JSON.\<close>

definition string_of :: "string \<Rightarrow> json \<Rightarrow> string" where
  "string_of field j = (case j of JObj m \<Rightarrow> getNestedString m [field] | _ \<Rightarrow> [])"

lemma container_json:
  assumes "has_type (TStruct fs_Container) c"
  shows "string_of ''name'' (toUnstructured (TStruct fs_Container) c) = as_gostring (sfield ''Name'' c)"
    and "string_of ''image'' (toUnstructured (TStruct fs_Container) c) = as_gostring (sfield ''Image'' c)"
  by (rule encoded_string_field [OF assms _ Container_fields(1)]; simp add: string_of_def)
    (rule encoded_string_field [OF assms _ Container_fields(2)]; simp add: string_of_def)

lemma container_decoded:
  assumes "fromUnstructured c (TStruct fs_Container) j = Ok v"
  shows "as_gostring (sfield ''Name'' v) = string_of ''name'' j"
    and "as_gostring (sfield ''Image'' v) = string_of ''image'' j"
proof -
  have "(\<exists>m. j = JObj m) \<or> j = JNull \<and> v = zero c (TStruct fs_Container)"
    by (rule decode_nonobject [OF assms])
  moreover have "sfield ''Name'' (zero c (TStruct fs_Container)) = VString []"
    and "sfield ''Image'' (zero c (TStruct fs_Container)) = VString []"
    using zero_field [OF _ Container_fields(1), of c] zero_field [OF _ Container_fields(2), of c] by simp_all
  ultimately show "as_gostring (sfield ''Name'' v) = string_of ''name'' j"
    and "as_gostring (sfield ''Image'' v) = string_of ''image'' j"
    using assms decoded_string_field [OF _ _ Container_fields(1)] decoded_string_field [OF _ _ Container_fields(2)]
    by (auto simp: string_of_def simp del: zero.simps sfield.simps)
qed

text \<open>
  A deployment of the registered version: the transformed object has the same containers in the same
  order, each with its name, and with the image the registry gives for its name, if it gives one.
\<close>

definition wanted_image :: "RegistryT \<Rightarrow> json \<Rightarrow> string" where
  "wanted_image r c =
     (let new = getNewImage r (string_of ''name'' c) in if new \<noteq> [] then new else string_of ''image'' c)"

lemma updateImage_containers:
  assumes "has_type (TStruct fs_PodSpec) p"
  shows "sfield ''Containers'' (updateRegistry r p) =
    map_elems (\<lambda>c. let i = getNewImage r (as_gostring (sfield ''Name'' c)) in if i \<noteq> [] then updateContainer i c else c)
      (sfield ''Containers'' p)"
  using sfield_set_same [OF assms _ PodSpec_fields(2)] by (simp add: updateRegistry_def updateImage_def Let_def)

lemma updated_container:
  fixes r :: RegistryT
  assumes "fromUnstructured c (TStruct fs_Container) j = Ok v"
  defines "v' \<equiv> (let i = getNewImage r (as_gostring (sfield ''Name'' v)) in if i \<noteq> [] then updateContainer i v else v)"
  shows "string_of ''name'' (toUnstructured (TStruct fs_Container) v') = string_of ''name'' j"
    and "string_of ''image'' (toUnstructured (TStruct fs_Container) v') = wanted_image r j"
proof -
  have t: "has_type (TStruct fs_Container) v" by (rule fromUnstructured_type [OF assms(1)])
  then have t': "has_type (TStruct fs_Container) v'"
    by (simp add: v'_def Let_def updateContainer_type del: has_type.simps)
  have i: "sfield ''Image'' (updateContainer i v) = VString i" for i
    unfolding updateContainer_def by (rule sfield_set_same [OF t _ Container_fields(2)]) simp
  show "string_of ''name'' (toUnstructured (TStruct fs_Container) v') = string_of ''name'' j"
    unfolding container_json(1) [OF t'] container_decoded(1) [OF assms(1), symmetric]
    by (simp add: v'_def Let_def updateContainer_def)
  show "string_of ''image'' (toUnstructured (TStruct fs_Container) v') = wanted_image r j"
    unfolding container_json(2) [OF t']
    using container_decoded [OF assms(1)] i by (simp add: v'_def Let_def wanted_image_def)
qed

lemma updateDeployment_containers:
  assumes "scheme_ok s gvk_Deployment fs_Deployment" and "GroupVersionKind_of u = gvk_Deployment"
    and run: "updateDeployment s ks u = Ok u'"
    and cs: "NestedFieldNoCopy u [''spec'', ''template'', ''spec'', ''containers''] = Ok (Some (JArr cs))"
  shows "\<exists>cs'. NestedFieldNoCopy u' [''spec'', ''template'', ''spec'', ''containers''] = Ok (Some (JArr cs')) \<and>
    list_all2 (\<lambda>c c'. string_of ''name'' c' = string_of ''name'' c \<and>
                      string_of ''image'' c' = wanted_image (Registry (Spec ks)) c) cs cs'"
proof -
  let ?r = "Registry (Spec ks)"
  let ?f = "\<lambda>c. let i = getNewImage ?r (as_gostring (sfield ''Name'' c)) in if i \<noteq> [] then updateContainer i c else c"
  from run obtain v where v: "convert_to_typed s gvk_Deployment u = Ok v"
      "u' = SetCreationTimestamp [] (convert_to_unstructured gvk_Deployment fs_Deployment
         (set_pod_spec (updateRegistry ?r (pod_spec v)) v))"
    by (auto simp: updateDeployment_def)
  have dec: "fromUnstructured (codecs s) (TStruct fs_Deployment) (JObj u) = Ok v"
    by (rule convert_same_version [OF assms(1,2) v(1)])
  then have t: "has_type (TStruct fs_Deployment) v" by (rule fromUnstructured_type)
  note p = deployment.workload_types(3) [OF t]
  note upd = deployment.set_pod_spec_laws [OF t updateRegistry_type [OF p]]
  have "fromUnstructured (codecs s) (TSlice (TStruct fs_Container)) (JArr cs) = Ok (sfield ''Containers'' (pod_spec v))"
    by (rule deployment.decoded_pod_field [OF dec cs PodSpec_fields(2)]) simp
  then obtain vs where vs: "sfield ''Containers'' (pod_spec v) = VSlice (Some vs)"
      "list_all2 (\<lambda>c x. fromUnstructured (codecs s) (TStruct fs_Container) c = Ok x) cs vs"
    by (auto simp: map_result_Ok_iff eq_commute [of "VSlice _"] simp del: fromUnstructured.simps(8))
  have "NestedFieldNoCopy u' [''spec'', ''template'', ''spec'', ''containers''] =
      Ok (Some (JArr (map (\<lambda>x. toUnstructured (TStruct fs_Container) (?f x)) vs)))"
    unfolding v(2) using deployment.nested_pod_spec [OF upd(1) PodSpec_fields(2)]
      updateImage_containers [OF p] vs(1)
    by (simp add: SetCreationTimestamp_other upd(2) comp_def del: toUnstructured.simps(8))
  moreover have "list_all2 (\<lambda>c c'. string_of ''name'' c' = string_of ''name'' c \<and> string_of ''image'' c' = wanted_image ?r c)
      cs (map (\<lambda>x. toUnstructured (TStruct fs_Container) (?f x)) vs)"
    unfolding list.rel_map
    by (rule list.rel_mono_strong [OF vs(2)]) (use updated_container in blast)
  ultimately show ?thesis by blast
qed

end
