(* ===== verification/Certs.thy ===== *)
theory Certs
  imports Images
begin

text \<open>
  \<open>pkg/reconciler/knativeserving/common/certs.go\<close>: mounting the custom certificates of the spec into
  the first container of the controller deployment.
\<close>

definition customCertsEnvName :: string where "customCertsEnvName = ''SSL_CERT_DIR''"
definition customCertsMountPath :: string where "customCertsMountPath = ''/custom-certs''"
definition customCertsNamePrefix :: string where "customCertsNamePrefix = ''custom-certs-''"

text \<open>A composite literal \<open>T{g1: x1, ...}\<close>: the zero value with some fields set.\<close>

fun literal :: "codec \<Rightarrow> gofield list \<Rightarrow> (string \<times> goval) list \<Rightarrow> goval" where
  "literal c fs [] = zero c (TStruct fs)"
| "literal c fs ((g, x) # rest) = set_sfield g x (literal c fs rest)"

definition certs_source :: "codec \<Rightarrow> CustomCertsT \<Rightarrow> goval result" where
  "certs_source c certs =
     (if certs_Type certs = ''ConfigMap'' then
        Ok (literal c fs_VolumeSource
              [(''ConfigMap'', VPtr (Some (literal c fs_ConfigMapVolumeSource
                 [(''LocalObjectReference'', literal c fs_LocalObjectReference
                     [(''Name'', VString (certs_Name certs))])])))])
      else if certs_Type certs = ''Secret'' then
        Ok (literal c fs_VolumeSource
              [(''Secret'', VPtr (Some (literal c fs_SecretVolumeSource
                 [(''SecretName'', VString (certs_Name certs))])))])
      else Err (Errorf (''Unknown CustomCerts type: '' @ certs_Type certs)))"

definition add_certs :: "codec \<Rightarrow> string \<Rightarrow> goval \<Rightarrow> goval" where
  "add_certs c name container =
     (let mounts = append_all (sfield ''VolumeMounts'' container)
            [literal c fs_VolumeMount [(''Name'', VString name), (''MountPath'', VString customCertsMountPath)]];
          container' = set_sfield ''VolumeMounts'' mounts container;
          env = append_all (sfield ''Env'' container')
            [literal c fs_EnvVar [(''Name'', VString customCertsEnvName), (''Value'', VString customCertsMountPath)]]
      in set_sfield ''Env'' env container')"

text \<open>\<open>containers[0]\<close> panics when the pod has no containers.\<close>

definition configureCustomCerts :: "codec \<Rightarrow> CustomCertsT \<Rightarrow> goval \<Rightarrow> goval result" where
  "configureCustomCerts c certs deployment =
     bind_result (certs_source c certs)
       (\<lambda>source.
          let name = customCertsNamePrefix @ certs_Name certs in
          if name = customCertsNamePrefix
          then Err (Errorf (''CustomCerts name for '' @ certs_Type certs @ '' is required''))
          else
            let spec = pod_spec deployment;
                spec' = set_sfield ''Volumes''
                  (append_all (sfield ''Volumes'' spec)
                     [literal c fs_Volume [(''Name'', VString name), (''VolumeSource'', source)]]) spec
            in case elems (sfield ''Containers'' spec') of
                 [] \<Rightarrow> Panic ''index out of range [0] with length 0''
               | container # rest \<Rightarrow>
                   Ok (set_pod_spec
                         (set_sfield ''Containers'' (VSlice (Some (add_certs c name container # rest))) spec')
                         deployment))"

definition CustomCertsTransform :: "scheme \<Rightarrow> KnativeServing \<Rightarrow> transformer" where
  "CustomCertsTransform s ks u =
     (let certs = ControllerCustomCerts (Spec ks) in
      if certs = \<lparr>certs_Type = [], certs_Name = []\<rparr> then Ok u
      else if GetKind u = ''Deployment'' \<and> GetName u = ''controller'' then
        bind_result (convert_to_typed s gvk_Deployment u)
          (\<lambda>deployment.
             bind_result (configureCustomCerts (codecs s) certs deployment)
               (\<lambda>deployment'.
                  Ok (SetCreationTimestamp []
                       (convert_to_unstructured gvk_Deployment fs_Deployment deployment'))))
      else Ok u)"

section \<open>Typing\<close>

lemma good_certs_structs [simp]:
  "good_struct fs_Volume" "good_struct fs_VolumeSource" "good_struct fs_VolumeMount" "good_struct fs_EnvVar"
  "good_struct fs_ConfigMapVolumeSource" "good_struct fs_SecretVolumeSource"
  by code_simp+

lemma certs_fields [simp]:
  "Field ''VolumeMounts'' ''volumeMounts'' True (TSlice (TStruct fs_VolumeMount)) \<in> set fs_Container"
  "Field ''Env'' ''env'' True (TSlice (TStruct fs_EnvVar)) \<in> set fs_Container"
  "Field ''Name'' ''name'' False TString \<in> set fs_Volume"
  "Field ''VolumeSource'' '''' False (TStruct fs_VolumeSource) \<in> set fs_Volume"
  "Field ''ConfigMap'' ''configMap'' True (TPtr (TStruct fs_ConfigMapVolumeSource)) \<in> set fs_VolumeSource"
  "Field ''Secret'' ''secret'' True (TPtr (TStruct fs_SecretVolumeSource)) \<in> set fs_VolumeSource"
  "Field ''LocalObjectReference'' '''' False (TStruct fs_LocalObjectReference) \<in> set fs_ConfigMapVolumeSource"
  "Field ''Name'' ''name'' True TString \<in> set fs_LocalObjectReference"
  "Field ''SecretName'' ''secretName'' True TString \<in> set fs_SecretVolumeSource"
  "Field ''Name'' ''name'' False TString \<in> set fs_VolumeMount"
  "Field ''MountPath'' ''mountPath'' False TString \<in> set fs_VolumeMount"
  "Field ''Name'' ''name'' False TString \<in> set fs_EnvVar"
  "Field ''Value'' ''value'' True TString \<in> set fs_EnvVar"
  by (simp_all add: fs_Container_def fs_Volume_def fs_VolumeSource_def fs_ConfigMapVolumeSource_def
      fs_LocalObjectReference_def fs_SecretVolumeSource_def fs_VolumeMount_def fs_EnvVar_def)

lemma literal_type:
  assumes "good_struct fs" and "list_all (\<lambda>(g, x). \<exists>jn oe t. Field g jn oe t \<in> set fs \<and> has_type t x) vals"
  shows "has_type (TStruct fs) (literal c fs vals)"
  using assms(2)
proof (induction vals)
  case Nil
  show ?case by (simp only: literal.simps zero_has_type)
next
  case (Cons p vals)
  then show ?case
    by (cases p) (auto simp del: has_type.simps intro!: set_sfield_type [OF _ assms(1)])
qed

lemma field_ok:
  "Field g jn oe t \<in> set fs \<Longrightarrow> has_type t x \<Longrightarrow> \<exists>jn oe t. Field g jn oe t \<in> set fs \<and> has_type t x"
  by blast

lemma string_field_ok:
  "Field g jn oe TString \<in> set fs \<Longrightarrow> \<exists>jn oe t. Field g jn oe t \<in> set fs \<and> has_type t (VString s)"
  by (erule field_ok) simp

lemmas string_fields_ok = certs_fields(8,9,10,11,12,13) [THEN string_field_ok]

lemma certs_source_type:
  assumes "certs_source c certs = Ok source"
  shows "has_type (TStruct fs_VolumeSource) source"
proof -
  have ref: "has_type (TStruct fs_LocalObjectReference) (literal c fs_LocalObjectReference [(''Name'', VString n)])" for n
    by (rule literal_type) (auto intro!: string_fields_ok)
  have cm: "has_type (TStruct fs_ConfigMapVolumeSource)
      (literal c fs_ConfigMapVolumeSource [(''LocalObjectReference'', literal c fs_LocalObjectReference [(''Name'', VString n)])])" for n
    by (rule literal_type) (auto simp del: has_type.simps literal.simps intro!: field_ok [OF certs_fields(7) ref])
  have secret: "has_type (TStruct fs_SecretVolumeSource) (literal c fs_SecretVolumeSource [(''SecretName'', VString n)])" for n
    by (rule literal_type) (auto intro!: string_fields_ok)
  have ptr: "has_type (TPtr t) (VPtr (Some x))" if "has_type t x" for t x using that by simp
  show ?thesis
    using assms unfolding certs_source_def
    by (auto simp del: has_type.simps literal.simps split: if_splits
        intro!: literal_type field_ok [OF certs_fields(5) ptr [OF cm]] field_ok [OF certs_fields(6) ptr [OF secret]])
qed

lemma add_certs_type:
  assumes t: "has_type (TStruct fs_Container) container"
  shows "has_type (TStruct fs_Container) (add_certs c name container)"
proof -
  have mount: "has_type (TStruct fs_VolumeMount)
      (literal c fs_VolumeMount [(''Name'', VString n), (''MountPath'', VString p)])" for n p
    by (rule literal_type) (auto intro!: string_fields_ok)
  have env: "has_type (TStruct fs_EnvVar) (literal c fs_EnvVar [(''Name'', VString n), (''Value'', VString p)])" for n p
    by (rule literal_type) (auto intro!: string_fields_ok)
  have t': "has_type (TStruct fs_Container)
      (set_sfield ''VolumeMounts'' (append_all (sfield ''VolumeMounts'' container)
         [literal c fs_VolumeMount [(''Name'', VString name), (''MountPath'', VString customCertsMountPath)]]) container)"
    by (rule set_sfield_type [OF t _ certs_fields(1)], simp)
      (rule append_all_type [OF sfield_type [OF t _ certs_fields(1)]], simp_all add: mount del: has_type.simps literal.simps)
  show ?thesis
    unfolding add_certs_def Let_def
    by (rule set_sfield_type [OF t' _ certs_fields(2)], simp)
      (rule append_all_type [OF sfield_type [OF t' _ certs_fields(2)]], simp_all add: env del: has_type.simps literal.simps)
qed

section \<open>What the transformer does\<close>

text \<open>
  The outcome of the configuration on a typed deployment, case by case: an unknown type and a missing
  name are errors, a pod without containers panics, and otherwise one volume is added and the first
  container gets one mount and one variable.
\<close>

definition known_type :: "CustomCertsT \<Rightarrow> bool" where
  "known_type certs \<longleftrightarrow> certs_Type certs = ''ConfigMap'' \<or> certs_Type certs = ''Secret''"

lemma certs_source_Ok_iff: "(\<exists>source. certs_source c certs = Ok source) \<longleftrightarrow> known_type certs"
  by (auto simp: certs_source_def known_type_def simp del: literal.simps)

lemma configureCustomCerts_unknown:
  "\<not> known_type certs \<Longrightarrow>
   configureCustomCerts c certs d = Err (Errorf (''Unknown CustomCerts type: '' @ certs_Type certs))"
  by (simp add: configureCustomCerts_def certs_source_def known_type_def)

lemma configureCustomCerts_no_name:
  "known_type certs \<Longrightarrow> certs_Name certs = [] \<Longrightarrow>
   configureCustomCerts c certs d = Err (Errorf (''CustomCerts name for '' @ certs_Type certs @ '' is required''))"
  using certs_source_Ok_iff [of c certs] by (auto simp: configureCustomCerts_def)

lemma configureCustomCerts_no_container:
  assumes "known_type certs" and "certs_Name certs \<noteq> []" and "elems (sfield ''Containers'' (pod_spec d)) = []"
  shows "configureCustomCerts c certs d = Panic ''index out of range [0] with length 0''"
  using assms certs_source_Ok_iff [of c certs] by (auto simp: configureCustomCerts_def Let_def)

lemma configureCustomCerts_Ok:
  assumes "known_type certs" and "certs_Name certs \<noteq> []"
    and "elems (sfield ''Containers'' (pod_spec d)) = container # rest" and t: "has_type (TStruct fs_Deployment) d"
  obtains source d' where "configureCustomCerts c certs d = Ok d'"
    and "certs_source c certs = Ok source"
    and "has_type (TStruct fs_Deployment) d'"
    and "sfield ''ObjectMeta'' d' = sfield ''ObjectMeta'' d"
    and "sfield ''Volumes'' (pod_spec d') = append_all (sfield ''Volumes'' (pod_spec d))
      [literal c fs_Volume [(''Name'', VString (customCertsNamePrefix @ certs_Name certs)), (''VolumeSource'', source)]]"
    and "sfield ''Containers'' (pod_spec d') =
      VSlice (Some (add_certs c (customCertsNamePrefix @ certs_Name certs) container # rest))"
proof -
  let ?name = "customCertsNamePrefix @ certs_Name certs"
  obtain source where source: "certs_source c certs = Ok source"
    using assms(1) certs_source_Ok_iff by blast
  note ps = deployment.workload_types(3) [OF t]
  let ?vol = "literal c fs_Volume [(''Name'', VString ?name), (''VolumeSource'', source)]"
  let ?spec1 = "set_sfield ''Volumes'' (append_all (sfield ''Volumes'' (pod_spec d)) [?vol]) (pod_spec d)"
  let ?cs = "VSlice (Some (add_certs c ?name container # rest))"
  have vol: "has_type (TStruct fs_Volume) ?vol"
    by (rule literal_type) (auto simp del: has_type.simps literal.simps
        intro!: string_field_ok [OF certs_fields(3)] field_ok [OF certs_fields(4) certs_source_type [OF source]])
  have spec1: "has_type (TStruct fs_PodSpec) ?spec1"
    by (rule set_sfield_type [OF ps _ PodSpec_fields(1)], simp)
      (rule append_all_type [OF sfield_type [OF ps _ PodSpec_fields(1)]], simp_all add: vol del: has_type.simps literal.simps)
  have "has_type (TSlice (TStruct fs_Container)) (sfield ''Containers'' (pod_spec d))"
    by (rule sfield_type [OF ps _ PodSpec_fields(2)]) simp
  with assms(3) have "has_type (TStruct fs_Container) container" and "list_all (has_type (TStruct fs_Container)) rest"
    by (auto split: goval.splits option.splits)
  then have "has_type (TSlice (TStruct fs_Container)) ?cs" using add_certs_type by simp
  then have spec2: "has_type (TStruct fs_PodSpec) (set_sfield ''Containers'' ?cs ?spec1)"
    by (rule set_sfield_type [OF spec1 _ PodSpec_fields(2), rotated]) simp
  have run: "configureCustomCerts c certs d = Ok (set_pod_spec (set_sfield ''Containers'' ?cs ?spec1) d)"
    using assms(2,3) source by (simp add: configureCustomCerts_def Let_def)
  show ?thesis
    by (rule that [OF run source])
      (simp_all add: deployment.set_pod_spec_laws [OF t spec2] sfield_set_same [OF ps _ PodSpec_fields(1)]
        sfield_set_same [OF spec1 _ PodSpec_fields(2)] del: has_type.simps literal.simps)
qed

lemma CustomCertsTransform_same_meta:
  assumes "scheme_ok s gvk_Deployment fs_Deployment" and run: "CustomCertsTransform s ks u = Ok u'"
  shows "same_meta u u'"
proof (cases "u' = u")
  case False
  let ?certs = "ControllerCustomCerts (Spec ks)"
  from False run obtain d d' where d: "GetKind u = ''Deployment''" "convert_to_typed s gvk_Deployment u = Ok d"
      "configureCustomCerts (codecs s) ?certs d = Ok d'"
      "u' = SetCreationTimestamp [] (convert_to_unstructured gvk_Deployment fs_Deployment d')"
    by (auto simp: CustomCertsTransform_def Let_def split: if_splits)
  note t = deployment.convert_to_typed_meta(1) [OF assms(1) d(2)]
  have k: "known_type ?certs" using d(3) configureCustomCerts_unknown by fastforce
  then have n: "certs_Name ?certs \<noteq> []" using d(3) configureCustomCerts_no_name by fastforce
  from k n obtain container rest where cs: "elems (sfield ''Containers'' (pod_spec d)) = container # rest"
    using d(3) configureCustomCerts_no_container by (cases "elems (sfield ''Containers'' (pod_spec d))") auto
  have "has_type (TStruct fs_Deployment) d' \<and> sfield ''ObjectMeta'' d' = sfield ''ObjectMeta'' d"
    by (rule configureCustomCerts_Ok [OF k n cs t, of "codecs s"]) (use d(3) in \<open>simp del: has_type.simps\<close>)
  then show ?thesis
    unfolding d(4) using d(1) by (intro deployment.converted_same_meta [OF assms(1) d(2)]) simp_all
qed simp

end
