(* ===== verification/Resource_Requirements.thy ===== *)
theory Resource_Requirements
  imports Images
begin

text \<open>
  \<open>pkg/reconciler/knativeserving/common/resources.go\<close>: the resource limits and requests of the
  spec, merged into the containers of every deployment. A \<open>Quantity\<close> of the spec is its text, which
  is also the JSON it marshals to.
\<close>

text \<open>A \<open>corev1.ResourceList\<close> of the spec as a Go map.\<close>

definition resource_list :: "ResourceList \<Rightarrow> (string \<times> goval) list" where
  "resource_list src = map (\<lambda>(k, q). (k, VCustom (JStr q))) src"

fun entries :: "goval \<Rightarrow> (string \<times> goval) list" where
  "entries (VMap (Some kvs)) = kvs"
| "entries v = []"

definition merge :: "ResourceList \<Rightarrow> goval \<Rightarrow> goval" where
  "merge src tgt =
     (if length (entries tgt) > 0
      then VMap (Some (assign_all (resource_list src) (entries tgt)))
      else VMap (Some (resource_list src)))"

definition find_override :: "KnativeServing \<Rightarrow> string \<Rightarrow> ResourceRequirementsOverride option" where
  "find_override ks name = find (\<lambda>override. Container override = name) (Resources (Spec ks))"

text \<open>The body of the loop over the containers.\<close>

definition override_resources :: "KnativeServing \<Rightarrow> goval \<Rightarrow> goval" where
  "override_resources ks container =
     (case find_override ks (as_gostring (sfield ''Name'' container)) of
        None \<Rightarrow> container
      | Some override \<Rightarrow>
          let resources = sfield ''Resources'' container;
              resources' = set_sfield ''Limits'' (merge (Limits override) (sfield ''Limits'' resources)) resources;
              resources'' = set_sfield ''Requests'' (merge (Requests override) (sfield ''Requests'' resources')) resources'
          in set_sfield ''Resources'' resources'' container)"

definition ResourceRequirementsTransform :: "scheme \<Rightarrow> KnativeServing \<Rightarrow> transformer" where
  "ResourceRequirementsTransform s ks u =
     (if GetKind u = ''Deployment'' then
        bind_result (convert_to_typed s gvk_Deployment u)
          (\<lambda>deployment.
             let spec = pod_spec deployment;
                 spec' = set_sfield ''Containers'' (map_elems (override_resources ks) (sfield ''Containers'' spec)) spec
             in Ok (SetCreationTimestamp []
                     (convert_to_unstructured gvk_Deployment fs_Deployment (set_pod_spec spec' deployment))))
      else Ok u)"

section \<open>Merging\<close>

lemma keys_resource_list [simp]: "keys (resource_list src) = keys src"
  by (induction src) (auto simp: resource_list_def)

lemma map_of_resource_list: "map_of (resource_list src) k = map_option (VCustom \<circ> JStr) (map_of src k)"
  by (induction src) (auto simp: resource_list_def)

text \<open>Every resource the spec names gets the value of the spec; the others keep theirs.\<close>

lemma merge_lookup:
  assumes "distinct (keys src)"
  shows "map_of (entries (merge src tgt)) k =
    (case map_of src k of Some q \<Rightarrow> Some (VCustom (JStr q)) | None \<Rightarrow> map_of (entries tgt) k)"
  using map_of_assign_all [of "resource_list src" "entries tgt"] assms
  by (auto simp: merge_def map_of_resource_list map_add_def split: option.splits)

lemma list_all_update: "list_all P m \<Longrightarrow> P (k, v) \<Longrightarrow> list_all P (AList.update k v m)"
  by (induction m) auto

lemma list_all_assign_all: "list_all P src \<Longrightarrow> list_all P tgt \<Longrightarrow> list_all P (assign_all src tgt)"
  by (induction src tgt rule: assign_all.induct) (auto intro: list_all_update)

lemma merge_type:
  assumes "has_type (TMap (TCustom n)) tgt"
  shows "has_type (TMap (TCustom n)) (merge src tgt)"
proof -
  have "list_all (\<lambda>(k, x). has_type (TCustom n) x) (resource_list src)"
    by (induction src) (auto simp: resource_list_def)
  moreover from assms have "list_all (\<lambda>(k, x). has_type (TCustom n) x) (entries tgt)"
    by (auto simp del: has_type.simps(4) split: goval.splits option.splits)
  ultimately show ?thesis by (simp add: merge_def list_all_assign_all del: has_type.simps(4))
qed

lemma Resource_fields [simp]:
  "Field ''Resources'' ''resources'' True (TStruct fs_ResourceRequirements) \<in> set fs_Container"
  "Field ''Limits'' ''limits'' True (TMap (TCustom ''Quantity'')) \<in> set fs_ResourceRequirements"
  "Field ''Requests'' ''requests'' True (TMap (TCustom ''Quantity'')) \<in> set fs_ResourceRequirements"
  by (simp_all add: fs_Container_def fs_ResourceRequirements_def)

text \<open>One container: name and everything but the resources stay; limits and requests are merged.\<close>

lemma override_resources_laws:
  assumes t: "has_type (TStruct fs_Container) container"
  shows "has_type (TStruct fs_Container) (override_resources ks container)"
    and "g \<noteq> ''Resources'' \<Longrightarrow> sfield g (override_resources ks container) = sfield g container"
    and "find_override ks (as_gostring (sfield ''Name'' container)) = Some ov \<Longrightarrow>
      sfield ''Limits'' (sfield ''Resources'' (override_resources ks container)) =
        merge (Limits ov) (sfield ''Limits'' (sfield ''Resources'' container))"
    and "find_override ks (as_gostring (sfield ''Name'' container)) = Some ov \<Longrightarrow>
      sfield ''Requests'' (sfield ''Resources'' (override_resources ks container)) =
        merge (Requests ov) (sfield ''Requests'' (sfield ''Resources'' container))"
    and "find_override ks (as_gostring (sfield ''Name'' container)) = None \<Longrightarrow>
      override_resources ks container = container"
proof -
  have r: "has_type (TStruct fs_ResourceRequirements) (sfield ''Resources'' container)"
    by (rule sfield_type [OF t _ Resource_fields(1)]) simp
  let ?r1 = "\<lambda>ov. set_sfield ''Limits'' (merge (Limits ov) (sfield ''Limits'' (sfield ''Resources'' container)))
      (sfield ''Resources'' container)"
  have r1: "has_type (TStruct fs_ResourceRequirements) (?r1 ov)" for ov :: ResourceRequirementsOverride
    by (rule set_sfield_type [OF r _ Resource_fields(2)], simp)
      (rule merge_type, rule sfield_type [OF r _ Resource_fields(2)], simp)
  let ?r2 = "\<lambda>ov. set_sfield ''Requests'' (merge (Requests ov) (sfield ''Requests'' (sfield ''Resources'' container))) (?r1 ov)"
  have r2: "has_type (TStruct fs_ResourceRequirements) (?r2 ov)" for ov :: ResourceRequirementsOverride
    by (rule set_sfield_type [OF r1 _ Resource_fields(3)], simp)
      (rule merge_type, rule sfield_type [OF r _ Resource_fields(3)], simp)
  have c: "has_type (TStruct fs_Container) (set_sfield ''Resources'' (?r2 ov) container)" for ov :: ResourceRequirementsOverride
    by (rule set_sfield_type [OF t _ Resource_fields(1) r2]) simp
  have same: "sfield ''Resources'' (set_sfield ''Resources'' x container) = x" for x
    by (rule sfield_set_same [OF t _ Resource_fields(1)]) simp
  show "has_type (TStruct fs_Container) (override_resources ks container)"
    using t c by (simp add: override_resources_def Let_def del: has_type.simps split: option.splits)
  show "g \<noteq> ''Resources'' \<Longrightarrow> sfield g (override_resources ks container) = sfield g container"
    by (simp add: override_resources_def Let_def split: option.splits)
  assume "find_override ks (as_gostring (sfield ''Name'' container)) = Some ov"
  then show "sfield ''Limits'' (sfield ''Resources'' (override_resources ks container)) =
        merge (Limits ov) (sfield ''Limits'' (sfield ''Resources'' container))"
      and "sfield ''Requests'' (sfield ''Resources'' (override_resources ks container)) =
        merge (Requests ov) (sfield ''Requests'' (sfield ''Resources'' container))"
    using sfield_set_same [OF r _ Resource_fields(2)] sfield_set_same [OF r1 _ Resource_fields(3)]
    by (simp_all add: override_resources_def Let_def same)
qed (simp add: override_resources_def)

lemma ResourceRequirementsTransform_same_meta:
  assumes "scheme_ok s gvk_Deployment fs_Deployment" and run: "ResourceRequirementsTransform s ks u = Ok u'"
  shows "same_meta u u'"
proof (cases "GetKind u = ''Deployment''")
  case True
  with run obtain v where v: "convert_to_typed s gvk_Deployment u = Ok v"
      "u' = SetCreationTimestamp [] (convert_to_unstructured gvk_Deployment fs_Deployment
         (set_pod_spec (set_sfield ''Containers''
           (map_elems (override_resources ks) (sfield ''Containers'' (pod_spec v))) (pod_spec v)) v))"
    by (auto simp: ResourceRequirementsTransform_def Let_def)
  note t = deployment.convert_to_typed_meta(1) [OF assms(1) v(1)]
  note p = deployment.workload_types(3) [OF t]
  have "has_type (TStruct fs_PodSpec) (set_sfield ''Containers''
      (map_elems (override_resources ks) (sfield ''Containers'' (pod_spec v))) (pod_spec v))"
    by (rule set_sfield_type [OF p _ PodSpec_fields(2)], simp)
      (rule map_elems_type [OF sfield_type [OF p _ PodSpec_fields(2)]], simp, rule override_resources_laws(1))
  from deployment.set_pod_spec_laws [OF t this] True show ?thesis
    unfolding v(2) by (intro deployment.converted_same_meta [OF assms(1) v(1)]) simp_all
next
  case False
  with run show ?thesis by (simp add: ResourceRequirementsTransform_def)
qed

end
