(* ===== verification/Extensions.thy ===== *)
theory Extensions
  imports Config_Maps Gateways High_Availability Certs Resource_Requirements
begin

text \<open>
  \<open>pkg/reconciler/knativeserving/common/extensions.go\<close>: the transformers of the operator in their
  order, followed by those of the platform extensions. The locales of \<open>Manifest_Transform\<close> are
  interpreted on this list.
\<close>

section \<open>The list of transformers\<close>

text \<open>\<open>mf.InjectOwner(instance)\<close> makes the reference from the group, version and kind of the type.\<close>

definition owner_of :: "KnativeServing \<Rightarrow> OwnerReference" where
  "owner_of ks = NewControllerRef ks_GroupVersionKind (ksName ks) (ksUID ks)"

definition own_transformers :: "(string \<Rightarrow> string) \<Rightarrow> scheme \<Rightarrow> KnativeServing \<Rightarrow> transformer option list" where
  "own_transformers getenv s ks =
     [Some (InjectOwner (owner_of ks)),
      Some (InjectNamespace getenv (ksNamespace ks)),
      Some (ConfigMapTransform ks),
      Some (ImageTransform s ks),
      Some (GatewayTransform ks),
      Some (CustomCertsTransform s ks),
      Some (HighAvailabilityTransform ks),
      Some (ResourceRequirementsTransform s ks)]"

text \<open>
  A platform extension returns a transformer, nil, or an error; it is given the clients, here
  \<open>kube\<close>. The caller of \<open>Transformers\<close> drops the list when there is an error.
\<close>

type_synonym 'k platforms = "('k \<Rightarrow> transformer option result) list"

fun add_platforms :: "'k platforms \<Rightarrow> 'k \<Rightarrow> transformer option list \<Rightarrow> transformer option list result" where
  "add_platforms [] kube acc = Ok acc"
| "add_platforms (fn # platforms) kube acc =
     bind_result (fn kube)
       (\<lambda>transformer. add_platforms platforms kube (case transformer of None \<Rightarrow> acc | Some t \<Rightarrow> acc @ [Some t]))"

definition Transformers ::
    "(string \<Rightarrow> string) \<Rightarrow> scheme \<Rightarrow> 'k platforms \<Rightarrow> 'k \<Rightarrow> KnativeServing \<Rightarrow> transformer option list result" where
  "Transformers getenv s platforms kube ks = add_platforms platforms kube (own_transformers getenv s ks)"

section \<open>The platforms\<close>

lemma add_platforms_eq:
  "add_platforms platforms kube acc =
   bind_result (map_result (\<lambda>fn. fn kube) platforms) (\<lambda>ts. Ok (acc @ filter (\<lambda>t. t \<noteq> None) ts))"
proof (induction platforms arbitrary: acc)
  case (Cons fn platforms)
  show ?case
    by (cases "fn kube"; cases "map_result (\<lambda>fn. fn kube) platforms")
      (simp_all add: Cons.IH split: option.splits)
qed simp

lemma Transformers_no_platforms: "Transformers getenv s [] kube ks = Ok (own_transformers getenv s ks)"
  by (simp add: Transformers_def)

section \<open>The contract holds\<close>

text \<open>A scheme with the three kinds the operator converts, each at its own version.\<close>

definition operator_scheme :: "codec \<Rightarrow> scheme" where
  "operator_scheme c =
     \<lparr>schemeName = ''k8s.io/client-go/kubernetes/scheme/register.go'',
      gvkToType = (\<lambda>gvk. if gvk = gvk_Deployment then Some fs_Deployment
                         else if gvk = gvk_DaemonSet then Some fs_DaemonSet
                         else if gvk = gvk_Image then Some fs_Image else None),
      convert_version = (\<lambda>from target v. Err (Errorf ''no conversion'')),
      codecs = c\<rparr>"

lemma gvks_distinct [simp]:
  "gvk_DaemonSet \<noteq> gvk_Deployment" "gvk_Image \<noteq> gvk_Deployment" "gvk_Image \<noteq> gvk_DaemonSet"
  by (simp_all add: gvk_Deployment_def gvk_DaemonSet_def gvk_Image_def)

lemma operator_scheme_ok: "schemes_ok (operator_scheme c)"
  by (simp add: scheme_ok_def operator_scheme_def)

text \<open>The transformers after the first two keep metadata as well.\<close>

definition later_transformers :: "scheme \<Rightarrow> KnativeServing \<Rightarrow> transformer option list" where
  "later_transformers s ks =
     [Some (ConfigMapTransform ks), Some (ImageTransform s ks), Some (GatewayTransform ks),
      Some (CustomCertsTransform s ks), Some (HighAvailabilityTransform ks),
      Some (ResourceRequirementsTransform s ks)]"

lemma own_transformers_eq:
  "own_transformers getenv s ks =
     [Some (InjectOwner (owner_of ks)), Some (InjectNamespace getenv (ksNamespace ks))] @ later_transformers s ks"
  by (simp add: own_transformers_def later_transformers_def)

lemma later_transformers_keep:
  "schemes_ok s \<Longrightarrow> Some f \<in> set (later_transformers s ks) \<Longrightarrow> f u = Ok u' \<Longrightarrow> same_meta u u'"
  by (auto simp: later_transformers_def intro: ConfigMapTransform_keeps GatewayTransform_keeps
      HighAvailabilityTransform_keeps ImageTransform_same_meta CustomCertsTransform_same_meta
      ResourceRequirementsTransform_same_meta)

lemma later_chain: "schemes_ok s \<Longrightarrow> transformer_chain (later_transformers s ks) same_meta"
  by unfold_locales (auto intro: same_meta_trans later_transformers_keep)

lemma own_chain: "schemes_ok s \<Longrightarrow> object_chain (own_transformers getenv s ks)"
  by unfold_locales
    (auto simp: own_transformers_eq intro: same_object_trans InjectOwner_keeps InjectNamespace_keeps
      same_meta_same_object later_transformers_keep)

interpretation later: transformer_chain "later_transformers (operator_scheme c) ks" same_meta for c ks
  by (rule later_chain [OF operator_scheme_ok])

interpretation own: object_chain "own_transformers getenv (operator_scheme c) ks" for getenv c ks
  by (rule own_chain [OF operator_scheme_ok])

text \<open>
  Through the whole list a namespaced object gets the namespace of the custom resource and is owned by
  the custom resource alone.
\<close>

lemma own_transformers_place:
  assumes "schemes_ok s" and "\<not> isClusterScoped (GetKind u)" and "meta_ok u"
    and run: "fold_result run_transformer (own_transformers getenv s ks) u = Ok u'"
  shows "GetNamespace u' = resolveEnv getenv (ksNamespace ks)" and "owned_by u' [owner_of ks]"
    and "GetKind u' = GetKind u" and "GetName u' = GetName u"
proof -
  from run obtain u1 u2 where u1: "InjectOwner (owner_of ks) u = Ok u1"
      and u2: "InjectNamespace getenv (ksNamespace ks) u1 = Ok u2"
      and rest: "fold_result run_transformer (later_transformers s ks) u2 = Ok u'"
    by (auto simp: own_transformers_eq fold_result_append run_transformer_def)
  have k1: "GetKind u1 = GetKind u" using InjectOwner_keeps [OF u1] by (simp add: same_object_def)
  note o = InjectOwner_owned [OF u1 assms(2,3)]
  note p = InjectNamespace_place [OF u2 _ o(2), unfolded k1, OF assms(2)]
  have m: "same_meta u2 u'" by (rule transformer_chain.chain_keeps [OF later_chain [OF assms(1)] rest])
  then show "GetNamespace u' = resolveEnv getenv (ksNamespace ks)" and "owned_by u' [owner_of ks]"
    using p o(1) by (simp_all add: same_meta_def)
  have "\<not> is_namespace u" using assms(2)
    by (auto simp: is_namespace_def isClusterScoped_def cluster_scoped_kinds_def)
  then show "GetKind u' = GetKind u" and "GetName u' = GetName u"
    using object_chain.axioms(1) [OF own_chain [OF assms(1)], THEN transformer_chain.chain_keeps, OF run]
    by (simp_all add: same_object_def)
qed

end
