(* ===== verification/Effects.thy ===== *)
theory Effects
  imports Prelude
begin

text \<open>
  Fallible steps over an explicit state: a step takes the state and returns a result and the state
  afterwards, whatever the result is, because a Go function that fails keeps the changes it has
  made. \<open>bind_io\<close> is the sequencing with \<open>if err != nil \<open>{\<close> return err \<open>}\<close>\<close>, \<open>attempt\<close> gives the error to
  the code that follows, and \<open>for_each\<close> is a loop that returns the first error.
\<close>

type_synonym ('s, 'a) io = "'s \<Rightarrow> 'a result \<times> 's"

definition return_io :: "'a \<Rightarrow> ('s, 'a) io" where
  "return_io x s = (Ok x, s)"

definition raise_io :: "error \<Rightarrow> ('s, 'a) io" where
  "raise_io e s = (Err e, s)"

definition of_result :: "'a result \<Rightarrow> ('s, 'a) io" where
  "of_result r s = (r, s)"

definition bind_io :: "('s, 'a) io \<Rightarrow> ('a \<Rightarrow> ('s, 'b) io) \<Rightarrow> ('s, 'b) io" where
  "bind_io m f s =
     (case m s of
        (Ok x, s') \<Rightarrow> f x s'
      | (Err e, s') \<Rightarrow> (Err e, s')
      | (Panic p, s') \<Rightarrow> (Panic p, s'))"

definition then_io :: "('s, 'a) io \<Rightarrow> ('s, 'b) io \<Rightarrow> ('s, 'b) io" where
  "then_io m n = bind_io m (\<lambda>_. n)"

definition get_io :: "('s, 's) io" where
  "get_io s = (Ok s, s)"

definition modify_io :: "('s \<Rightarrow> 's) \<Rightarrow> ('s, unit) io" where
  "modify_io f s = (Ok (), f s)"

text \<open>The result of a step as a value. A panic is not caught.\<close>

definition attempt :: "('s, 'a) io \<Rightarrow> ('s, 'a result) io" where
  "attempt m s =
     (case m s of
        (Ok x, s') \<Rightarrow> (Ok (Ok x), s')
      | (Err e, s') \<Rightarrow> (Ok (Err e), s')
      | (Panic p, s') \<Rightarrow> (Panic p, s'))"

fun for_each :: "('a \<Rightarrow> ('s, unit) io) \<Rightarrow> 'a list \<Rightarrow> ('s, unit) io" where
  "for_each f [] = return_io ()"
| "for_each f (x # xs) = then_io (f x) (for_each f xs)"

lemma bind_io_Ok_iff:
  "bind_io m f s = (Ok y, s2) \<longleftrightarrow> (\<exists>x s1. m s = (Ok x, s1) \<and> f x s1 = (Ok y, s2))"
  by (auto simp: bind_io_def split: prod.splits result.splits)

lemma then_io_Ok_iff: "then_io m n s = (Ok y, s2) \<longleftrightarrow> (\<exists>x s1. m s = (Ok x, s1) \<and> n s1 = (Ok y, s2))"
  by (simp add: then_io_def bind_io_Ok_iff)

lemma io_simps [simp]:
  "bind_io (return_io x) f = f x" "bind_io (of_result (Ok x)) f = f x"
  "return_io x s = (Ok x, s)" "raise_io e s = (Err e, s)" "of_result r s = (r, s)"
  "get_io s = (Ok s, s)" "modify_io g s = (Ok (), g s)"
  by (simp_all add: fun_eq_iff bind_io_def return_io_def raise_io_def of_result_def get_io_def modify_io_def)

lemma bind_io_cases:
  "m s = (Ok x, s1) \<Longrightarrow> bind_io m f s = f x s1"
  "m s = (Err e, s1) \<Longrightarrow> bind_io m f s = (Err e, s1)"
  "m s = (Panic p, s1) \<Longrightarrow> bind_io m f s = (Panic p, s1)"
  by (simp_all add: bind_io_def)

lemma then_io_cases:
  "m s = (Ok x, s1) \<Longrightarrow> then_io m n s = n s1"
  "m s = (Err e, s1) \<Longrightarrow> then_io m n s = (Err e, s1)"
  "m s = (Panic p, s1) \<Longrightarrow> then_io m n s = (Panic p, s1)"
  by (simp_all add: then_io_def bind_io_def)

lemma attempt_Ok_iff:
  "attempt m s = (Ok r, s') \<longleftrightarrow> m s = (r, s') \<and> \<not> is_panic r"
  by (auto simp: attempt_def split: prod.splits result.splits)

text \<open>
  What holds of the state before and is kept by every step is kept by a sequence of steps, however
  the sequence ends.
\<close>

definition keeps_io :: "('s \<Rightarrow> bool) \<Rightarrow> ('s, 'a) io \<Rightarrow> bool" where
  "keeps_io P m \<longleftrightarrow> (\<forall>s. P s \<longrightarrow> P (snd (m s)))"

lemma keeps_ioD: "keeps_io P m \<Longrightarrow> P s \<Longrightarrow> m s = (r, s') \<Longrightarrow> P s'"
  by (metis keeps_io_def snd_conv)

lemma keeps_return [intro, simp]: "keeps_io P (return_io x)" and keeps_raise [intro, simp]: "keeps_io P (raise_io e)"
  and keeps_of_result [intro, simp]: "keeps_io P (of_result r)" and keeps_get [intro, simp]: "keeps_io P get_io"
  by (simp_all add: keeps_io_def)

lemma keeps_bind [intro]: "keeps_io P m \<Longrightarrow> (\<And>x. keeps_io P (f x)) \<Longrightarrow> keeps_io P (bind_io m f)"
  by (auto simp: keeps_io_def bind_io_def split: prod.splits result.splits)

lemma keeps_then [intro]: "keeps_io P m \<Longrightarrow> keeps_io P n \<Longrightarrow> keeps_io P (then_io m n)"
  by (auto simp: then_io_def)

lemma keeps_attempt [intro]: "keeps_io P m \<Longrightarrow> keeps_io P (attempt m)"
  by (auto simp: keeps_io_def attempt_def split: prod.splits result.splits)

lemma keeps_for_each: "(\<And>x. x \<in> set xs \<Longrightarrow> keeps_io P (f x)) \<Longrightarrow> keeps_io P (for_each f xs)"
  by (induction xs) auto

lemma for_each_append: "for_each f (xs @ ys) = then_io (for_each f xs) (for_each f ys)"
  by (induction xs) (auto simp: fun_eq_iff then_io_def bind_io_def split: prod.splits result.splits)

end
