(* ===== verification/Overlay.thy ===== *)
theory Overlay
  imports Unstructured
begin

text \<open>
  \<open>overlay.Copy\<close> (\<open>vendor/github.com/manifestival/manifestival/overlay/overlay.go\<close>): the values of one
  object written over those of another, used when the merged object is refused by the server. The
  order in which the keys of a Go map are visited does not matter, since a key is visited once.
\<close>

fun Copy :: "obj \<Rightarrow> obj \<Rightarrow> obj"
and overlay :: "json \<Rightarrow> json option \<Rightarrow> json"
and overlay_elements :: "json list \<Rightarrow> json list \<Rightarrow> json list" where
  "Copy [] tgt = tgt"
| "Copy ((k, v) # src) tgt = Copy src (AList.update k (overlay v (map_of tgt k)) tgt)"
| "overlay (JObj x) y = (case y of Some (JObj y') \<Rightarrow> JObj (Copy x y') | _ \<Rightarrow> JObj x)"
| "overlay (JArr x) y =
     (case y of
        Some (JArr y') \<Rightarrow> (if length y' < length x then JArr x else JArr (overlay_elements x y'))
      | _ \<Rightarrow> JArr x)"
| "overlay v y = v"
| "overlay_elements [] ys = []"
| "overlay_elements (x # xs) ys =
     (case ys of
        [] \<Rightarrow> x # xs
      | y # ys' \<Rightarrow>
          (case x of
             JObj xi \<Rightarrow> (case y of JObj yi \<Rightarrow> JObj (Copy xi yi) | _ \<Rightarrow> x)
           | _ \<Rightarrow> x) # overlay_elements xs ys')"

text \<open>What one object shows of another: every value, objects compared field by field.\<close>

fun shows_json :: "json \<Rightarrow> json \<Rightarrow> bool"
and shows_obj :: "obj \<Rightarrow> obj \<Rightarrow> bool"
and shows_list :: "json list \<Rightarrow> json list \<Rightarrow> bool" where
  "shows_json (JObj x) j = (case j of JObj y \<Rightarrow> shows_obj x y | _ \<Rightarrow> False)"
| "shows_json (JArr xs) j = (case j of JArr ys \<Rightarrow> shows_list xs ys | _ \<Rightarrow> False)"
| "shows_json v j = (j = v)"
| "shows_obj [] y = True"
| "shows_obj ((k, v) # x) y = ((case map_of y k of Some j \<Rightarrow> shows_json v j | None \<Rightarrow> False) \<and> shows_obj x y)"
| "shows_list [] ys = (ys = [])"
| "shows_list (v # xs) ys = (case ys of [] \<Rightarrow> False | j # ys' \<Rightarrow> shows_json v j \<and> shows_list xs ys')"

text \<open>The JSON a Go program can hold: no object has a key twice.\<close>

fun wf_json :: "json \<Rightarrow> bool" and wf_obj :: "obj \<Rightarrow> bool" and wf_list :: "json list \<Rightarrow> bool" where
  "wf_json (JObj m) = (distinct (keys m) \<and> wf_obj m)"
| "wf_json (JArr xs) = wf_list xs"
| "wf_json v = True"
| "wf_obj [] = True"
| "wf_obj ((k, v) # m) = (wf_json v \<and> wf_obj m)"
| "wf_list [] = True"
| "wf_list (v # xs) = (wf_json v \<and> wf_list xs)"

lemma map_of_Copy_other: "k \<notin> set (keys src) \<Longrightarrow> map_of (Copy src tgt) k = map_of tgt k"
  by (induction src arbitrary: tgt) auto

lemma map_of_Copy:
  "distinct (keys src) \<Longrightarrow>
   map_of (Copy src tgt) k = (case map_of src k of None \<Rightarrow> map_of tgt k | Some v \<Rightarrow> Some (overlay v (map_of tgt k)))"
proof (induction src arbitrary: tgt)
  case (Cons p src)
  obtain k0 v0 where p: "p = (k0, v0)" by force
  show ?case
  proof (cases "k = k0")
    case True
    with Cons.prems p show ?thesis by (simp add: map_of_Copy_other)
  next
    case False
    with Cons p show ?thesis by (simp split: option.splits)
  qed
qed simp

lemma overlay_elements_length: "length xs \<le> length ys \<Longrightarrow> length (overlay_elements xs ys) = length xs"
  by (induction xs arbitrary: ys) (auto split: list.splits)

lemma shows_obj_iff:
  "shows_obj x y \<longleftrightarrow> (\<forall>(k, v) \<in> set x. \<exists>j. map_of y k = Some j \<and> shows_json v j)"
  by (induction x) (auto split: option.splits)

lemma wf_obj_lookup: "wf_obj m \<Longrightarrow> map_of m k = Some v \<Longrightarrow> wf_json v"
  by (induction m) (auto split: if_splits)

lemma wf_obj_update: "wf_obj m \<Longrightarrow> wf_json v \<Longrightarrow> wf_obj (AList.update k v m)"
  by (induction m) auto

lemmas json_induct = wf_json_wf_obj_wf_list.induct
  [case_names JObj JArr JNull JBool JInt JFloat JStr obj_Nil obj_Cons list_Nil list_Cons]

lemma shows_refl: "wf_json v \<Longrightarrow> shows_json v v"
  and shows_obj_refl: "wf_obj m \<Longrightarrow> distinct (keys m) \<Longrightarrow> shows_obj m m"
  and shows_list_refl: "wf_list xs \<Longrightarrow> shows_list xs xs"
proof (induction v and m and xs rule: json_induct)
  case (obj_Cons k v m)
  then have "shows_json v v" and "shows_obj m m" and "k \<notin> set (keys m)" by auto
  then show ?case by (force simp: shows_obj_iff)
qed auto

text \<open>After the copy the target shows every value of the source.\<close>

lemma Copy_showsI:
  assumes "distinct (keys src)" and "\<forall>(k, v) \<in> set src. \<forall>y. shows_json v (overlay v y)"
  shows "shows_obj src (Copy src tgt)"
  using assms by (auto simp: shows_obj_iff map_of_Copy)

lemma overlay_shows: "wf_json v \<Longrightarrow> shows_json v (overlay v y)"
  and overlay_entries: "wf_obj m \<Longrightarrow> \<forall>(k, v) \<in> set m. \<forall>y. shows_json v (overlay v y)"
  and overlay_elements_shows: "wf_list xs \<Longrightarrow> length xs \<le> length ys \<Longrightarrow> shows_list xs (overlay_elements xs ys)"
proof (induction v and m and xs arbitrary: y and z and ys rule: json_induct)
  case (JObj m)
  then show ?case using Copy_showsI [of m] shows_obj_refl [of m] by (auto split: option.splits json.splits)
next
  case (JArr xs)
  then show ?case using shows_list_refl [of xs] by (auto split: option.splits json.splits)
next
  case (list_Cons v xs)
  then obtain y ys' where ys: "ys = y # ys'" by (cases ys) auto
  have "shows_json v (case v of JObj xi \<Rightarrow> (case y of JObj yi \<Rightarrow> JObj (Copy xi yi) | _ \<Rightarrow> v) | _ \<Rightarrow> v)"
    using list_Cons.IH(1) [of "Some y"] list_Cons.prems(1) shows_refl [of v] by (cases v; cases y) auto
  with list_Cons ys show ?case by simp
qed auto

lemma Copy_shows: "wf_obj src \<Longrightarrow> distinct (keys src) \<Longrightarrow> shows_obj src (Copy src tgt)"
  by (rule Copy_showsI) (simp_all add: overlay_entries)

end
