(* ===== verification/Manifest_Apply.thy ===== *)
theory Manifest_Apply
  imports Effects Overlay Manifest_Transform
begin

text \<open>
  Applying and deleting the resources of a manifest: \<open>manifestival/manifestival.go\<close> over the client
  interface of \<open>manifestival/client.go\<close>.

  The client is a record of steps over the state \<open>'w\<close> of the cluster. Computing and applying a merge
  patch, and marshalling an object, are the fields of \<open>patching\<close>. The write of \<open>lastApplied\<close> to the
  annotations of the manifest's own resource is not carried back to the manifest: it removes the
  last-applied annotation, which nothing reads from the manifest afterwards.

  The locale \<open>object_store\<close> is what the library relies on in a client: an object is addressed by a
  key, a step that succeeds has its effect on that key only, and a step that fails has none.
\<close>

section \<open>Options\<close>

record ApplyOptions =
  ForCreate_DryRun :: "string list"
  ForUpdate_DryRun :: "string list"
  Overwrite :: bool

record DeleteOptions =
  ForDelete_DryRun :: "string list"
  GracePeriodSeconds :: "64 word option"
  PropagationPolicy :: "string option"
  IgnoreNotFound :: bool

datatype ApplyOption = ApplyDryRunAll | ApplyFieldManager string | ApplyOverwrite bool

datatype DeleteOption =
  DeleteDryRunAll | DeleteGracePeriodSeconds "64 word" | DeletePropagationPolicy string | DeleteIgnoreNotFound bool

fun apply_option :: "ApplyOption \<Rightarrow> ApplyOptions \<Rightarrow> ApplyOptions" where
  "apply_option ApplyDryRunAll o1 = o1\<lparr>ForCreate_DryRun := [''All''], ForUpdate_DryRun := [''All'']\<rparr>"
| "apply_option (ApplyFieldManager f) o1 = o1"
| "apply_option (ApplyOverwrite b) o1 = o1\<lparr>Overwrite := b\<rparr>"

definition ApplyWith :: "ApplyOption list \<Rightarrow> ApplyOptions" where
  "ApplyWith options = fold apply_option options \<lparr>ForCreate_DryRun = [], ForUpdate_DryRun = [], Overwrite = True\<rparr>"

fun delete_option :: "DeleteOption \<Rightarrow> DeleteOptions \<Rightarrow> DeleteOptions" where
  "delete_option DeleteDryRunAll o1 = o1\<lparr>ForDelete_DryRun := [''All'']\<rparr>"
| "delete_option (DeleteGracePeriodSeconds g) o1 = o1\<lparr>GracePeriodSeconds := Some g\<rparr>"
| "delete_option (DeletePropagationPolicy p) o1 = o1\<lparr>PropagationPolicy := Some p\<rparr>"
| "delete_option (DeleteIgnoreNotFound b) o1 = o1\<lparr>IgnoreNotFound := b\<rparr>"

definition DeleteWith :: "DeleteOption list \<Rightarrow> DeleteOptions" where
  "DeleteWith options =
     fold delete_option options
       \<lparr>ForDelete_DryRun = [], GracePeriodSeconds = None, PropagationPolicy = None, IgnoreNotFound = True\<rparr>"

section \<open>The client and the patches\<close>

record 'w mf_client =
  c_Create :: "obj \<Rightarrow> ApplyOption list \<Rightarrow> ('w, unit) io"
  c_Update :: "obj \<Rightarrow> ApplyOption list \<Rightarrow> ('w, unit) io"
  c_Delete :: "obj \<Rightarrow> DeleteOption list \<Rightarrow> ('w, unit) io"
  c_Get :: "obj \<Rightarrow> ('w, obj) io"

text \<open>
  \<open>patch.New\<close> gives no patch when nothing differs; \<open>Merge\<close> gives the merged object.
\<close>

record 'p patching =
  MarshalJSON :: "obj \<Rightarrow> string"
  patch_New :: "obj \<Rightarrow> obj \<Rightarrow> 'p option result"
  patch_Merge :: "'p \<Rightarrow> obj \<Rightarrow> obj result"

section \<open>Applying\<close>

definition LastAppliedConfigAnnotation :: string where
  "LastAppliedConfigAnnotation = ''kubectl.kubernetes.io/last-applied-configuration''"

definition resourceCreated :: string where
  "resourceCreated = ''new''"

definition annotate :: "string \<Rightarrow> string \<Rightarrow> obj \<Rightarrow> obj" where
  "annotate key value spec = SetAnnotations (Some (AList.update key value (GetAnnotations spec))) spec"

text \<open>\<open>lastApplied\<close>: the object without the annotation, and its text.\<close>

definition without_last_applied :: "obj \<Rightarrow> obj" where
  "without_last_applied u =
     (if length (GetAnnotations u) > 0
      then SetAnnotations (Some (AList.delete LastAppliedConfigAnnotation (GetAnnotations u))) u else u)"

definition lastApplied :: "'p patching \<Rightarrow> obj \<Rightarrow> string" where
  "lastApplied P u = MarshalJSON P (without_last_applied u)"

text \<open>\<open>get\<close>: not found is no error.\<close>

definition mf_get :: "'w mf_client \<Rightarrow> obj \<Rightarrow> ('w, obj option) io" where
  "mf_get c spec =
     bind_io (attempt (c_Get c spec))
       (\<lambda>r. case r of
              Ok current \<Rightarrow> return_io (Some current)
            | Err e \<Rightarrow> if IsNotFound e then return_io None else raise_io e
            | Panic p \<Rightarrow> of_result (Panic p))"

definition mf_update :: "'w mf_client \<Rightarrow> 'p patching \<Rightarrow> obj \<Rightarrow> obj \<Rightarrow> ApplyOption list \<Rightarrow> ('w, unit) io" where
  "mf_update c P live spec opts =
     (let live' = annotate LastAppliedConfigAnnotation (lastApplied P spec) live;
          spec' = without_last_applied spec
      in bind_io (attempt (c_Update c live' opts))
           (\<lambda>r. case r of
                  Err e \<Rightarrow> if IsInvalid e \<and> Overwrite (ApplyWith opts)
                           then c_Update c (Copy spec' live') opts
                           else raise_io e
                | _ \<Rightarrow> of_result r))"

definition mf_apply :: "'w mf_client \<Rightarrow> 'p patching \<Rightarrow> ApplyOption list \<Rightarrow> obj \<Rightarrow> ('w, unit) io" where
  "mf_apply c P opts spec =
     bind_io (mf_get c spec)
       (\<lambda>found. case found of
          None \<Rightarrow>
            let current = DeepCopy spec
            in c_Create c
                 (annotate ''manifestival'' resourceCreated
                   (annotate LastAppliedConfigAnnotation (lastApplied P current) (without_last_applied current)))
                 opts
        | Some current \<Rightarrow>
            bind_io (of_result (patch_New P current spec))
              (\<lambda>diff. case diff of
                 None \<Rightarrow> return_io ()
               | Some p \<Rightarrow>
                   bind_io (of_result (patch_Merge P p current))
                     (\<lambda>merged. mf_update c P merged spec opts)))"

definition Apply :: "'w mf_client \<Rightarrow> 'p patching \<Rightarrow> ApplyOption list \<Rightarrow> manifest \<Rightarrow> ('w, unit) io" where
  "Apply c P opts resources = for_each (mf_apply c P opts) resources"

section \<open>Deleting\<close>

definition okToDelete :: "obj \<Rightarrow> bool" where
  "okToDelete spec =
     (if GetKind spec = ''Namespace''
      then lookup_or [] (GetAnnotations spec) ''manifestival'' = resourceCreated else True)"

text \<open>\<open>delete\<close>: an error of \<open>get\<close> other than not found does not keep the delete from being tried.\<close>

definition mf_delete :: "'w mf_client \<Rightarrow> DeleteOption list \<Rightarrow> obj \<Rightarrow> ('w, unit) io" where
  "mf_delete c opts spec =
     bind_io (attempt (mf_get c spec))
       (\<lambda>r. if r = Ok None then return_io () else c_Delete c spec opts)"

definition Delete :: "'w mf_client \<Rightarrow> DeleteOption list \<Rightarrow> manifest \<Rightarrow> ('w, unit) io" where
  "Delete c opts resources =
     for_each (\<lambda>spec. if okToDelete spec then mf_delete c opts spec else return_io ()) (rev resources)"

section \<open>Keys\<close>

text \<open>An object is addressed by the resource its version and kind stand for, its namespace and its name.\<close>

type_synonym 'r object_key = "'r \<times> string \<times> string"

definition object_key :: "(string \<Rightarrow> string \<Rightarrow> 'r) \<Rightarrow> obj \<Rightarrow> 'r object_key" where
  "object_key res u = (res (GetAPIVersion u) (GetKind u), GetNamespace u, GetName u)"

lemma object_key_annotate [simp]: "object_key res (annotate k v u) = object_key res u"
  by (simp add: object_key_def annotate_def kind_simps)

lemma object_key_without_last_applied [simp]: "object_key res (without_last_applied u) = object_key res u"
  by (simp add: object_key_def without_last_applied_def kind_simps)

text \<open>The overlay of an object on another one with the same key has that key.\<close>

lemma set_nested_wf:
  "set_nested seen m v fs = Ok m' \<Longrightarrow> wf_json v \<Longrightarrow> wf_obj m \<Longrightarrow> distinct (keys m) \<Longrightarrow>
   wf_obj m' \<and> distinct (keys m')"
proof (induction seen m v fs arbitrary: m' rule: set_nested.induct)
  case (2 seen m v f)
  then show ?case by (auto simp: wf_obj_update)
next
  case (3 seen m v f g fs)
  show ?case
  proof (cases "map_of m f")
    case None
    with 3 show ?thesis by (auto simp: wf_obj_update)
  next
    case (Some w)
    with 3 obtain m1 where w: "w = JObj m1" by (cases w) auto
    with Some 3(5) have "wf_obj m1" "distinct (keys m1)" using wf_obj_lookup by fastforce+
    with 3 Some w show ?thesis by (auto simp: wf_obj_update)
  qed
qed auto

lemma nested_from_wf: "nested_from seen v fs = Ok (Some j) \<Longrightarrow> wf_json v \<Longrightarrow> wf_json j"
  by (induction seen v fs rule: nested_from.induct) (auto dest: wf_obj_lookup split: option.splits)

lemma map_result_keys:
  "map_result (\<lambda>(k, v). bind_result (f v) (\<lambda>s. Ok (k, s))) kvs = Ok m \<Longrightarrow> keys m = keys kvs"
  by (induction kvs arbitrary: m) auto

lemma GetAnnotations_distinct:
  assumes "wf_obj u" and "distinct (keys u)"
  shows "distinct (keys (GetAnnotations u))"
proof (cases "NestedStringMap u [''metadata'', ''annotations'']")
  case (Ok r)
  show ?thesis
  proof (cases r)
    case (Some m)
    with Ok obtain kvs where kvs: "nestedMapNoCopy u [''metadata'', ''annotations''] = Ok (Some kvs)"
        "keys m = keys kvs"
      by (auto simp: NestedStringMap_def dest!: map_result_keys split: option.splits)
    then have "NestedFieldNoCopy u [''metadata'', ''annotations''] = Ok (Some (JObj kvs))"
      by (auto simp: nestedMapNoCopy_def typed_field_def split: option.splits elim: as_map.elims)
    then have "nested_from [] (JObj u) [''metadata'', ''annotations''] = Ok (Some (JObj kvs))"
      by (simp only: NestedFieldNoCopy_def)
    then have "wf_json (JObj kvs)" by (rule nested_from_wf) (simp add: assms)
    with Ok Some kvs show ?thesis by (simp add: GetAnnotations_def)
  qed (simp add: GetAnnotations_def Ok)
qed (simp_all add: GetAnnotations_def)

lemma without_last_applied_wf:
  assumes "wf_obj u" and "distinct (keys u)"
  shows "wf_obj (without_last_applied u)" and "distinct (keys (without_last_applied u))"
proof -
  have strings: "distinct (keys m) \<Longrightarrow> wf_json (JObj (string_map m))" for m :: "string gomap"
  proof -
    have "wf_obj (string_map m)" and "keys (string_map m) = keys m"
      by (induction m) (auto simp: string_map_def)
    then show "distinct (keys m) \<Longrightarrow> wf_json (JObj (string_map m))" by simp
  qed
  note ann = GetAnnotations_distinct [OF assms]
  let ?v = "JObj (string_map (AList.delete LastAppliedConfigAnnotation (GetAnnotations u)))"
  have v: "wf_json ?v" by (rule strings) (simp add: ann)
  have "wf_obj u' \<and> distinct (keys u')" if "SetNestedField u ?v [''metadata'', ''annotations''] = Ok u'" for u'
    by (rule set_nested_wf [OF that [unfolded SetNestedField_eq] v assms])
  then have "wf_obj (without_last_applied u) \<and> distinct (keys (without_last_applied u))"
    using assms by (simp add: without_last_applied_def SetAnnotations_def SetNestedStringMap_eq split: result.splits)
  then show "wf_obj (without_last_applied u)" and "distinct (keys (without_last_applied u))" by blast+
qed

lemma getNestedString_one:
  "getNestedString x [f] = (case map_of x f of Some (JStr s) \<Rightarrow> s | _ \<Rightarrow> [])"
  by (auto simp: getNestedString_def NestedString_def typed_field_def NestedFieldNoCopy_def
      split: option.splits json.splits)

lemma getNestedString_two:
  "getNestedString x [f, g] =
   (case map_of x f of
      Some (JObj m) \<Rightarrow> (case map_of m g of Some (JStr s) \<Rightarrow> s | _ \<Rightarrow> [])
    | _ \<Rightarrow> [])"
  by (auto simp: getNestedString_def NestedString_def typed_field_def NestedFieldNoCopy_def
      split: option.splits json.splits)

lemma getNestedString_Copy_one:
  "distinct (keys x) \<Longrightarrow> getNestedString x [f] \<noteq> [] \<Longrightarrow> getNestedString (Copy x y) [f] = getNestedString x [f]"
  by (auto simp: getNestedString_one map_of_Copy split: option.splits json.splits)

lemma getNestedString_Copy_two:
  assumes "wf_obj x" and "distinct (keys x)"
  shows "getNestedString (Copy x y) [f, g] \<in> {getNestedString x [f, g], getNestedString y [f, g]}"
proof (cases "\<exists>mx my. map_of x f = Some (JObj mx) \<and> map_of y f = Some (JObj my)")
  case True
  then obtain mx my where m: "map_of x f = Some (JObj mx)" "map_of y f = Some (JObj my)" by blast
  then have "distinct (keys mx)" using wf_obj_lookup [OF assms(1)] by fastforce
  with m assms(2) show ?thesis
    by (cases "map_of mx g"; cases "the (map_of mx g)")
      (auto simp: getNestedString_two map_of_Copy split: option.splits json.splits)
next
  case False
  then show ?thesis
    using assms(2) by (cases "map_of x f"; cases "the (map_of x f)")
      (auto simp: getNestedString_two map_of_Copy split: option.splits json.splits)
qed

lemma object_key_Copy:
  assumes "wf_obj x" "distinct (keys x)" and "object_key res x = object_key res y"
    and "GetAPIVersion x \<noteq> []" "GetKind x \<noteq> []"
  shows "object_key res (Copy x y) = object_key res x"
  using getNestedString_Copy_two [OF assms(1,2), of y "''metadata''" "''name''"]
    getNestedString_Copy_two [OF assms(1,2), of y "''metadata''" "''namespace''"]
    getNestedString_Copy_one [OF assms(2)] assms(3-5)
  by (auto simp: object_key_def identity_defs)

section \<open>The contract of a client\<close>

text \<open>
  \<open>lookup\<close> is what the store holds, \<open>valid\<close> the keys that address at most one object, \<open>inv\<close> the
  invariant of the store. Reading has no effect. A write that succeeds changes the object at its key, a
  write that fails changes nothing.
\<close>

locale object_store =
  fixes client :: "'w mf_client" and res :: "string \<Rightarrow> string \<Rightarrow> 'r"
    and lookup :: "'w \<Rightarrow> 'r object_key \<Rightarrow> obj option"
    and valid :: "'r object_key \<Rightarrow> bool" and inv :: "'w \<Rightarrow> bool"
  assumes get_state: "snd (c_Get client u w) = w"
    and get_ok: "inv w \<Longrightarrow> valid (object_key res u) \<Longrightarrow> fst (c_Get client u w) = Ok cur \<Longrightarrow>
      lookup w (object_key res u) = Some cur"
    and get_not_found: "inv w \<Longrightarrow> valid (object_key res u) \<Longrightarrow> fst (c_Get client u w) = Err e \<Longrightarrow>
      IsNotFound e \<Longrightarrow> lookup w (object_key res u) = None"
    and create: "inv w \<Longrightarrow> valid (object_key res u) \<Longrightarrow> c_Create client u [] w = (r, w') \<Longrightarrow>
      inv w' \<and> (if r = Ok () then \<exists>x. lookup w' = (lookup w)(object_key res u \<mapsto> x) else lookup w' = lookup w)"
    and update: "inv w \<Longrightarrow> valid (object_key res u) \<Longrightarrow> c_Update client u [] w = (r, w') \<Longrightarrow>
      inv w' \<and> (if r = Ok () then \<exists>x. lookup w' = (lookup w)(object_key res u \<mapsto> x) else lookup w' = lookup w)"
    and delete: "inv w \<Longrightarrow> valid (object_key res u) \<Longrightarrow> c_Delete client u [] w = (r, w') \<Longrightarrow>
      inv w' \<and> (if r = Ok () then lookup w' = (lookup w)(object_key res u := None) else lookup w' = lookup w)"
    and stored: "inv w \<Longrightarrow> lookup w k = Some x \<Longrightarrow> object_key res x = k"
    and valid_names: "valid (object_key res u) \<Longrightarrow> GetKind u \<noteq> [] \<and> GetAPIVersion u \<noteq> []"
begin

abbreviation "key \<equiv> object_key res"

lemma get_cases:
  assumes "inv w" and "valid (key u)" and "mf_get client u w = (r, w')"
  shows "w' = w" and "r = Ok None \<Longrightarrow> lookup w (key u) = None" and "r = Ok (Some cur) \<Longrightarrow> lookup w (key u) = Some cur"
proof -
  obtain g where g: "c_Get client u w = (g, w)" using get_state [of u w] by (metis prod.collapse)
  show "w' = w" and "r = Ok None \<Longrightarrow> lookup w (key u) = None" and "r = Ok (Some cur) \<Longrightarrow> lookup w (key u) = Some cur"
    using assms(3) g get_ok [OF assms(1,2)] get_not_found [OF assms(1,2)]
    by (cases g; auto simp: mf_get_def bind_io_def attempt_def split: if_splits)+
qed

text \<open>What one step on the resource \<open>u\<close> may do: nothing elsewhere, and no object disappears.\<close>

definition applied :: "obj \<Rightarrow> unit result \<Rightarrow> 'w \<Rightarrow> 'w \<Rightarrow> bool" where
  "applied u r w w' \<longleftrightarrow>
     inv w' \<and> (\<forall>k. k \<noteq> key u \<longrightarrow> lookup w' k = lookup w k) \<and>
     (lookup w (key u) \<noteq> None \<longrightarrow> lookup w' (key u) \<noteq> None) \<and> (r = Ok () \<longrightarrow> lookup w' (key u) \<noteq> None)"

lemma create_applied:
  "inv w \<Longrightarrow> valid (key u) \<Longrightarrow> c_Create client u [] w = (r, w') \<Longrightarrow> key v = key u \<Longrightarrow> applied v r w w'"
  using create [of w u r w'] by (auto simp: applied_def split: if_splits)

lemma update_applied:
  "inv w \<Longrightarrow> valid (key u) \<Longrightarrow> c_Update client u [] w = (r, w') \<Longrightarrow> key v = key u \<Longrightarrow> applied v r w w'"
  using update [of w u r w'] by (auto simp: applied_def split: if_splits)

lemma mf_update_applied:
  assumes "inv w" and "valid (key spec)" and "wf_obj spec" "distinct (keys spec)" and "key live = key spec"
    and run: "mf_update client P live spec [] w = (r, w')"
  shows "applied spec r w w'"
proof -
  let ?live = "annotate LastAppliedConfigAnnotation (lastApplied P spec) live"
  obtain r1 w1 where u1: "c_Update client ?live [] w = (r1, w1)" by force
  have first: "applied spec r1 w w1" by (rule update_applied [OF assms(1) _ u1]) (simp_all add: assms)
  show ?thesis
  proof (cases "\<exists>e. r1 = Err e \<and> IsInvalid e")
    case True
    then obtain e where e: "r1 = Err e" "IsInvalid e" by blast
    let ?over = "Copy (without_last_applied spec) ?live"
    have w1: "inv w1" "lookup w1 = lookup w"
      using update [OF assms(1) _ u1] e assms(2,5) by simp_all
    have "GetAPIVersion (without_last_applied spec) \<noteq> []" "GetKind (without_last_applied spec) \<noteq> []"
      using valid_names [OF assms(2)] by (simp_all add: without_last_applied_def kind_simps)
    then have k: "key ?over = key spec"
      using object_key_Copy [OF without_last_applied_wf [OF assms(3,4)], of res ?live] assms(5) by simp
    obtain r2 w2 where u2: "c_Update client ?over [] w1 = (r2, w2)" by force
    have "applied spec r2 w1 w2" by (rule update_applied [OF w1(1) _ u2]) (simp_all add: k assms)
    with w1 have "applied spec r2 w w2" by (simp add: applied_def)
    with run u1 u2 e show ?thesis
      by (auto simp: mf_update_def bind_io_def attempt_def ApplyWith_def Let_def)
  next
    case False
    with run u1 first show ?thesis
      by (cases r1) (auto simp: mf_update_def bind_io_def attempt_def Let_def split: if_splits)
  qed
qed

text \<open>
  \<open>merge_key\<close>: a patch for a resource that was found under its key gives an object with that key.
\<close>

lemma mf_apply_applied:
  assumes "inv w" and "valid (key spec)" and "wf_obj spec" "distinct (keys spec)"
    and merge_key: "\<And>cur p m. patch_New P cur spec = Ok (Some p) \<Longrightarrow> patch_Merge P p cur = Ok m \<Longrightarrow>
      key cur = key spec \<Longrightarrow> key m = key spec"
    and run: "mf_apply client P [] spec w = (r, w')"
  shows "applied spec r w w'"
proof -
  obtain g where g: "mf_get client spec w = (g, w)"
    using get_cases(1) [OF assms(1,2)] by (metis prod.exhaust)
  note found = get_cases(2,3) [OF assms(1,2) g]
  show ?thesis
  proof (cases g)
    case (Ok cur)
    show ?thesis
    proof (cases cur)
      case None
      with Ok g run obtain u where u: "c_Create client u [] w = (r, w')" "key u = key spec"
        by (auto simp: mf_apply_def bind_io_def Let_def)
      show ?thesis by (rule create_applied [OF assms(1) _ u(1)]) (simp_all only: u(2) assms(2))
    next
      case (Some c)
      with Ok found have l: "lookup w (key spec) = Some c" by simp
      then have kc: "key c = key spec" by (rule stored [OF assms(1)])
      from Some Ok g run have body: "bind_io (of_result (patch_New P c spec))
          (\<lambda>diff. case diff of None \<Rightarrow> return_io ()
             | Some p \<Rightarrow> bind_io (of_result (patch_Merge P p c)) (\<lambda>merged. mf_update client P merged spec [])) w = (r, w')"
        by (simp add: mf_apply_def bind_io_cases)
      show ?thesis
      proof (cases "\<exists>p m. patch_New P c spec = Ok (Some p) \<and> patch_Merge P p c = Ok m")
        case True
        then obtain p m where pm: "patch_New P c spec = Ok (Some p)" "patch_Merge P p c = Ok m" by blast
        have "mf_update client P m spec [] w = (r, w')" using body pm by simp
        with merge_key [OF pm kc] assms(1-4) show ?thesis by (auto intro: mf_update_applied)
      next
        case False
        with body have "w' = w"
          by (cases "patch_New P c spec") (auto simp: bind_io_def split: option.splits result.splits)
        with l assms(1) show ?thesis by (simp add: applied_def)
      qed
    qed
  qed (use g run assms(1) in \<open>auto simp: mf_apply_def bind_io_def applied_def\<close>)
qed

text \<open>
  Applying a manifest: everything that is addressed by no resource of the manifest stays as it is, no
  object disappears, and after a successful run every resource of the manifest exists.
\<close>

definition appliable :: "'p patching \<Rightarrow> obj \<Rightarrow> bool" where
  "appliable P spec \<longleftrightarrow>
     valid (key spec) \<and> wf_obj spec \<and> distinct (keys spec) \<and>
     (\<forall>cur p m. patch_New P cur spec = Ok (Some p) \<longrightarrow> patch_Merge P p cur = Ok m \<longrightarrow>
        key cur = key spec \<longrightarrow> key m = key spec)"

lemma Apply_effect:
  assumes "inv w" and "\<And>u. u \<in> set m \<Longrightarrow> appliable P u" and "Apply client P [] m w = (r, w')"
  shows "inv w'" and "k \<notin> key ` set m \<Longrightarrow> lookup w' k = lookup w k"
    and "lookup w k \<noteq> None \<Longrightarrow> lookup w' k \<noteq> None"
    and "r = Ok () \<Longrightarrow> u \<in> set m \<Longrightarrow> lookup w' (key u) \<noteq> None"
proof -
  have "inv w' \<and> (\<forall>k. k \<notin> key ` set m \<longrightarrow> lookup w' k = lookup w k) \<and>
      (\<forall>k. lookup w k \<noteq> None \<longrightarrow> lookup w' k \<noteq> None) \<and>
      (r = Ok () \<longrightarrow> (\<forall>u \<in> set m. lookup w' (key u) \<noteq> None))"
    using assms
  proof (induction m arbitrary: w)
    case Nil
    then show ?case by (simp add: Apply_def)
  next
    case (Cons u m)
    obtain r1 w1 where step: "mf_apply client P [] u w = (r1, w1)" by force
    have u: "appliable P u" using Cons.prems(2) by simp
    have "applied u r1 w w1"
      by (rule mf_apply_applied [OF Cons.prems(1) _ _ _ _ step]) (use u in \<open>auto simp: appliable_def\<close>)
    then have one: "inv w1" "\<And>k. k \<noteq> key u \<Longrightarrow> lookup w1 k = lookup w k"
        "\<And>k. lookup w k \<noteq> None \<Longrightarrow> lookup w1 k \<noteq> None" "r1 = Ok () \<Longrightarrow> lookup w1 (key u) \<noteq> None"
      unfolding applied_def by (blast, blast, metis, blast)
    show ?case
    proof (cases "r1 = Ok ()")
      case True
      with Cons.prems(3) step have "Apply client P [] m w1 = (r, w')"
        by (simp add: Apply_def then_io_cases)
      with Cons.IH [OF one(1)] Cons.prems(2) have rest: "inv w'" "\<forall>k. k \<notin> key ` set m \<longrightarrow> lookup w' k = lookup w1 k"
          "\<forall>k. lookup w1 k \<noteq> None \<longrightarrow> lookup w' k \<noteq> None" "r = Ok () \<longrightarrow> (\<forall>u \<in> set m. lookup w' (key u) \<noteq> None)"
        by auto
      have "lookup w' (key u) \<noteq> None" using one(4) True rest(3) by blast
      with one True rest show ?thesis by simp
    next
      case False
      with Cons.prems(3) step have "w' = w1" and "r \<noteq> Ok ()"
        by (cases r1; simp add: Apply_def then_io_cases)+
      with one show ?thesis by simp
    qed
  qed
  then show "inv w'" and "k \<notin> key ` set m \<Longrightarrow> lookup w' k = lookup w k"
    and "lookup w k \<noteq> None \<Longrightarrow> lookup w' k \<noteq> None"
    and "r = Ok () \<Longrightarrow> u \<in> set m \<Longrightarrow> lookup w' (key u) \<noteq> None"
    by blast+
qed

text \<open>
  Deleting a manifest: everything that is addressed by no resource of the manifest stays, no object
  appears, and after a successful run no resource of the manifest exists that may be deleted.
\<close>

lemma mf_delete_effect:
  assumes "inv w" and "valid (key u)" and run: "mf_delete client [] u w = (r, w')"
  shows "inv w' \<and> (if r = Ok () then lookup w' = (lookup w)(key u := None) else lookup w' = lookup w)"
proof -
  obtain g where g: "mf_get client u w = (g, w)"
    using get_cases(1) [OF assms(1,2)] by (metis prod.exhaust)
  show ?thesis
  proof (cases "g = Ok None")
    case True
    with g run have "r = Ok ()" "w' = w" by (simp_all add: mf_delete_def bind_io_def attempt_def)
    with True get_cases(2) [OF assms(1,2) g] assms(1) show ?thesis by (simp add: fun_eq_iff)
  next
    case False
    then have "(\<exists>p. g = Panic p) \<and> r \<noteq> Ok () \<and> w' = w \<or> c_Delete client u [] w = (r, w')"
      using g run by (cases g) (auto simp: mf_delete_def bind_io_def attempt_def)
    with assms(1) delete [OF assms(1,2)] show ?thesis by auto
  qed
qed

lemma Delete_effect:
  assumes "inv w" and "\<And>u. u \<in> set m \<Longrightarrow> valid (key u)" and "Delete client [] m w = (r, w')"
  shows "inv w'" and "k \<notin> key ` set m \<Longrightarrow> lookup w' k = lookup w k"
    and "lookup w k = None \<Longrightarrow> lookup w' k = None"
    and "r = Ok () \<Longrightarrow> u \<in> set m \<Longrightarrow> okToDelete u \<Longrightarrow> lookup w' (key u) = None"
proof -
  let ?f = "\<lambda>u. if okToDelete u then mf_delete client [] u else return_io ()"
  have "inv w' \<and> (\<forall>k. k \<notin> key ` set us \<longrightarrow> lookup w' k = lookup w k) \<and>
      (\<forall>k. lookup w k = None \<longrightarrow> lookup w' k = None) \<and>
      (r = Ok () \<longrightarrow> (\<forall>u \<in> set us. okToDelete u \<longrightarrow> lookup w' (key u) = None))"
    if "inv w" and "\<And>u. u \<in> set us \<Longrightarrow> valid (key u)" and "for_each ?f us w = (r, w')" for us
    using that
  proof (induction us arbitrary: w)
    case Nil
    then show ?case by simp
  next
    case (Cons u us)
    obtain r1 w1 where step: "?f u w = (r1, w1)" by force
    have "inv w1 \<and> (if r1 = Ok () \<and> okToDelete u then lookup w1 = (lookup w)(key u := None) else lookup w1 = lookup w)"
      using step mf_delete_effect [OF Cons.prems(1), of u r1 w1] Cons.prems(1,2) by (auto split: if_splits)
    then have one: "inv w1" "\<And>k. k \<noteq> key u \<Longrightarrow> lookup w1 k = lookup w k" "\<And>k. lookup w k = None \<Longrightarrow> lookup w1 k = None"
        "r1 = Ok () \<Longrightarrow> okToDelete u \<Longrightarrow> lookup w1 (key u) = None"
      by (auto split: if_splits)
    show ?case
    proof (cases "r1 = Ok ()")
      case True
      with Cons.prems(3) step have "for_each ?f us w1 = (r, w')" by (simp only: for_each.simps then_io_cases)
      with Cons.IH [OF one(1)] Cons.prems(2) have rest: "inv w'" "\<forall>k. k \<notin> key ` set us \<longrightarrow> lookup w' k = lookup w1 k"
          "\<forall>k. lookup w1 k = None \<longrightarrow> lookup w' k = None"
          "r = Ok () \<longrightarrow> (\<forall>u \<in> set us. okToDelete u \<longrightarrow> lookup w' (key u) = None)"
        by auto
      have "okToDelete u \<longrightarrow> lookup w' (key u) = None" using one(4) True rest(3) by blast
      with one True rest show ?thesis by simp
    next
      case False
      with Cons.prems(3) step have "w' = w1" and "r \<noteq> Ok ()"
        by (cases r1; simp only: for_each.simps then_io_cases; simp)+
      with one show ?thesis by simp
    qed
  qed
  from this [of "rev m"] assms
  have "inv w' \<and> (\<forall>k. k \<notin> key ` set m \<longrightarrow> lookup w' k = lookup w k) \<and>
      (\<forall>k. lookup w k = None \<longrightarrow> lookup w' k = None) \<and>
      (r = Ok () \<longrightarrow> (\<forall>u \<in> set m. okToDelete u \<longrightarrow> lookup w' (key u) = None))"
    by (simp add: Delete_def del: split_paired_All)
  then show "inv w'" and "k \<notin> key ` set m \<Longrightarrow> lookup w' k = lookup w k"
    and "lookup w k = None \<Longrightarrow> lookup w' k = None"
    and "r = Ok () \<Longrightarrow> u \<in> set m \<Longrightarrow> okToDelete u \<Longrightarrow> lookup w' (key u) = None"
    by blast+
qed

end

end
