(* ===== verification/Tracker.thy ===== *)
theory Tracker
  imports Manifest_Apply Scheme
begin

text \<open>
  A provider of the client contract: the object tracker of client-go
  (\<open>vendor/k8s.io/client-go/testing/fixture.go\<close>), which keeps objects by resource, and the client of
  the manifest library over a dynamic client (\<open>manifestival/client-go-client/client.go\<close>). The REST
  mapper is a parameter: a resource for each kind, and a scope for each resource.
\<close>

section \<open>Resources and their errors\<close>

record GroupVersionResource =
  gvrGroup :: string
  gvrVersion :: string
  gvrResource :: string

definition gr_String :: "GroupVersionResource \<Rightarrow> string" where
  "gr_String gvr = (if gvrGroup gvr = [] then gvrResource gvr else gvrResource gvr @ ''.'' @ gvrGroup gvr)"

definition gvr_String :: "GroupVersionResource \<Rightarrow> string" where
  "gvr_String gvr = gvrGroup gvr @ ''/'' @ gvrVersion gvr @ '', Resource='' @ gvrResource gvr"

definition NewNotFound :: "GroupVersionResource \<Rightarrow> string \<Rightarrow> error" where
  "NewNotFound gvr name = StatusError NotFound (gr_String gvr @ '' '' @ quoted name @ '' not found'')"

definition NewAlreadyExists :: "GroupVersionResource \<Rightarrow> string \<Rightarrow> error" where
  "NewAlreadyExists gvr name =
     StatusError AlreadyExists (gr_String gvr @ '' '' @ quoted name @ '' already exists'')"

definition NewBadRequest :: "string \<Rightarrow> error" where
  "NewBadRequest msg = StatusError BadRequest msg"

section \<open>The tracker\<close>

type_synonym tracker = "GroupVersionResource \<Rightarrow> obj list"

definition filterByNamespaceAndName :: "obj list \<Rightarrow> string \<Rightarrow> string \<Rightarrow> obj list" where
  "filterByNamespaceAndName objs ns name =
     filter (\<lambda>x. \<not> (ns \<noteq> [] \<and> GetNamespace x \<noteq> ns) \<and> \<not> (name \<noteq> [] \<and> GetName x \<noteq> name)) objs"

definition tracker_Get :: "GroupVersionResource \<Rightarrow> string \<Rightarrow> string \<Rightarrow> (tracker, obj) io" where
  "tracker_Get gvr ns name t =
     (case filterByNamespaceAndName (t gvr) ns name of
        [] \<Rightarrow> (Err (NewNotFound gvr name), t)
      | [x] \<Rightarrow> (Ok (DeepCopy x), t)
      | _ \<Rightarrow> (Err (Errorf (''more than one object matched gvr '' @ gvr_String gvr @ '', ns: '' @ quoted ns
                           @ '' name: '' @ quoted name)), t))"

text \<open>The loop of \<open>add\<close>: the first object with the namespace and the name is replaced.\<close>

fun replace_first :: "obj \<Rightarrow> obj list \<Rightarrow> obj list option" where
  "replace_first new [] = None"
| "replace_first new (old # rest) =
     (if GetNamespace old = GetNamespace new \<and> GetName old = GetName new then Some (new # rest)
      else map_option (\<lambda>rest'. old # rest') (replace_first new rest))"

definition tracker_add :: "GroupVersionResource \<Rightarrow> obj \<Rightarrow> string \<Rightarrow> bool \<Rightarrow> (tracker, unit) io" where
  "tracker_add gvr obj ns replaceExisting t =
     (let new = (if GetNamespace obj = [] then SetNamespace ns (DeepCopy obj) else DeepCopy obj) in
      if ns \<noteq> GetNamespace new then
        (Err (NewBadRequest (''request namespace does not match object namespace, request: '' @ quoted ns
                             @ '' object: '' @ quoted (GetNamespace new))), t)
      else case replace_first new (t gvr) of
             Some objs \<Rightarrow>
               if replaceExisting then (Ok (), t(gvr := objs))
               else (Err (NewAlreadyExists gvr (GetName new)), t)
           | None \<Rightarrow>
               if replaceExisting then (Err (NewNotFound gvr (GetName new)), t)
               else (Ok (), t(gvr := t gvr @ [new])))"

definition tracker_Create :: "GroupVersionResource \<Rightarrow> obj \<Rightarrow> string \<Rightarrow> (tracker, unit) io" where
  "tracker_Create gvr obj ns = tracker_add gvr obj ns False"

definition tracker_Update :: "GroupVersionResource \<Rightarrow> obj \<Rightarrow> string \<Rightarrow> (tracker, unit) io" where
  "tracker_Update gvr obj ns = tracker_add gvr obj ns True"

fun remove_first :: "string \<Rightarrow> string \<Rightarrow> obj list \<Rightarrow> obj list option" where
  "remove_first ns name [] = None"
| "remove_first ns name (old # rest) =
     (if GetNamespace old = ns \<and> GetName old = name then Some rest
      else map_option (\<lambda>rest'. old # rest') (remove_first ns name rest))"

definition tracker_Delete :: "GroupVersionResource \<Rightarrow> string \<Rightarrow> string \<Rightarrow> (tracker, unit) io" where
  "tracker_Delete gvr ns name t =
     (case remove_first ns name (t gvr) of
        Some objs \<Rightarrow> (Ok (), t(gvr := objs))
      | None \<Rightarrow> (Err (NewNotFound gvr name), t))"

section \<open>The clients over it\<close>

text \<open>
  A dynamic client, with the resource and the namespace of a request as arguments; \<open>react\<close> is
  \<open>ObjectReaction\<close> on the tracker, where a create and an update end with a read.
\<close>

record 'w dynamic =
  d_Create :: "GroupVersionResource \<Rightarrow> string \<Rightarrow> obj \<Rightarrow> string list \<Rightarrow> ('w, obj) io"
  d_Update :: "GroupVersionResource \<Rightarrow> string \<Rightarrow> obj \<Rightarrow> string list \<Rightarrow> ('w, obj) io"
  d_Delete :: "GroupVersionResource \<Rightarrow> string \<Rightarrow> string \<Rightarrow> DeleteOptions \<Rightarrow> ('w, unit) io"
  d_Get :: "GroupVersionResource \<Rightarrow> string \<Rightarrow> string \<Rightarrow> ('w, obj) io"

definition react :: "tracker dynamic" where
  "react =
     \<lparr>d_Create = (\<lambda>gvr ns obj dry. then_io (tracker_Create gvr obj ns) (tracker_Get gvr ns (GetName obj))),
      d_Update = (\<lambda>gvr ns obj dry. then_io (tracker_Update gvr obj ns) (tracker_Get gvr ns (GetName obj))),
      d_Delete = (\<lambda>gvr ns name options. tracker_Delete gvr ns name),
      d_Get = tracker_Get\<rparr>"

record rest_mapper =
  RESTMapping :: "GroupVersionKind \<Rightarrow> GroupVersionResource result"
  RootScoped :: "GroupVersionResource \<Rightarrow> bool"

definition resourceInterface :: "rest_mapper \<Rightarrow> obj \<Rightarrow> (GroupVersionResource \<times> string) result" where
  "resourceInterface mapper obj =
     bind_result (RESTMapping mapper (GroupVersionKind_of obj))
       (\<lambda>gvr. Ok (gvr, if RootScoped mapper gvr then [] else GetNamespace obj))"

definition cg_Create :: "'w dynamic \<Rightarrow> rest_mapper \<Rightarrow> obj \<Rightarrow> ApplyOption list \<Rightarrow> ('w, unit) io" where
  "cg_Create d mapper obj options =
     bind_io (of_result (resourceInterface mapper obj))
       (\<lambda>(gvr, ns). bind_io (d_Create d gvr ns obj (ForCreate_DryRun (ApplyWith options))) (\<lambda>_. return_io ()))"

definition cg_Update :: "'w dynamic \<Rightarrow> rest_mapper \<Rightarrow> obj \<Rightarrow> ApplyOption list \<Rightarrow> ('w, unit) io" where
  "cg_Update d mapper obj options =
     bind_io (of_result (resourceInterface mapper obj))
       (\<lambda>(gvr, ns). bind_io (d_Update d gvr ns obj (ForUpdate_DryRun (ApplyWith options))) (\<lambda>_. return_io ()))"

definition cg_Delete :: "'w dynamic \<Rightarrow> rest_mapper \<Rightarrow> obj \<Rightarrow> DeleteOption list \<Rightarrow> ('w, unit) io" where
  "cg_Delete d mapper obj options =
     bind_io (of_result (resourceInterface mapper obj))
       (\<lambda>(gvr, ns).
          let opts = DeleteWith options in
          bind_io (attempt (d_Delete d gvr ns (GetName obj) opts))
            (\<lambda>r. case r of
                   Err e \<Rightarrow> if IsNotFound e \<and> IgnoreNotFound opts then return_io () else raise_io e
                 | _ \<Rightarrow> of_result r))"

definition cg_Get :: "'w dynamic \<Rightarrow> rest_mapper \<Rightarrow> obj \<Rightarrow> ('w, obj) io" where
  "cg_Get d mapper obj =
     bind_io (of_result (resourceInterface mapper obj)) (\<lambda>(gvr, ns). d_Get d gvr ns (GetName obj))"

definition clientGoClient :: "'w dynamic \<Rightarrow> rest_mapper \<Rightarrow> 'w mf_client" where
  "clientGoClient d mapper =
     \<lparr>c_Create = cg_Create d mapper, c_Update = cg_Update d mapper, c_Delete = cg_Delete d mapper,
      c_Get = cg_Get d mapper\<rparr>"

section \<open>The contract\<close>

definition gvk_of :: "string \<Rightarrow> string \<Rightarrow> GroupVersionKind" where
  "gvk_of apiVersion kind =
     (case ParseGroupVersion apiVersion of
        Ok gv \<Rightarrow> WithKind gv kind
      | _ \<Rightarrow> \<lparr>gvkGroup = [], gvkVersion = [], gvkKind = []\<rparr>)"

definition resource_for :: "rest_mapper \<Rightarrow> string \<Rightarrow> string \<Rightarrow> GroupVersionResource option" where
  "resource_for mapper apiVersion kind =
     (if apiVersion = [] \<or> kind = [] then None
      else case RESTMapping mapper (gvk_of apiVersion kind) of Ok gvr \<Rightarrow> Some gvr | _ \<Rightarrow> None)"

definition place :: "obj \<Rightarrow> string \<times> string" where
  "place x = (GetNamespace x, GetName x)"

definition store_lookup :: "tracker \<Rightarrow> GroupVersionResource option object_key \<Rightarrow> obj option" where
  "store_lookup t k =
     (case k of (r, p) \<Rightarrow> (case r of None \<Rightarrow> None | Some gvr \<Rightarrow> find (\<lambda>x. place x = p) (t gvr)))"

text \<open>A request for a resource of the cluster has no namespace, one for a namespaced resource has one.\<close>

definition store_valid :: "rest_mapper \<Rightarrow> GroupVersionResource option object_key \<Rightarrow> bool" where
  "store_valid mapper k =
     (case k of (r, ns, name) \<Rightarrow>
        (case r of None \<Rightarrow> False | Some gvr \<Rightarrow> name \<noteq> [] \<and> (RootScoped mapper gvr \<longleftrightarrow> ns = [])))"

definition store_inv :: "rest_mapper \<Rightarrow> tracker \<Rightarrow> bool" where
  "store_inv mapper t \<longleftrightarrow>
     (\<forall>gvr. distinct (map place (t gvr)) \<and>
        (\<forall>x \<in> set (t gvr). resource_for mapper (GetAPIVersion x) (GetKind x) = Some gvr \<and>
           (RootScoped mapper gvr \<longleftrightarrow> GetNamespace x = [])))"

lemma filter_key:
  "distinct (map f xs) \<Longrightarrow>
   filter (\<lambda>x. f x = p) xs = (case find (\<lambda>x. f x = p) xs of None \<Rightarrow> [] | Some x \<Rightarrow> [x])"
proof (induction xs)
  case (Cons x xs)
  have "find (\<lambda>y. f y = f x) xs = None" if "f x \<notin> f ` set xs"
    using that by (auto simp: find_None_iff) (metis image_eqI)
  with Cons show ?case by auto
qed simp

lemma filterByNamespaceAndName_exact:
  assumes "store_inv mapper t" and "store_valid mapper (Some gvr, ns, name)"
  shows "filterByNamespaceAndName (t gvr) ns name =
    (case store_lookup t (Some gvr, ns, name) of None \<Rightarrow> [] | Some x \<Rightarrow> [x])"
proof -
  have "filterByNamespaceAndName (t gvr) ns name = filter (\<lambda>x. place x = (ns, name)) (t gvr)"
    unfolding filterByNamespaceAndName_def
    using assms by (intro filter_cong) (auto simp: store_inv_def store_valid_def place_def)
  with filter_key [of place "t gvr" "(ns, name)"] assms(1) show ?thesis
    by (simp add: store_lookup_def store_inv_def)
qed

lemma replace_first_eq:
  "distinct (map place xs) \<Longrightarrow> replace_first new xs =
   (case find (\<lambda>x. place x = place new) xs of
      None \<Rightarrow> None
    | Some _ \<Rightarrow> Some (map (\<lambda>x. if place x = place new then new else x) xs))"
proof (induction xs)
  case (Cons x xs)
  have "map (\<lambda>y. if place y = place x then new else y) xs = xs" if "place x \<notin> place ` set xs"
    using that by (intro map_idI) (metis image_eqI)
  with Cons show ?case by (auto simp: place_def split: option.splits)
qed simp

lemma remove_first_eq:
  "distinct (map place xs) \<Longrightarrow> remove_first ns name xs =
   (case find (\<lambda>x. place x = (ns, name)) xs of
      None \<Rightarrow> None
    | Some _ \<Rightarrow> Some (filter (\<lambda>x. place x \<noteq> (ns, name)) xs))"
proof (induction xs)
  case (Cons x xs)
  have "filter (\<lambda>y. place y \<noteq> place x) xs = xs" if "place x \<notin> place ` set xs"
    using that by (intro filter_True ballI) (metis image_eqI)
  with Cons show ?case by (auto simp: place_def split: option.splits)
qed simp

lemma find_map_replaced:
  "find (\<lambda>x. place x = p) (map (\<lambda>x. if place x = place new then new else x) xs) =
   (if p = place new then (case find (\<lambda>x. place x = p) xs of None \<Rightarrow> None | Some _ \<Rightarrow> Some new)
    else find (\<lambda>x. place x = p) xs)"
  by (induction xs) auto

lemma find_filter_removed:
  "find (\<lambda>x. place x = p) (filter (\<lambda>x. place x \<noteq> q) xs) = (if p = q then None else find (\<lambda>x. place x = p) xs)"
  by (induction xs) auto

lemma SetNamespace_empty: "GetNamespace u = [] \<Longrightarrow> GetNamespace (SetNamespace [] u) = []"
proof (cases "meta_ok u")
  case True
  then show ?thesis by (rule GetNamespace_SetNamespace)
next
  case False
  assume "GetNamespace u = []"
  with False show ?thesis
    by (auto simp: GetNamespace_def SetNamespace_def set_string_def level_ok_def RemoveNestedField.simps
        split: option.splits json.splits)
qed

text \<open>A valid object has a resource interface for its key, and keeps its key when it is stored.\<close>

lemma resource_for_gvk: "resource_for mapper (GetAPIVersion u) (GetKind u) = Some gvr \<Longrightarrow>
   RESTMapping mapper (GroupVersionKind_of u) = Ok gvr"
  by (auto simp: resource_for_def GroupVersionKind_of_def gvk_of_def split: if_splits result.splits)

lemma valid_interface:
  assumes "store_valid mapper (object_key (resource_for mapper) u)"
  obtains gvr where "resource_for mapper (GetAPIVersion u) (GetKind u) = Some gvr"
    and "resourceInterface mapper u = Ok (gvr, GetNamespace u)"
    and "store_valid mapper (Some gvr, GetNamespace u, GetName u)"
    and "object_key (resource_for mapper) u = (Some gvr, GetNamespace u, GetName u)"
proof -
  from assms obtain gvr where gvr: "resource_for mapper (GetAPIVersion u) (GetKind u) = Some gvr"
      "RootScoped mapper gvr \<longleftrightarrow> GetNamespace u = []"
    by (auto simp: store_valid_def object_key_def split: option.splits)
  then have "resourceInterface mapper u = Ok (gvr, GetNamespace u)"
    by (auto simp: resourceInterface_def resource_for_gvk)
  with gvr assms that show ?thesis by (simp add: object_key_def)
qed

definition stored_form :: "obj \<Rightarrow> obj" where
  "stored_form u = (if GetNamespace u = [] then SetNamespace [] u else u)"

lemma stored_form_keeps:
  "GetAPIVersion (stored_form u) = GetAPIVersion u" "GetKind (stored_form u) = GetKind u"
  "place (stored_form u) = place u"
  by (simp_all add: stored_form_def kind_simps place_def SetNamespace_empty)

lemma tracker_add_eq:
  assumes "store_inv mapper t"
  shows "tracker_add gvr u (GetNamespace u) replace t =
    (case find (\<lambda>x. place x = place u) (t gvr) of
       None \<Rightarrow> if replace then (Err (NewNotFound gvr (GetName u)), t)
               else (Ok (), t(gvr := t gvr @ [stored_form u]))
     | Some _ \<Rightarrow> if replace then (Ok (), t(gvr := map (\<lambda>x. if place x = place u then stored_form u else x) (t gvr)))
                 else (Err (NewAlreadyExists gvr (GetName u)), t))"
proof -
  have form: "(if GetNamespace u = [] then SetNamespace (GetNamespace u) (DeepCopy u) else DeepCopy u) = stored_form u"
    by (simp add: stored_form_def)
  have "GetNamespace (stored_form u) = GetNamespace u" "GetName (stored_form u) = GetName u"
    using stored_form_keeps(3) [of u] by (simp_all add: place_def)
  with replace_first_eq [of "t gvr" "stored_form u"] assms show ?thesis
    unfolding tracker_add_def form Let_def stored_form_keeps
    by (auto simp: store_inv_def split: option.splits)
qed

lemma store_inv_upd:
  assumes "store_inv mapper t" and "distinct (map place objs)"
    and "\<And>x. x \<in> set objs \<Longrightarrow> x \<in> set (t gvr) \<or>
      resource_for mapper (GetAPIVersion x) (GetKind x) = Some gvr \<and> (RootScoped mapper gvr \<longleftrightarrow> GetNamespace x = [])"
  shows "store_inv mapper (t(gvr := objs))"
  using assms unfolding store_inv_def by (metis fun_upd_apply)

lemma map_place_replaced:
  "place new = p \<Longrightarrow> map place (map (\<lambda>x. if place x = p then new else x) xs) = map place xs"
  by (induction xs) auto

text \<open>Creating and updating through the client.\<close>

lemma tracker_write:
  assumes inv: "store_inv mapper t" and key: "object_key (resource_for mapper) u = (Some gvr, GetNamespace u, GetName u)"
    and valid: "store_valid mapper (Some gvr, GetNamespace u, GetName u)"
    and run: "then_io (tracker_add gvr u (GetNamespace u) replace) (tracker_Get gvr (GetNamespace u) (GetName u)) t = (r, t')"
  shows "store_inv mapper t' \<and>
    (if is_ok r then store_lookup t' = (store_lookup t)(object_key (resource_for mapper) u \<mapsto> stored_form u)
     else store_lookup t' = store_lookup t)"
proof -
  obtain a t1 where add: "tracker_add gvr u (GetNamespace u) replace t = (a, t1)" by force
  have res: "resource_for mapper (GetAPIVersion u) (GetKind u) = Some gvr" using key by (simp add: object_key_def)
  have ns: "RootScoped mapper gvr \<longleftrightarrow> GetNamespace u = []" using valid by (simp add: store_valid_def)
  show ?thesis
  proof (cases "is_ok a")
    case False
    then have "t1 = t" using add inv by (auto simp: tracker_add_eq split: option.splits if_splits)
    with False run add inv show ?thesis by (cases a) (auto simp: then_io_cases)
  next
    case True
    let ?new = "stored_form u"
    have new: "place ?new = place u" "resource_for mapper (GetAPIVersion ?new) (GetKind ?new) = Some gvr"
        "RootScoped mapper gvr \<longleftrightarrow> GetNamespace ?new = []"
      using stored_form_keeps [of u] res ns by (auto simp: place_def)
    define objs where "objs = (if replace then map (\<lambda>x. if place x = place u then ?new else x) (t gvr) else t gvr @ [?new])"
    have t1: "t1 = t(gvr := objs)" and there: "replace \<longleftrightarrow> find (\<lambda>x. place x = place u) (t gvr) \<noteq> None"
      using True add inv by (auto simp: tracker_add_eq objs_def split: option.splits if_splits)
    have "distinct (map place (t gvr))" using inv by (simp add: store_inv_def)
    then have "distinct (map place objs)"
      using there new(1) map_place_replaced [of ?new "place u" "t gvr"]
      by (cases replace) (auto simp: objs_def find_None_iff simp del: map_map)
    then have inv1: "store_inv mapper t1"
      unfolding t1 by (rule store_inv_upd [OF inv]) (use new in \<open>auto simp: objs_def split: if_splits\<close>)
    have look: "store_lookup t1 = (store_lookup t)((Some gvr, place u) \<mapsto> ?new)"
      using there new(1) find_map_replaced [of _ ?new "t gvr"]
      by (auto simp: t1 objs_def store_lookup_def fun_eq_iff find_append split: option.splits)
    have "filterByNamespaceAndName (t1 gvr) (GetNamespace u) (GetName u) = [?new]"
      using filterByNamespaceAndName_exact [OF inv1 valid] look by (simp add: place_def)
    then have "r = Ok ?new \<and> t' = t1" using run add True
      by (cases a) (auto simp: then_io_cases tracker_Get_def)
    with inv1 look key show ?thesis by (simp add: place_def)
  qed
qed

lemma cg_write:
  assumes "store_inv mapper t" and "store_valid mapper (object_key (resource_for mapper) u)"
  shows "cg_Create react mapper u [] t = (r, t') \<Longrightarrow> store_inv mapper t' \<and>
      (if r = Ok () then \<exists>x. store_lookup t' = (store_lookup t)(object_key (resource_for mapper) u \<mapsto> x)
       else store_lookup t' = store_lookup t)"
    and "cg_Update react mapper u [] t = (r, t') \<Longrightarrow> store_inv mapper t' \<and>
      (if r = Ok () then \<exists>x. store_lookup t' = (store_lookup t)(object_key (resource_for mapper) u \<mapsto> x)
       else store_lookup t' = store_lookup t)"
proof -
  obtain gvr where g: "resourceInterface mapper u = Ok (gvr, GetNamespace u)"
      "store_valid mapper (Some gvr, GetNamespace u, GetName u)"
      "object_key (resource_for mapper) u = (Some gvr, GetNamespace u, GetName u)"
    by (rule valid_interface [OF assms(2)])
  have step: "store_inv mapper t' \<and>
      (if r = Ok () then \<exists>x. store_lookup t' = (store_lookup t)(object_key (resource_for mapper) u \<mapsto> x)
       else store_lookup t' = store_lookup t)"
    if "bind_io (then_io (tracker_add gvr u (GetNamespace u) replace) (tracker_Get gvr (GetNamespace u) (GetName u)))
          (\<lambda>_. return_io ()) t = (r, t')" for replace
  proof -
    obtain q t1 where q: "then_io (tracker_add gvr u (GetNamespace u) replace)
        (tracker_Get gvr (GetNamespace u) (GetName u)) t = (q, t1)" by force
    with that have eq: "t1 = t'" "is_ok q \<longleftrightarrow> r = Ok ()" by (cases q; auto simp: bind_io_cases)+
    note w = tracker_write [OF assms(1) g(3,2) q, unfolded eq]
    show ?thesis
    proof (cases "r = Ok ()")
      case True
      then show ?thesis using w by (simp only: if_True simp_thms) blast
    next
      case False
      then show ?thesis using w by (simp only: if_False simp_thms)
    qed
  qed
  show "cg_Create react mapper u [] t = (r, t') \<Longrightarrow> store_inv mapper t' \<and>
      (if r = Ok () then \<exists>x. store_lookup t' = (store_lookup t)(object_key (resource_for mapper) u \<mapsto> x)
       else store_lookup t' = store_lookup t)"
    by (rule step [of False]) (simp add: cg_Create_def g(1) react_def tracker_Create_def)
  show "cg_Update react mapper u [] t = (r, t') \<Longrightarrow> store_inv mapper t' \<and>
      (if r = Ok () then \<exists>x. store_lookup t' = (store_lookup t)(object_key (resource_for mapper) u \<mapsto> x)
       else store_lookup t' = store_lookup t)"
    by (rule step [of True]) (simp add: cg_Update_def g(1) react_def tracker_Update_def)
qed

lemma cg_Delete_effect:
  assumes inv: "store_inv mapper t" and valid: "store_valid mapper (object_key (resource_for mapper) u)"
    and run: "cg_Delete react mapper u [] t = (r, t')"
  shows "store_inv mapper t' \<and>
    (if r = Ok () then store_lookup t' = (store_lookup t)(object_key (resource_for mapper) u := None)
     else store_lookup t' = store_lookup t)"
proof -
  obtain gvr where g: "resourceInterface mapper u = Ok (gvr, GetNamespace u)"
      "object_key (resource_for mapper) u = (Some gvr, place u)"
    by (rule valid_interface [OF valid]) (simp add: place_def)
  have dist: "distinct (map place (t gvr))" using inv by (simp add: store_inv_def)
  show ?thesis
  proof (cases "find (\<lambda>x. place x = place u) (t gvr)")
    case None
    with run g dist have "r = Ok ()" "t' = t"
      by (simp_all add: cg_Delete_def react_def tracker_Delete_def remove_first_eq place_def attempt_def bind_io_def
          DeleteWith_def IsNotFound_def NewNotFound_def)
    moreover have "store_lookup t (Some gvr, place u) = None" using None by (simp add: store_lookup_def)
    ultimately show ?thesis using g inv by (simp add: fun_upd_idem)
  next
    case (Some x)
    with run g dist have r: "r = Ok ()" and t': "t' = t(gvr := filter (\<lambda>x. place x \<noteq> place u) (t gvr))"
      by (simp_all add: cg_Delete_def react_def tracker_Delete_def remove_first_eq place_def attempt_def bind_io_def
          DeleteWith_def)
    have "store_inv mapper t'"
      unfolding t' by (rule store_inv_upd [OF inv]) (use dist inv in \<open>auto simp: distinct_map_filter store_inv_def\<close>)
    with r t' show ?thesis
      using g by (auto simp: store_lookup_def fun_eq_iff find_filter_removed split: option.splits)
  qed
qed

lemma tracker_Get_state [simp]: "snd (tracker_Get gvr ns name t) = t"
  by (simp add: tracker_Get_def split: list.splits)

lemma cg_Get_cases:
  assumes "store_inv mapper t" and "store_valid mapper (object_key (resource_for mapper) u)"
  shows "fst (cg_Get react mapper u t) =
    (case store_lookup t (object_key (resource_for mapper) u) of
       None \<Rightarrow> Err (NewNotFound (the (resource_for mapper (GetAPIVersion u) (GetKind u))) (GetName u))
     | Some x \<Rightarrow> Ok x)"
proof -
  obtain gvr where g: "resourceInterface mapper u = Ok (gvr, GetNamespace u)"
      "resource_for mapper (GetAPIVersion u) (GetKind u) = Some gvr"
      "store_valid mapper (Some gvr, GetNamespace u, GetName u)"
      "object_key (resource_for mapper) u = (Some gvr, GetNamespace u, GetName u)"
    by (rule valid_interface [OF assms(2)])
  show ?thesis
    using filterByNamespaceAndName_exact [OF assms(1) g(3)]
    by (simp add: cg_Get_def g react_def tracker_Get_def split: option.splits)
qed

interpretation tracked: object_store "clientGoClient react mapper" "resource_for mapper" store_lookup
  "store_valid mapper" "store_inv mapper" for mapper
proof
  fix u t
  show "snd (c_Get (clientGoClient react mapper) u t) = t"
    by (cases "resourceInterface mapper u")
      (auto simp: clientGoClient_def cg_Get_def react_def bind_io_def split: prod.splits)
next
  fix t u cur
  assume "store_inv mapper t" "store_valid mapper (object_key (resource_for mapper) u)"
    "fst (c_Get (clientGoClient react mapper) u t) = Ok cur"
  then show "store_lookup t (object_key (resource_for mapper) u) = Some cur"
    by (auto simp: clientGoClient_def cg_Get_cases split: option.splits)
next
  fix t u e
  assume "store_inv mapper t" "store_valid mapper (object_key (resource_for mapper) u)"
    "fst (c_Get (clientGoClient react mapper) u t) = Err e"
  then show "store_lookup t (object_key (resource_for mapper) u) = None"
    by (auto simp: clientGoClient_def cg_Get_cases split: option.splits)
next
  fix t k x
  assume "store_inv mapper t" "store_lookup t k = Some x"
  then show "object_key (resource_for mapper) x = k"
    by (auto simp: store_lookup_def store_inv_def object_key_def place_def
        dest!: find_SomeD split: prod.splits option.splits)
next
  fix t u r t'
  assume a: "store_inv mapper t" "store_valid mapper (object_key (resource_for mapper) u)"
  show "c_Create (clientGoClient react mapper) u [] t = (r, t') \<Longrightarrow> store_inv mapper t' \<and>
      (if r = Ok () then \<exists>x. store_lookup t' = (store_lookup t)(object_key (resource_for mapper) u \<mapsto> x)
       else store_lookup t' = store_lookup t)"
    unfolding clientGoClient_def mf_client.simps by (rule cg_write(1) [OF a])
  show "c_Update (clientGoClient react mapper) u [] t = (r, t') \<Longrightarrow> store_inv mapper t' \<and>
      (if r = Ok () then \<exists>x. store_lookup t' = (store_lookup t)(object_key (resource_for mapper) u \<mapsto> x)
       else store_lookup t' = store_lookup t)"
    unfolding clientGoClient_def mf_client.simps by (rule cg_write(2) [OF a])
  show "c_Delete (clientGoClient react mapper) u [] t = (r, t') \<Longrightarrow> store_inv mapper t' \<and>
      (if r = Ok () then store_lookup t' = (store_lookup t)(object_key (resource_for mapper) u := None)
       else store_lookup t' = store_lookup t)"
    unfolding clientGoClient_def mf_client.simps by (rule cg_Delete_effect [OF a])
next
  fix u
  show "store_valid mapper (object_key (resource_for mapper) u) \<Longrightarrow> GetKind u \<noteq> [] \<and> GetAPIVersion u \<noteq> []"
    by (auto simp: store_valid_def object_key_def resource_for_def split: option.splits if_splits)
qed

end
