(* ===== verification/Rest_Client.thy ===== *)
theory Rest_Client
  imports Effects Manifest_Transform Scheme
begin

text \<open>
  Requests of the REST client (\<open>vendor/k8s.io/client-go/rest/request.go\<close>). A request is built by a
  chain of setters; the first one that fails leaves its error in the request and the later ones do
  nothing. \<open>Do\<close> sends a request without an error through the transport, which is a parameter: what the
  server answers is a value or an error. The path of a URL is the list of its segments, which is what
  \<open>path.Join\<close> makes of segments that are names. Throttling, headers and metrics are left out.
\<close>

section \<open>Requests\<close>

type_synonym url_values = "(string \<times> string list) list"

record 'b request =
  rq_verb :: string
  rq_pathPrefix :: "string list"
  rq_params :: url_values
  rq_namespace :: string
  rq_namespaceSet :: bool
  rq_resource :: string
  rq_resourceName :: string
  rq_subresource :: "string list"
  rq_timeout :: "64 word"
  rq_body :: "'b option"
  rq_err :: "error option"

definition NewRequest :: "string \<Rightarrow> string list \<Rightarrow> 'b request" where
  "NewRequest verb prefix =
     \<lparr>rq_verb = verb, rq_pathPrefix = prefix, rq_params = [], rq_namespace = [], rq_namespaceSet = False,
      rq_resource = [], rq_resourceName = [], rq_subresource = [], rq_timeout = 0, rq_body = None, rq_err = None\<rparr>"

section \<open>Path segments\<close>

definition NameMayNotBe :: "string list" where
  "NameMayNotBe = [''.'', ''..'']"

definition NameMayNotContain :: "char list" where
  "NameMayNotContain = [CHR ''/'', CHR ''%'']"

definition IsValidPathSegmentName :: "string \<Rightarrow> string list" where
  "IsValidPathSegmentName name =
     (if name \<in> set NameMayNotBe then [''may not be '' @ [CHR 0x27] @ name @ [CHR 0x27]]
      else map (\<lambda>c. ''may not contain '' @ [CHR 0x27, c, CHR 0x27]) (filter (\<lambda>c. c \<in> set name) NameMayNotContain))"

definition segment :: "string \<Rightarrow> bool" where
  "segment name \<longleftrightarrow> IsValidPathSegmentName name = []"

lemma segment_iff: "segment name \<longleftrightarrow> name \<notin> {''.'', ''..''} \<and> CHR ''/'' \<notin> set name \<and> CHR ''%'' \<notin> set name"
  by (auto simp: segment_def IsValidPathSegmentName_def NameMayNotBe_def NameMayNotContain_def)

text \<open>\<open>%v\<close> of a slice of strings.\<close>

fun spaced :: "string list \<Rightarrow> string" where
  "spaced [] = []"
| "spaced [m] = m"
| "spaced (m # ms) = m @ '' '' @ spaced ms"

text \<open>\<open>path.Join\<close> of segments that are names.\<close>

fun slashed :: "string list \<Rightarrow> string" where
  "slashed [] = []"
| "slashed [m] = m"
| "slashed (m # ms) = m @ ''/'' @ slashed ms"

definition invalid_error :: "string \<Rightarrow> string \<Rightarrow> error" where
  "invalid_error what name =
     Errorf (''invalid '' @ what @ '' '' @ quoted name @ '': ['' @ spaced (IsValidPathSegmentName name) @ '']'')"

definition already_error :: "string \<Rightarrow> string \<Rightarrow> string \<Rightarrow> error" where
  "already_error what old new =
     Errorf (what @ '' already set to '' @ quoted old @ '', cannot change to '' @ quoted new)"

section \<open>Setters\<close>

text \<open>A setter does nothing once there is an error.\<close>

definition setter :: "('b request \<Rightarrow> 'b request) \<Rightarrow> 'b request \<Rightarrow> 'b request" where
  "setter f r = (if rq_err r \<noteq> None then r else f r)"

definition Request_Namespace :: "string \<Rightarrow> 'b request \<Rightarrow> 'b request" where
  "Request_Namespace namespace =
     setter (\<lambda>r. if rq_namespaceSet r then r\<lparr>rq_err := Some (already_error ''namespace'' (rq_namespace r) namespace)\<rparr>
                 else if \<not> segment namespace then r\<lparr>rq_err := Some (invalid_error ''namespace'' namespace)\<rparr>
                 else r\<lparr>rq_namespaceSet := True, rq_namespace := namespace\<rparr>)"

definition Request_Resource :: "string \<Rightarrow> 'b request \<Rightarrow> 'b request" where
  "Request_Resource resource =
     setter (\<lambda>r. if length (rq_resource r) \<noteq> 0 then r\<lparr>rq_err := Some (already_error ''resource'' (rq_resource r) resource)\<rparr>
                 else if \<not> segment resource then r\<lparr>rq_err := Some (invalid_error ''resource'' resource)\<rparr>
                 else r\<lparr>rq_resource := resource\<rparr>)"

definition Request_Name :: "string \<Rightarrow> 'b request \<Rightarrow> 'b request" where
  "Request_Name resourceName =
     setter (\<lambda>r. if length resourceName = 0 then r\<lparr>rq_err := Some (Errorf ''resource name may not be empty'')\<rparr>
                 else if length (rq_resourceName r) \<noteq> 0
                 then r\<lparr>rq_err := Some (already_error ''resource name'' (rq_resourceName r) resourceName)\<rparr>
                 else if \<not> segment resourceName then r\<lparr>rq_err := Some (invalid_error ''resource name'' resourceName)\<rparr>
                 else r\<lparr>rq_resourceName := resourceName\<rparr>)"

text \<open>The resource, not the old subresource, is what the message of the first error shows.\<close>

definition Request_SubResource :: "string list \<Rightarrow> 'b request \<Rightarrow> 'b request" where
  "Request_SubResource subresources =
     setter (\<lambda>r. if length (rq_subresource r) \<noteq> 0
                 then r\<lparr>rq_err := Some (already_error ''subresource'' (rq_resource r) (slashed (filter (\<lambda>s. s \<noteq> []) subresources)))\<rparr>
                 else case find (\<lambda>s. \<not> segment s) subresources of
                        Some s \<Rightarrow> r\<lparr>rq_err := Some (invalid_error ''subresource'' s)\<rparr>
                      | None \<Rightarrow> r\<lparr>rq_subresource := filter (\<lambda>s. s \<noteq> []) subresources\<rparr>)"

text \<open>\<open>codec.EncodeParameters(obj, version)\<close> is the argument: the query parameters, or an error.\<close>

fun add_params :: "url_values \<Rightarrow> url_values \<Rightarrow> url_values" where
  "add_params [] ps = ps"
| "add_params ((k, v) # params) ps =
     add_params params (AList.update k ((case map_of ps k of None \<Rightarrow> [] | Some old \<Rightarrow> old) @ v) ps)"

definition Request_VersionedParams :: "url_values result \<Rightarrow> 'b request \<Rightarrow> 'b request" where
  "Request_VersionedParams encoded =
     setter (\<lambda>r. case encoded of
                   Ok params \<Rightarrow> r\<lparr>rq_params := add_params params (rq_params r)\<rparr>
                 | Err e \<Rightarrow> r\<lparr>rq_err := Some e\<rparr>
                 | Panic p \<Rightarrow> r)"

definition Request_Timeout :: "64 word \<Rightarrow> 'b request \<Rightarrow> 'b request" where
  "Request_Timeout d = setter (\<lambda>r. r\<lparr>rq_timeout := d\<rparr>)"

text \<open>
  A nil pointer leaves the request without a body. Encoding the typed objects the client is given does
  not fail.
\<close>

definition Request_Body :: "'b option \<Rightarrow> 'b request \<Rightarrow> 'b request" where
  "Request_Body obj = setter (\<lambda>r. case obj of None \<Rightarrow> r | Some b \<Rightarrow> r\<lparr>rq_body := Some b\<rparr>)"

lemmas request_setters = Request_Namespace_def Request_Resource_def Request_Name_def Request_SubResource_def
  Request_VersionedParams_def Request_Timeout_def Request_Body_def setter_def

section \<open>Sending\<close>

definition url_path :: "'b request \<Rightarrow> string list" where
  "url_path r =
     rq_pathPrefix r
     @ (if rq_namespaceSet r \<and> length (rq_namespace r) > 0 then [''namespaces'', rq_namespace r] else [])
     @ (if length (rq_resource r) \<noteq> 0 then [ToLower (rq_resource r)] else [])
     @ (if length (rq_resourceName r) \<noteq> 0 then [rq_resourceName r] else [])
     @ rq_subresource r"

text \<open>The checks of \<open>request\<close> before anything is sent.\<close>

definition request_error :: "'b request \<Rightarrow> error option" where
  "request_error r =
     (case rq_err r of
        Some e \<Rightarrow> Some e
      | None \<Rightarrow>
          if (rq_verb r = ''GET'' \<or> rq_verb r = ''PUT'' \<or> rq_verb r = ''DELETE'') \<and> rq_namespaceSet r
             \<and> length (rq_resourceName r) > 0 \<and> length (rq_namespace r) = 0
          then Some (Errorf ''an empty namespace may not be set when a resource name is provided'')
          else if rq_verb r = ''POST'' \<and> rq_namespaceSet r \<and> length (rq_namespace r) = 0
          then Some (Errorf ''an empty namespace may not be set during creation'')
          else None)"

definition Request_Do :: "('b request \<Rightarrow> ('w, 'a) io) \<Rightarrow> 'b request \<Rightarrow> ('w, 'a) io" where
  "Request_Do transport r =
     (case request_error r of Some e \<Rightarrow> raise_io e | None \<Rightarrow> transport r)"

definition Request_Watch :: "('b request \<Rightarrow> ('w, 'a) io) \<Rightarrow> 'b request \<Rightarrow> ('w, 'a) io" where
  "Request_Watch transport r = (case rq_err r of Some e \<Rightarrow> raise_io e | None \<Rightarrow> transport r)"

lemma Request_Do_error: "request_error r = Some e \<Longrightarrow> Request_Do transport r w = (Err e, w)"
  by (simp add: Request_Do_def)

lemma Request_Do_sent: "request_error r = None \<Longrightarrow> Request_Do transport r = transport r"
  by (simp add: Request_Do_def)

text \<open>An error set by a setter stays, whatever is set afterwards.\<close>

lemma setter_error [simp]: "rq_err r = Some e \<Longrightarrow> setter f r = r"
  by (simp add: setter_def)

lemma request_error_kept:
  "rq_err r = Some e \<Longrightarrow> rq_err (Request_Namespace a r) = Some e \<and> rq_err (Request_Resource a r) = Some e \<and>
     rq_err (Request_Name a r) = Some e \<and> rq_err (Request_SubResource s r) = Some e \<and>
     rq_err (Request_VersionedParams p r) = Some e \<and> rq_err (Request_Timeout d r) = Some e \<and>
     rq_err (Request_Body b r) = Some e"
  by (simp add: request_setters)

end
