(* ===== verification/Object_Keys.thy ===== *)
theory Object_Keys
  imports Serving_Types
begin

text \<open>
  The keys of the work queue and of the informer cache (\<open>MetaNamespaceKeyFunc\<close> and
  \<open>SplitMetaNamespaceKey\<close> of \<open>client-go/tools/cache/store.go\<close>), and the string sets the finalizers go
  through (\<open>apimachinery/pkg/util/sets/string.go\<close>). A Go set of strings is a HOL set; \<open>List\<close> sorts it,
  by bytes.
\<close>

section \<open>Keys\<close>

text \<open>\<open>meta.Accessor\<close> of a serving that is there never fails.\<close>

definition MetaNamespaceKeyFunc :: "KnativeServing \<Rightarrow> string result" where
  "MetaNamespaceKeyFunc ks =
     Ok (if length (ksNamespace ks) > 0 then ksNamespace ks @ ''/'' @ ksName ks else ksName ks)"

text \<open>\<open>strings.Split\<close> at a separator of one character.\<close>

fun Split :: "char \<Rightarrow> string \<Rightarrow> string list" where
  "Split sep [] = [[]]"
| "Split sep (c # s) =
     (if c = sep then [] # Split sep s
      else case Split sep s of [] \<Rightarrow> [[c]] | p # ps \<Rightarrow> (c # p) # ps)"

definition SplitMetaNamespaceKey :: "string \<Rightarrow> (string \<times> string) result" where
  "SplitMetaNamespaceKey key =
     (case Split (CHR ''/'') key of
        [name] \<Rightarrow> Ok ([], name)
      | [namespace, name] \<Rightarrow> Ok (namespace, name)
      | _ \<Rightarrow> Err (Errorf (''unexpected key format: '' @ [CHR 0x22] @ key @ [CHR 0x22])))"

lemma Split_not_Nil [simp]: "Split sep s \<noteq> []"
  by (cases s) (auto split: list.splits)

lemma Split_no_sep: "sep \<notin> set s \<Longrightarrow> Split sep s = [s]"
  by (induction s) auto

lemma Split_append: "sep \<notin> set p \<Longrightarrow> Split sep (p @ sep # s) = p # Split sep s"
  by (induction p) auto

lemma length_Split: "length (Split sep s) = Suc (count_list s sep)"
  by (induction s) (auto split: list.splits)

text \<open>Names and namespaces of Kubernetes contain no slash.\<close>

definition plain :: "string \<Rightarrow> bool" where
  "plain s \<longleftrightarrow> CHR ''/'' \<notin> set s"

lemma SplitMetaNamespaceKey_key:
  assumes "plain (ksNamespace ks)" and "plain (ksName ks)" and "MetaNamespaceKeyFunc ks = Ok key"
  shows "SplitMetaNamespaceKey key = Ok (ksNamespace ks, ksName ks)"
  using assms
  by (auto simp: MetaNamespaceKeyFunc_def SplitMetaNamespaceKey_def plain_def Split_append Split_no_sep)

lemma SplitMetaNamespaceKey_error:
  "(\<exists>e. SplitMetaNamespaceKey key = Err e) \<longleftrightarrow> count_list key (CHR ''/'') > 1"
  using length_Split [of "CHR ''/''" key]
  by (auto simp: SplitMetaNamespaceKey_def split: list.splits)

lemma MetaNamespaceKeyFunc_inj:
  assumes "MetaNamespaceKeyFunc ks = MetaNamespaceKeyFunc ks'"
    and "plain (ksNamespace ks)" "plain (ksName ks)" "plain (ksNamespace ks')" "plain (ksName ks')"
  shows "ksNamespace ks = ksNamespace ks' \<and> ksName ks = ksName ks'"
proof -
  obtain key where "MetaNamespaceKeyFunc ks = Ok key" by (simp add: MetaNamespaceKeyFunc_def)
  with assms show ?thesis
    using SplitMetaNamespaceKey_key [of ks key] SplitMetaNamespaceKey_key [of ks' key] by simp
qed

section \<open>Sets of strings\<close>

definition NewString :: "string list \<Rightarrow> string set" where
  "NewString items = set items"

definition Insert :: "string \<Rightarrow> string set \<Rightarrow> string set" where
  "Insert item s = insert item s"

definition set_Delete :: "string \<Rightarrow> string set \<Rightarrow> string set" where
  "set_Delete item s = s - {item}"

definition Has :: "string \<Rightarrow> string set \<Rightarrow> bool" where
  "Has item s \<longleftrightarrow> item \<in> s"

definition List_of :: "string set \<Rightarrow> string list" where
  "List_of s = sorted_list_of_set s"

lemmas string_set_defs = NewString_def Insert_def set_Delete_def Has_def List_of_def

lemma List_of_NewString: "List_of (NewString xs) = sort (remdups xs)"
  by (simp add: string_set_defs sorted_list_of_set_sort_remdups)

lemma set_List_of [simp]: "finite s \<Longrightarrow> set (List_of s) = s"
  by (simp add: List_of_def)

text \<open>Sorting finalizers twice changes nothing more.\<close>

lemma List_of_idem: "finite s \<Longrightarrow> List_of (NewString (List_of s)) = List_of s"
  by (simp add: string_set_defs)

end
