(* ===== verification/Serving_Client.thy ===== *)
theory Serving_Client
  imports Rest_Client Object_Keys
begin

text \<open>
  The typed client of \<open>pkg/client/clientset/versioned/typed/serving/v1alpha1/knativeserving.go\<close>. Every
  method builds one request, sends it, and returns the object it decoded the answer into together with
  the error; the object is allocated first, so an error comes with an empty serving, not with nil. The
  transport is a parameter, one for each type of answer.
\<close>

section \<open>Answers\<close>

text \<open>\<open>(*KnativeServing, error)\<close>: a pointer, which may be nil, beside an error.\<close>

type_synonym reply = "KnativeServing option \<times> error option"
type_synonym 'w call = "('w, reply) io"

definition empty_serving :: KnativeServing where
  "empty_serving =
     \<lparr>ksName = [], ksNamespace = [], ksUID = [], ResourceVersion = [], Generation = 0, DeletionTimestamp = None,
      Finalizers = [], Spec = empty_spec, Status = empty_status\<rparr>"

record ListOptions =
  LabelSelector :: string
  FieldSelector :: string
  TimeoutSeconds :: "64 word option"
  opts_Watch :: bool

datatype patch_type = JSONPatchType | MergePatchType | StrategicMergePatchType

datatype request_body = ServingBody KnativeServing | PatchBody patch_type obj | DeleteOptionsBody obj

record 'w transports =
  send :: "request_body request \<Rightarrow> ('w, KnativeServing) io"
  send_list :: "request_body request \<Rightarrow> ('w, KnativeServing list) io"
  send_unit :: "request_body request \<Rightarrow> ('w, unit) io"
  send_watch :: "request_body request \<Rightarrow> ('w, nat) io"
  encode_get :: "url_values result"
  encode_list :: "ListOptions \<Rightarrow> url_values result"

section \<open>Requests\<close>

text \<open>The prefix the group's REST client is configured with: \<open>/apis\<close>, group and version.\<close>

definition client_prefix :: "string list" where
  "client_prefix = [''apis'', GroupName, SchemaVersion]"

definition servings_request :: "string \<Rightarrow> string \<Rightarrow> request_body request" where
  "servings_request verb ns =
     Request_Resource ''knativeservings'' (Request_Namespace ns (NewRequest verb client_prefix))"

text \<open>\<open>Do().Into(result)\<close>.\<close>

definition Into :: "('w, KnativeServing) io \<Rightarrow> 'w call" where
  "Into m w =
     (case m w of
        (Ok ks, w') \<Rightarrow> (Ok (Some ks, None), w')
      | (Err e, w') \<Rightarrow> (Ok (Some empty_serving, Some e), w')
      | (Panic p, w') \<Rightarrow> (Panic p, w'))"

text \<open>\<open>time.Duration(*opts.TimeoutSeconds) * time.Second\<close>, in 64 bits.\<close>

definition list_timeout :: "ListOptions \<Rightarrow> 64 word" where
  "list_timeout opts = (case TimeoutSeconds opts of None \<Rightarrow> 0 | Some s \<Rightarrow> s * 1000000000)"

definition serving_Get :: "'w transports \<Rightarrow> string \<Rightarrow> string \<Rightarrow> 'w call" where
  "serving_Get c ns name =
     Into (Request_Do (send c)
       (Request_VersionedParams (encode_get c) (Request_Name name (servings_request ''GET'' ns))))"

definition serving_List :: "'w transports \<Rightarrow> string \<Rightarrow> ListOptions \<Rightarrow> ('w, KnativeServing list) io" where
  "serving_List c ns opts =
     Request_Do (send_list c)
       (Request_Timeout (list_timeout opts)
         (Request_VersionedParams (encode_list c opts) (servings_request ''GET'' ns)))"

definition serving_Watch :: "'w transports \<Rightarrow> string \<Rightarrow> ListOptions \<Rightarrow> ('w, nat) io" where
  "serving_Watch c ns opts =
     (let opts' = opts\<lparr>opts_Watch := True\<rparr> in
      Request_Watch (send_watch c)
        (Request_Timeout (list_timeout opts)
          (Request_VersionedParams (encode_list c opts') (servings_request ''GET'' ns))))"

definition serving_Create :: "'w transports \<Rightarrow> string \<Rightarrow> KnativeServing \<Rightarrow> 'w call" where
  "serving_Create c ns ks = Into (Request_Do (send c) (Request_Body (Some (ServingBody ks)) (servings_request ''POST'' ns)))"

definition serving_Update :: "'w transports \<Rightarrow> string \<Rightarrow> KnativeServing \<Rightarrow> 'w call" where
  "serving_Update c ns ks =
     Into (Request_Do (send c)
       (Request_Body (Some (ServingBody ks)) (Request_Name (ksName ks) (servings_request ''PUT'' ns))))"

definition serving_UpdateStatus :: "'w transports \<Rightarrow> string \<Rightarrow> KnativeServing \<Rightarrow> 'w call" where
  "serving_UpdateStatus c ns ks =
     Into (Request_Do (send c)
       (Request_Body (Some (ServingBody ks))
         (Request_SubResource [''status''] (Request_Name (ksName ks) (servings_request ''PUT'' ns)))))"

definition serving_Delete :: "'w transports \<Rightarrow> string \<Rightarrow> string \<Rightarrow> obj option \<Rightarrow> ('w, unit) io" where
  "serving_Delete c ns name options =
     Request_Do (send_unit c)
       (Request_Body (map_option DeleteOptionsBody options) (Request_Name name (servings_request ''DELETE'' ns)))"

definition serving_DeleteCollection :: "'w transports \<Rightarrow> string \<Rightarrow> obj option \<Rightarrow> ListOptions \<Rightarrow> ('w, unit) io" where
  "serving_DeleteCollection c ns options listOptions =
     Request_Do (send_unit c)
       (Request_Body (map_option DeleteOptionsBody options)
         (Request_Timeout (list_timeout listOptions)
           (Request_VersionedParams (encode_list c listOptions) (servings_request ''DELETE'' ns))))"

definition serving_Patch :: "'w transports \<Rightarrow> string \<Rightarrow> string \<Rightarrow> patch_type \<Rightarrow> obj \<Rightarrow> string list \<Rightarrow> 'w call" where
  "serving_Patch c ns name pt data subresources =
     Into (Request_Do (send c)
       (Request_Body (Some (PatchBody pt data))
         (Request_Name name
           (Request_SubResource subresources
             (Request_Resource ''knativeservings'' (Request_Namespace ns (NewRequest ''PATCH'' client_prefix)))))))"

section \<open>What is sent\<close>

lemma segments_fixed [simp]: "segment ''knativeservings''" "segment ''status''"
  by code_simp+

text \<open>A named request: it is sent exactly when namespace and name are path segments and not empty.\<close>

definition addressable :: "string \<Rightarrow> string \<Rightarrow> bool" where
  "addressable ns name \<longleftrightarrow> segment ns \<and> segment name \<and> ns \<noteq> [] \<and> name \<noteq> []"

definition serving_path :: "string \<Rightarrow> string \<Rightarrow> string list" where
  "serving_path ns name =
     [''apis'', ''operator.knative.dev'', ''v1alpha1'', ''namespaces'', ns, ''knativeservings'', name]"

lemma ToLower_servings [simp]: "ToLower ''knativeservings'' = ''knativeservings''"
  by code_simp

lemmas request_defs = request_setters servings_request_def NewRequest_def request_error_def url_path_def
  client_prefix_def GroupName_def SchemaVersion_def serving_path_def addressable_def

lemma named_request:
  fixes body :: request_body and verb ns name :: string
  assumes "verb \<in> {''GET'', ''PUT'', ''DELETE''}"
  defines "r \<equiv> Request_Body (Some body) (Request_Name name (servings_request verb ns))"
    and "rs \<equiv> Request_Body (Some body) (Request_SubResource [''status''] (Request_Name name (servings_request verb ns)))"
  shows "request_error r = None \<longleftrightarrow> addressable ns name"
    and "request_error rs = None \<longleftrightarrow> addressable ns name"
    and "addressable ns name \<Longrightarrow> url_path r = serving_path ns name \<and> rq_body r = Some body"
    and "addressable ns name \<Longrightarrow> url_path rs = serving_path ns name @ [''status''] \<and> rq_body rs = Some body"
proof -
  have v: "verb = ''GET'' \<or> verb = ''PUT'' \<or> verb = ''DELETE''" using assms(1) by simp
  show "request_error r = None \<longleftrightarrow> addressable ns name"
    and "request_error rs = None \<longleftrightarrow> addressable ns name"
    unfolding r_def rs_def using v
    by (cases "segment ns"; cases "segment name"; cases "name = []"; simp add: request_defs)+
  show "addressable ns name \<Longrightarrow> url_path r = serving_path ns name \<and> rq_body r = Some body"
    and "addressable ns name \<Longrightarrow> url_path rs = serving_path ns name @ [''status''] \<and> rq_body rs = Some body"
    unfolding r_def rs_def by (simp_all add: request_defs)
qed

text \<open>What the client does with a serving that the server cannot address.\<close>

lemma Into_error: "m w = (Err e, w') \<Longrightarrow> Into m w = (Ok (Some empty_serving, Some e), w')"
  by (simp add: Into_def)

lemma unaddressable_update:
  assumes "\<not> addressable ns (ksName ks)"
  shows "\<exists>e. serving_Update c ns ks w = (Ok (Some empty_serving, Some e), w)"
    and "\<exists>e. serving_UpdateStatus c ns ks w = (Ok (Some empty_serving, Some e), w)"
proof -
  have "request_error (Request_Body (Some (ServingBody ks)) (Request_Name (ksName ks) (servings_request ''PUT'' ns))) \<noteq> None"
    "request_error (Request_Body (Some (ServingBody ks))
      (Request_SubResource [''status''] (Request_Name (ksName ks) (servings_request ''PUT'' ns)))) \<noteq> None"
    using named_request(1,2) [of "''PUT''"] assms by simp_all
  then show "\<exists>e. serving_Update c ns ks w = (Ok (Some empty_serving, Some e), w)"
    and "\<exists>e. serving_UpdateStatus c ns ks w = (Ok (Some empty_serving, Some e), w)"
    by (auto simp: serving_Update_def serving_UpdateStatus_def Request_Do_def Into_def split: option.splits)
qed

text \<open>The timeout is exact up to about 292 years; beyond that it wraps around.\<close>

lemma list_timeout_exact:
  assumes "TimeoutSeconds opts = Some s" and "\<bar>sint s\<bar> \<le> 9223372036"
  shows "sint (list_timeout opts) = sint s * 1000000000"
proof -
  have "sint (list_timeout opts) = signed_take_bit 63 (sint s * 1000000000)"
    using assms(1) by (simp add: list_timeout_def sint_word_ariths)
  also have "\<dots> = sint s * 1000000000"
    using assms(2) by (intro signed_take_bit_int_eq_self) (auto simp: abs_le_iff)
  finally show ?thesis .
qed

end
