(* ===== verification/Reconciler.thy ===== *)
theory Reconciler
  imports Extensions Lifecycle Tracker Serving_Client
begin

text \<open>
  \<open>pkg/reconciler/knativeserving/knativeserving.go\<close>: the reconciler of the operator. Its state, with
  what it reads and writes around it, is one record: the cluster, the informer's cache, the generations
  of the servings it keeps track of, the metrics it reported, the clock of the conditions, the recorded
  events, and the serving behind the pointer it works on, whose changes stay when a stage fails. What
  the reconciler is given when it is made is the record \<open>env\<close>. Logging is left out.
\<close>

section \<open>State\<close>

record 'w serving_api =
  api_Get :: "string \<Rightarrow> string \<Rightarrow> 'w call"
  api_Update :: "string \<Rightarrow> KnativeServing \<Rightarrow> 'w call"
  api_UpdateStatus :: "string \<Rightarrow> KnativeServing \<Rightarrow> 'w call"
  api_Patch :: "string \<Rightarrow> string \<Rightarrow> obj \<Rightarrow> 'w call"

record ('w, 'p, 'k) env =
  env_getenv :: "string \<Rightarrow> string"
  env_scheme :: scheme
  config :: manifest
  mclient :: "'w mf_client"
  patches :: "'p patching"
  platform :: "'k platforms"
  kubeClientSet :: 'k
  deployments_Get :: "string \<Rightarrow> string \<Rightarrow> ('w, goval) io"
  servingClient :: "'w serving_api"

record recorded_event =
  ev_type :: string
  ev_reason :: string
  ev_text :: string

record 'w rstate =
  world :: 'w
  indexer :: "KnativeServing gomap"
  servings :: "64 word gomap"
  reported :: "(string \<times> string) list"
  now :: "time stream"
  recorded :: "recorded_event list"
  inst :: KnativeServing

section \<open>Steps\<close>

definition on_world :: "('w, 'a) io \<Rightarrow> ('w rstate, 'a) io" where
  "on_world m s = (case m (world s) of (r, w') \<Rightarrow> (r, s\<lparr>world := w'\<rparr>))"

text \<open>A change of the status of the serving, through the condition manager.\<close>

definition mark :: "(status_clock \<Rightarrow> status_clock) \<Rightarrow> ('w rstate, unit) io" where
  "mark f s =
     (case f (Status (inst s), now s) of
        (st, k) \<Rightarrow> (Ok (), s\<lparr>inst := (inst s)\<lparr>Status := st\<rparr>, now := k\<rparr>))"

text \<open>\<open>if err != nil\<close> on what a client returned.\<close>

definition checked :: "'w call \<Rightarrow> ('w, KnativeServing option) io" where
  "checked m =
     bind_io m (\<lambda>(p, err). case err of Some e \<Rightarrow> raise_io e | None \<Rightarrow> return_io p)"

definition nil_dereference :: "('s, 'a) io" where
  "nil_dereference = of_result (Panic ''invalid memory address or nil pointer dereference'')"

section \<open>Listers\<close>

definition serving_resource :: GroupVersionResource where
  "serving_resource = \<lparr>gvrGroup = GroupName, gvrVersion = [], gvrResource = ''knativeserving''\<rparr>"

text \<open>\<open>KnativeServings(namespace).Get(name)\<close> of the lister.\<close>

definition lister_Get :: "string \<Rightarrow> string \<Rightarrow> ('w rstate, KnativeServing) io" where
  "lister_Get ns name s =
     (case map_of (indexer s) (ns @ ''/'' @ name) of
        Some ks \<Rightarrow> (Ok ks, s)
      | None \<Rightarrow> (Err (NewNotFound serving_resource name), s))"

section \<open>Constants\<close>

definition finalizerName :: string where "finalizerName = ''delete-knative-serving-manifest''"
definition creationChange :: string where "creationChange = ''creation''"
definition editChange :: string where "editChange = ''edit''"
definition deletionChange :: string where "deletionChange = ''deletion''"
definition operator_version :: string where "operator_version = ''0.14.0''"

definition role :: predicate where
  "role = Any_of [ByKind ''ClusterRole'', ByKind ''Role'']"

definition rolebinding :: predicate where
  "rolebinding = Any_of [ByKind ''ClusterRoleBinding'', ByKind ''RoleBinding'']"

definition RBAC :: predicate where
  "RBAC = Any_of [ByKind ''Role'', ByKind ''ClusterRole'', ByKind ''RoleBinding'', ByKind ''ClusterRoleBinding'']"

section \<open>The stages\<close>

definition rec_transform :: "('w, 'p, 'k) env \<Rightarrow> KnativeServing \<Rightarrow> manifest result" where
  "rec_transform e ks =
     bind_result (Transformers (env_getenv e) (env_scheme e) (platform e) (kubeClientSet e) ks)
       (\<lambda>transforms. Transform transforms (config e))"

definition rec_updateStatus :: "('w, 'p, 'k) env \<Rightarrow> ('w rstate, unit) io" where
  "rec_updateStatus e =
     bind_io get_io
       (\<lambda>s. bind_io (on_world (checked (api_UpdateStatus (servingClient e) (ksNamespace (inst s)) (inst s))))
         (\<lambda>afterUpdate. case afterUpdate of
             None \<Rightarrow> nil_dereference
           | Some ks \<Rightarrow> modify_io (\<lambda>s. s\<lparr>inst := ks\<rparr>)))"

definition initStatus :: "('w, 'p, 'k) env \<Rightarrow> manifest \<Rightarrow> ('w rstate, unit) io" where
  "initStatus e manifest =
     bind_io get_io
       (\<lambda>s. if length (Conditions (Status (inst s))) = 0
            then then_io (mark ks_InitializeConditions) (rec_updateStatus e) else return_io ())"

text \<open>\<open>if err := m.Apply(); err != nil \<open>{\<close> MarkInstallFailed; return err \<open>}\<close>\<close>.\<close>

definition apply_or_fail :: "('w, 'p, 'k) env \<Rightarrow> manifest \<Rightarrow> ('w rstate, unit) io" where
  "apply_or_fail e m =
     bind_io (attempt (on_world (Apply (mclient e) (patches e) [] m)))
       (\<lambda>r. case r of
              Err err \<Rightarrow> then_io (mark (MarkInstallFailed (error_text err))) (raise_io err)
            | _ \<Rightarrow> return_io ())"

definition install :: "('w, 'p, 'k) env \<Rightarrow> manifest \<Rightarrow> ('w rstate, unit) io" where
  "install e manifest =
     then_io (apply_or_fail e (Filter [role] manifest))
       (then_io (apply_or_fail e (Filter [rolebinding] manifest))
         (then_io (apply_or_fail e manifest)
           (then_io (mark MarkInstallSucceeded)
             (modify_io (\<lambda>s. s\<lparr>inst := (inst s)\<lparr>Status := (Status (inst s))\<lparr>Version := operator_version\<rparr>\<rparr>\<rparr>)))))"

text \<open>\<open>available\<close>: some condition of the deployment says so.\<close>

definition available :: "goval \<Rightarrow> bool" where
  "available d =
     list_ex (\<lambda>c. as_gostring (sfield ''Type'' c) = ''Available'' \<and> as_gostring (sfield ''Status'' c) = ConditionTrue)
       (elems (sfield ''Conditions'' (sfield ''Status'' d)))"

fun check_loop :: "('w, 'p, 'k) env \<Rightarrow> obj list \<Rightarrow> ('w rstate, unit) io" where
  "check_loop e [] = mark MarkDeploymentsAvailable"
| "check_loop e (u # us) =
     bind_io (attempt (on_world (deployments_Get e (GetNamespace u) (GetName u))))
       (\<lambda>r. case r of
              Ok deployment \<Rightarrow>
                if \<not> available deployment then mark MarkDeploymentsNotReady else check_loop e us
            | Err err \<Rightarrow>
                then_io (mark MarkDeploymentsNotReady) (if IsNotFound err then return_io () else raise_io err)
            | Panic p \<Rightarrow> of_result (Panic p))"

definition checkDeployments :: "('w, 'p, 'k) env \<Rightarrow> manifest \<Rightarrow> ('w rstate, unit) io" where
  "checkDeployments e manifest = check_loop e (resources_of (Filter [ByKind ''Deployment''] manifest))"

definition ensureFinalizer :: "('w, 'p, 'k) env \<Rightarrow> manifest \<Rightarrow> ('w rstate, unit) io" where
  "ensureFinalizer e manifest =
     bind_io get_io
       (\<lambda>s. if list_ex (\<lambda>finalizer. finalizer = finalizerName) (Finalizers (inst s)) then return_io ()
            else let ks = (inst s)\<lparr>Finalizers := Finalizers (inst s) @ [finalizerName]\<rparr> in
                 then_io (modify_io (\<lambda>s. s\<lparr>inst := ks\<rparr>))
                   (bind_io (on_world (checked (api_Update (servingClient e) (ksNamespace ks) ks))) (\<lambda>_. return_io ())))"

text \<open>The four obsolete resources, made one after the other from one object.\<close>

definition obsolete_resources :: "string \<Rightarrow> obj list" where
  "obsolete_resources ns =
     (let service = SetKind ''Service'' (SetAPIVersion ''v1''
                      (SetName ''knative-ingressgateway'' (SetNamespace ''istio-system'' [])));
          deployment = SetKind ''Deployment'' (SetAPIVersion ''apps/v1'' service);
          autoscaler = SetKind ''HorizontalPodAutoscaler'' (SetAPIVersion ''autoscaling/v1'' deployment);
          configMap = SetKind ''ConfigMap'' (SetAPIVersion ''v1''
                        (SetName ''config-controller'' (SetNamespace ns autoscaler)))
      in [service, deployment, autoscaler, configMap])"

definition deleteObsoleteResources :: "('w, 'p, 'k) env \<Rightarrow> manifest \<Rightarrow> ('w rstate, unit) io" where
  "deleteObsoleteResources e manifest =
     bind_io get_io
       (\<lambda>s. for_each (\<lambda>resource. on_world (c_Delete (mclient e) resource [])) (obsolete_resources (ksNamespace (inst s))))"

definition stages :: "('w, 'p, 'k) env \<Rightarrow> (manifest \<Rightarrow> ('w rstate, unit) io) list" where
  "stages e = [ensureFinalizer e, initStatus e, install e, checkDeployments e, deleteObsoleteResources e]"

definition reconcile :: "('w, 'p, 'k) env \<Rightarrow> ('w rstate, unit) io" where
  "reconcile e =
     bind_io get_io
       (\<lambda>s. case rec_transform e (inst s) of
              Err err \<Rightarrow> then_io (mark (MarkInstallFailed (error_text err))) (raise_io err)
            | Panic p \<Rightarrow> of_result (Panic p)
            | Ok manifest \<Rightarrow> for_each (\<lambda>stage. stage manifest) (stages e))"

section \<open>The entry points\<close>

definition obsolete_generation :: "string \<Rightarrow> 64 word \<Rightarrow> 64 word \<Rightarrow> error" where
  "obsolete_generation key newGen oldGen =
     Errorf (''reconciling obsolete generation of KnativeServing '' @ key @ '': newGen = '' @ decimal_int (sint newGen)
             @ '' and oldGen = '' @ decimal_int (sint oldGen))"

definition report :: "string \<Rightarrow> string \<Rightarrow> 'w rstate \<Rightarrow> 'w rstate" where
  "report key change s = s\<lparr>reported := reported s @ [(key, change)]\<rparr>"

text \<open>The bookkeeping of generations: what is known of the serving, or the error.\<close>

definition track_generation :: "string \<Rightarrow> 64 word \<Rightarrow> ('w rstate, unit) io" where
  "track_generation key newGen =
     bind_io get_io
       (\<lambda>s. then_io
          (case map_of (servings s) key of
             Some oldGen \<Rightarrow>
               if sint newGen > sint oldGen then modify_io (report key editChange)
               else if sint newGen < sint oldGen then raise_io (obsolete_generation key newGen oldGen)
               else return_io ()
           | None \<Rightarrow> if newGen = 1 then modify_io (report key creationChange) else return_io ())
          (modify_io (\<lambda>s. s\<lparr>servings := AList.update key newGen (servings s)\<rparr>)))"

definition ReconcileKind :: "('w, 'p, 'k) env \<Rightarrow> ('w rstate, unit) io" where
  "ReconcileKind e =
     bind_io get_io
       (\<lambda>s. case MetaNamespaceKeyFunc (inst s) of
              Ok key \<Rightarrow> then_io (track_generation key (Generation (inst s))) (reconcile e)
            | _ \<Rightarrow> return_io ())"

text \<open>
  \<open>delete\<close>: the manifest is the one the operator was started with, not the transformed one. What the
  lister returns is the object of the cache, so setting its finalizers changes the cache.
\<close>

definition delete_manifest :: "('w, 'p, 'k) env \<Rightarrow> ('w, unit) io" where
  "delete_manifest e =
     then_io (Delete (mclient e) [] (Filter [ByKind ''Deployment''] (config e)))
       (then_io (Delete (mclient e) [] (Filter [NoCRDs, None_of [RBAC]] (config e)))
         (Delete (mclient e) [] (Filter [RBAC] (config e))))"

definition release :: "('w, 'p, 'k) env \<Rightarrow> KnativeServing \<Rightarrow> ('w rstate, unit) io" where
  "release e ks =
     bind_io (lister_Get (ksNamespace ks) (ksName ks))
       (\<lambda>refetched. case Finalizers refetched of
           [] \<Rightarrow> of_result (Panic ''slice bounds out of range'')
         | _ # rest \<Rightarrow>
             let refetched' = refetched\<lparr>Finalizers := rest\<rparr> in
             then_io
               (modify_io (\<lambda>s. s\<lparr>indexer := AList.update (ksNamespace ks @ ''/'' @ ksName ks) refetched' (indexer s)\<rparr>))
               (bind_io (on_world (checked (api_Update (servingClient e) (ksNamespace refetched') refetched')))
                 (\<lambda>_. return_io ())))"

definition rec_delete :: "('w, 'p, 'k) env \<Rightarrow> ('w rstate, unit) io" where
  "rec_delete e =
     bind_io get_io
       (\<lambda>s. if length (Finalizers (inst s)) = 0 \<or> hd (Finalizers (inst s)) \<noteq> finalizerName then return_io ()
            else then_io (if length (servings s) = 0 then on_world (delete_manifest e) else return_io ())
                   (release e (inst s)))"

definition FinalizeKind :: "('w, 'p, 'k) env \<Rightarrow> ('w rstate, unit) io" where
  "FinalizeKind e =
     bind_io get_io
       (\<lambda>s. case MetaNamespaceKeyFunc (inst s) of
              Ok key \<Rightarrow>
                then_io (modify_io (\<lambda>s. s\<lparr>servings := AList.delete key (servings s)\<rparr>)) (rec_delete e)
            | _ \<Rightarrow> return_io ())"

end
