(* ===== verification/Reconciler_Laws.thy ===== *)
theory Reconciler_Laws
  imports Reconciler
begin

text \<open>
  What the stages of the reconciler do: which parts of the state each of them leaves alone, what the
  status says after each outcome, in which order the cluster is changed, and how the generations of the
  servings are tracked over any sequence of calls.
\<close>

section \<open>Steps\<close>

lemma on_world_eq: "m (world s) = (r, w') \<Longrightarrow> on_world m s = (r, s\<lparr>world := w'\<rparr>)"
  by (simp add: on_world_def)

lemma on_world_result: "on_world m s = (r, s') \<longleftrightarrow> (\<exists>w'. m (world s) = (r, w') \<and> s' = s\<lparr>world := w'\<rparr>)"
  by (auto simp: on_world_def split: prod.splits)

lemma mark_eq: "mark f s = (r, s') \<longleftrightarrow> r = Ok () \<and>
    s' = s\<lparr>inst := (inst s)\<lparr>Status := fst (f (Status (inst s), now s))\<rparr>, now := snd (f (Status (inst s), now s))\<rparr>"
  by (auto simp: mark_def split: prod.splits)

lemma mark_Ok: "mark f s = (Ok (), snd (mark f s))"
  by (simp add: mark_def split: prod.splits)

lemma mark_fields [simp]:
  "Status (inst (snd (mark f s))) = fst (f (Status (inst s), now s))"
  "world (snd (mark f s)) = world s" "servings (snd (mark f s)) = servings s"
  "indexer (snd (mark f s)) = indexer s" "reported (snd (mark f s)) = reported s"
  "Finalizers (inst (snd (mark f s))) = Finalizers (inst s)"
  by (simp_all add: mark_def split: prod.splits)

lemma bind_io_result:
  "bind_io m f s = (r, s') \<longleftrightarrow>
     (\<exists>x s1. m s = (Ok x, s1) \<and> f x s1 = (r, s')) \<or> (\<exists>e. m s = (Err e, s') \<and> r = Err e) \<or>
     (\<exists>p. m s = (Panic p, s') \<and> r = Panic p)"
  by (cases "m s") (auto simp: bind_io_def split: result.splits)

lemma then_io_result:
  "then_io m n s = (r, s') \<longleftrightarrow>
     (\<exists>x s1. m s = (Ok x, s1) \<and> n s1 = (r, s')) \<or> (\<exists>e. m s = (Err e, s') \<and> r = Err e) \<or>
     (\<exists>p. m s = (Panic p, s') \<and> r = Panic p)"
  unfolding then_io_def by (rule bind_io_result)

lemma attempt_result:
  "attempt m s = (r, s') \<longleftrightarrow>
     (\<exists>x. m s = (Ok x, s') \<and> r = Ok (Ok x)) \<or> (\<exists>e. m s = (Err e, s') \<and> r = Ok (Err e)) \<or>
     (\<exists>p. m s = (Panic p, s') \<and> r = Panic p)"
  by (cases "m s") (auto simp: attempt_def split: result.splits)

text \<open>A step that keeps a projection of the state.\<close>

definition frame :: "('s \<Rightarrow> 'a) \<Rightarrow> ('s, 'b) io \<Rightarrow> bool" where
  "frame f m \<longleftrightarrow> (\<forall>s. f (snd (m s)) = f s)"

lemma frameD: "frame f m \<Longrightarrow> m s = (r, s') \<Longrightarrow> f s' = f s"
  by (metis frame_def snd_conv)

lemma frame_return [simp, intro]: "frame f (return_io x)" and frame_raise [simp, intro]: "frame f (raise_io e)"
  and frame_of_result [simp, intro]: "frame f (of_result r)" and frame_get [simp, intro]: "frame f get_io"
  and frame_nil [simp, intro]: "frame f nil_dereference"
  by (simp_all add: frame_def return_io_def raise_io_def of_result_def get_io_def nil_dereference_def)

lemma frame_bind [intro]: "frame f m \<Longrightarrow> (\<And>x. frame f (g x)) \<Longrightarrow> frame f (bind_io m g)"
  unfolding frame_def bind_io_def by (auto split: prod.split result.split) (metis snd_conv)+

lemma frame_then [intro]: "frame f m \<Longrightarrow> frame f n \<Longrightarrow> frame f (then_io m n)"
  unfolding then_io_def by (rule frame_bind)

lemma frame_attempt [intro]: "frame f m \<Longrightarrow> frame f (attempt m)"
  unfolding frame_def attempt_def by (auto split: prod.split result.split) (metis snd_conv)+

lemma frame_for_each: "(\<And>x. x \<in> set xs \<Longrightarrow> frame f (g x)) \<Longrightarrow> frame f (for_each g xs)"
  by (induction xs) auto

lemma frame_modify: "(\<And>s. f (g s) = f s) \<Longrightarrow> frame f (modify_io g)"
  by (simp add: frame_def modify_io_def)

lemma frame_on_world: "(\<And>s w. f (s\<lparr>world := w\<rparr>) = f s) \<Longrightarrow> frame f (on_world m)"
  by (simp add: frame_def on_world_def split: prod.split)

lemma frame_mark:
  "(\<And>s ks k. f (s\<lparr>inst := ks, now := k\<rparr>) = f s) \<Longrightarrow> frame f (mark g)"
  by (simp add: frame_def mark_def split: prod.split)

lemma frame_if [intro]: "(b \<Longrightarrow> frame f m) \<Longrightarrow> (\<not> b \<Longrightarrow> frame f n) \<Longrightarrow> frame f (if b then m else n)"
  by simp

lemma frame_case_option [intro]:
  "frame f m \<Longrightarrow> (\<And>x. frame f (g x)) \<Longrightarrow> frame f (case z of None \<Rightarrow> m | Some x \<Rightarrow> g x)"
  by (cases z) auto

lemma frame_case_result [intro]:
  "(\<And>x. frame f (g x)) \<Longrightarrow> (\<And>e. frame f (h e)) \<Longrightarrow> (\<And>p. frame f (k p)) \<Longrightarrow>
   frame f (case z of Ok x \<Rightarrow> g x | Err e \<Rightarrow> h e | Panic p \<Rightarrow> k p)"
  by (cases z) auto

lemma frame_case_list [intro]:
  "frame f m \<Longrightarrow> (\<And>x xs. frame f (g x xs)) \<Longrightarrow> frame f (case z of [] \<Rightarrow> m | x # xs \<Rightarrow> g x xs)"
  by (cases z) auto

lemma frame_case_prod [intro]: "(\<And>x y. frame f (g x y)) \<Longrightarrow> frame f (case z of (x, y) \<Rightarrow> g x y)"
  by (cases z) auto

section \<open>What the stages leave alone\<close>

text \<open>The stages change the cluster, the serving and the clock, and nothing else.\<close>

definition bookkeeping :: "'w rstate \<Rightarrow> (string \<Rightarrow> 64 word option) \<times> 64 word gomap \<times> (string \<times> string) list \<times> KnativeServing gomap" where
  "bookkeeping s = (map_of (servings s), servings s, reported s, indexer s)"

lemma bookkeeping_simps [simp]:
  "bookkeeping (s\<lparr>world := w\<rparr>) = bookkeeping s" "bookkeeping (s\<lparr>inst := ks\<rparr>) = bookkeeping s"
  "bookkeeping (s\<lparr>inst := ks, now := k\<rparr>) = bookkeeping s"
  by (simp_all add: bookkeeping_def)

lemma frame_mark_bookkeeping [intro]: "frame bookkeeping (mark g)"
  by (rule frame_mark) simp

lemma frame_world_bookkeeping [intro]: "frame bookkeeping (on_world m)"
  by (rule frame_on_world) simp

lemma frame_inst_bookkeeping [intro]: "frame bookkeeping (modify_io (\<lambda>s. s\<lparr>inst := g s\<rparr>))"
  by (rule frame_modify) simp

lemma check_loop_frame: "frame bookkeeping (check_loop e us)"
proof (induction us)
  case (Cons u us)
  then show ?case by (auto intro!: frame_bind frame_attempt frame_case_result frame_if frame_then)
qed auto

lemma stage_frame: "stage \<in> set (stages e) \<Longrightarrow> frame bookkeeping (stage manifest)"
proof -
  have "frame bookkeeping (ensureFinalizer e manifest)"
    unfolding ensureFinalizer_def Let_def by (intro frame_bind frame_get frame_if frame_return frame_then frame_inst_bookkeeping frame_world_bookkeeping)
  moreover have "frame bookkeeping (initStatus e manifest)"
    unfolding initStatus_def rec_updateStatus_def
    by (intro frame_bind frame_get frame_if frame_return frame_then frame_mark_bookkeeping frame_world_bookkeeping
        frame_case_option frame_nil frame_inst_bookkeeping)
  moreover have "frame bookkeeping (install e manifest)"
    unfolding install_def apply_or_fail_def
    by (intro frame_bind frame_attempt frame_case_result frame_raise frame_return frame_then frame_mark_bookkeeping
        frame_world_bookkeeping frame_inst_bookkeeping)
  moreover have "frame bookkeeping (deleteObsoleteResources e manifest)"
    unfolding deleteObsoleteResources_def
    by (intro frame_bind frame_get frame_for_each frame_world_bookkeeping)
  moreover have "frame bookkeeping (checkDeployments e manifest)"
    unfolding checkDeployments_def by (rule check_loop_frame)
  ultimately show "stage \<in> set (stages e) \<Longrightarrow> frame bookkeeping (stage manifest)" by (auto simp: stages_def)
qed

lemma reconcile_frame: "frame bookkeeping (reconcile e)"
  unfolding reconcile_def
  by (intro frame_bind frame_get frame_case_result frame_then frame_raise frame_of_result frame_for_each stage_frame
      frame_mark_bookkeeping)

section \<open>Tracking generations\<close>

text \<open>The calls of the reconciler, newest first, and what they should leave behind.\<close>

datatype serving_call = Reconciled string "64 word" | Finalized string

fun tracked_generations :: "serving_call list \<Rightarrow> string \<Rightarrow> 64 word option" where
  "tracked_generations [] = Map.empty"
| "tracked_generations (Reconciled k g # cs) =
     (case tracked_generations cs k of
        Some old \<Rightarrow> if sint g < sint old then tracked_generations cs else (tracked_generations cs)(k \<mapsto> g)
      | None \<Rightarrow> (tracked_generations cs)(k \<mapsto> g))"
| "tracked_generations (Finalized k # cs) = (tracked_generations cs)(k := None)"

fun reported_changes :: "serving_call list \<Rightarrow> (string \<times> string) list" where
  "reported_changes [] = []"
| "reported_changes (Reconciled k g # cs) =
     reported_changes cs
     @ (case tracked_generations cs k of
          Some old \<Rightarrow> if sint old < sint g then [(k, editChange)] else []
        | None \<Rightarrow> if g = 1 then [(k, creationChange)] else [])"
| "reported_changes (Finalized k # cs) = reported_changes cs"

text \<open>
  A run of the operator: between two calls anything may happen to the cluster, the cache and the serving
  the next call is given, but only the reconciler touches its own books.
\<close>

inductive operator_run :: "('w, 'p, 'k) env \<Rightarrow> serving_call list \<Rightarrow> 'w rstate \<Rightarrow> bool" for e where
  run_start: "servings s = [] \<Longrightarrow> reported s = [] \<Longrightarrow> operator_run e [] s"
| run_reconcile: "operator_run e cs s \<Longrightarrow> servings t = servings s \<Longrightarrow> reported t = reported s \<Longrightarrow>
    MetaNamespaceKeyFunc (inst t) = Ok key \<Longrightarrow> ReconcileKind e t = (r, s') \<Longrightarrow>
    operator_run e (Reconciled key (Generation (inst t)) # cs) s'"
| run_finalize: "operator_run e cs s \<Longrightarrow> servings t = servings s \<Longrightarrow> reported t = reported s \<Longrightarrow>
    MetaNamespaceKeyFunc (inst t) = Ok key \<Longrightarrow> FinalizeKind e t = (r, s') \<Longrightarrow>
    operator_run e (Finalized key # cs) s'"

inductive_cases operator_run_emptyE: "operator_run e [] s"

lemma track_generation_cases:
  "track_generation key g s =
    (case map_of (servings s) key of
       Some old \<Rightarrow>
         if sint old < sint g then (Ok (), (report key editChange s)\<lparr>servings := AList.update key g (servings s)\<rparr>)
         else if sint g < sint old then (Err (obsolete_generation key g old), s)
         else (Ok (), s\<lparr>servings := AList.update key g (servings s)\<rparr>)
     | None \<Rightarrow>
         if g = 1 then (Ok (), (report key creationChange s)\<lparr>servings := AList.update key g (servings s)\<rparr>)
         else (Ok (), s\<lparr>servings := AList.update key g (servings s)\<rparr>))"
  by (auto simp: track_generation_def bind_io_def then_io_def report_def split: option.split)

lemma track_generation_books:
  assumes "track_generation key g s = (r, s')"
  shows "map_of (servings s') = (case map_of (servings s) key of
           Some old \<Rightarrow> if sint g < sint old then map_of (servings s) else (map_of (servings s))(key \<mapsto> g)
         | None \<Rightarrow> (map_of (servings s))(key \<mapsto> g))"
    and "reported s' = reported s @ (case map_of (servings s) key of
           Some old \<Rightarrow> if sint old < sint g then [(key, editChange)] else []
         | None \<Rightarrow> if g = 1 then [(key, creationChange)] else [])"
    and "distinct (keys (servings s)) \<Longrightarrow> distinct (keys (servings s'))"
  using assms by (auto simp: track_generation_cases report_def split: option.splits if_splits)

lemma ReconcileKind_books:
  assumes key: "MetaNamespaceKeyFunc (inst t) = Ok key" and run: "ReconcileKind e t = (r, s')"
  obtains r1 s1 where "track_generation key (Generation (inst t)) t = (r1, s1)"
    and "servings s' = servings s1" and "reported s' = reported s1" and "indexer s' = indexer s1"
proof -
  have run': "then_io (track_generation key (Generation (inst t))) (reconcile e) t = (r, s')"
    using run key by (simp add: ReconcileKind_def bind_io_def)
  then obtain r1 s1 where t: "track_generation key (Generation (inst t)) t = (r1, s1)"
      and "s' = s1 \<or> (\<exists>r2. reconcile e s1 = (r2, s'))"
    unfolding then_io_result by blast
  moreover have "bookkeeping s' = bookkeeping s1" if "reconcile e s1 = (r2, s')" for r2
    using frameD [OF reconcile_frame that] .
  ultimately have "bookkeeping s' = bookkeeping s1" by auto
  with t that show ?thesis by (auto simp: bookkeeping_def)
qed

text \<open>What finalizing does with the books: the serving is forgotten, whatever happens afterwards.\<close>

definition books :: "'w rstate \<Rightarrow> 64 word gomap \<times> (string \<times> string) list" where
  "books s = (servings s, reported s)"

lemma rec_delete_frame: "frame books (rec_delete e)"
  unfolding rec_delete_def release_def lister_Get_def Let_def
  by (intro frame_bind frame_get frame_if frame_return frame_then frame_case_list frame_of_result)
    (auto simp: books_def frame_def lister_Get_def on_world_def modify_io_def return_io_def then_io_def bind_io_def
      split: option.splits prod.splits result.splits list.splits)

lemma FinalizeKind_books:
  assumes key: "MetaNamespaceKeyFunc (inst t) = Ok key" and run: "FinalizeKind e t = (r, s')"
  shows "servings s' = AList.delete key (servings t)" and "reported s' = reported t"
proof -
  let ?t = "t\<lparr>servings := AList.delete key (servings t)\<rparr>"
  have "rec_delete e ?t = (r, s')"
    using run key by (auto simp: FinalizeKind_def bind_io_def then_io_def split: prod.splits result.splits)
  from frameD [OF rec_delete_frame this]
  show "servings s' = AList.delete key (servings t)" and "reported s' = reported t" by (auto simp: books_def)
qed

lemma operator_run_books:
  assumes "operator_run e cs s"
  shows "map_of (servings s) = tracked_generations cs \<and> reported s = reported_changes cs \<and> distinct (keys (servings s))"
  using assms
proof (induction rule: operator_run.induct)
  case (run_reconcile cs s t key r s')
  obtain r1 s1 where "track_generation key (Generation (inst t)) t = (r1, s1)" "servings s' = servings s1" "reported s' = reported s1"
    by (rule ReconcileKind_books [OF run_reconcile(4,5)])
  with track_generation_books [OF this(1)] run_reconcile(2,3) run_reconcile.IH show ?case
    by (auto split: option.splits)
next
  case (run_finalize cs s t key r s')
  with FinalizeKind_books [OF run_finalize(4,5)] show ?case by simp
qed simp

text \<open>Consequences on the abstract side.\<close>

lemma reported_changes_kinds: "(k, c) \<in> set (reported_changes cs) \<Longrightarrow> c = creationChange \<or> c = editChange"
  by (induction cs rule: reported_changes.induct) (auto split: option.splits if_splits)

lemma tracked_generations_mono:
  assumes "tracked_generations cs k = Some old" and "Finalized k \<notin> set ds"
  shows "\<exists>new. tracked_generations (ds @ cs) k = Some new \<and> sint old \<le> sint new"
  using assms(2)
proof (induction ds)
  case (Cons d ds)
  then obtain new where "tracked_generations (ds @ cs) k = Some new" "sint old \<le> sint new" by auto
  with Cons.prems show ?case by (cases d) (auto split: option.splits)
qed (use assms in simp)

end
