(* ===== verification/Reconciler_Status.thy ===== *)
theory Reconciler_Status
  imports Reconciler_Laws
begin

text \<open>
  The status of the serving through the stages of the reconciler, and the order in which the stages
  change the cluster.
\<close>

section \<open>The invariant of the status\<close>

text \<open>What is relied on of the server: a status that was accepted comes back as it was sent.\<close>

definition echoes_status :: "'w serving_api \<Rightarrow> bool" where
  "echoes_status api \<longleftrightarrow>
     (\<forall>ns ks w ks' w'. api_UpdateStatus api ns ks w = (Ok (Some ks', None), w') \<longrightarrow> Status ks' = Status ks)"

definition status_inv :: "'w rstate \<Rightarrow> bool" where
  "status_inv s \<longleftrightarrow> lifecycle_inv (Status (inst s))"

lemma status_inv_simps [simp]:
  "status_inv (s\<lparr>world := w\<rparr>) = status_inv s"
  "status_inv (s\<lparr>inst := (inst s)\<lparr>Finalizers := fs\<rparr>\<rparr>) = status_inv s"
  by (simp_all add: status_inv_def)

lemma lifecycle_inv_Version [simp]: "lifecycle_inv (st\<lparr>Version := v\<rparr>) = lifecycle_inv st"
  by (simp add: lifecycle_inv_def)

lemma keeps_mark:
  assumes "\<And>x. lifecycle_inv (fst x) \<Longrightarrow> lifecycle_inv (fst (f x))"
  shows "keeps_io status_inv (mark f)"
  using assms by (auto simp: keeps_io_def status_inv_def)

lemma mark_keeps [intro]:
  "keeps_io status_inv (mark ks_InitializeConditions)" "keeps_io status_inv (mark (MarkInstallFailed msg))"
  "keeps_io status_inv (mark MarkInstallSucceeded)" "keeps_io status_inv (mark MarkDeploymentsAvailable)"
  "keeps_io status_inv (mark MarkDeploymentsNotReady)"
  using run_op_inv [of _ OpInitialize] run_op_inv [of _ "OpInstallFailed msg"] run_op_inv [of _ OpInstallSucceeded]
    run_op_inv [of _ OpDeploymentsAvailable] run_op_inv [of _ OpDeploymentsNotReady]
  by (auto intro!: keeps_mark)

lemma keeps_on_world [intro]: "keeps_io status_inv (on_world m)"
  by (simp add: keeps_io_def on_world_def split: prod.split)

lemma keeps_nil [intro]: "keeps_io P nil_dereference"
  by (simp add: nil_dereference_def)

lemma keeps_case_result [intro]:
  "(\<And>x. keeps_io P (g x)) \<Longrightarrow> (\<And>e. keeps_io P (h e)) \<Longrightarrow> (\<And>p. keeps_io P (k p)) \<Longrightarrow>
   keeps_io P (case z of Ok x \<Rightarrow> g x | Err e \<Rightarrow> h e | Panic p \<Rightarrow> k p)"
  by (cases z) auto

lemma checked_result:
  "checked m w = (r, w') \<longleftrightarrow>
     (\<exists>p. m w = (Ok (p, None), w') \<and> r = Ok p) \<or> (\<exists>p e. m w = (Ok (p, Some e), w') \<and> r = Err e) \<or>
     (\<exists>e. m w = (Err e, w') \<and> r = Err e) \<or> (\<exists>q. m w = (Panic q, w') \<and> r = Panic q)"
  by (auto simp: checked_def bind_io_result split: option.splits)

lemma rec_updateStatus_keeps:
  assumes "echoes_status (servingClient e)"
  shows "keeps_io status_inv (rec_updateStatus e)"
  unfolding keeps_io_def
proof (intro allI impI)
  fix s :: "'a rstate" assume "status_inv s"
  moreover obtain r w' where c: "checked (api_UpdateStatus (servingClient e) (ksNamespace (inst s)) (inst s)) (world s) = (r, w')"
    by fastforce
  moreover have "Status ks = Status (inst s)" if "r = Ok (Some ks)" for ks
  proof -
    have "api_UpdateStatus (servingClient e) (ksNamespace (inst s)) (inst s) (world s) = (Ok (Some ks, None), w')"
      using c that by (auto simp: checked_result)
    then show ?thesis using assms unfolding echoes_status_def by blast
  qed
  ultimately show "status_inv (snd (rec_updateStatus e s))"
    by (cases r) (auto simp: rec_updateStatus_def bind_io_def on_world_def c status_inv_def nil_dereference_def split: option.split)
qed

lemma check_loop_keeps: "keeps_io status_inv (check_loop e us)"
proof (induction us)
  case (Cons u us)
  then show ?case by (auto intro!: keeps_bind keeps_attempt keeps_case_result keeps_then)
qed auto

lemma stage_keeps:
  assumes "echoes_status (servingClient e)" and "stage \<in> set (stages e)"
  shows "keeps_io status_inv (stage manifest)"
proof -
  have "keeps_io status_inv (ensureFinalizer e manifest)"
    unfolding ensureFinalizer_def Let_def keeps_io_def bind_io_def then_io_def
    by (auto simp: status_inv_def on_world_def split: prod.splits result.splits)
  moreover have "keeps_io status_inv (initStatus e manifest)"
    unfolding initStatus_def using rec_updateStatus_keeps [OF assms(1)]
    by (intro keeps_bind keeps_get) (simp add: keeps_then mark_keeps)
  moreover have "keeps_io status_inv (install e manifest)"
  proof -
    have "keeps_io status_inv (apply_or_fail e m)" for m
      unfolding apply_or_fail_def by (auto intro!: keeps_bind keeps_attempt keeps_case_result keeps_then)
    moreover have "keeps_io status_inv (modify_io (\<lambda>s. s\<lparr>inst := (inst s)\<lparr>Status := (Status (inst s))\<lparr>Version := operator_version\<rparr>\<rparr>\<rparr>))"
      by (simp add: keeps_io_def status_inv_def)
    ultimately show ?thesis unfolding install_def by (intro keeps_then mark_keeps)
  qed
  moreover have "keeps_io status_inv (checkDeployments e manifest)"
    unfolding checkDeployments_def by (rule check_loop_keeps)
  moreover have "keeps_io status_inv (deleteObsoleteResources e manifest)"
    unfolding deleteObsoleteResources_def by (auto intro!: keeps_bind keeps_for_each)
  ultimately show ?thesis using assms(2) by (auto simp: stages_def)
qed

lemma reconcile_keeps:
  assumes "echoes_status (servingClient e)"
  shows "keeps_io status_inv (reconcile e)"
  unfolding reconcile_def
  by (intro keeps_bind keeps_get keeps_case_result keeps_then keeps_for_each mark_keeps keeps_raise keeps_of_result
      stage_keeps [OF assms])

section \<open>What a failed or finished installation leaves in the status\<close>

text \<open>The condition of the installation after a failure: false, with the text of the error.\<close>

lemma MarkInstallFailed_condition:
  assumes "lifecycle_inv (fst x)"
  shows "\<exists>c. ks_GetCondition InstallSucceeded (fst (MarkInstallFailed msg x)) = Some c \<and>
    CStatus c = ConditionFalse \<and> CReason c = ''Error'' \<and> CMessage c = ''Install failed with message: '' @ msg"
proof -
  let ?a = "accessor_of x"
  have wf: "wf_conds (conds ?a)"
    using assms by (simp add: lifecycle_inv_accessor wf_accessor_def)
  let ?n = "\<lambda>t. condition_of t ConditionFalse (severity conditions t) ''Error'' (''Install failed with message: '' @ msg)"
  have eq: "accessor_of (MarkInstallFailed msg x) = SetCondition (?n ConditionReady) (SetCondition (?n InstallSucceeded) ?a)"
    by (simp add: MarkInstallFailed_def accessor_of_Manage MarkFalse_def)
  have "view (accessor_of (MarkInstallFailed msg x)) InstallSucceeded = Some (?n InstallSucceeded)"
    unfolding eq by (simp add: view_SetCondition wf wf_SetCondition)
  then obtain c where c: "GetCondition InstallSucceeded (accessor_of (MarkInstallFailed msg x)) = Some c" "strip c = ?n InstallSucceeded"
    by (auto simp: view_def)
  have "CStatus c = ConditionFalse" "CReason c = ''Error''" "CMessage c = ''Install failed with message: '' @ msg"
    using arg_cong [OF c(2), of CStatus] arg_cong [OF c(2), of CReason] arg_cong [OF c(2), of CMessage] by simp_all
  with c(1) show ?thesis by (auto simp: ks_GetCondition_def GetCondition_def accessor_of_def)
qed

text \<open>The serving says that its installation failed, and with which error.\<close>

definition install_failed :: "error \<Rightarrow> KnativeServingStatus \<Rightarrow> bool" where
  "install_failed err st \<longleftrightarrow>
     (\<exists>c. ks_GetCondition InstallSucceeded st = Some c \<and> CStatus c = ConditionFalse \<and>
          CMessage c = ''Install failed with message: '' @ error_text err)"

lemma install_failed_not_ready:
  assumes "lifecycle_inv st" and "install_failed err st"
  shows "\<not> IsReady st" and "\<not> IsInstalled st"
proof -
  show "\<not> IsInstalled st" using assms(2) by (auto simp: install_failed_def IsInstalled_def)
  then show "\<not> IsReady st" using ready_iff [OF assms(1)] by simp
qed

lemma mark_install_failed:
  assumes "status_inv s" and "mark (MarkInstallFailed (error_text err)) s = (r, s')"
  shows "install_failed err (Status (inst s'))"
  using MarkInstallFailed_condition [of "(Status (inst s), now s)" "error_text err"] assms
  by (auto simp: install_failed_def mark_eq status_inv_def)

lemma apply_or_fail_cases:
  "Apply (mclient e) (patches e) [] m (world s) = (Ok x, w') \<Longrightarrow> apply_or_fail e m s = (Ok (), s\<lparr>world := w'\<rparr>)"
  "Apply (mclient e) (patches e) [] m (world s) = (Err err, w') \<Longrightarrow>
     apply_or_fail e m s = (Err err, snd (mark (MarkInstallFailed (error_text err)) (s\<lparr>world := w'\<rparr>)))"
  "Apply (mclient e) (patches e) [] m (world s) = (Panic p, w') \<Longrightarrow> apply_or_fail e m s = (Panic p, s\<lparr>world := w'\<rparr>)"
  by (simp_all add: apply_or_fail_def bind_io_def attempt_def on_world_def then_io_def mark_def split: prod.split)

text \<open>The steps of an installation, one after the other; the last two cannot fail.\<close>

definition installed :: "'w rstate \<Rightarrow> 'w rstate" where
  "installed s =
     (let s1 = snd (mark MarkInstallSucceeded s)
      in s1\<lparr>inst := (inst s1)\<lparr>Status := (Status (inst s1))\<lparr>Version := operator_version\<rparr>\<rparr>\<rparr>)"

lemma install_end:
  "then_io (mark MarkInstallSucceeded)
     (modify_io (\<lambda>s. s\<lparr>inst := (inst s)\<lparr>Status := (Status (inst s))\<lparr>Version := operator_version\<rparr>\<rparr>\<rparr>)) =
   (\<lambda>s. (Ok (), installed s))"
  by (rule ext) (simp add: installed_def then_io_def bind_io_def mark_def Let_def split: prod.split)

lemma install_unfold:
  "install e m =
     then_io (apply_or_fail e (Filter [role] m))
       (then_io (apply_or_fail e (Filter [rolebinding] m))
         (then_io (apply_or_fail e m) (\<lambda>s. (Ok (), installed s))))"
  by (simp only: install_def install_end)

lemma ks_status_Version [simp]: "ks_status (st\<lparr>Version := v\<rparr>) = ks_status st"
  by (simp add: fun_eq_iff ks_status_def ks_GetCondition_def)

lemma installed_status:
  assumes "status_inv s"
  shows "status_inv (installed s)" and "IsInstalled (Status (inst (installed s)))"
    and "Version (Status (inst (installed s))) = operator_version"
proof -
  let ?st = "fst (MarkInstallSucceeded (Status (inst s), now s))"
  have st: "Status (inst (installed s)) = ?st\<lparr>Version := operator_version\<rparr>" by (simp add: installed_def Let_def)
  have f: "lifecycle_inv ?st \<and> ks_status ?st InstallSucceeded = Some ConditionTrue"
    using MarkInstallSucceeded_facts [of "(Status (inst s), now s)"] assms
    by (simp add: status_inv_def spec_mark_def Let_def)
  then show "status_inv (installed s)" "IsInstalled (Status (inst (installed s)))"
      "Version (Status (inst (installed s))) = operator_version"
    by (simp_all add: status_inv_def st test_facts)
qed

lemma installed_world [simp]: "world (installed s) = world s"
  by (simp add: installed_def Let_def)

text \<open>What an installation did to the cluster is one \<open>Apply\<close>: roles, bindings, everything.\<close>

lemma apply_or_fail_world:
  "fst (apply_or_fail e m s) = fst (Apply (mclient e) (patches e) [] m (world s)) \<and>
   world (snd (apply_or_fail e m s)) = snd (Apply (mclient e) (patches e) [] m (world s))"
proof -
  obtain r w' where a: "Apply (mclient e) (patches e) [] m (world s) = (r, w')" by fastforce
  then show ?thesis by (cases r) (simp_all add: apply_or_fail_cases)
qed

lemma Apply_append: "Apply c P opts (xs @ ys) = then_io (Apply c P opts xs) (Apply c P opts ys)"
  by (simp add: Apply_def for_each_append)

lemma then_io_world:
  assumes "\<And>s. fst (m s) = fst (m' (world s)) \<and> world (snd (m s)) = snd (m' (world s))"
    and "\<And>s. fst (n s) = fst (n' (world s)) \<and> world (snd (n s)) = snd (n' (world s))"
  shows "fst (then_io m n s) = fst (then_io m' n' (world s)) \<and>
    world (snd (then_io m n s)) = snd (then_io m' n' (world s))"
  using assms(1) [of s] assms(2)
  by (cases "m s"; cases "m' (world s)"; cases "fst (m s)") (auto simp: then_io_def bind_io_def)

definition install_order :: "manifest \<Rightarrow> manifest" where
  "install_order m = Filter [role] m @ Filter [rolebinding] m @ m"

lemma then_io_return: "then_io m (return_io ()) = (m :: ('s, unit) io)"
  by (rule ext) (auto simp: then_io_def bind_io_def return_io_def split: prod.split result.split)

lemma install_world:
  "fst (install e m s) = fst (Apply (mclient e) (patches e) [] (install_order m) (world s)) \<and>
   world (snd (install e m s)) = snd (Apply (mclient e) (patches e) [] (install_order m) (world s))"
proof -
  have "Apply (mclient e) (patches e) [] (install_order m) =
      then_io (Apply (mclient e) (patches e) [] (Filter [role] m))
        (then_io (Apply (mclient e) (patches e) [] (Filter [rolebinding] m))
          (then_io (Apply (mclient e) (patches e) [] m) (return_io ())))"
    by (simp only: install_order_def Apply_append then_io_return)
  then show ?thesis
    unfolding install_unfold by (simp only:) (intro then_io_world apply_or_fail_world, simp)
qed

text \<open>The status after an installation, whichever step failed.\<close>

lemma install_status:
  assumes inv: "status_inv s" and run: "install e m s = (r, s')"
  shows "r = Ok () \<Longrightarrow> IsInstalled (Status (inst s')) \<and> Version (Status (inst s')) = operator_version"
    and "r = Err err \<Longrightarrow> install_failed err (Status (inst s'))"
    and "status_inv s'"
proof -
  have step: "(r1 = Ok () \<longrightarrow> status_inv s2) \<and> (\<forall>err. r1 = Err err \<longrightarrow> install_failed err (Status (inst s2)) \<and> status_inv s2) \<and>
      (\<forall>p. r1 = Panic p \<longrightarrow> status_inv s2)"
    if "apply_or_fail e n s1 = (r1, s2)" "status_inv s1" for n s1 r1 s2
  proof -
    obtain r0 w where a: "Apply (mclient e) (patches e) [] n (world s1) = (r0, w)" by fastforce
    show ?thesis
    proof (cases r0)
      case (Err err0)
      let ?m = "mark (MarkInstallFailed (error_text err0)) (s1\<lparr>world := w\<rparr>)"
      have "status_inv (s1\<lparr>world := w\<rparr>)" using that(2) by simp
      with mark_install_failed [OF this mark_Ok] keeps_ioD [OF mark_keeps(2) this mark_Ok]
      have "install_failed err0 (Status (inst (snd ?m)))" "status_inv (snd ?m)" by blast+
      with that a Err show ?thesis by (auto simp: apply_or_fail_cases)
    qed (use that a in \<open>auto simp: apply_or_fail_cases\<close>)
  qed
  from run step inv show "r = Ok () \<Longrightarrow> IsInstalled (Status (inst s')) \<and> Version (Status (inst s')) = operator_version"
    and "r = Err err \<Longrightarrow> install_failed err (Status (inst s'))" and "status_inv s'"
    unfolding install_unfold then_io_result by (auto dest!: step simp: installed_status)
qed

end
