(* ===== verification/Availability.thy ===== *)
theory Availability
  imports Reconciler_Status
begin

text \<open>
  The check of the deployments, and what the status says after all stages of the reconciler have
  succeeded.
\<close>

section \<open>The check of the deployments\<close>

text \<open>What is relied on of the client of deployments: reading changes nothing.\<close>

definition reads_only :: "('w, 'p, 'k) env \<Rightarrow> bool" where
  "reads_only e \<longleftrightarrow> (\<forall>ns name w. snd (deployments_Get e ns name w) = w)"

definition is_available :: "('w, 'p, 'k) env \<Rightarrow> 'w \<Rightarrow> obj \<Rightarrow> bool" where
  "is_available e w u \<longleftrightarrow>
     (case fst (deployments_Get e (GetNamespace u) (GetName u) w) of Ok d \<Rightarrow> available d | _ \<Rightarrow> False)"

text \<open>What a mark of one condition does to the state.\<close>

definition marked :: "string \<Rightarrow> string \<Rightarrow> 'w rstate \<Rightarrow> 'w rstate \<Rightarrow> bool" where
  "marked t v s s' \<longleftrightarrow>
     world s' = world s \<and> status_inv s' \<and> Version (Status (inst s')) = Version (Status (inst s)) \<and>
     ks_status (Status (inst s')) t = Some v \<and>
     (\<forall>t'. t' \<noteq> t \<longrightarrow> t' \<noteq> ConditionReady \<longrightarrow> ks_status (Status (inst s')) t' = ks_status (Status (inst s)) t')"

lemma mark_marked:
  assumes "status_inv s" and "t \<noteq> ConditionReady"
    and "\<And>x. lifecycle_inv (fst x) \<Longrightarrow> marks t v (fst x) (fst (f x))"
    and "\<And>x. Version (fst (f x)) = Version (fst x)"
  shows "marked t v s (snd (mark f s))"
  using assms(3) [of "(Status (inst s), now s)", THEN marksD(1)] assms(3) [of "(Status (inst s), now s)", THEN marksD(3)]
    assms(1,2,4)
  by (auto simp: marked_def status_inv_def spec_mark_def Let_def)

lemma mark_deployments:
  assumes "status_inv s"
  shows "marked DeploymentsAvailable ConditionTrue s (snd (mark MarkDeploymentsAvailable s))"
    and "marked DeploymentsAvailable ConditionFalse s (snd (mark MarkDeploymentsNotReady s))"
  by (rule mark_marked [OF assms]; simp add: lifecycle_marks)+

text \<open>The condition says whether every deployment is available; an error leaves it false.\<close>

lemma check_loop_outcome:
  assumes "reads_only e" and "status_inv s" and "check_loop e us s = (r, s')" and "\<not> is_panic r"
  shows "marked DeploymentsAvailable (if \<forall>u \<in> set us. is_available e (world s) u then ConditionTrue else ConditionFalse) s s' \<and>
    (r \<noteq> Ok () \<longrightarrow> (\<exists>u \<in> set us. \<not> is_available e (world s) u))"
  using assms(3)
proof (induction us)
  case Nil
  then show ?case using mark_deployments(1) [OF assms(2)] mark_Ok [of MarkDeploymentsAvailable s] by simp
next
  case (Cons u us)
  obtain g where g: "deployments_Get e (GetNamespace u) (GetName u) (world s) = (g, world s)"
    using assms(1) unfolding reads_only_def by (metis prod.collapse)
  then have a: "is_available e (world s) u \<longleftrightarrow> (case g of Ok d \<Rightarrow> available d | _ \<Rightarrow> False)" by (simp add: is_available_def)
  have w: "on_world (deployments_Get e (GetNamespace u) (GetName u)) s = (g, s)" using g by (simp add: on_world_def)
  note nr = mark_Ok [of MarkDeploymentsNotReady s] mark_deployments(2) [OF assms(2)]
  show ?case
  proof (cases "is_available e (world s) u")
    case True
    then have "check_loop e us s = (r, s')"
      using Cons.prems a w by (auto simp: bind_io_def attempt_def split: result.splits)
    from Cons.IH [OF this] True show ?thesis by auto
  next
    case False
    then have "s' = snd (mark MarkDeploymentsNotReady s)"
      using Cons.prems a w nr(1) assms(4)
      by (cases g) (auto simp: bind_io_def attempt_def then_io_def return_io_def raise_io_def split: if_splits prod.splits)
    with False nr(2) show ?thesis by auto
  qed
qed

section \<open>All stages\<close>

lemma ensureFinalizer_status:
  assumes "ensureFinalizer e m s = (r, s')"
  shows "Status (inst s') = Status (inst s)"
  using assms by (auto simp: ensureFinalizer_def bind_io_def then_io_def modify_io_def on_world_def return_io_def Let_def
      split: if_splits prod.splits result.splits)

lemma delete_obsolete_inst:
  assumes "deleteObsoleteResources e m s = (r, s')"
  shows "inst s' = inst s"
proof -
  have "frame inst (deleteObsoleteResources e m)"
    unfolding deleteObsoleteResources_def by (intro frame_bind frame_get frame_for_each frame_on_world) simp
  from frameD [OF this assms] show ?thesis .
qed

lemma reconcile_stages:
  assumes "reconcile e s = (Ok (), s')"
  obtains m s1 s2 s3 s4 where "rec_transform e (inst s) = Ok m" and "ensureFinalizer e m s = (Ok (), s1)"
    and "initStatus e m s1 = (Ok (), s2)" and "install e m s2 = (Ok (), s3)" and "checkDeployments e m s3 = (Ok (), s4)"
    and "deleteObsoleteResources e m s4 = (Ok (), s')"
  using assms
  by (auto simp: reconcile_def stages_def bind_io_Ok_iff then_io_Ok_iff raise_io_def of_result_def get_io_def return_io_def
      split: result.splits)

text \<open>
  After a success the serving is installed at the version of the operator, available exactly when every
  deployment of the manifest was, and ready when the dependencies are there as well.
\<close>

lemma reconcile_success:
  assumes "echoes_status (servingClient e)" and "reads_only e" and "status_inv s" and "reconcile e s = (Ok (), s')"
  obtains m w where "rec_transform e (inst s) = Ok m"
    and "IsInstalled (Status (inst s'))" and "Version (Status (inst s')) = operator_version"
    and "IsAvailable (Status (inst s')) \<longleftrightarrow> (\<forall>u \<in> set (resources_of (Filter [ByKind ''Deployment''] m)). is_available e w u)"
    and "IsReady (Status (inst s')) \<longleftrightarrow> IsFullySupported (Status (inst s')) \<and> IsAvailable (Status (inst s'))"
proof -
  obtain m s1 s2 s3 s4 where st: "rec_transform e (inst s) = Ok m" "ensureFinalizer e m s = (Ok (), s1)"
      "initStatus e m s1 = (Ok (), s2)" "install e m s2 = (Ok (), s3)" "checkDeployments e m s3 = (Ok (), s4)"
      "deleteObsoleteResources e m s4 = (Ok (), s')"
    by (rule reconcile_stages [OF assms(4)])
  have "status_inv s1" using assms(3) ensureFinalizer_status [OF st(2)] by (simp add: status_inv_def)
  then have s2: "status_inv s2" using keeps_ioD [OF stage_keeps [OF assms(1), of "initStatus e"] _ st(3)] by (simp add: stages_def)
  note s3 = install_status [OF s2 st(4)]
  from s3(1) have i3: "IsInstalled (Status (inst s3))" "Version (Status (inst s3)) = operator_version" by simp_all
  have c: "marked DeploymentsAvailable (if \<forall>u \<in> set (resources_of (Filter [ByKind ''Deployment''] m)). is_available e (world s3) u
      then ConditionTrue else ConditionFalse) s3 s4"
    using check_loop_outcome [OF assms(2) s3(3) st(5) [unfolded checkDeployments_def]] by simp
  have e: "inst s' = inst s4" by (rule delete_obsolete_inst [OF st(6)])
  have inst4: "IsInstalled (Status (inst s4))" using i3(1) c by (simp add: marked_def test_facts)
  have inv4: "lifecycle_inv (Status (inst s4))" using c by (simp add: marked_def status_inv_def)
  show ?thesis
  proof (rule that [of m "world s3"])
    show "IsReady (Status (inst s')) \<longleftrightarrow> IsFullySupported (Status (inst s')) \<and> IsAvailable (Status (inst s'))"
      using ready_iff [OF inv4] inst4 by (simp add: e)
  qed (use st(1) c i3 inst4 in \<open>auto simp: e marked_def test_facts split: if_splits\<close>)
qed

text \<open>A manifest that cannot be transformed: nothing is applied, and the status says why.\<close>

lemma transform_failure:
  assumes "rec_transform e (inst s) = Err err" and "status_inv s"
  obtains s' where "reconcile e s = (Err err, s')" and "install_failed err (Status (inst s'))" and "world s' = world s"
    and "\<not> IsReady (Status (inst s'))"
proof -
  obtain t where t: "mark (MarkInstallFailed (error_text err)) s = (Ok (), t)" using mark_Ok by blast
  then have "world t = world s" by (simp add: mark_eq)
  moreover have f: "install_failed err (Status (inst t))" by (rule mark_install_failed [OF assms(2) t])
  moreover have "\<not> IsReady (Status (inst t))"
    using keeps_ioD [OF mark_keeps(2) assms(2) t] f install_failed_not_ready(1) by (simp add: status_inv_def)
  moreover have "reconcile e s = (Err err, t)"
    using assms(1) t by (simp add: reconcile_def bind_io_def then_io_def raise_io_def)
  ultimately show ?thesis using that by blast
qed

end
