(* ===== verification/Uninstall.thy ===== *)
theory Uninstall
  imports Reconciler_Status
begin

text \<open>
  The manifest of the operator on the object tracker: what deleting it leaves, and that an installation
  has the roles there before anything else is applied.
\<close>

section \<open>Deleting the manifest\<close>

abbreviation key_in :: "rest_mapper \<Rightarrow> obj \<Rightarrow> GroupVersionResource option object_key" where
  "key_in mapper \<equiv> object_key (resource_for mapper)"

text \<open>A step that deletes objects of \<open>M\<close>, and on success all of \<open>D\<close>.\<close>

definition deletes :: "rest_mapper \<Rightarrow> obj set \<Rightarrow> obj set \<Rightarrow> (tracker, unit) io \<Rightarrow> bool" where
  "deletes mapper M D f \<longleftrightarrow>
     (\<forall>t r t'. store_inv mapper t \<longrightarrow> f t = (r, t') \<longrightarrow>
        store_inv mapper t' \<and> (\<forall>k. k \<notin> key_in mapper ` M \<longrightarrow> store_lookup t' k = store_lookup t k) \<and>
        (\<forall>k. store_lookup t k = None \<longrightarrow> store_lookup t' k = None) \<and>
        (r = Ok () \<longrightarrow> (\<forall>u \<in> D. store_lookup t' (key_in mapper u) = None)))"

lemma deletes_Delete:
  assumes "\<And>u. u \<in> set m \<Longrightarrow> store_valid mapper (key_in mapper u)"
  shows "deletes mapper (set m) {u \<in> set m. okToDelete u} (Delete (clientGoClient react mapper) [] m)"
  unfolding deletes_def using tracked.Delete_effect [OF _ assms] by blast

lemma deletes_then:
  assumes "deletes mapper M D f" and "deletes mapper M' D' g"
  shows "deletes mapper (M \<union> M') (D \<union> D') (then_io f g)"
  unfolding deletes_def
proof (intro allI impI)
  fix t r t' assume inv: "store_inv mapper t" and run: "then_io f g t = (r, t')"
  obtain r1 t1 where f: "f t = (r1, t1)" by force
  note 1 = assms(1) [unfolded deletes_def, rule_format, OF inv f]
  show "store_inv mapper t' \<and> (\<forall>k. k \<notin> key_in mapper ` (M \<union> M') \<longrightarrow> store_lookup t' k = store_lookup t k) \<and>
      (\<forall>k. store_lookup t k = None \<longrightarrow> store_lookup t' k = None) \<and>
      (r = Ok () \<longrightarrow> (\<forall>u \<in> D \<union> D'. store_lookup t' (key_in mapper u) = None))"
  proof (cases r1)
    case (Ok x)
    then have "g t1 = (r, t')" using run f by (simp add: then_io_def bind_io_def)
    from assms(2) [unfolded deletes_def, rule_format, OF _ this] 1 Ok
    show ?thesis by (auto simp: image_Un simp del: split_paired_All)
  qed (use 1 run f in \<open>auto simp: then_io_def bind_io_def image_Un simp del: split_paired_All\<close>)
qed

lemma deletes_mono:
  assumes "deletes mapper M D f" and "M \<subseteq> M'" and "D' \<subseteq> D"
  shows "deletes mapper M' D' f"
  unfolding deletes_def
proof (intro allI impI)
  fix t r t' assume "store_inv mapper t" and "f t = (r, t')"
  note 1 = assms(1) [unfolded deletes_def, rule_format, OF this]
  with assms(2,3) show "store_inv mapper t' \<and> (\<forall>k. k \<notin> key_in mapper ` M' \<longrightarrow> store_lookup t' k = store_lookup t k) \<and>
      (\<forall>k. store_lookup t k = None \<longrightarrow> store_lookup t' k = None) \<and>
      (r = Ok () \<longrightarrow> (\<forall>u \<in> D'. store_lookup t' (key_in mapper u) = None))"
    by (intro conjI) blast+
qed

text \<open>The definitions of custom resources stay, everything else of the manifest goes.\<close>

lemma delete_manifest_deletes:
  assumes client: "mclient e = clientGoClient react mapper"
    and valid: "\<And>u. u \<in> set (config e) \<Longrightarrow> store_valid mapper (key_in mapper u)"
  defines "own \<equiv> {u \<in> set (config e). GetKind u \<noteq> ''CustomResourceDefinition''}"
  shows "deletes mapper own {u \<in> own. okToDelete u} (delete_manifest e)"
proof -
  let ?D = "\<lambda>ps. Delete (clientGoClient react mapper) [] (Filter ps (config e))"
  let ?A = "Filter [ByKind ''Deployment''] (config e)" and ?B = "Filter [NoCRDs, None_of [RBAC]] (config e)"
    and ?C = "Filter [RBAC] (config e)"
  have d: "deletes mapper (set (Filter ps (config e))) {u \<in> set (Filter ps (config e)). okToDelete u} (?D ps)" for ps
    by (rule deletes_Delete) (auto simp: Filter_eq valid)
  have "deletes mapper (set ?A \<union> (set ?B \<union> set ?C))
      ({u \<in> set ?A. okToDelete u} \<union> ({u \<in> set ?B. okToDelete u} \<union> {u \<in> set ?C. okToDelete u})) (delete_manifest e)"
    unfolding delete_manifest_def client by (intro deletes_then d)
  then show ?thesis
    by (rule deletes_mono) (auto simp: own_def Filter_eq NoCRDs_iff RBAC_def ByKind_def)
qed

end
