(* ===== verification/Retries.thy ===== *)
theory Retries
  imports Effects
begin

text \<open>
  Retrying after a conflict: \<open>ExponentialBackoff\<close> of \<open>apimachinery/pkg/util/wait/wait.go\<close>, \<open>OnError\<close>
  and \<open>RetryOnConflict\<close> of \<open>client-go/util/retry/util.go\<close>, \<open>RetryUpdateConflicts\<close> of
  \<open>knative.dev/pkg/reconciler/retry.go\<close>. Sleeping changes nothing in the state and its jitter is left
  out; the growth of the delay (a product in \<open>float64\<close>) is a field of the backoff.
\<close>

section \<open>Backoff\<close>

record Backoff =
  Steps :: "64 word"
  Duration :: "64 word"
  Factor :: "(64 word \<Rightarrow> 64 word) option"
  Cap :: "64 word"

definition Step :: "Backoff \<Rightarrow> Backoff" where
  "Step b =
     (if sint (Steps b) < 1 then b
      else let b1 = b\<lparr>Steps := Steps b - 1\<rparr> in
           case Factor b of
             None \<Rightarrow> b1
           | Some grow \<Rightarrow>
               let d = grow (Duration b) in
               if sint (Cap b) > 0 \<and> sint d > sint (Cap b) then b1\<lparr>Duration := Cap b, Steps := 0\<rparr>
               else b1\<lparr>Duration := d\<rparr>)"

lemma sint_pred:
  fixes n :: "64 word"
  assumes "sint n > 1"
  shows "sint (n - 1) = sint n - 1"
proof -
  have "sint (n - 1) = signed_take_bit 63 (sint n - 1)" by (simp add: sint_word_ariths)
  also have "\<dots> = sint n - 1"
    using assms sint_lt [of n] by (intro signed_take_bit_int_eq_self) auto
  finally show ?thesis .
qed

lemma sint_one_iff: "sint n = 1 \<longleftrightarrow> n = (1 :: 64 word)"
  using signed_word_eqI [of n 1] by auto

lemma Steps_Step:
  assumes "sint (Steps b) > 1"
  shows "nat (sint (Steps (Step b))) < nat (sint (Steps b))"
  using assms sint_pred [OF assms] by (auto simp: Step_def Let_def split: option.splits)

datatype wait_outcome = Finished | ErrWaitTimeout

function ExponentialBackoff :: "Backoff \<Rightarrow> ('s, bool) io \<Rightarrow> ('s, wait_outcome) io" where
  "ExponentialBackoff b condition s =
     (if sint (Steps b) > 0 then
        bind_io condition
          (\<lambda>ok s'. if ok then (Ok Finished, s')
                   else if Steps b = 1 then (Ok ErrWaitTimeout, s')
                   else ExponentialBackoff (Step b) condition s') s
      else (Ok ErrWaitTimeout, s))"
  by pat_completeness auto
termination
proof (relation "measure (\<lambda>(b, c, s). nat (sint (Steps b)))")
  fix b :: Backoff
  assume "0 < sint (Steps b)" and "Steps b \<noteq> 1"
  then have "sint (Steps b) > 1" by (simp add: order.strict_iff_order sint_one_iff)
  then show "((Step b, c, s'), b, c', s) \<in> measure (\<lambda>(b, c, s). nat (sint (Steps b)))" for c c' s s'
    using Steps_Step [of b] by simp
qed simp

declare ExponentialBackoff.simps [simp del]

section \<open>Retries\<close>

definition DefaultRetry :: Backoff where
  "DefaultRetry = \<lparr>Steps = 5, Duration = 10000000, Factor = Some (\<lambda>d. d), Cap = 0\<rparr>"

text \<open>The condition \<open>OnError\<close> waits for, and the last error it saw.\<close>

definition retried :: "(error \<Rightarrow> bool) \<Rightarrow> ('s, unit) io \<Rightarrow> ('s \<times> error option, bool) io" where
  "retried errorFunc fn x =
     (case x of (s, lastConflictErr) \<Rightarrow>
        case fn s of
          (Ok _, s') \<Rightarrow> (Ok True, s', lastConflictErr)
        | (Err e, s') \<Rightarrow> if errorFunc e then (Ok False, s', Some e) else (Err e, s', lastConflictErr)
        | (Panic p, s') \<Rightarrow> (Panic p, s', lastConflictErr))"

definition OnError :: "Backoff \<Rightarrow> (error \<Rightarrow> bool) \<Rightarrow> ('s, unit) io \<Rightarrow> ('s, unit) io" where
  "OnError b errorFunc fn s =
     (case ExponentialBackoff b (retried errorFunc fn) (s, None) of
        (Ok Finished, s', _) \<Rightarrow> (Ok (), s')
      | (Ok ErrWaitTimeout, s', None) \<Rightarrow> (Ok (), s')
      | (Ok ErrWaitTimeout, s', Some e) \<Rightarrow> (Err e, s')
      | (Err e, s', _) \<Rightarrow> (Err e, s')
      | (Panic p, s', _) \<Rightarrow> (Panic p, s'))"

definition RetryOnConflict :: "Backoff \<Rightarrow> ('s, unit) io \<Rightarrow> ('s, unit) io" where
  "RetryOnConflict b fn = OnError b IsConflict fn"

text \<open>The updater is told how many attempts were made before.\<close>

definition numbered :: "(nat \<Rightarrow> ('s, unit) io) \<Rightarrow> ('s \<times> nat, unit) io" where
  "numbered updater x =
     (case x of (s, attempts) \<Rightarrow> case updater attempts s of (r, s') \<Rightarrow> (r, s', Suc attempts))"

definition RetryUpdateConflicts :: "(nat \<Rightarrow> ('s, unit) io) \<Rightarrow> ('s, unit) io" where
  "RetryUpdateConflicts updater s =
     (case RetryOnConflict DefaultRetry (numbered updater) (s, 0) of (r, s', _) \<Rightarrow> (r, s'))"

section \<open>At most five attempts\<close>

text \<open>The reference: up to \<open>n\<close> more attempts while the updates conflict, the first one numbered \<open>k\<close>.\<close>

fun tries :: "(nat \<Rightarrow> ('s, unit) io) \<Rightarrow> nat \<Rightarrow> nat \<Rightarrow> ('s, unit) io" where
  "tries updater k 0 s = updater k s"
| "tries updater k (Suc n) s =
     (case updater k s of
        (Err e, s') \<Rightarrow> if IsConflict e then tries updater (Suc k) n s' else (Err e, s')
      | (Ok x, s') \<Rightarrow> (Ok (), s')
      | (Panic p, s') \<Rightarrow> (Panic p, s'))"

definition unlimited :: "Backoff \<Rightarrow> bool" where
  "unlimited b \<longleftrightarrow> Cap b = 0 \<and> Factor b = Some (\<lambda>d. d)"

lemma Step_unlimited: "unlimited b \<Longrightarrow> sint (Steps b) > 1 \<Longrightarrow> Step b = b\<lparr>Steps := Steps b - 1\<rparr>"
  by (simp add: Step_def unlimited_def)

text \<open>What \<open>OnError\<close> makes of the outcome of the backoff.\<close>

definition settle :: "wait_outcome result \<times> 's \<times> error option \<Rightarrow> unit result \<times> 's" where
  "settle x =
     (case x of
        (Ok Finished, s', _) \<Rightarrow> (Ok (), s')
      | (Ok ErrWaitTimeout, s', None) \<Rightarrow> (Ok (), s')
      | (Ok ErrWaitTimeout, s', Some e) \<Rightarrow> (Err e, s')
      | (Err e, s', _) \<Rightarrow> (Err e, s')
      | (Panic p, s', _) \<Rightarrow> (Panic p, s'))"

lemma OnError_settle: "OnError b errorFunc fn s = settle (ExponentialBackoff b (retried errorFunc fn) (s, None))"
  by (simp add: OnError_def settle_def)

lemma backoff_tries:
  assumes "sint (Steps b) = int (Suc n)" and "unlimited b"
  shows "map_prod id fst (settle (ExponentialBackoff b (retried IsConflict (numbered updater)) ((s, k), seen))) =
    tries updater k n s"
  using assms
proof (induction n arbitrary: b s k seen)
  case 0
  then have "Steps b = 1" by (simp add: sint_one_iff)
  then show ?case
    by (subst ExponentialBackoff.simps)
      (auto simp: retried_def numbered_def bind_io_def settle_def split: prod.split result.split)
next
  case (Suc n)
  then have gt: "sint (Steps b) > 1" by simp
  then have ne: "Steps b \<noteq> 1" by (auto simp flip: sint_one_iff)
  have "sint (Steps (Step b)) = int (Suc n)" "unlimited (Step b)"
    using Suc.prems gt by (simp_all add: Step_unlimited sint_pred) (simp add: unlimited_def)
  note IH = Suc.IH [OF this]
  show ?case
    using gt ne
    by (subst ExponentialBackoff.simps)
      (auto simp: retried_def numbered_def bind_io_def settle_def [of "(Ok Finished, _)"] settle_def [of "(Err _, _)"]
        settle_def [of "(Panic _, _)"] IH split: prod.split result.split)
qed

lemma RetryUpdateConflicts_tries: "RetryUpdateConflicts updater s = tries updater 0 4 s"
proof -
  have "sint (Steps DefaultRetry) = int (Suc 4)" "unlimited DefaultRetry"
    by (simp_all add: DefaultRetry_def unlimited_def)
  from backoff_tries [OF this, of updater s 0 None] show ?thesis
    unfolding RetryUpdateConflicts_def RetryOnConflict_def OnError_settle
    by (cases "settle (ExponentialBackoff DefaultRetry (retried IsConflict (numbered updater)) ((s, 0), None))")
      (auto split: prod.split)
qed

text \<open>The state after \<open>n\<close> attempts that all ended in a conflict.\<close>

fun conflicted :: "(nat \<Rightarrow> ('s, unit) io) \<Rightarrow> nat \<Rightarrow> nat \<Rightarrow> 's \<Rightarrow> 's option" where
  "conflicted updater k 0 s = Some s"
| "conflicted updater k (Suc n) s =
     (case updater k s of
        (Err e, s') \<Rightarrow> if IsConflict e then conflicted updater (Suc k) n s' else None
      | _ \<Rightarrow> None)"

definition conflict :: "unit result \<Rightarrow> bool" where
  "conflict r \<longleftrightarrow> (\<exists>e. r = Err e \<and> IsConflict e)"

lemma ex_nat_le_Suc: "(\<exists>m\<le>Suc n. P m) \<longleftrightarrow> P 0 \<or> (\<exists>m\<le>n. P (Suc m))"
  by (metis Suc_le_mono le0 not0_implies_Suc)

lemma tries_result:
  "tries updater k n s = (r, s') \<longleftrightarrow>
     (\<exists>m\<le>n. \<exists>s1. conflicted updater k m s = Some s1 \<and> updater (k + m) s1 = (r, s') \<and> (conflict r \<longrightarrow> m = n))"
  (is "?L k n s \<longleftrightarrow> ?R k n s")
proof (induction n arbitrary: k s)
  case (Suc n)
  obtain r1 s1 where u: "updater k s = (r1, s1)" by force
  have split: "?R k (Suc n) s \<longleftrightarrow> (updater k s = (r, s') \<and> \<not> conflict r) \<or>
      (\<exists>m\<le>n. \<exists>s1. conflicted updater k (Suc m) s = Some s1 \<and> updater (Suc k + m) s1 = (r, s') \<and> (conflict r \<longrightarrow> m = n))"
    by (subst ex_nat_le_Suc) auto
  show ?case
  proof (cases "conflict r1")
    case True
    then obtain err where e: "r1 = Err err" "IsConflict err" by (auto simp: conflict_def)
    with u have L: "?L k (Suc n) s \<longleftrightarrow> ?L (Suc k) n s1" by simp
    have N: "(updater k s = (r, s') \<and> \<not> conflict r) = False" using True u by auto
    have C: "conflicted updater k (Suc m) s = conflicted updater (Suc k) m s1" for m using u e by simp
    show ?thesis by (simp only: L split N C Suc.IH simp_thms)
  next
    case False
    with u show ?thesis unfolding split by (cases r1) (auto simp: conflict_def)
  qed
qed auto

end
