(* ===== verification/Generated_Reconciler.thy ===== *)
theory Generated_Reconciler
  imports Reconciler Retries
begin

text \<open>
  The generated reconciler
  (\<open>pkg/client/injection/reconciler/serving/v1alpha1/knativeserving/reconciler.go\<close>), which calls the
  operator's: it reads a serving from the cache, sets or clears a finalizer of its own, hands a copy to
  \<open>ReconcileKind\<close> or \<open>FinalizeKind\<close>, and writes the status back when it changed. The variable \<open>resource\<close>
  is the serving \<open>inst\<close> of the state, the object behind the pointer the callee works on too. The config
  store only decorates the context and is left out with it.
\<close>

section \<open>The reconciler it is given\<close>

text \<open>\<open>Interface\<close>, and \<open>Finalizer\<close> if the type implements it.\<close>

record 'w kind_reconciler =
  kr_ReconcileKind :: "('w rstate, unit) io"
  kr_FinalizeKind :: "('w rstate, unit) io option"

record 'w reconcilerImpl =
  Client :: "'w serving_api"
  reconciler :: "'w kind_reconciler"

definition operator_impl :: "('w, 'p, 'k) env \<Rightarrow> 'w reconcilerImpl" where
  "operator_impl e =
     \<lparr>Client = servingClient e,
      reconciler = \<lparr>kr_ReconcileKind = ReconcileKind e, kr_FinalizeKind = Some (FinalizeKind e)\<rparr>\<rparr>"

definition defaultFinalizerName :: string where
  "defaultFinalizerName = ''knativeservings.operator.knative.dev''"

definition EventTypeNormal :: string where "EventTypeNormal = ''Normal''"
definition EventTypeWarning :: string where "EventTypeWarning = ''Warning''"

definition Eventf :: "string \<Rightarrow> string \<Rightarrow> string \<Rightarrow> ('w rstate, unit) io" where
  "Eventf eventType reason text =
     modify_io (\<lambda>s. s\<lparr>recorded := recorded s @ [\<lparr>ev_type = eventType, ev_reason = reason, ev_text = text\<rparr>]\<rparr>)"

text \<open>\<open>resource.GetDeletionTimestamp().IsZero()\<close>, negated.\<close>

definition being_deleted :: "KnativeServing \<Rightarrow> bool" where
  "being_deleted ks = (case DeletionTimestamp ks of None \<Rightarrow> False | Some t \<Rightarrow> t \<noteq> zero_time)"

section \<open>Finalizers\<close>

text \<open>The finalizers to write, if any: only the default one is synchronised.\<close>

definition synced_finalizers :: "KnativeServing \<Rightarrow> KnativeServing \<Rightarrow> string list option" where
  "synced_finalizers existing resource =
     (let existingFinalizers = NewString (Finalizers existing);
          desiredFinalizers = NewString (Finalizers resource)
      in if Has defaultFinalizerName desiredFinalizers then
           if Has defaultFinalizerName existingFinalizers then None
           else Some (Finalizers existing @ [defaultFinalizerName])
         else if \<not> Has defaultFinalizerName existingFinalizers then None
         else Some (List_of (set_Delete defaultFinalizerName existingFinalizers)))"

definition finalizer_patch :: "string list \<Rightarrow> string \<Rightarrow> obj" where
  "finalizer_patch finalizers resourceVersion =
     [(''metadata'', JObj [(''finalizers'', JArr (map JStr finalizers)), (''resourceVersion'', JStr resourceVersion)])]"

text \<open>
  The variable \<open>resource\<close> becomes what \<open>Patch\<close> returned, also when there is an error; the event names
  it, so a nil pointer ends the process.
\<close>

definition patched :: "reply \<Rightarrow> ('w rstate, unit) io" where
  "patched answer =
     (case answer of
        (None, err) \<Rightarrow> nil_dereference
      | (Some ks, err) \<Rightarrow>
          then_io (modify_io (\<lambda>s. s\<lparr>inst := ks\<rparr>))
            (case err of
               Some e \<Rightarrow>
                 then_io (Eventf EventTypeWarning ''FinalizerUpdateFailed''
                            (''Failed to update finalizers for '' @ quoted (ksName ks) @ '': '' @ error_text e))
                   (raise_io e)
             | None \<Rightarrow> Eventf EventTypeNormal ''FinalizerUpdate'' (''Updated '' @ quoted (ksName ks) @ '' finalizers'')))"

definition updateFinalizersFiltered :: "'w reconcilerImpl \<Rightarrow> ('w rstate, unit) io" where
  "updateFinalizersFiltered r =
     bind_io get_io
       (\<lambda>s. let resource = inst s in
          bind_io (lister_Get (ksNamespace resource) (ksName resource))
            (\<lambda>existing. case synced_finalizers existing resource of
                None \<Rightarrow> return_io ()
              | Some finalizers \<Rightarrow>
                  bind_io (on_world (api_Patch (Client r) (ksNamespace resource) (ksName resource)
                                      (finalizer_patch finalizers (ResourceVersion existing))))
                    patched))"

definition set_finalizers :: "(string set \<Rightarrow> string set) \<Rightarrow> ('w rstate, unit) io" where
  "set_finalizers f =
     modify_io (\<lambda>s. s\<lparr>inst := (inst s)\<lparr>Finalizers := List_of (f (NewString (Finalizers (inst s))))\<rparr>\<rparr>)"

definition setFinalizerIfFinalizer :: "'w reconcilerImpl \<Rightarrow> ('w rstate, unit) io" where
  "setFinalizerIfFinalizer r =
     (case kr_FinalizeKind (reconciler r) of
        None \<Rightarrow> return_io ()
      | Some _ \<Rightarrow>
          bind_io get_io
            (\<lambda>s. then_io
               (set_finalizers (if \<not> being_deleted (inst s) then Insert defaultFinalizerName else (\<lambda>finalizers. finalizers)))
               (updateFinalizersFiltered r)))"

text \<open>The finalizer goes when \<open>FinalizeKind\<close> returned nil or an event of type Normal.\<close>

definition finalized_cleanly :: "error option \<Rightarrow> bool" where
  "finalized_cleanly reconcileEvent =
     (case reconcileEvent of
        None \<Rightarrow> True
      | Some (ReconcilerEvent eventType reason text) \<Rightarrow> eventType = EventTypeNormal
      | Some _ \<Rightarrow> False)"

definition clearFinalizer :: "'w reconcilerImpl \<Rightarrow> error option \<Rightarrow> ('w rstate, unit) io" where
  "clearFinalizer r reconcileEvent =
     (case kr_FinalizeKind (reconciler r) of
        None \<Rightarrow> return_io ()
      | Some _ \<Rightarrow>
          bind_io get_io
            (\<lambda>s. if \<not> being_deleted (inst s) then return_io ()
                 else then_io
                   (set_finalizers
                     (if finalized_cleanly reconcileEvent then set_Delete defaultFinalizerName else (\<lambda>finalizers. finalizers)))
                   (updateFinalizersFiltered r)))"

section \<open>Status\<close>

text \<open>
  \<open>equality.Semantic.DeepEqual\<close>: times of transition are volatile (\<open>apis/volatile_time.go\<close>), so any
  two of them are equal.
\<close>

definition same_status :: "KnativeServingStatus \<Rightarrow> KnativeServingStatus \<Rightarrow> bool" where
  "same_status st st' \<longleftrightarrow>
     map strip (Conditions st) = map strip (Conditions st') \<and> ObservedGeneration st = ObservedGeneration st' \<and>
     Version st = Version st'"

text \<open>One attempt to write the status of \<open>desired\<close>; every attempt after the first reads the serving again.\<close>

definition status_attempt ::
    "'w serving_api \<Rightarrow> KnativeServing \<Rightarrow> KnativeServing \<Rightarrow> nat \<Rightarrow> ('w, unit) io" where
  "status_attempt api original desired attempts =
     bind_io
       (if attempts > 0 then checked (api_Get api (ksNamespace desired) (ksName desired)) else return_io (Some original))
       (\<lambda>p. case p of
              None \<Rightarrow> nil_dereference
            | Some existing \<Rightarrow>
                if Status existing = Status desired then return_io ()
                else bind_io (checked (api_UpdateStatus api (ksNamespace existing) (existing\<lparr>Status := Status desired\<rparr>)))
                       (\<lambda>_. return_io ()))"

definition updateStatus :: "'w reconcilerImpl \<Rightarrow> KnativeServing \<Rightarrow> KnativeServing \<Rightarrow> ('w, unit) io" where
  "updateStatus r existing desired = RetryUpdateConflicts (status_attempt (Client r) existing desired)"

section \<open>Reconcile\<close>

text \<open>A callee's error is an event: a value, to be reported after the status is written.\<close>

definition as_event :: "('s, unit) io \<Rightarrow> ('s, error option) io" where
  "as_event m = bind_io (attempt m) (\<lambda>r. return_io (case r of Err e \<Rightarrow> Some e | _ \<Rightarrow> None))"

definition ignored :: "('s, unit) io \<Rightarrow> ('s, unit) io" where
  "ignored m = bind_io (attempt m) (\<lambda>_. return_io ())"

definition run_kind :: "'w reconcilerImpl \<Rightarrow> ('w rstate, error option) io" where
  "run_kind r =
     bind_io get_io
       (\<lambda>s. if \<not> being_deleted (inst s) then
              then_io (ignored (setFinalizerIfFinalizer r)) (as_event (kr_ReconcileKind (reconciler r)))
            else case kr_FinalizeKind (reconciler r) of
                   None \<Rightarrow> return_io None
                 | Some fin \<Rightarrow>
                     bind_io (as_event fin)
                       (\<lambda>reconcileEvent. then_io (ignored (clearFinalizer r reconcileEvent)) (return_io reconcileEvent)))"

text \<open>What is behind the pointer \<open>original\<close>, which is the object of the cache.\<close>

definition behind_original :: "string \<Rightarrow> string \<Rightarrow> KnativeServing \<Rightarrow> 'w rstate \<Rightarrow> KnativeServing" where
  "behind_original namespace name original s =
     (case map_of (indexer s) (namespace @ ''/'' @ name) of Some ks \<Rightarrow> ks | None \<Rightarrow> original)"

definition sync_status :: "'w reconcilerImpl \<Rightarrow> KnativeServing \<Rightarrow> ('w rstate, unit) io" where
  "sync_status r original =
     bind_io get_io
       (\<lambda>s. if same_status (Status original) (Status (inst s)) then return_io ()
            else bind_io (attempt (on_world (updateStatus r original (inst s))))
                   (\<lambda>res. case res of
                       Err e \<Rightarrow>
                         then_io (Eventf EventTypeWarning ''UpdateFailed''
                                    (''Failed to update status for '' @ quoted (ksName (inst s)) @ '': '' @ error_text e))
                           (raise_io e)
                     | _ \<Rightarrow> return_io ()))"

definition report_event :: "error option \<Rightarrow> ('w rstate, unit) io" where
  "report_event reconcileEvent =
     (case reconcileEvent of
        None \<Rightarrow> return_io ()
      | Some (ReconcilerEvent eventType reason text) \<Rightarrow> Eventf eventType reason text
      | Some e \<Rightarrow> then_io (Eventf EventTypeWarning ''InternalError'' (error_text e)) (raise_io e))"

definition Reconcile :: "'w reconcilerImpl \<Rightarrow> string \<Rightarrow> ('w rstate, unit) io" where
  "Reconcile r key =
     (case SplitMetaNamespaceKey key of
        Ok (namespace, name) \<Rightarrow>
          bind_io (attempt (lister_Get namespace name))
            (\<lambda>res. case res of
                Err err \<Rightarrow> if IsNotFound err then return_io () else raise_io err
              | Panic p \<Rightarrow> of_result (Panic p)
              | Ok original \<Rightarrow>
                  then_io (modify_io (\<lambda>s. s\<lparr>inst := original\<rparr>))
                    (bind_io (run_kind r)
                      (\<lambda>reconcileEvent. bind_io get_io
                        (\<lambda>s. then_io (sync_status r (behind_original namespace name original s))
                               (report_event reconcileEvent)))))
      | _ \<Rightarrow> return_io ())"

end
