(* ===== verification/Serving_Store.thy ===== *)
theory Serving_Store
  imports Generated_Reconciler
begin

text \<open>
  The contract of a store of servings, as the reconcilers use it through the typed client, and what the
  retries of the status get out of it. A write that carries the resource version the store has is
  accepted; one that carries another may be refused as a conflict.
\<close>

section \<open>The contract\<close>

definition named :: "string \<Rightarrow> string \<Rightarrow> KnativeServing \<Rightarrow> bool" where
  "named ns name ks \<longleftrightarrow> ksNamespace ks = ns \<and> ksName ks = name"

text \<open>A write of one serving: only its entry changes, and only by \<open>f\<close>, up to its resource version.\<close>

definition stored_as :: "('w \<Rightarrow> string \<Rightarrow> string \<Rightarrow> KnativeServing option) \<Rightarrow> 'w \<Rightarrow> 'w \<Rightarrow> KnativeServing \<Rightarrow> bool" where
  "stored_as stored w w' ks \<longleftrightarrow>
     (\<forall>ns name. stored w' ns name = (if named ns name ks then Some ks else stored w ns name))"

locale serving_store =
  fixes api :: "'w serving_api"
    and stored :: "'w \<Rightarrow> string \<Rightarrow> string \<Rightarrow> KnativeServing option"
    and good :: "'w \<Rightarrow> bool"
  assumes stored_named: "good w \<Longrightarrow> stored w ns name = Some ks \<Longrightarrow> named ns name ks"
    and get: "good w \<Longrightarrow> stored w ns name = Some ks \<Longrightarrow> 
      \<exists>w'. api_Get api ns name w = (Ok (Some ks, None), w') \<and> good w' \<and> stored w' = stored w"
    and update_status: "good w \<Longrightarrow> stored w ns name = Some cur \<Longrightarrow> named ns name ks \<Longrightarrow>
      (\<exists>ks' w'. api_UpdateStatus api ns ks w = (Ok (Some ks', None), w') \<and> good w' \<and> stored_as stored w w' ks' \<and>
          named ns name ks' \<and> Status ks' = Status ks) \<or>
      (ResourceVersion ks \<noteq> ResourceVersion cur \<and>
        (\<exists>p e w'. api_UpdateStatus api ns ks w = (Ok (p, Some e), w') \<and> IsConflict e \<and> good w' \<and> stored w' = stored w))"
    and update: "good w \<Longrightarrow> stored w ns name = Some cur \<Longrightarrow> named ns name ks \<Longrightarrow>
      ResourceVersion ks = ResourceVersion cur \<Longrightarrow>
      \<exists>ks' w'. api_Update api ns ks w = (Ok (Some ks', None), w') \<and> good w' \<and> stored_as stored w w' ks' \<and>
          named ns name ks' \<and> Finalizers ks' = Finalizers ks"
    and patch: "good w \<Longrightarrow> stored w ns name = Some cur \<Longrightarrow>
      \<exists>ks' w'. api_Patch api ns name (finalizer_patch fs (ResourceVersion cur)) w = (Ok (Some ks', None), w') \<and>
          good w' \<and> stored_as stored w w' ks' \<and> named ns name ks' \<and> Finalizers ks' = fs \<and>
          Status ks' = Status cur \<and> DeletionTimestamp ks' = DeletionTimestamp cur \<and> Generation ks' = Generation cur"
begin

lemma stored_as_self: "stored_as stored w w' ks \<Longrightarrow> named ns name ks \<Longrightarrow> stored w' ns name = Some ks"
  by (simp add: stored_as_def)

text \<open>An attempt that reads the store first succeeds.\<close>

lemma later_attempt:
  assumes "good w" and "stored w ns name = Some cur" and "named ns name desired" and "k > 0"
  obtains w' ks' where "status_attempt api original desired k w = (Ok (), w')" and "good w'"
    and "stored w' ns name = Some ks'" and "Status ks' = Status desired"
proof -
  have cur: "named ns name cur" using assms stored_named by blast
  obtain w1 where w1: "api_Get api ns name w = (Ok (Some cur, None), w1)" "good w1" "stored w1 = stored w"
    using get [OF assms(1,2)] by blast
  show ?thesis
  proof (cases "Status cur = Status desired")
    case True
    then have "status_attempt api original desired k w = (Ok (), w1)"
      using assms w1 by (simp add: status_attempt_def checked_def bind_io_def named_def)
    with True assms w1 that show ?thesis by auto
  next
    case False
    let ?x = "cur\<lparr>Status := Status desired\<rparr>"
    have "stored w1 ns name = Some cur" "named ns name ?x" using cur w1 assms by (simp_all add: named_def)
    from update_status [OF w1(2) this] obtain ks' w'
      where u: "api_UpdateStatus api ns ?x w1 = (Ok (Some ks', None), w')" and g: "good w'"
        "stored_as stored w1 w' ks'" "named ns name ks'" "Status ks' = Status ?x"
      by auto
    have "status_attempt api original desired k w = (Ok (), w')"
      using assms False w1 cur u by (simp add: status_attempt_def checked_def bind_io_def named_def)
    with g that show ?thesis by (auto simp: stored_as_self)
  qed
qed

text \<open>The status gets through, even when the first attempt works on a stale copy.\<close>

lemma status_gets_through:
  assumes "good w" and "stored w ns name = Some cur" and "named ns name desired" and "named ns name original"
    and "Status original \<noteq> Status desired"
  obtains w' ks' where "RetryUpdateConflicts (status_attempt api original desired) w = (Ok (), w')" and "good w'"
    and "stored w' ns name = Some ks'" and "Status ks' = Status desired"
proof -
  let ?x = "original\<lparr>Status := Status desired\<rparr>"
  have "named ns name ?x" using assms(4) by (simp add: named_def)
  from update_status [OF assms(1,2) this] show ?thesis
  proof (elim disjE conjE exE)
    fix ks' w' assume u: "api_UpdateStatus api ns ?x w = (Ok (Some ks', None), w')" "good w'"
      "stored_as stored w w' ks'" "named ns name ks'" "Status ks' = Status ?x"
    then have "tries (status_attempt api original desired) 0 4 w = (Ok (), w')"
      using assms(4,5) by (simp add: status_attempt_def checked_def bind_io_def named_def eval_nat_numeral)
    with u that show ?thesis by (auto simp: RetryUpdateConflicts_tries stored_as_self)
  next
    fix p e w1 assume u: "api_UpdateStatus api ns ?x w = (Ok (p, Some e), w1)" "IsConflict e" "good w1" "stored w1 = stored w"
    obtain w' ks' where l: "status_attempt api original desired 1 w1 = (Ok (), w')" "good w'"
        "stored w' ns name = Some ks'" "Status ks' = Status desired"
      using later_attempt [of w1 ns name cur desired 1 original] assms u by auto
    have "status_attempt api original desired 0 w = (Err e, w1)"
      using assms(4,5) u by (simp add: status_attempt_def checked_def bind_io_def named_def)
    with u l have "tries (status_attempt api original desired) 0 4 w = (Ok (), w')"
      by (simp add: eval_nat_numeral)
    with l that show ?thesis by (auto simp: RetryUpdateConflicts_tries)
  qed
qed

end

end
