(* ===== verification/Fake_Client.thy ===== *)
theory Fake_Client
  imports Serving_Store
begin

text \<open>
  The fake typed client
  (\<open>pkg/client/clientset/versioned/typed/serving/v1alpha1/fake/fake_knativeserving.go\<close>) over a fake
  clientset: each call is an action, which \<open>Fake.Invokes\<close> (\<open>client-go/testing/fake.go\<close>) records and
  passes to the reaction of the object tracker (\<open>client-go/testing/fixture.go\<close>), here the one that
  \<open>NewSimpleClientset\<close> installs, on objects that are servings. Applying a patch is a parameter; so is what
  a label selector matches, since the record keeps no labels. Watches are left out.
\<close>

section \<open>Actions\<close>

datatype fake_action =
    GetAction string string
  | ListAction string
  | CreateAction string KnativeServing
  | UpdateAction string string KnativeServing
  | DeleteAction string string
  | DeleteCollectionAction string
  | PatchAction string string patch_type obj "string list"

record fake_world =
  fk_actions :: "fake_action list"
  fk_objects :: "KnativeServing list"

text \<open>What a reaction returns as \<open>runtime.Object\<close>: nil, a serving or a list of servings.\<close>

datatype runtime_object = Nil_object | Serving_object KnativeServing | List_object "KnativeServing list"

definition knativeservingsResource :: GroupVersionResource where
  "knativeservingsResource =
     \<lparr>gvrGroup = ''operator.knative.dev'', gvrVersion = ''v1alpha1'', gvrResource = ''knativeservings''\<rparr>"

section \<open>The tracker on servings\<close>

definition matching :: "string \<Rightarrow> string \<Rightarrow> KnativeServing list \<Rightarrow> KnativeServing list" where
  "matching ns name objs =
     filter (\<lambda>x. \<not> (ns \<noteq> [] \<and> ksNamespace x \<noteq> ns) \<and> \<not> (name \<noteq> [] \<and> ksName x \<noteq> name)) objs"

definition servings_Get :: "string \<Rightarrow> string \<Rightarrow> (KnativeServing list, KnativeServing) io" where
  "servings_Get ns name objs =
     (case matching ns name objs of
        [] \<Rightarrow> (Err (NewNotFound knativeservingsResource name), objs)
      | [x] \<Rightarrow> (Ok x, objs)
      | _ \<Rightarrow> (Err (Errorf (''more than one object matched gvr '' @ gvr_String knativeservingsResource @ '', ns: ''
                            @ quoted ns @ '' name: '' @ quoted name)), objs))"

fun replace_serving :: "KnativeServing \<Rightarrow> KnativeServing list \<Rightarrow> KnativeServing list option" where
  "replace_serving new [] = None"
| "replace_serving new (old # rest) =
     (if ksNamespace old = ksNamespace new \<and> ksName old = ksName new then Some (new # rest)
      else map_option (\<lambda>rest'. old # rest') (replace_serving new rest))"

definition servings_add :: "KnativeServing \<Rightarrow> string \<Rightarrow> bool \<Rightarrow> (KnativeServing list, unit) io" where
  "servings_add obj ns replaceExisting objs =
     (let new = (if length (ksNamespace obj) = 0 then obj\<lparr>ksNamespace := ns\<rparr> else obj) in
      if ns \<noteq> ksNamespace new then
        (Err (NewBadRequest (''request namespace does not match object namespace, request: '' @ quoted ns
                             @ '' object: '' @ quoted (ksNamespace new))), objs)
      else case replace_serving new objs of
             Some objs' \<Rightarrow>
               if replaceExisting then (Ok (), objs')
               else (Err (NewAlreadyExists knativeservingsResource (ksName new)), objs)
           | None \<Rightarrow>
               if replaceExisting then (Err (NewNotFound knativeservingsResource (ksName new)), objs)
               else (Ok (), objs @ [new]))"

fun remove_serving :: "string \<Rightarrow> string \<Rightarrow> KnativeServing list \<Rightarrow> KnativeServing list option" where
  "remove_serving ns name [] = None"
| "remove_serving ns name (old # rest) =
     (if ksNamespace old = ns \<and> ksName old = name then Some rest
      else map_option (\<lambda>rest'. old # rest') (remove_serving ns name rest))"

definition servings_Delete :: "string \<Rightarrow> string \<Rightarrow> (KnativeServing list, unit) io" where
  "servings_Delete ns name objs =
     (case remove_serving ns name objs of
        Some objs' \<Rightarrow> (Ok (), objs')
      | None \<Rightarrow> (Err (NewNotFound knativeservingsResource name), objs))"

section \<open>Reactions\<close>

text \<open>A patch: the new serving, or an error, from the old one.\<close>

type_synonym patcher = "patch_type \<Rightarrow> obj \<Rightarrow> KnativeServing \<Rightarrow> error + KnativeServing"

definition reacted :: "(KnativeServing list, KnativeServing) io \<Rightarrow> KnativeServing list \<Rightarrow>
    (bool \<times> runtime_object \<times> error option) \<times> KnativeServing list" where
  "reacted m objs =
     (case m objs of
        (Ok ks, objs') \<Rightarrow> ((True, Serving_object ks, None), objs')
      | (Err e, objs') \<Rightarrow> ((True, Nil_object, Some e), objs')
      | (Panic p, objs') \<Rightarrow> ((True, Nil_object, None), objs'))"

fun objectReaction :: "patcher \<Rightarrow> fake_action \<Rightarrow> KnativeServing list \<Rightarrow>
    (bool \<times> runtime_object \<times> error option) \<times> KnativeServing list" where
  "objectReaction patchf (ListAction ns) objs = ((True, List_object (matching ns [] objs), None), objs)"
| "objectReaction patchf (GetAction ns name) objs = reacted (servings_Get ns name) objs"
| "objectReaction patchf (CreateAction ns ks) objs =
     reacted (then_io (servings_add ks ns False) (servings_Get ns (ksName ks))) objs"
| "objectReaction patchf (UpdateAction ns subresource ks) objs =
     reacted (then_io (servings_add ks ns True) (servings_Get ns (ksName ks))) objs"
| "objectReaction patchf (DeleteAction ns name) objs =
     (case servings_Delete ns name objs of
        (Err e, objs') \<Rightarrow> ((True, Nil_object, Some e), objs')
      | (_, objs') \<Rightarrow> ((True, Nil_object, None), objs'))"
| "objectReaction patchf (PatchAction ns name pt data subresources) objs =
     reacted
       (bind_io (servings_Get ns name)
         (\<lambda>old. bind_io (of_result (case patchf pt data old of Inl e \<Rightarrow> Err e | Inr obj \<Rightarrow> Ok obj))
           (\<lambda>obj. then_io (servings_add obj ns True) (return_io obj)))) objs"
| "objectReaction patchf (DeleteCollectionAction ns) objs =
     ((False, Nil_object, Some (Errorf ''no reaction implemented'')), objs)"

text \<open>\<open>Invokes\<close> with that one reaction: what no reaction handles gets the default object.\<close>

definition Invokes :: "patcher \<Rightarrow> fake_action \<Rightarrow> runtime_object \<Rightarrow> (fake_world, runtime_object \<times> error option) io" where
  "Invokes patchf action defaultReturnObj w =
     (case objectReaction patchf action (fk_objects w) of
        ((handled, ret, err), objs) \<Rightarrow>
          (Ok (if handled then (ret, err) else (defaultReturnObj, None)),
           \<lparr>fk_actions = fk_actions w @ [action], fk_objects = objs\<rparr>))"

section \<open>The client\<close>

text \<open>\<open>if obj == nil\<close>, and the type assertion.\<close>

definition asserted :: "(fake_world, runtime_object \<times> error option) io \<Rightarrow> fake_world call" where
  "asserted m =
     bind_io m
       (\<lambda>(obj, err). case obj of
           Nil_object \<Rightarrow> return_io (None, err)
         | Serving_object ks \<Rightarrow> return_io (Some ks, err)
         | List_object items \<Rightarrow> of_result (Panic ''interface conversion''))"

definition fake_Get :: "patcher \<Rightarrow> string \<Rightarrow> string \<Rightarrow> fake_world call" where
  "fake_Get patchf ns name = asserted (Invokes patchf (GetAction ns name) (Serving_object empty_serving))"

definition fake_List :: "patcher \<Rightarrow> string \<Rightarrow> (KnativeServing \<Rightarrow> bool) option \<Rightarrow>
    (fake_world, KnativeServing list option \<times> error option) io" where
  "fake_List patchf ns opts =
     bind_io (Invokes patchf (ListAction ns) (List_object []))
       (\<lambda>(obj, err). case obj of
           Nil_object \<Rightarrow> return_io (None, err)
         | Serving_object ks \<Rightarrow> of_result (Panic ''interface conversion'')
         | List_object items \<Rightarrow>
             let label = (case opts of None \<Rightarrow> (\<lambda>ks. True) | Some matches \<Rightarrow> matches) in
             return_io (Some (filter label items), err))"

definition fake_Create :: "patcher \<Rightarrow> string \<Rightarrow> KnativeServing \<Rightarrow> fake_world call" where
  "fake_Create patchf ns ks = asserted (Invokes patchf (CreateAction ns ks) (Serving_object empty_serving))"

definition fake_Update :: "patcher \<Rightarrow> string \<Rightarrow> KnativeServing \<Rightarrow> fake_world call" where
  "fake_Update patchf ns ks = asserted (Invokes patchf (UpdateAction ns [] ks) (Serving_object empty_serving))"

definition fake_UpdateStatus :: "patcher \<Rightarrow> string \<Rightarrow> KnativeServing \<Rightarrow> fake_world call" where
  "fake_UpdateStatus patchf ns ks =
     asserted (Invokes patchf (UpdateAction ns ''status'' ks) (Serving_object empty_serving))"

definition only_error :: "(fake_world, runtime_object \<times> error option) io \<Rightarrow> (fake_world, unit) io" where
  "only_error m = bind_io m (\<lambda>(obj, err). case err of None \<Rightarrow> return_io () | Some e \<Rightarrow> raise_io e)"

definition fake_Delete :: "patcher \<Rightarrow> string \<Rightarrow> string \<Rightarrow> (fake_world, unit) io" where
  "fake_Delete patchf ns name = only_error (Invokes patchf (DeleteAction ns name) (Serving_object empty_serving))"

definition fake_DeleteCollection :: "patcher \<Rightarrow> string \<Rightarrow> (fake_world, unit) io" where
  "fake_DeleteCollection patchf ns = only_error (Invokes patchf (DeleteCollectionAction ns) (List_object []))"

definition fake_Patch :: "patcher \<Rightarrow> string \<Rightarrow> string \<Rightarrow> patch_type \<Rightarrow> obj \<Rightarrow> string list \<Rightarrow> fake_world call" where
  "fake_Patch patchf ns name pt data subresources =
     asserted (Invokes patchf (PatchAction ns name pt data subresources) (Serving_object empty_serving))"

definition fake_api :: "patcher \<Rightarrow> fake_world serving_api" where
  "fake_api patchf =
     \<lparr>api_Get = fake_Get patchf, api_Update = fake_Update patchf, api_UpdateStatus = fake_UpdateStatus patchf,
      api_Patch = (\<lambda>ns name data. fake_Patch patchf ns name MergePatchType data [])\<rparr>"

text \<open>\<open>NewSimpleClientset(objects...)\<close>: the objects are added to a new tracker; an error is a panic.\<close>

fun add_all :: "KnativeServing list \<Rightarrow> (KnativeServing list, unit) io" where
  "add_all [] = return_io ()"
| "add_all (obj # objects) =
     bind_io (attempt (servings_add obj (ksNamespace obj) False))
       (\<lambda>r. case r of Err e \<Rightarrow> of_result (Panic (error_text e)) | _ \<Rightarrow> add_all objects)"

definition NewSimpleClientset :: "KnativeServing list \<Rightarrow> fake_world result" where
  "NewSimpleClientset objects =
     (case add_all objects [] of
        (Ok _, objs) \<Rightarrow> Ok \<lparr>fk_actions = [], fk_objects = objs\<rparr>
      | (Err e, objs) \<Rightarrow> Err e
      | (Panic p, objs) \<Rightarrow> Panic p)"

section \<open>The contract holds\<close>

definition serving_place :: "KnativeServing \<Rightarrow> string \<times> string" where
  "serving_place ks = (ksNamespace ks, ksName ks)"

definition fake_stored :: "fake_world \<Rightarrow> string \<Rightarrow> string \<Rightarrow> KnativeServing option" where
  "fake_stored w ns name = find (\<lambda>x. serving_place x = (ns, name)) (fk_objects w)"

definition fake_good :: "fake_world \<Rightarrow> bool" where
  "fake_good w \<longleftrightarrow>
     distinct (map serving_place (fk_objects w)) \<and> (\<forall>x \<in> set (fk_objects w). ksNamespace x \<noteq> [] \<and> ksName x \<noteq> [])"

lemma named_place: "named ns name x \<longleftrightarrow> serving_place x = (ns, name)"
  by (auto simp: named_def serving_place_def)

lemma fake_stored_named: "fake_stored w ns name = Some ks \<Longrightarrow> named ns name ks"
  by (auto simp: fake_stored_def named_place dest: find_SomeD)

lemma fake_stored_names: "fake_good w \<Longrightarrow> fake_stored w ns name = Some ks \<Longrightarrow> ns \<noteq> [] \<and> name \<noteq> []"
  by (auto simp: fake_good_def fake_stored_def serving_place_def dest!: find_SomeD)

lemma servings_Get_found:
  assumes "fake_good w" and "fake_stored w ns name = Some ks"
  shows "servings_Get ns name (fk_objects w) = (Ok ks, fk_objects w)"
proof -
  have "matching ns name (fk_objects w) = filter (\<lambda>x. serving_place x = (ns, name)) (fk_objects w)"
    unfolding matching_def using fake_stored_names [OF assms]
    by (intro filter_cong) (auto simp: serving_place_def)
  with filter_key [of serving_place "fk_objects w" "(ns, name)"] assms show ?thesis
    by (simp add: servings_Get_def fake_stored_def fake_good_def)
qed

lemma replace_serving_found:
  "find (\<lambda>x. serving_place x = serving_place new) xs = Some old \<Longrightarrow> distinct (map serving_place xs) \<Longrightarrow>
   replace_serving new xs = Some (map (\<lambda>x. if serving_place x = serving_place new then new else x) xs)"
proof (induction xs)
  case (Cons x xs)
  have "map (\<lambda>y. if serving_place y = serving_place x then new else y) xs = xs" if "serving_place x \<notin> serving_place ` set xs"
    using that by (intro map_idI) (metis image_eqI)
  with Cons show ?case by (auto simp: serving_place_def split: if_splits)
qed simp

lemma find_replaced:
  "find (\<lambda>x. serving_place x = p) (map (\<lambda>x. if serving_place x = serving_place new then new else x) xs) =
   (if p = serving_place new then (case find (\<lambda>x. serving_place x = p) xs of None \<Rightarrow> None | Some _ \<Rightarrow> Some new)
    else find (\<lambda>x. serving_place x = p) xs)"
  by (induction xs) auto

text \<open>A write of a serving that is there.\<close>

lemma servings_add_found:
  assumes "fake_good w" and "fake_stored w ns name = Some old" and "named ns name new"
  obtains objs where "servings_add new ns True (fk_objects w) = (Ok (), objs)"
    and "fake_good \<lparr>fk_actions = acts, fk_objects = objs\<rparr>"
    and "stored_as fake_stored w \<lparr>fk_actions = acts, fk_objects = objs\<rparr> new"
proof -
  let ?objs = "map (\<lambda>x. if serving_place x = serving_place new then new else x) (fk_objects w)"
  let ?w' = "\<lparr>fk_actions = acts, fk_objects = ?objs\<rparr>"
  have p: "serving_place new = (ns, name)" using assms(3) by (simp add: named_place)
  have f: "find (\<lambda>x. serving_place x = serving_place new) (fk_objects w) = Some old"
    using assms(2) p by (simp add: fake_stored_def)
  have n: "ns \<noteq> []" "ksNamespace new = ns" "ksName new = name" "name \<noteq> []"
    using fake_stored_names [OF assms(1,2)] assms(3) by (simp_all add: named_def)
  have a: "servings_add new ns True (fk_objects w) = (Ok (), ?objs)"
    using replace_serving_found [OF f] assms(1) n by (simp add: servings_add_def fake_good_def)
  have "map serving_place ?objs = map serving_place (fk_objects w)" by simp
  then have g: "fake_good ?w'" using assms(1) n by (auto simp: fake_good_def simp del: map_map)
  have s: "stored_as fake_stored w ?w' new"
    unfolding stored_as_def fake_stored_def using f by (auto simp: find_replaced named_place)
  from that [OF a g s] show ?thesis .
qed

text \<open>Merge patches, as far as the operator uses them, and the laws of the store that follow.\<close>

locale serving_patcher =
  fixes patchf :: patcher
  assumes merge: "patchf MergePatchType (finalizer_patch fs rv) ks = Inr (ks\<lparr>Finalizers := fs, ResourceVersion := rv\<rparr>)"
begin

lemma update_action:
  assumes "fake_good w" and "fake_stored w ns name = Some cur" and "named ns name ks"
  obtains w' where "asserted (Invokes patchf (UpdateAction ns sub ks) d) w = (Ok (Some ks, None), w')"
    and "fake_good w'" and "stored_as fake_stored w w' ks"
proof -
  let ?acts = "fk_actions w @ [UpdateAction ns sub ks]"
  obtain objs where o: "servings_add ks ns True (fk_objects w) = (Ok (), objs)"
      "fake_good \<lparr>fk_actions = ?acts, fk_objects = objs\<rparr>"
      "stored_as fake_stored w \<lparr>fk_actions = ?acts, fk_objects = objs\<rparr> ks"
    using servings_add_found [OF assms, of ?acts] by blast
  then have "fake_stored \<lparr>fk_actions = ?acts, fk_objects = objs\<rparr> ns name = Some ks"
    using assms(3) by (simp add: stored_as_def)
  from servings_Get_found [OF o(2) this] have "servings_Get ns (ksName ks) objs = (Ok ks, objs)"
    using assms(3) by (simp add: named_def)
  with o(1) have "asserted (Invokes patchf (UpdateAction ns sub ks) d) w =
      (Ok (Some ks, None), \<lparr>fk_actions = ?acts, fk_objects = objs\<rparr>)"
    by (simp add: asserted_def Invokes_def reacted_def then_io_def bind_io_def return_io_def)
  with o that show ?thesis by blast
qed

sublocale serving_store "fake_api patchf" fake_stored fake_good
proof
  fix w ns name ks
  assume w: "fake_good w" "fake_stored w ns name = Some ks"
  then show "named ns name ks" by (simp add: fake_stored_named)
next
  fix w ns name cur ks
  assume w: "fake_good w" "fake_stored w ns name = Some cur" "named ns name ks"
  obtain w' where u: "fake_UpdateStatus patchf ns ks w = (Ok (Some ks, None), w')" "fake_good w'"
      "stored_as fake_stored w w' ks"
    unfolding fake_UpdateStatus_def by (rule update_action [OF w])
  then show "(\<exists>ks' w'. api_UpdateStatus (fake_api patchf) ns ks w = (Ok (Some ks', None), w') \<and> fake_good w' \<and>
        stored_as fake_stored w w' ks' \<and> named ns name ks' \<and> Status ks' = Status ks) \<or>
      (ResourceVersion ks \<noteq> ResourceVersion cur \<and>
        (\<exists>p e w'. api_UpdateStatus (fake_api patchf) ns ks w = (Ok (p, Some e), w') \<and> IsConflict e \<and>
            fake_good w' \<and> fake_stored w' = fake_stored w))"
    using w by (auto simp: fake_api_def)
  obtain w' where u: "fake_Update patchf ns ks w = (Ok (Some ks, None), w')" "fake_good w'"
      "stored_as fake_stored w w' ks"
    unfolding fake_Update_def by (rule update_action [OF w])
  then show "\<exists>ks' w'. api_Update (fake_api patchf) ns ks w = (Ok (Some ks', None), w') \<and> fake_good w' \<and>
      stored_as fake_stored w w' ks' \<and> named ns name ks' \<and> Finalizers ks' = Finalizers ks"
    using w by (auto simp: fake_api_def)
next
  fix w ns name cur
  assume w: "fake_good w" "fake_stored w ns name = Some cur"
  let ?got = "\<lparr>fk_actions = fk_actions w @ [GetAction ns name], fk_objects = fk_objects w\<rparr>"
  have "api_Get (fake_api patchf) ns name w = (Ok (Some cur, None), ?got)"
    using servings_Get_found [OF w]
    by (simp add: fake_api_def fake_Get_def asserted_def Invokes_def reacted_def bind_io_def)
  moreover have "fake_good ?got" "fake_stored ?got = fake_stored w"
    using w by (simp_all add: fake_good_def fake_stored_def fun_eq_iff)
  ultimately show "\<exists>w'. api_Get (fake_api patchf) ns name w = (Ok (Some cur, None), w') \<and> fake_good w' \<and>
      fake_stored w' = fake_stored w" by blast
  fix fs
  let ?new = "cur\<lparr>Finalizers := fs, ResourceVersion := ResourceVersion cur\<rparr>"
  let ?acts = "fk_actions w @ [PatchAction ns name MergePatchType (finalizer_patch fs (ResourceVersion cur)) []]"
  have n: "named ns name ?new" using fake_stored_named [OF w(2)] by (simp add: named_def)
  obtain objs where o: "servings_add ?new ns True (fk_objects w) = (Ok (), objs)"
      "fake_good \<lparr>fk_actions = ?acts, fk_objects = objs\<rparr>"
      "stored_as fake_stored w \<lparr>fk_actions = ?acts, fk_objects = objs\<rparr> ?new"
    using servings_add_found [OF w n, of ?acts] by blast
  then have "api_Patch (fake_api patchf) ns name (finalizer_patch fs (ResourceVersion cur)) w =
      (Ok (Some ?new, None), \<lparr>fk_actions = ?acts, fk_objects = objs\<rparr>)"
    using servings_Get_found [OF w]
    by (simp add: fake_api_def fake_Patch_def asserted_def Invokes_def reacted_def bind_io_def then_io_def merge)
  with o n show "\<exists>ks' w'. api_Patch (fake_api patchf) ns name (finalizer_patch fs (ResourceVersion cur)) w =
        (Ok (Some ks', None), w') \<and> fake_good w' \<and> stored_as fake_stored w w' ks' \<and> named ns name ks' \<and>
      Finalizers ks' = fs \<and> Status ks' = Status cur \<and> DeletionTimestamp ks' = DeletionTimestamp cur \<and>
      Generation ks' = Generation cur"
    by (intro exI [of _ ?new] exI [of _ "\<lparr>fk_actions = ?acts, fk_objects = objs\<rparr>"]) simp
qed

end

text \<open>A patcher for patches of the finalizers and the resource version.\<close>

definition json_strings :: "json list \<Rightarrow> string list" where
  "json_strings vs = map (\<lambda>v. case v of JStr s \<Rightarrow> s | _ \<Rightarrow> []) vs"

definition metadata_patcher :: patcher where
  "metadata_patcher pt data ks =
     (case (pt, map_of data ''metadata'') of
        (MergePatchType, Some (JObj m)) \<Rightarrow>
          let ks1 = (case map_of m ''finalizers'' of Some (JArr vs) \<Rightarrow> ks\<lparr>Finalizers := json_strings vs\<rparr> | _ \<Rightarrow> ks) in
          Inr (case map_of m ''resourceVersion'' of Some (JStr rv) \<Rightarrow> ks1\<lparr>ResourceVersion := rv\<rparr> | _ \<Rightarrow> ks1)
      | _ \<Rightarrow> Inl (Errorf ''PatchType is not supported''))"

interpretation metadata: serving_patcher metadata_patcher
  by unfold_locales (simp add: metadata_patcher_def finalizer_patch_def json_strings_def comp_def)

end
