(* ===== verification/Finalization.thy ===== *)
theory Finalization
  imports Fake_Client Reconciler_Status
begin

text \<open>
  The generated and the operator's reconciler together, on a store of servings: which finalizers are
  written, how a serving that is being deleted loses them, and what a failed patch does to the operator's
  books.
\<close>

section \<open>Finalizers\<close>

text \<open>Only the default finalizer is ever added or removed.\<close>

lemma synced_finalizers_set:
  assumes "synced_finalizers existing resource = Some fs"
  shows "set fs - {defaultFinalizerName} = set (Finalizers existing) - {defaultFinalizerName}"
    and "defaultFinalizerName \<in> set fs \<longleftrightarrow> defaultFinalizerName \<in> set (Finalizers resource)"
  using assms by (auto simp: synced_finalizers_def string_set_defs Let_def split: if_splits)

lemma synced_finalizers_None:
  "synced_finalizers existing resource = None \<longleftrightarrow>
     (defaultFinalizerName \<in> set (Finalizers existing) \<longleftrightarrow> defaultFinalizerName \<in> set (Finalizers resource))"
  by (auto simp: synced_finalizers_def string_set_defs Let_def)

lemma finalizer_names [simp]: "defaultFinalizerName \<noteq> finalizerName" "finalizerName \<noteq> defaultFinalizerName"
  by (simp_all add: defaultFinalizerName_def finalizerName_def)

lemma same_status_refl [simp]: "same_status st st"
  by (simp add: same_status_def)

section \<open>Steps of the generated reconciler\<close>

text \<open>A serving that is in the cache under its own key.\<close>

definition cached :: "'w rstate \<Rightarrow> string \<Rightarrow> string \<Rightarrow> KnativeServing \<Rightarrow> bool" where
  "cached s ns name ks \<longleftrightarrow>
     plain ns \<and> plain name \<and> ns \<noteq> [] \<and> named ns name ks \<and> map_of (indexer s) (ns @ ''/'' @ name) = Some ks"

lemma cached_key:
  assumes "cached s ns name ks"
  shows "SplitMetaNamespaceKey (ns @ ''/'' @ name) = Ok (ns, name)" and "lister_Get ns name s = (Ok ks, s)"
  using assms SplitMetaNamespaceKey_key [of ks "ns @ ''/'' @ name"]
  by (simp_all add: cached_def named_def MetaNamespaceKeyFunc_def lister_Get_def)

text \<open>A round without a change of the status, whose callee returns an event.\<close>

lemma Reconcile_cached:
  assumes "cached s ns name ks" and "run_kind r (s\<lparr>inst := ks\<rparr>) = (Ok event, s1)"
    and "Status (behind_original ns name ks s1) = Status (inst s1)"
  shows "Reconcile r (ns @ ''/'' @ name) s = report_event event s1"
  using assms cached_key [OF assms(1)]
  by (simp add: Reconcile_def attempt_def bind_io_def then_io_def modify_io_def sync_status_def return_io_def)

text \<open>A key that is not one, or that names nothing, changes nothing.\<close>

lemma Reconcile_nothing:
  "SplitMetaNamespaceKey key = Err err \<Longrightarrow> Reconcile r key s = (Ok (), s)"
  "SplitMetaNamespaceKey key = Ok (ns, name) \<Longrightarrow> map_of (indexer s) (ns @ ''/'' @ name) = None \<Longrightarrow>
     Reconcile r key s = (Ok (), s)"
  by (simp_all add: Reconcile_def lister_Get_def attempt_def bind_io_def IsNotFound_def NewNotFound_def return_io_def)

lemma set_finalizers_eq:
  "set_finalizers f s = (Ok (), s\<lparr>inst := (inst s)\<lparr>Finalizers := List_of (f (NewString (Finalizers (inst s))))\<rparr>\<rparr>)"
  by (simp add: set_finalizers_def modify_io_def)

text \<open>The synchronisation of the finalizers, by its outcome.\<close>

lemma updateFinalizersFiltered_cases:
  assumes "named ns name (inst s)" and "map_of (indexer s) (ns @ ''/'' @ name) = Some existing"
  shows "synced_finalizers existing (inst s) = None \<Longrightarrow> updateFinalizersFiltered r s = (Ok (), s)"
    and "synced_finalizers existing (inst s) = Some fs \<Longrightarrow>
      api_Patch (Client r) ns name (finalizer_patch fs (ResourceVersion existing)) (world s) = (Ok answer, w') \<Longrightarrow>
      updateFinalizersFiltered r s = patched answer (s\<lparr>world := w'\<rparr>)"
  using assms
  by (simp_all add: updateFinalizersFiltered_def Let_def named_def lister_Get_def bind_io_def on_world_def return_io_def)

lemma patched_ok:
  "patched (Some ks, None) s = (Ok (), s\<lparr>inst := ks, recorded := recorded s @
     [\<lparr>ev_type = EventTypeNormal, ev_reason = ''FinalizerUpdate'', ev_text = ''Updated '' @ quoted (ksName ks) @ '' finalizers''\<rparr>]\<rparr>)"
  by (simp add: patched_def then_io_def bind_io_def modify_io_def Eventf_def)

lemma patched_error:
  "patched (Some ks, Some e) s = (Err e, s\<lparr>inst := ks, recorded := recorded s @
     [\<lparr>ev_type = EventTypeWarning, ev_reason = ''FinalizerUpdateFailed'',
       ev_text = ''Failed to update finalizers for '' @ quoted (ksName ks) @ '': '' @ error_text e\<rparr>]\<rparr>)"
  by (simp add: patched_def then_io_def bind_io_def modify_io_def Eventf_def raise_io_def)

section \<open>A serving that is being deleted\<close>

context serving_store
begin

text \<open>
  The first round: the default finalizer stands first, so \<open>FinalizeKind\<close> deletes nothing, and the
  generated reconciler takes the default finalizer away.
\<close>

lemma first_round:
  fixes e :: "('w, 'p, 'k) env"
  assumes api: "servingClient e = api" and c: "cached s ns name ks" and g: "good (world s)"
    and st: "stored (world s) ns name = Some ks"
    and d: "being_deleted ks" and fs: "Finalizers ks = [defaultFinalizerName, finalizerName]"
  obtains s1 ks1 where "Reconcile (operator_impl e) (ns @ ''/'' @ name) s = (Ok (), s1)" and "good (world s1)"
    and "stored (world s1) ns name = Some ks1" and "named ns name ks1" and "Finalizers ks1 = [finalizerName]"
    and "being_deleted ks1"
    and "indexer s1 = indexer s" and "servings s1 = AList.delete (ns @ ''/'' @ name) (servings s)"
proof -
  let ?s0 = "s\<lparr>inst := ks\<rparr>"
  let ?key = "ns @ ''/'' @ name"
  let ?s1 = "?s0\<lparr>servings := AList.delete ?key (servings s)\<rparr>"
  let ?s2 = "?s1\<lparr>inst := ks\<lparr>Finalizers := [finalizerName]\<rparr>\<rparr>"
  have n: "ksNamespace ks = ns" "ksName ks = name" "ns \<noteq> []" "map_of (indexer s) ?key = Some ks"
    using c by (simp_all add: cached_def named_def)
  have fin: "FinalizeKind e ?s0 = (Ok (), ?s1)"
    using n fs by (simp add: FinalizeKind_def MetaNamespaceKeyFunc_def then_io_def bind_io_def modify_io_def rec_delete_def return_io_def)
  have sf: "set_finalizers (set_Delete defaultFinalizerName) ?s1 = (Ok (), ?s2)"
    using fs by (simp add: set_finalizers_eq string_set_defs)
  have sy: "synced_finalizers ks (inst ?s2) = Some [finalizerName]"
    using fs by (simp add: synced_finalizers_def string_set_defs)
  obtain ks1 w1 where p: "api_Patch api ns name (finalizer_patch [finalizerName] (ResourceVersion ks)) (world s) = (Ok (Some ks1, None), w1)"
      and k: "good w1" "stored_as stored (world s) w1 ks1" "named ns name ks1" "Finalizers ks1 = [finalizerName]"
        "Status ks1 = Status ks" "DeletionTimestamp ks1 = DeletionTimestamp ks"
    using patch [OF g st] by blast
  define s3 where "s3 = snd (patched (Some ks1, None) (?s2\<lparr>world := w1\<rparr>))"
  have up: "updateFinalizersFiltered (operator_impl e) ?s2 = (Ok (), s3)"
    using updateFinalizersFiltered_cases(2) [of ns name ?s2 ks, OF _ _ sy, of "operator_impl e" "(Some ks1, None)" w1] n p
    by (simp add: named_def operator_impl_def api s3_def patched_ok)
  have s3: "world s3 = w1" "inst s3 = ks1" "indexer s3 = indexer s" "servings s3 = AList.delete ?key (servings s)"
    by (simp_all add: s3_def patched_ok)
  have cl: "clearFinalizer (operator_impl e) None ?s1 = (Ok (), s3)"
    using d sf up
    by (simp add: clearFinalizer_def operator_impl_def finalized_cleanly_def bind_io_def then_io_def return_io_def)
  have run: "run_kind (operator_impl e) ?s0 = (Ok None, s3)"
    using d fin cl
    by (simp add: run_kind_def operator_impl_def as_event_def ignored_def attempt_def bind_io_def then_io_def return_io_def)
  have "Reconcile (operator_impl e) ?key s = (Ok (), s3)"
    using Reconcile_cached [OF c run] n k by (simp add: behind_original_def s3 report_event_def return_io_def)
  with k s3 d show ?thesis by (intro that [of s3 ks1]) (simp_all add: stored_as_self being_deleted_def)
qed

text \<open>The second round: the manifest is deleted, and the serving is released.\<close>

lemma second_round:
  fixes e :: "('w, 'p, 'k) env"
  assumes api: "servingClient e = api" and c: "cached s ns name ks" and g: "good (world s)"
    and st: "stored (world s) ns name = Some ks"
    and d: "being_deleted ks" and fs: "Finalizers ks = [finalizerName]"
    and last: "\<forall>k. k \<noteq> ns @ ''/'' @ name \<longrightarrow> map_of (servings s) k = None"
    and del: "delete_manifest e (world s) = (Ok (), w)" "good w" "stored w = stored (world s)"
  obtains s2 ks2 where "Reconcile (operator_impl e) (ns @ ''/'' @ name) s = (Ok (), s2)"
    and "stored (world s2) ns name = Some ks2" and "Finalizers ks2 = []" and "servings s2 = []"
    and "world s2 = snd (api_Update api ns (ks\<lparr>Finalizers := []\<rparr>) w)"
proof -
  let ?s0 = "s\<lparr>inst := ks\<rparr>"
  let ?key = "ns @ ''/'' @ name"
  let ?rel = "ks\<lparr>Finalizers := []\<rparr>"
  have n: "ksNamespace ks = ns" "ksName ks = name" "ns \<noteq> []" "map_of (indexer s) ?key = Some ks"
    using c by (simp_all add: cached_def named_def)
  have sv: "AList.delete ?key (servings s) = []"
  proof -
    have "fst x = ?key" if "x \<in> set (servings s)" for x
    proof (rule ccontr)
      assume "fst x \<noteq> ?key"
      with last have "map_of (servings s) (fst x) = None" by blast
      with that show False by (auto simp: map_of_eq_None_iff)
    qed
    then show ?thesis by (auto simp: AList.delete_eq filter_empty_conv)
  qed
  have "named ns name ?rel" "stored w ns name = Some ks" using n st del(3) by (simp_all add: named_def)
  from update [OF del(2) this(2,1)] obtain ks2 w2
    where u: "api_Update api ns ?rel w = (Ok (Some ks2, None), w2)" "good w2" "stored_as stored w w2 ks2"
      "named ns name ks2" "Finalizers ks2 = []"
    by auto
  define s1 where "s1 = ?s0\<lparr>servings := [], world := w2, indexer := AList.update ?key ?rel (indexer s)\<rparr>"
  have fin: "FinalizeKind e ?s0 = (Ok (), s1)"
    using n fs sv del(1) u(1)
    by (simp add: FinalizeKind_def MetaNamespaceKeyFunc_def then_io_def bind_io_def modify_io_def rec_delete_def
        on_world_def release_def lister_Get_def checked_def api return_io_def Let_def s1_def)
  let ?s2 = "s1\<lparr>inst := ks\<lparr>Finalizers := [finalizerName]\<rparr>\<rparr>"
  have sf: "set_finalizers (set_Delete defaultFinalizerName) s1 = (Ok (), ?s2)"
    using fs by (simp add: set_finalizers_eq string_set_defs s1_def)
  have "map_of (indexer s1) ?key = Some ?rel" by (simp add: s1_def update_conv)
  then have up: "updateFinalizersFiltered (operator_impl e) ?s2 = (Ok (), ?s2)"
    using n by (intro updateFinalizersFiltered_cases(1) [of ns name _ ?rel]) (simp_all add: named_def synced_finalizers_None)
  have "inst s1 = ks" by (simp add: s1_def)
  then have cl: "clearFinalizer (operator_impl e) None s1 = (Ok (), ?s2)"
    using d sf up
    by (simp add: clearFinalizer_def operator_impl_def finalized_cleanly_def bind_io_def then_io_def return_io_def)
  have run: "run_kind (operator_impl e) ?s0 = (Ok None, ?s2)"
    using d fin cl
    by (simp add: run_kind_def operator_impl_def as_event_def ignored_def attempt_def bind_io_def then_io_def return_io_def)
  have "Reconcile (operator_impl e) ?key s = (Ok (), ?s2)"
    using Reconcile_cached [OF c run]
    by (simp add: behind_original_def s1_def update_conv report_event_def return_io_def)
  with u show ?thesis by (intro that [of ?s2 ks2]) (simp_all add: s1_def stored_as_self)
qed

end

section \<open>When nothing is deleted\<close>

text \<open>All a step did to the cluster is at most one update of a serving.\<close>

definition only_update :: "('w, 'p, 'k) env \<Rightarrow> 'w \<Rightarrow> 'w \<Rightarrow> bool" where
  "only_update e w w' \<longleftrightarrow> w' = w \<or> (\<exists>ns ks. w' = snd (api_Update (servingClient e) ns ks w))"

lemma checked_world: "snd (checked m w) = snd (m w)"
  by (auto simp: checked_def bind_io_def split: prod.split result.split option.split)

lemma release_only_updates: "only_update e (world s) (world (snd (release e ks s)))"
proof (cases "map_of (indexer s) (ksNamespace ks @ ''/'' @ ksName ks)")
  case (Some x)
  show ?thesis
  proof (cases "Finalizers x")
    case (Cons f rest)
    let ?x = "x\<lparr>Finalizers := rest\<rparr>"
    obtain q w' where q: "checked (api_Update (servingClient e) (ksNamespace ?x) ?x) (world s) = (q, w')" by force
    then have "w' = snd (api_Update (servingClient e) (ksNamespace ?x) ?x (world s))" by (metis checked_world snd_conv)
    moreover have "world (snd (release e ks s)) = w'"
      using q Some Cons
      by (cases q) (simp_all add: release_def lister_Get_def bind_io_def then_io_def modify_io_def on_world_def Let_def return_io_def)
    ultimately show ?thesis unfolding only_update_def by blast
  qed (use Some in \<open>simp add: release_def lister_Get_def bind_io_def only_update_def\<close>)
qed (simp add: release_def lister_Get_def bind_io_def only_update_def)

lemma rec_delete_guard:
  assumes "Finalizers (inst s) = [] \<or> hd (Finalizers (inst s)) \<noteq> finalizerName \<or> servings s \<noteq> []"
  shows "only_update e (world s) (world (snd (rec_delete e s)))"
  using assms release_only_updates [of e s "inst s"]
  by (auto simp: rec_delete_def bind_io_def then_io_def return_io_def only_update_def)

lemma FinalizeKind_guard:
  assumes key: "MetaNamespaceKeyFunc (inst s) = Ok key"
    and "Finalizers (inst s) = [] \<or> hd (Finalizers (inst s)) \<noteq> finalizerName \<or>
      (\<exists>k. k \<noteq> key \<and> map_of (servings s) k \<noteq> None)"
  shows "only_update e (world s) (world (snd (FinalizeKind e s)))"
proof -
  let ?s = "s\<lparr>servings := AList.delete key (servings s)\<rparr>"
  have "servings ?s \<noteq> []" if "k \<noteq> key" "map_of (servings s) k \<noteq> None" for k
  proof
    assume "servings ?s = []"
    then have "map_of (AList.delete key (servings s)) k = None" by simp
    with that show False by (simp add: delete_conv')
  qed
  then have "only_update e (world ?s) (world (snd (rec_delete e ?s)))"
    using assms(2) by (intro rec_delete_guard) auto
  then show ?thesis using key by (simp add: FinalizeKind_def bind_io_def then_io_def modify_io_def)
qed

section \<open>A failed patch of the finalizers\<close>

text \<open>The typed client as the reconcilers use it.\<close>

definition typed_api :: "'w transports \<Rightarrow> 'w serving_api" where
  "typed_api c =
     \<lparr>api_Get = serving_Get c, api_Update = serving_Update c, api_UpdateStatus = serving_UpdateStatus c,
      api_Patch = (\<lambda>ns name data. serving_Patch c ns name MergePatchType data [])\<rparr>"

definition patches_fail :: "'w transports \<Rightarrow> 'w \<Rightarrow> bool" where
  "patches_fail c w \<longleftrightarrow> (\<forall>req. rq_verb req = ''PATCH'' \<longrightarrow> (\<exists>err w'. send c req w = (Err err, w')))"

lemma setters_verb [simp]:
  "rq_verb (Request_Namespace a r) = rq_verb r" "rq_verb (Request_Resource a r) = rq_verb r"
  "rq_verb (Request_Name a r) = rq_verb r" "rq_verb (Request_SubResource l r) = rq_verb r"
  "rq_verb (Request_Body b r) = rq_verb r"
  by (simp_all add: request_setters split: option.splits)

lemma failed_patch:
  assumes "patches_fail c w"
  obtains err w' where "api_Patch (typed_api c) ns name data w = (Ok (Some empty_serving, Some err), w')"
proof -
  define req where "req = Request_Body (Some (PatchBody MergePatchType data)) (Request_Name name (Request_SubResource []
      (Request_Resource ''knativeservings'' (Request_Namespace ns (NewRequest ''PATCH'' client_prefix)))))"
  have "rq_verb req = ''PATCH''" by (simp add: req_def NewRequest_def)
  then obtain err w' where "send c req w = (Err err, w')" using assms by (auto simp: patches_fail_def)
  then have "\<exists>err w'. Into (Request_Do (send c) req) w = (Ok (Some empty_serving, Some err), w')"
    by (cases "request_error req") (auto simp: Request_Do_def Into_def raise_io_def)
  with that show ?thesis by (auto simp: typed_api_def serving_Patch_def req_def)
qed

text \<open>The books are left alone by everything but the operator's reconciler.\<close>

lemma Eventf_frame [intro]: "frame bookkeeping (Eventf t rsn txt)"
  unfolding Eventf_def by (rule frame_modify) (simp add: bookkeeping_def)

lemma sync_status_frame: "frame bookkeeping (sync_status r original)"
  unfolding sync_status_def
  by (intro frame_bind frame_get frame_if frame_return frame_attempt frame_world_bookkeeping frame_case_result
      frame_then Eventf_frame frame_raise)

lemma report_event_frame: "frame bookkeeping (report_event event)"
  unfolding report_event_def
  by (auto intro!: frame_then simp: frame_case_option split: error.split option.split)

text \<open>The operator's reconciler then works on an empty serving, and keeps track of it.\<close>

lemma failed_patch_books:
  fixes e :: "('w, 'p, 'k) env"
  assumes c: "cached s ns name ks" and nd: "\<not> being_deleted ks" and nf: "defaultFinalizerName \<notin> set (Finalizers ks)"
    and client: "servingClient e = typed_api c" and fail: "patches_fail c (world s)"
    and unknown: "map_of (servings s) [] = None"
    and run: "Reconcile (operator_impl e) (ns @ ''/'' @ name) s = (r, s')"
  shows "map_of (servings s') = (map_of (servings s))([] \<mapsto> 0)"
proof -
  let ?s0 = "s\<lparr>inst := ks\<rparr>"
  let ?fs = "List_of (Insert defaultFinalizerName (NewString (Finalizers ks)))"
  let ?s1 = "?s0\<lparr>inst := ks\<lparr>Finalizers := ?fs\<rparr>\<rparr>"
  have n: "named ns name ks" "map_of (indexer s) (ns @ ''/'' @ name) = Some ks" using c by (simp_all add: cached_def)
  have sf: "set_finalizers (Insert defaultFinalizerName) ?s0 = (Ok (), ?s1)" by (simp add: set_finalizers_eq)
  have sy: "synced_finalizers ks (inst ?s1) = Some (Finalizers ks @ [defaultFinalizerName])"
    using nf by (simp add: synced_finalizers_def string_set_defs Let_def set_insort_key)
  obtain err w' where p: "api_Patch (typed_api c) ns name
      (finalizer_patch (Finalizers ks @ [defaultFinalizerName]) (ResourceVersion ks)) (world s) = (Ok (Some empty_serving, Some err), w')"
    by (rule failed_patch [OF fail])
  define s2 where "s2 = snd (patched (Some empty_serving, Some err) (?s1\<lparr>world := w'\<rparr>))"
  have up: "updateFinalizersFiltered (operator_impl e) ?s1 = (Err err, s2)"
    using updateFinalizersFiltered_cases(2) [of ns name ?s1 ks, OF _ _ sy, of "operator_impl e" "(Some empty_serving, Some err)" w'] n p
    by (simp add: named_def operator_impl_def client s2_def patched_error)
  have s2: "inst s2 = empty_serving" "servings s2 = servings s"
    by (simp_all add: s2_def patched_error)
  have set: "ignored (setFinalizerIfFinalizer (operator_impl e)) ?s0 = (Ok (), s2)"
    using nd sf up
    by (simp add: setFinalizerIfFinalizer_def operator_impl_def ignored_def attempt_def bind_io_def then_io_def return_io_def)
  obtain r3 s3 where k: "ReconcileKind e s2 = (r3, s3)" by force
  have key: "MetaNamespaceKeyFunc (inst s2) = Ok []" by (simp add: s2 MetaNamespaceKeyFunc_def empty_serving_def)
  obtain r1 t where t: "track_generation [] (Generation (inst s2)) s2 = (r1, t)" "servings s3 = servings t"
    by (rule ReconcileKind_books [OF key k])
  have "map_of (servings t) = (map_of (servings s))([] \<mapsto> 0)"
    using track_generation_books(1) [OF t(1)] unknown by (simp add: s2 empty_serving_def)
  moreover have "bookkeeping s' = bookkeeping s3"
  proof -
    define after where "after = (\<lambda>event. bind_io get_io (\<lambda>u. then_io
      (sync_status (operator_impl e) (behind_original ns name ks u)) (report_event event)))"
    have fr: "frame bookkeeping (after event)" for event
      unfolding after_def by (intro frame_bind frame_get frame_then sync_status_frame report_event_frame)
    have "bind_io (run_kind (operator_impl e)) after ?s0 = (r, s')"
      using run cached_key [OF c]
      by (simp add: Reconcile_def after_def attempt_def bind_io_def then_io_def modify_io_def)
    moreover have "run_kind (operator_impl e) ?s0 = as_event (ReconcileKind e) s2"
      using nd set by (simp add: run_kind_def operator_impl_def bind_io_def then_io_def)
    ultimately show ?thesis
      using k frameD [OF fr]
      by (cases r3) (auto simp: bind_io_def as_event_def attempt_def return_io_def)
  qed
  ultimately show ?thesis using t(2) by (simp add: bookkeeping_def)
qed

section \<open>What the fake client promises of the status\<close>

lemma replace_serving_set: "replace_serving new objs = Some objs' \<Longrightarrow> new \<in> set objs'"
  by (induction objs arbitrary: objs') (auto split: if_splits)

lemma servings_add_get:
  assumes "servings_add ks ns True objs = (Ok (), objs1)" and "servings_Get ns (ksName ks) objs1 = (Ok x, objs2)"
  shows "Status x = Status ks"
proof -
  let ?new = "if length (ksNamespace ks) = 0 then ks\<lparr>ksNamespace := ns\<rparr> else ks"
  have n: "ksNamespace ?new = ns" "replace_serving ?new objs = Some objs1"
    using assms(1) by (auto simp: servings_add_def Let_def split: if_splits option.splits)
  then have "?new \<in> set (matching ns (ksName ks) objs1)" using replace_serving_set [OF n(2)] by (auto simp: matching_def)
  moreover have "matching ns (ksName ks) objs1 = [x]"
    using assms(2) by (auto simp: servings_Get_def split: list.splits)
  ultimately show ?thesis by (auto split: if_splits)
qed

lemma fake_echoes: "echoes_status (fake_api p)"
  unfolding echoes_status_def fake_api_def
  by (auto simp: fake_UpdateStatus_def asserted_def Invokes_def reacted_def bind_io_def then_io_def return_io_def
      dest!: servings_add_get split: prod.splits result.splits runtime_object.splits)

end
