(* ===== verification/Informers.thy ===== *)
theory Informers
  imports Reconciler
begin

text \<open>
  Listers (\<open>pkg/client/listers/serving/v1alpha1/knativeserving.go\<close> over \<open>client-go/tools/cache/listers.go\<close>)
  and the shared informer factory (\<open>pkg/client/informers/externalversions\<close>). A lister reads the index of
  an informer's cache; a selector is a predicate, as the records keep no labels. A factory is explicit
  state: which informers there are and which have been started, by the name of their Go type; \<open>runs\<close> lists
  the calls \<open>go informer.Run(stopCh)\<close>.
\<close>

section \<open>Listers\<close>

record selector =
  sel_Empty :: bool
  sel_Matches :: "KnativeServing \<Rightarrow> bool"

text \<open>A selector that is empty matches everything.\<close>

definition selector_ok :: "selector \<Rightarrow> bool" where
  "selector_ok sel \<longleftrightarrow> (sel_Empty sel \<longrightarrow> (\<forall>ks. sel_Matches sel ks))"

text \<open>\<open>appendFn\<close> appends to the list that is returned.\<close>

fun append_matching :: "selector \<Rightarrow> KnativeServing list \<Rightarrow> KnativeServing list \<Rightarrow> KnativeServing list" where
  "append_matching sel [] ret = ret"
| "append_matching sel (m # ms) ret =
     (if sel_Empty sel then append_matching sel ms (ret @ [m])
      else if sel_Matches sel m then append_matching sel ms (ret @ [m])
      else append_matching sel ms ret)"

definition ListAll :: "KnativeServing gomap \<Rightarrow> selector \<Rightarrow> KnativeServing list" where
  "ListAll index sel = append_matching sel (map snd index) []"

text \<open>The index by namespace holds the objects of the namespace.\<close>

definition ListAllByNamespace :: "KnativeServing gomap \<Rightarrow> string \<Rightarrow> selector \<Rightarrow> KnativeServing list" where
  "ListAllByNamespace index namespace sel =
     (if namespace = [] then append_matching sel (map snd index) []
      else append_matching sel (filter (\<lambda>m. ksNamespace m = namespace) (map snd index)) [])"

definition lister_List :: "selector \<Rightarrow> ('w rstate, KnativeServing list) io" where
  "lister_List sel s = (Ok (ListAll (indexer s) sel), s)"

definition namespace_lister_List :: "string \<Rightarrow> selector \<Rightarrow> ('w rstate, KnativeServing list) io" where
  "namespace_lister_List namespace sel s = (Ok (ListAllByNamespace (indexer s) namespace sel), s)"

lemma append_matching_eq:
  "append_matching sel ms ret = ret @ filter (\<lambda>m. sel_Empty sel \<or> sel_Matches sel m) ms"
  by (induction ms arbitrary: ret) auto

text \<open>Listing a namespace is listing everything and keeping what is in it.\<close>

lemma ListAllByNamespace_eq:
  "ListAllByNamespace index namespace sel =
     filter (\<lambda>ks. namespace = [] \<or> ksNamespace ks = namespace) (ListAll index sel)"
  by (auto simp: ListAllByNamespace_def ListAll_def append_matching_eq conj_commute intro: filter_cong)

text \<open>What the cache holds: every object under its own key.\<close>

definition cache_ok :: "KnativeServing gomap \<Rightarrow> bool" where
  "cache_ok index \<longleftrightarrow> distinct (keys index) \<and> (\<forall>(k, ks) \<in> set index. MetaNamespaceKeyFunc ks = Ok k)"

lemma listed_iff_got:
  assumes "cache_ok (indexer s)" and "namespace \<noteq> []" and "plain namespace"
    and "\<forall>(k, ks) \<in> set (indexer s). plain (ksNamespace ks) \<and> plain (ksName ks)" and "plain name"
  shows "ks \<in> set (ListAllByNamespace (indexer s) namespace \<lparr>sel_Empty = True, sel_Matches = m\<rparr>) \<and> ksName ks = name \<longleftrightarrow>
    lister_Get namespace name s = (Ok ks, s)"
proof -
  let ?key = "namespace @ ''/'' @ name"
  have listed: "ks \<in> set (ListAllByNamespace (indexer s) namespace \<lparr>sel_Empty = True, sel_Matches = m\<rparr>) \<longleftrightarrow>
      ks \<in> snd ` set (indexer s) \<and> ksNamespace ks = namespace"
    using assms(2) by (auto simp: ListAllByNamespace_eq ListAll_def append_matching_eq)
  have key: "MetaNamespaceKeyFunc ks = Ok ?key \<longleftrightarrow> ksNamespace ks = namespace \<and> ksName ks = name"
    if "(k, ks) \<in> set (indexer s)" for k
  proof
    assume a: "MetaNamespaceKeyFunc ks = Ok ?key"
    have "plain (ksNamespace ks)" "plain (ksName ks)" using assms(4) that by auto
    from SplitMetaNamespaceKey_key [OF this a] have "SplitMetaNamespaceKey ?key = Ok (ksNamespace ks, ksName ks)" .
    moreover have "SplitMetaNamespaceKey ?key = Ok (namespace, name)"
      using assms(3,5) by (simp add: SplitMetaNamespaceKey_def plain_def Split_append Split_no_sep)
    ultimately show "ksNamespace ks = namespace \<and> ksName ks = name" by simp
  qed (use assms(2) in \<open>auto simp: MetaNamespaceKeyFunc_def\<close>)
  have "lister_Get namespace name s = (Ok ks, s) \<longleftrightarrow> map_of (indexer s) ?key = Some ks"
    by (auto simp: lister_Get_def split: option.splits)
  also have "\<dots> \<longleftrightarrow> (?key, ks) \<in> set (indexer s)"
    using assms(1) by (intro map_of_eq_Some_iff) (simp add: cache_ok_def)
  finally have got: "lister_Get namespace name s = (Ok ks, s) \<longleftrightarrow> (?key, ks) \<in> set (indexer s)" .
  show ?thesis
  proof
    assume "ks \<in> set (ListAllByNamespace (indexer s) namespace \<lparr>sel_Empty = True, sel_Matches = m\<rparr>) \<and> ksName ks = name"
    then obtain k where "(k, ks) \<in> set (indexer s)" "ksNamespace ks = namespace" "ksName ks = name"
      unfolding listed by auto
    moreover from this key have "MetaNamespaceKeyFunc ks = Ok ?key" by blast
    ultimately show "lister_Get namespace name s = (Ok ks, s)"
      using assms(1) unfolding got by (auto simp: cache_ok_def)
  next
    assume "lister_Get namespace name s = (Ok ks, s)"
    then have "(?key, ks) \<in> set (indexer s)" unfolding got .
    moreover from this assms(1) key have "ksNamespace ks = namespace \<and> ksName ks = name" by (auto simp: cache_ok_def)
    ultimately show "ks \<in> set (ListAllByNamespace (indexer s) namespace \<lparr>sel_Empty = True, sel_Matches = m\<rparr>) \<and> ksName ks = name"
      unfolding listed by force
  qed
qed

section \<open>The informer factory\<close>

type_synonym tweak = "(ListOptions \<Rightarrow> ListOptions) option"

record informer =
  inf_namespace :: string
  inf_resync :: "64 word"
  inf_tweak :: tweak

record sharedInformerFactory =
  f_namespace :: string
  f_tweakListOptions :: tweak
  f_defaultResync :: "64 word"
  f_customResync :: "64 word gomap"
  f_informers :: "informer gomap"
  f_startedInformers :: "bool gomap"
  f_runs :: "string list"

type_synonym SharedInformerOption = "sharedInformerFactory \<Rightarrow> sharedInformerFactory"

definition WithCustomResyncConfig :: "64 word gomap \<Rightarrow> SharedInformerOption" where
  "WithCustomResyncConfig resyncConfig factory =
     factory\<lparr>f_customResync := fold (\<lambda>(k, v). AList.update k v) resyncConfig (f_customResync factory)\<rparr>"

definition WithTweakListOptions :: "tweak \<Rightarrow> SharedInformerOption" where
  "WithTweakListOptions tweakListOptions factory = factory\<lparr>f_tweakListOptions := tweakListOptions\<rparr>"

definition WithNamespace :: "string \<Rightarrow> SharedInformerOption" where
  "WithNamespace namespace factory = factory\<lparr>f_namespace := namespace\<rparr>"

definition NewSharedInformerFactoryWithOptions :: "64 word \<Rightarrow> SharedInformerOption list \<Rightarrow> sharedInformerFactory" where
  "NewSharedInformerFactoryWithOptions defaultResync options =
     fold (\<lambda>opt. opt) options
       \<lparr>f_namespace = [], f_tweakListOptions = None, f_defaultResync = defaultResync, f_customResync = [],
        f_informers = [], f_startedInformers = [], f_runs = []\<rparr>"

definition NewSharedInformerFactory :: "64 word \<Rightarrow> sharedInformerFactory" where
  "NewSharedInformerFactory defaultResync = NewSharedInformerFactoryWithOptions defaultResync []"

definition NewFilteredSharedInformerFactory :: "64 word \<Rightarrow> string \<Rightarrow> tweak \<Rightarrow> sharedInformerFactory" where
  "NewFilteredSharedInformerFactory defaultResync namespace tweakListOptions =
     NewSharedInformerFactoryWithOptions defaultResync [WithNamespace namespace, WithTweakListOptions tweakListOptions]"

definition is_started :: "sharedInformerFactory \<Rightarrow> string \<Rightarrow> bool" where
  "is_started f t = (case map_of (f_startedInformers f) t of Some b \<Rightarrow> b | None \<Rightarrow> False)"

fun start_loop :: "string list \<Rightarrow> sharedInformerFactory \<Rightarrow> sharedInformerFactory" where
  "start_loop [] f = f"
| "start_loop (informerType # ts) f =
     start_loop ts
       (if \<not> is_started f informerType
        then f\<lparr>f_runs := f_runs f @ [informerType],
               f_startedInformers := AList.update informerType True (f_startedInformers f)\<rparr>
        else f)"

definition factory_Start :: "sharedInformerFactory \<Rightarrow> sharedInformerFactory" where
  "factory_Start f = start_loop (keys (f_informers f)) f"

text \<open>\<open>synced\<close> stands for \<open>cache.WaitForCacheSync(stopCh, informer.HasSynced)\<close>.\<close>

definition WaitForCacheSync :: "(informer \<Rightarrow> bool) \<Rightarrow> sharedInformerFactory \<Rightarrow> bool gomap" where
  "WaitForCacheSync synced f =
     map (\<lambda>(informType, informer). (informType, synced informer))
       (filter (\<lambda>(informerType, informer). is_started f informerType) (f_informers f))"

definition InformerFor ::
    "string \<Rightarrow> (64 word \<Rightarrow> informer) \<Rightarrow> sharedInformerFactory \<Rightarrow> informer \<times> sharedInformerFactory" where
  "InformerFor informerType newFunc f =
     (case map_of (f_informers f) informerType of
        Some informer \<Rightarrow> (informer, f)
      | None \<Rightarrow>
          let resyncPeriod =
                (case map_of (f_customResync f) informerType of Some p \<Rightarrow> p | None \<Rightarrow> f_defaultResync f);
              informer = newFunc resyncPeriod
          in (informer, f\<lparr>f_informers := AList.update informerType informer (f_informers f)\<rparr>))"

section \<open>The informer of servings\<close>

definition NewFilteredKnativeServingInformer :: "string \<Rightarrow> 64 word \<Rightarrow> tweak \<Rightarrow> informer" where
  "NewFilteredKnativeServingInformer namespace resyncPeriod tweakListOptions =
     \<lparr>inf_namespace = namespace, inf_resync = resyncPeriod, inf_tweak = tweakListOptions\<rparr>"

definition NewKnativeServingInformer :: "string \<Rightarrow> 64 word \<Rightarrow> informer" where
  "NewKnativeServingInformer namespace resyncPeriod = NewFilteredKnativeServingInformer namespace resyncPeriod None"

definition tweaked :: "informer \<Rightarrow> ListOptions \<Rightarrow> ListOptions" where
  "tweaked i options = (case inf_tweak i of None \<Rightarrow> options | Some t \<Rightarrow> t options)"

definition ListFunc :: "'w transports \<Rightarrow> informer \<Rightarrow> ListOptions \<Rightarrow> ('w, KnativeServing list) io" where
  "ListFunc c i options = serving_List c (inf_namespace i) (tweaked i options)"

definition WatchFunc :: "'w transports \<Rightarrow> informer \<Rightarrow> ListOptions \<Rightarrow> ('w, nat) io" where
  "WatchFunc c i options = serving_Watch c (inf_namespace i) (tweaked i options)"

definition serving_type :: string where "serving_type = ''*v1alpha1.KnativeServing''"

definition defaultInformer :: "sharedInformerFactory \<Rightarrow> 64 word \<Rightarrow> informer" where
  "defaultInformer f resyncPeriod = NewFilteredKnativeServingInformer (f_namespace f) resyncPeriod (f_tweakListOptions f)"

definition Informer :: "sharedInformerFactory \<Rightarrow> informer \<times> sharedInformerFactory" where
  "Informer f = InformerFor serving_type (defaultInformer f) f"

definition ForResource :: "GroupVersionResource \<Rightarrow> sharedInformerFactory \<Rightarrow> (informer \<times> sharedInformerFactory) result" where
  "ForResource resource f =
     (if resource = \<lparr>gvrGroup = GroupName, gvrVersion = SchemaVersion, gvrResource = ''knativeservings''\<rparr> then Ok (Informer f)
      else Err (Errorf (''no informer found for '' @ gvr_String resource)))"

section \<open>Sharing\<close>

text \<open>What is started is running, once; what runs is an informer of the factory.\<close>

definition factory_inv :: "sharedInformerFactory \<Rightarrow> bool" where
  "factory_inv f \<longleftrightarrow> distinct (keys (f_informers f)) \<and> distinct (f_runs f) \<and>
     set (f_runs f) = {t. is_started f t} \<and> set (f_runs f) \<subseteq> set (keys (f_informers f))"

lemma is_started_informers [simp]: "is_started (f\<lparr>f_informers := m\<rparr>) t = is_started f t"
  by (simp add: is_started_def)

lemma is_started_upd:
  "is_started (f\<lparr>f_runs := rs, f_startedInformers := AList.update t True st\<rparr>) t' \<longleftrightarrow>
   t' = t \<or> is_started (f\<lparr>f_startedInformers := st\<rparr>) t'"
  by (auto simp: is_started_def update_conv')

lemma start_loop_spec:
  assumes "distinct ts" and "distinct (f_runs f)" and "set (f_runs f) = {t. is_started f t}"
  shows "f_runs (start_loop ts f) = f_runs f @ filter (\<lambda>t. \<not> is_started f t) ts \<and> distinct (f_runs (start_loop ts f)) \<and>
    set (f_runs (start_loop ts f)) = {t. is_started (start_loop ts f) t} \<and>
    f_informers (start_loop ts f) = f_informers f"
  using assms
proof (induction ts arbitrary: f)
  case (Cons t ts)
  let ?g = "f\<lparr>f_runs := f_runs f @ [t], f_startedInformers := AList.update t True (f_startedInformers f)\<rparr>"
  have st: "is_started ?g x = (x = t \<or> is_started f x)" for x by (simp add: is_started_upd is_started_def)
  have g: "distinct (f_runs ?g)" "set (f_runs ?g) = {x. is_started ?g x}" if "\<not> is_started f t"
    using Cons.prems that unfolding st by auto
  have fl: "filter (\<lambda>x. \<not> is_started ?g x) ts = filter (\<lambda>x. \<not> is_started f x) ts"
    using Cons.prems(1) by (auto simp: st intro: filter_cong)
  show ?case
  proof (cases "is_started f t")
    case True
    then have eq: "start_loop (t # ts) f = start_loop ts f"
      "filter (\<lambda>t. \<not> is_started f t) (t # ts) = filter (\<lambda>t. \<not> is_started f t) ts" by simp_all
    show ?thesis unfolding eq using Cons.prems by (intro Cons.IH) auto
  next
    case False
    then have eq: "start_loop (t # ts) f = start_loop ts ?g"
      "f_runs f @ filter (\<lambda>t. \<not> is_started f t) (t # ts) = f_runs ?g @ filter (\<lambda>x. \<not> is_started ?g x) ts"
      "f_informers f = f_informers ?g" unfolding fl by simp_all
    show ?thesis unfolding eq using Cons.prems(1) g [OF False] by (intro Cons.IH) auto
  qed
qed auto

lemma factory_Start_inv:
  assumes "factory_inv f"
  shows "factory_inv (factory_Start f)" and "f_runs (factory_Start f) = f_runs f @ filter (\<lambda>t. t \<notin> set (f_runs f)) (keys (f_informers f))"
    and "factory_Start (factory_Start f) = factory_Start f"
proof -
  note s = start_loop_spec [of "keys (f_informers f)" f, folded factory_Start_def]
  have A: "f_runs (factory_Start f) = f_runs f @ filter (\<lambda>t. \<not> is_started f t) (keys (f_informers f))"
    and B: "distinct (f_runs (factory_Start f))" and C: "set (f_runs (factory_Start f)) = {t. is_started (factory_Start f) t}"
    and D: "f_informers (factory_Start f) = f_informers f"
    using s assms unfolding factory_inv_def by blast+
  have "set (f_runs (factory_Start f)) \<subseteq> set (keys (f_informers f))" using assms unfolding A factory_inv_def by auto
  with B C D assms show i: "factory_inv (factory_Start f)" by (simp only: factory_inv_def simp_thms)
  show r: "f_runs (factory_Start f) = f_runs f @ filter (\<lambda>t. t \<notin> set (f_runs f)) (keys (f_informers f))"
    using assms unfolding A factory_inv_def by simp
  have "start_loop ts g = g" if "\<forall>t \<in> set ts. is_started g t" for ts g
    using that by (induction ts) auto
  moreover have "\<forall>t \<in> set (keys (f_informers f)). is_started (factory_Start f) t"
  proof
    fix t assume "t \<in> set (keys (f_informers f))"
    then have "t \<in> set (f_runs (factory_Start f))" unfolding r by auto
    then show "is_started (factory_Start f) t" using i by (simp add: factory_inv_def)
  qed
  moreover note D
  ultimately show "factory_Start (factory_Start f) = factory_Start f"
    by (simp add: factory_Start_def [of "factory_Start f"])
qed

text \<open>One informer for each type, whoever asks, and starting does not change it.\<close>

lemma InformerFor_shared:
  assumes "InformerFor t newFunc f = (i, f')"
  shows "InformerFor t newFunc' f' = (i, f')" and "factory_inv f \<Longrightarrow> factory_inv f'"
    and "map_of (f_informers f') t = Some i"
proof -
  have k: "keys (AList.update t x m) = (if t \<in> set (keys m) then keys m else keys m @ [t])" for x and m :: "informer gomap"
    by (induction m) auto
  show "InformerFor t newFunc' f' = (i, f')" and "map_of (f_informers f') t = Some i"
    using assms by (auto simp: InformerFor_def Let_def split: option.splits)
  show "factory_inv f \<Longrightarrow> factory_inv f'"
    using assms by (auto simp: InformerFor_def Let_def factory_inv_def k dom_update split: option.splits)
qed

end
