(* ===== verification/Controller.thy ===== *)
theory Controller
  imports Extensions Effects Object_Keys
begin

text \<open>
  What stands around the reconciler: the metrics reporter (\<open>pkg/reconciler/stats_reporter.go\<close> over
  \<open>go.opencensus.io/tag\<close>), the platform extensions kept in a context
  (\<open>pkg/reconciler/knativeserving/common/extensions.go\<close>), and the events that put a key into the work
  queue (\<open>pkg/reconciler/knativeserving/controller.go\<close> over \<open>knative.dev/pkg/controller\<close>).
\<close>

section \<open>Metrics\<close>

type_synonym tags = "string gomap"

definition isASCII :: "string \<Rightarrow> bool" where
  "isASCII s = list_all (\<lambda>c. \<not> (of_char c < (32 :: nat) \<or> of_char c > (126 :: nat))) s"

definition checkValue :: "string \<Rightarrow> bool" where
  "checkValue v = (if length v > 255 then False else isASCII v)"

definition checkKeyName :: "string \<Rightarrow> bool" where
  "checkKeyName name = (if length name = 0 then False else if length name > 255 then False else isASCII name)"

definition errInvalidValue :: error where
  "errInvalidValue = Errorf ''invalid value: only ASCII characters accepted; max length must be 255 characters''"

definition errInvalidKeyName :: error where
  "errInvalidKeyName = Errorf ''invalid key name: only ASCII characters accepted; max length must be 255 characters''"

text \<open>\<open>tag.Insert(k, v)\<close>: a tag that is there stays.\<close>

definition tag_Insert :: "string \<Rightarrow> string \<Rightarrow> tags \<Rightarrow> tags result" where
  "tag_Insert k v m =
     (if \<not> checkValue v then Err errInvalidValue
      else case map_of m k of Some _ \<Rightarrow> Ok m | None \<Rightarrow> Ok (AList.update k v m))"

text \<open>\<open>tag.New\<close>: the tags of the context are checked and copied, then the mutators run.\<close>

fun copy_tags :: "tags \<Rightarrow> tags \<Rightarrow> tags result" where
  "copy_tags [] m = Ok m"
| "copy_tags ((k, v) # orig) m =
     (if \<not> checkKeyName k then Err errInvalidKeyName
      else if \<not> checkValue v then Err errInvalidValue
      else copy_tags orig (case map_of m k of Some _ \<Rightarrow> m | None \<Rightarrow> AList.update k v m))"

definition tag_New :: "tags \<Rightarrow> (tags \<Rightarrow> tags result) list \<Rightarrow> tags result" where
  "tag_New orig mutators = bind_result (copy_tags orig []) (fold_result (\<lambda>f m. f m) mutators)"

definition reconcilerNameTagKey :: string where "reconcilerNameTagKey = ''reconciler_name''"
definition knativeservingResourceNameTagKey :: string where
  "knativeservingResourceNameTagKey = ''knativeserving_resource_name''"
definition changeTagKey :: string where "changeTagKey = ''change''"

record reporter =
  reconcilerName :: string
  ctx_tags :: tags

definition NewStatsReporter :: "string \<Rightarrow> reporter result" where
  "NewStatsReporter name =
     bind_result (tag_New [] [tag_Insert reconcilerNameTagKey name])
       (\<lambda>ctx. Ok \<lparr>reconcilerName = name, ctx_tags = ctx\<rparr>)"

text \<open>A measurement of \<open>knativeserving_change_count\<close> counts one under its tags.\<close>

definition ReportKnativeservingChange :: "reporter \<Rightarrow> string \<Rightarrow> string \<Rightarrow> (tags list, unit) io" where
  "ReportKnativeservingChange r name change measured =
     (case tag_New (ctx_tags r) [tag_Insert knativeservingResourceNameTagKey name, tag_Insert changeTagKey change] of
        Ok ctx \<Rightarrow> (Ok (), measured @ [ctx])
      | Err e \<Rightarrow> (Err e, measured)
      | Panic p \<Rightarrow> (Panic p, measured))"

lemma NewStatsReporter_ok:
  "NewStatsReporter name =
     (if checkValue name then Ok \<lparr>reconcilerName = name, ctx_tags = [(reconcilerNameTagKey, name)]\<rparr>
      else Err errInvalidValue)"
  by (simp add: NewStatsReporter_def tag_New_def tag_Insert_def)

lemma checkKeyName_name: "checkKeyName reconcilerNameTagKey"
  by code_simp

lemma tag_keys_distinct [simp]:
  "knativeservingResourceNameTagKey \<noteq> reconcilerNameTagKey" "changeTagKey \<noteq> reconcilerNameTagKey"
  "changeTagKey \<noteq> knativeservingResourceNameTagKey" "reconcilerNameTagKey \<noteq> changeTagKey"
  "reconcilerNameTagKey \<noteq> knativeservingResourceNameTagKey" "knativeservingResourceNameTagKey \<noteq> changeTagKey"
  by (simp_all add: changeTagKey_def knativeservingResourceNameTagKey_def reconcilerNameTagKey_def)

text \<open>A change is measured unless the name of the resource is too long or not printable ASCII.\<close>

lemma ReportKnativeservingChange_outcome:
  assumes "NewStatsReporter controller = Ok r" and "checkValue change"
  shows "ReportKnativeservingChange r name change measured =
    (if checkValue name then
       (Ok (), measured @ [[(reconcilerNameTagKey, controller), (knativeservingResourceNameTagKey, name), (changeTagKey, change)]])
     else (Err errInvalidValue, measured))"
  using assms checkKeyName_name
  by (auto simp: NewStatsReporter_ok ReportKnativeservingChange_def tag_New_def tag_Insert_def split: if_splits)

section \<open>Platforms in a context\<close>

text \<open>A context as the list of its values, newest first.\<close>

datatype context_key = pfKey | OtherKey string

datatype ('k, 'v) context_value = PlatformsValue "'k platforms" | OtherValue 'v

type_synonym ('k, 'v) go_context = "(context_key \<times> ('k, 'v) context_value) list"

definition WithPlatforms :: "('k, 'v) go_context \<Rightarrow> 'k platforms \<Rightarrow> ('k, 'v) go_context" where
  "WithPlatforms ctx pf = (pfKey, PlatformsValue pf) # ctx"

definition GetPlatforms :: "('k, 'v) go_context \<Rightarrow> 'k platforms result" where
  "GetPlatforms ctx =
     (case map_of ctx pfKey of
        None \<Rightarrow> Ok []
      | Some (PlatformsValue pf) \<Rightarrow> Ok pf
      | Some (OtherValue v) \<Rightarrow> Panic ''interface conversion'')"

lemma GetPlatforms_WithPlatforms:
  "GetPlatforms (WithPlatforms ctx pf) = Ok pf"
  "GetPlatforms ((OtherKey k, v) # ctx) = GetPlatforms ctx"
  by (simp_all add: GetPlatforms_def WithPlatforms_def)

section \<open>Events and keys\<close>

definition GetControllerOf :: "obj \<Rightarrow> OwnerReference option" where
  "GetControllerOf controllee = find (\<lambda>ref. or_Controller ref = Some True) (GetOwnerReferences controllee)"

definition FilterGroupVersionKind :: "GroupVersionKind \<Rightarrow> obj \<Rightarrow> bool" where
  "FilterGroupVersionKind gvk object =
     (case GetControllerOf object of
        None \<Rightarrow> False
      | Some owner \<Rightarrow>
          or_APIVersion owner = gv_String \<lparr>gvGroup = gvkGroup gvk, gvVersion = gvkVersion gvk\<rparr> \<and> or_Kind owner = gvkKind gvk)"

type_synonym queue = "(string \<times> string) list"

definition EnqueueControllerOf :: "obj \<Rightarrow> queue \<Rightarrow> queue" where
  "EnqueueControllerOf object q =
     (case GetControllerOf object of None \<Rightarrow> q | Some owner \<Rightarrow> q @ [(GetNamespace object, or_Name owner)])"

definition Enqueue :: "KnativeServing \<Rightarrow> queue \<Rightarrow> queue" where
  "Enqueue ks q = q @ [(ksNamespace ks, ksName ks)]"

text \<open>What an informer tells its handlers.\<close>

datatype 'a event = Added 'a | Updated 'a 'a | Deleted 'a

text \<open>\<open>HandleAll(h)\<close>: of an update, the new object.\<close>

fun HandleAll :: "('a \<Rightarrow> queue \<Rightarrow> queue) \<Rightarrow> 'a event \<Rightarrow> queue \<Rightarrow> queue" where
  "HandleAll h (Added obj) = h obj"
| "HandleAll h (Updated first second) = h second"
| "HandleAll h (Deleted obj) = h obj"

fun filtered_handler :: "('a \<Rightarrow> bool) \<Rightarrow> ('a event \<Rightarrow> queue \<Rightarrow> queue) \<Rightarrow> 'a event \<Rightarrow> queue \<Rightarrow> queue" where
  "filtered_handler f handler (Added obj) q = (if \<not> f obj then q else handler (Added obj) q)"
| "filtered_handler f handler (Updated oldObj newObj) q =
     (if f newObj \<and> f oldObj then handler (Updated oldObj newObj) q
      else if f newObj \<and> \<not> f oldObj then handler (Added newObj) q
      else if \<not> f newObj \<and> f oldObj then handler (Deleted oldObj) q
      else q)"
| "filtered_handler f handler (Deleted obj) q = (if \<not> f obj then q else handler (Deleted obj) q)"

definition on_serving_event :: "KnativeServing event \<Rightarrow> queue \<Rightarrow> queue" where
  "on_serving_event = HandleAll Enqueue"

definition on_deployment_event :: "obj event \<Rightarrow> queue \<Rightarrow> queue" where
  "on_deployment_event =
     filtered_handler (FilterGroupVersionKind (WithKind SchemeGroupVersion Kind)) (HandleAll EnqueueControllerOf)"

text \<open>An object the operator owns leads back to its serving.\<close>

lemma owned_controller:
  assumes "owned_by u [owner_of ks]"
  shows "GetControllerOf u = Some (owner_of ks)" and "FilterGroupVersionKind (WithKind SchemeGroupVersion Kind) u"
  using owned_by_GetOwnerReferences [OF assms]
  by (simp_all add: GetControllerOf_def FilterGroupVersionKind_def owner_of_def NewControllerRef_def
      ks_GroupVersionKind_def WithKind_def SchemeGroupVersion_def)

end
