(* ===== verification/Deep_Copy.thy ===== *)
theory Deep_Copy
  imports Serving_Types
begin

text \<open>
  The generated copies of the API types (\<open>pkg/apis/serving/v1alpha1/zz_generated.deepcopy.go\<close>) on an
  explicit heap: a map, a slice and a pointer are addresses of cells, a struct holds the addresses, and
  assigning a struct copies the addresses only. Two structs that hold an address share what it stands
  for, which is what the copies are there to avoid.
\<close>

section \<open>The heap\<close>

type_synonym ref = "nat option"

record p_RegistryT =
  p_Default :: string
  p_Override :: ref
  p_ImagePullSecrets :: ref

record p_IstioGatewayOverride =
  p_Selector :: ref

record p_ResourceRequirementsOverride =
  p_Container :: string
  p_Limits :: ref
  p_Requests :: ref

record p_KnativeServingSpec =
  p_Config :: ref
  p_Registry :: p_RegistryT
  p_KnativeIngressGateway :: p_IstioGatewayOverride
  p_ClusterLocalGateway :: p_IstioGatewayOverride
  p_ControllerCustomCerts :: CustomCertsT
  p_HighAvailability :: ref
  p_Resources :: ref

record p_KnativeServingStatus =
  p_ObservedGeneration :: "64 word"
  p_Conditions :: ref
  p_Version :: string

record p_KnativeServing =
  p_Name :: string
  p_Namespace :: string
  p_UID :: string
  p_ResourceVersion :: string
  p_Generation :: "64 word"
  p_DeletionTimestamp :: ref
  p_Finalizers :: ref
  p_Spec :: p_KnativeServingSpec
  p_Status :: p_KnativeServingStatus

text \<open>What an address stands for. The first five cells hold no addresses.\<close>

datatype cell =
    MapCell "string gomap"
  | StringsCell "string list"
  | HighAvailabilityCell HighAvailabilityT
  | ConditionsCell "Condition list"
  | TimeCell time
  | MapsCell "(string \<times> ref) list"
  | OverridesCell "p_ResourceRequirementsOverride list"
  | ServingsCell "p_KnativeServing list"
  | CustomCertsCell CustomCertsT
  | GatewayCell p_IstioGatewayOverride
  | RegistryCell p_RegistryT
  | OverrideCell p_ResourceRequirementsOverride
  | SpecCell p_KnativeServingSpec
  | StatusCell p_KnativeServingStatus
  | ServingCell p_KnativeServing
  | ServingListCell ref

record heap =
  next_addr :: nat
  cells :: "nat \<Rightarrow> cell option"

definition alloc :: "cell \<Rightarrow> heap \<Rightarrow> ref \<times> heap" where
  "alloc c h =
     (Some (next_addr h), \<lparr>next_addr = Suc (next_addr h), cells = (cells h)(next_addr h := Some c)\<rparr>)"

definition deref :: "heap \<Rightarrow> ref \<Rightarrow> cell option" where
  "deref h r = (case r of None \<Rightarrow> None | Some a \<Rightarrow> cells h a)"

section \<open>Copies\<close>

text \<open>The loops over maps and slices, and \<open>copy\<close>.\<close>

fun copy_entries :: "string gomap \<Rightarrow> string gomap" where
  "copy_entries [] = []"
| "copy_entries ((key, val) # m) = (key, val) # copy_entries m"

fun copy_elems :: "'a list \<Rightarrow> 'a list" where
  "copy_elems [] = []"
| "copy_elems (x # xs) = x # copy_elems xs"

fun copy_each :: "('a \<Rightarrow> heap \<Rightarrow> 'a \<times> heap) \<Rightarrow> 'a list \<Rightarrow> heap \<Rightarrow> 'a list \<times> heap" where
  "copy_each into [] h = ([], h)"
| "copy_each into (x # xs) h =
     (case into x h of (y, h1) \<Rightarrow> case copy_each into xs h1 of (ys, h2) \<Rightarrow> (y # ys, h2))"

definition copy_map :: "ref \<Rightarrow> heap \<Rightarrow> ref \<times> heap" where
  "copy_map r h = (case deref h r of Some (MapCell m) \<Rightarrow> alloc (MapCell (copy_entries m)) h | _ \<Rightarrow> (r, h))"

definition copy_strings :: "ref \<Rightarrow> heap \<Rightarrow> ref \<times> heap" where
  "copy_strings r h = (case deref h r of Some (StringsCell xs) \<Rightarrow> alloc (StringsCell (copy_elems xs)) h | _ \<Rightarrow> (r, h))"

definition CustomCerts_DeepCopyInto :: "CustomCertsT \<Rightarrow> heap \<Rightarrow> CustomCertsT \<times> heap" where
  "CustomCerts_DeepCopyInto inp h = (inp, h)"

definition HighAvailability_DeepCopyInto :: "HighAvailabilityT \<Rightarrow> heap \<Rightarrow> HighAvailabilityT \<times> heap" where
  "HighAvailability_DeepCopyInto inp h = (inp, h)"

definition IstioGatewayOverride_DeepCopyInto ::
    "p_IstioGatewayOverride \<Rightarrow> heap \<Rightarrow> p_IstioGatewayOverride \<times> heap" where
  "IstioGatewayOverride_DeepCopyInto inp h =
     (case copy_map (p_Selector inp) h of (selector, h1) \<Rightarrow> (inp\<lparr>p_Selector := selector\<rparr>, h1))"

definition Registry_DeepCopyInto :: "p_RegistryT \<Rightarrow> heap \<Rightarrow> p_RegistryT \<times> heap" where
  "Registry_DeepCopyInto inp h =
     (case copy_map (p_Override inp) h of (override, h1) \<Rightarrow>
        case copy_strings (p_ImagePullSecrets inp) h1 of (secrets, h2) \<Rightarrow>
          (inp\<lparr>p_Override := override, p_ImagePullSecrets := secrets\<rparr>, h2))"

text \<open>\<open>corev1.ResourceRequirements\<close> is embedded; its quantities are texts.\<close>

definition ResourceRequirementsOverride_DeepCopyInto ::
    "p_ResourceRequirementsOverride \<Rightarrow> heap \<Rightarrow> p_ResourceRequirementsOverride \<times> heap" where
  "ResourceRequirementsOverride_DeepCopyInto inp h =
     (case copy_map (p_Limits inp) h of (limits, h1) \<Rightarrow>
        case copy_map (p_Requests inp) h1 of (requests, h2) \<Rightarrow>
          (inp\<lparr>p_Limits := limits, p_Requests := requests\<rparr>, h2))"

text \<open>The map of maps: a nil value stays nil.\<close>

definition copy_entry :: "string \<times> ref \<Rightarrow> heap \<Rightarrow> (string \<times> ref) \<times> heap" where
  "copy_entry kv h = (case kv of (key, val) \<Rightarrow> case copy_map val h of (outVal, h1) \<Rightarrow> ((key, outVal), h1))"

definition copy_config :: "ref \<Rightarrow> heap \<Rightarrow> ref \<times> heap" where
  "copy_config r h =
     (case deref h r of
        Some (MapsCell m) \<Rightarrow> (case copy_each copy_entry m h of (m', h1) \<Rightarrow> alloc (MapsCell m') h1)
      | _ \<Rightarrow> (r, h))"

definition copy_availability :: "ref \<Rightarrow> heap \<Rightarrow> ref \<times> heap" where
  "copy_availability r h =
     (case deref h r of Some (HighAvailabilityCell ha) \<Rightarrow> alloc (HighAvailabilityCell ha) h | _ \<Rightarrow> (r, h))"

definition copy_resources :: "ref \<Rightarrow> heap \<Rightarrow> ref \<times> heap" where
  "copy_resources r h =
     (case deref h r of
        Some (OverridesCell xs) \<Rightarrow>
          (case copy_each ResourceRequirementsOverride_DeepCopyInto xs h of (ys, h1) \<Rightarrow> alloc (OverridesCell ys) h1)
      | _ \<Rightarrow> (r, h))"

definition KnativeServingSpec_DeepCopyInto :: "p_KnativeServingSpec \<Rightarrow> heap \<Rightarrow> p_KnativeServingSpec \<times> heap" where
  "KnativeServingSpec_DeepCopyInto inp h =
     (case copy_config (p_Config inp) h of (config, h1) \<Rightarrow>
      case Registry_DeepCopyInto (p_Registry inp) h1 of (registry, h2) \<Rightarrow>
      case IstioGatewayOverride_DeepCopyInto (p_KnativeIngressGateway inp) h2 of (ingress, h3) \<Rightarrow>
      case IstioGatewayOverride_DeepCopyInto (p_ClusterLocalGateway inp) h3 of (local, h4) \<Rightarrow>
      case copy_availability (p_HighAvailability inp) h4 of (availability, h5) \<Rightarrow>
      case copy_resources (p_Resources inp) h5 of (resources, h6) \<Rightarrow>
        (inp\<lparr>p_Config := config, p_Registry := registry, p_KnativeIngressGateway := ingress,
            p_ClusterLocalGateway := local, p_HighAvailability := availability, p_Resources := resources\<rparr>, h6))"

text \<open>\<open>duckv1.Status\<close> is embedded in the status; its conditions hold no addresses.\<close>

definition copy_conditions :: "ref \<Rightarrow> heap \<Rightarrow> ref \<times> heap" where
  "copy_conditions r h =
     (case deref h r of Some (ConditionsCell cs) \<Rightarrow> alloc (ConditionsCell (copy_elems cs)) h | _ \<Rightarrow> (r, h))"

definition KnativeServingStatus_DeepCopyInto ::
    "p_KnativeServingStatus \<Rightarrow> heap \<Rightarrow> p_KnativeServingStatus \<times> heap" where
  "KnativeServingStatus_DeepCopyInto inp h =
     (case copy_conditions (p_Conditions inp) h of (conditions, h1) \<Rightarrow> (inp\<lparr>p_Conditions := conditions\<rparr>, h1))"

text \<open>\<open>ObjectMeta.DeepCopyInto\<close>, of the fields that are kept.\<close>

definition copy_time :: "ref \<Rightarrow> heap \<Rightarrow> ref \<times> heap" where
  "copy_time r h = (case deref h r of Some (TimeCell t) \<Rightarrow> alloc (TimeCell t) h | _ \<Rightarrow> (r, h))"

definition ObjectMeta_DeepCopyInto :: "p_KnativeServing \<Rightarrow> heap \<Rightarrow> p_KnativeServing \<times> heap" where
  "ObjectMeta_DeepCopyInto inp h =
     (case copy_time (p_DeletionTimestamp inp) h of (deletion, h1) \<Rightarrow>
      case copy_strings (p_Finalizers inp) h1 of (finalizers, h2) \<Rightarrow>
        (inp\<lparr>p_DeletionTimestamp := deletion, p_Finalizers := finalizers\<rparr>, h2))"

definition KnativeServing_DeepCopyInto :: "p_KnativeServing \<Rightarrow> heap \<Rightarrow> p_KnativeServing \<times> heap" where
  "KnativeServing_DeepCopyInto inp h =
     (case ObjectMeta_DeepCopyInto inp h of (out, h1) \<Rightarrow>
      case KnativeServingSpec_DeepCopyInto (p_Spec inp) h1 of (spec, h2) \<Rightarrow>
      case KnativeServingStatus_DeepCopyInto (p_Status inp) h2 of (status, h3) \<Rightarrow>
        (out\<lparr>p_Spec := spec, p_Status := status\<rparr>, h3))"

text \<open>A list of servings is its slice of items.\<close>

definition KnativeServingList_DeepCopyInto :: "ref \<Rightarrow> heap \<Rightarrow> ref \<times> heap" where
  "KnativeServingList_DeepCopyInto items h =
     (case deref h items of
        Some (ServingsCell xs) \<Rightarrow>
          (case copy_each KnativeServing_DeepCopyInto xs h of (ys, h1) \<Rightarrow> alloc (ServingsCell ys) h1)
      | _ \<Rightarrow> (items, h))"

section \<open>Copies of what a pointer points to\<close>

definition CustomCerts_DeepCopy :: "ref \<Rightarrow> heap \<Rightarrow> ref \<times> heap" where
  "CustomCerts_DeepCopy inp h =
     (case deref h inp of
        Some (CustomCertsCell x) \<Rightarrow> (case CustomCerts_DeepCopyInto x h of (out, h1) \<Rightarrow> alloc (CustomCertsCell out) h1)
      | _ \<Rightarrow> (None, h))"

definition HighAvailability_DeepCopy :: "ref \<Rightarrow> heap \<Rightarrow> ref \<times> heap" where
  "HighAvailability_DeepCopy inp h =
     (case deref h inp of
        Some (HighAvailabilityCell x) \<Rightarrow>
          (case HighAvailability_DeepCopyInto x h of (out, h1) \<Rightarrow> alloc (HighAvailabilityCell out) h1)
      | _ \<Rightarrow> (None, h))"

definition IstioGatewayOverride_DeepCopy :: "ref \<Rightarrow> heap \<Rightarrow> ref \<times> heap" where
  "IstioGatewayOverride_DeepCopy inp h =
     (case deref h inp of
        Some (GatewayCell x) \<Rightarrow> (case IstioGatewayOverride_DeepCopyInto x h of (out, h1) \<Rightarrow> alloc (GatewayCell out) h1)
      | _ \<Rightarrow> (None, h))"

definition Registry_DeepCopy :: "ref \<Rightarrow> heap \<Rightarrow> ref \<times> heap" where
  "Registry_DeepCopy inp h =
     (case deref h inp of
        Some (RegistryCell x) \<Rightarrow> (case Registry_DeepCopyInto x h of (out, h1) \<Rightarrow> alloc (RegistryCell out) h1)
      | _ \<Rightarrow> (None, h))"

definition ResourceRequirementsOverride_DeepCopy :: "ref \<Rightarrow> heap \<Rightarrow> ref \<times> heap" where
  "ResourceRequirementsOverride_DeepCopy inp h =
     (case deref h inp of
        Some (OverrideCell x) \<Rightarrow>
          (case ResourceRequirementsOverride_DeepCopyInto x h of (out, h1) \<Rightarrow> alloc (OverrideCell out) h1)
      | _ \<Rightarrow> (None, h))"

definition KnativeServingSpec_DeepCopy :: "ref \<Rightarrow> heap \<Rightarrow> ref \<times> heap" where
  "KnativeServingSpec_DeepCopy inp h =
     (case deref h inp of
        Some (SpecCell x) \<Rightarrow> (case KnativeServingSpec_DeepCopyInto x h of (out, h1) \<Rightarrow> alloc (SpecCell out) h1)
      | _ \<Rightarrow> (None, h))"

definition KnativeServingStatus_DeepCopy :: "ref \<Rightarrow> heap \<Rightarrow> ref \<times> heap" where
  "KnativeServingStatus_DeepCopy inp h =
     (case deref h inp of
        Some (StatusCell x) \<Rightarrow> (case KnativeServingStatus_DeepCopyInto x h of (out, h1) \<Rightarrow> alloc (StatusCell out) h1)
      | _ \<Rightarrow> (None, h))"

definition KnativeServing_DeepCopy :: "ref \<Rightarrow> heap \<Rightarrow> ref \<times> heap" where
  "KnativeServing_DeepCopy inp h =
     (case deref h inp of
        Some (ServingCell x) \<Rightarrow> (case KnativeServing_DeepCopyInto x h of (out, h1) \<Rightarrow> alloc (ServingCell out) h1)
      | _ \<Rightarrow> (None, h))"

definition KnativeServingList_DeepCopy :: "ref \<Rightarrow> heap \<Rightarrow> ref \<times> heap" where
  "KnativeServingList_DeepCopy inp h =
     (case deref h inp of
        Some (ServingListCell x) \<Rightarrow>
          (case KnativeServingList_DeepCopyInto x h of (out, h1) \<Rightarrow> alloc (ServingListCell out) h1)
      | _ \<Rightarrow> (None, h))"

text \<open>\<open>runtime.Object\<close>: a nil pointer becomes the nil interface.\<close>

definition KnativeServing_DeepCopyObject :: "ref \<Rightarrow> heap \<Rightarrow> ref \<times> heap" where
  "KnativeServing_DeepCopyObject inp h =
     (case KnativeServing_DeepCopy inp h of (Some c, h1) \<Rightarrow> (Some c, h1) | (None, h1) \<Rightarrow> (None, h1))"

definition KnativeServingList_DeepCopyObject :: "ref \<Rightarrow> heap \<Rightarrow> ref \<times> heap" where
  "KnativeServingList_DeepCopyObject inp h =
     (case KnativeServingList_DeepCopy inp h of (Some c, h1) \<Rightarrow> (Some c, h1) | (None, h1) \<Rightarrow> (None, h1))"

end
