(* ===== verification/Deep_Copy_Laws.thy ===== *)
theory Deep_Copy_Laws
  imports Deep_Copy
begin

text \<open>
  What a copy promises, as a locale: the copy has the value of the original, all its cells are new, and
  the cells that were there are as they were. The copiers of the structs are put together from those of
  their fields by a few combinators.
\<close>

section \<open>The contract of a copy\<close>

definition extends :: "heap \<Rightarrow> heap \<Rightarrow> bool" where
  "extends h h' \<longleftrightarrow> next_addr h \<le> next_addr h' \<and> (\<forall>a < next_addr h. cells h' a = cells h a)"

lemma extends_refl [simp]: "extends h h"
  by (simp add: extends_def)

lemma extends_trans: "extends h h1 \<Longrightarrow> extends h1 h2 \<Longrightarrow> extends h h2"
  by (auto simp: extends_def)

lemma extends_alloc: "alloc c h = (r, h') \<Longrightarrow> extends h h'"
  by (auto simp: alloc_def extends_def)

locale deep_copy =
  fixes valid :: "heap \<Rightarrow> 'a \<Rightarrow> bool" and val :: "heap \<Rightarrow> 'a \<Rightarrow> 'v" and reach :: "heap \<Rightarrow> 'a \<Rightarrow> nat set"
    and into :: "'a \<Rightarrow> heap \<Rightarrow> 'a \<times> heap"
  assumes local: "valid h x \<Longrightarrow> \<forall>a \<in> reach h x. cells h' a = cells h a \<Longrightarrow> next_addr h \<le> next_addr h' \<Longrightarrow>
      valid h' x \<and> val h' x = val h x \<and> reach h' x = reach h x"
    and bounded: "valid h x \<Longrightarrow> a \<in> reach h x \<Longrightarrow> a < next_addr h"
    and copied: "valid h x \<Longrightarrow> into x h = (y, h') \<Longrightarrow>
      extends h h' \<and> valid h' y \<and> val h' y = val h x \<and> (\<forall>a \<in> reach h' y. next_addr h \<le> a)"
begin

lemma stable:
  assumes "valid h x" and "extends h h'"
  shows "valid h' x" and "val h' x = val h x" and "reach h' x = reach h x"
  using local [OF assms(1), of h'] bounded [OF assms(1)] assms(2) by (auto simp: extends_def)

text \<open>The original is as it was, and shares nothing with the copy.\<close>

lemma separate:
  assumes "valid h x" and "into x h = (y, h')"
  shows "val h' y = val h x" and "val h' x = val h x" and "reach h' x \<inter> reach h' y = {}"
  using copied [OF assms] stable [OF assms(1), of h'] bounded [OF assms(1)] by (auto simp: not_less [symmetric])

text \<open>Whatever is written into the copy afterwards, the original keeps its value.\<close>

lemma protected:
  assumes "valid h x" and "into x h = (y, h')" and "\<forall>a. a \<notin> reach h' y \<longrightarrow> cells h2 a = cells h' a"
    and "next_addr h' \<le> next_addr h2"
  shows "val h2 x = val h x"
proof -
  have e: "extends h h'" using copied [OF assms(1,2)] by blast
  have "\<forall>a \<in> reach h' x. cells h2 a = cells h' a" using assms(3) separate(3) [OF assms(1,2)] by blast
  then have "val h2 x = val h' x" using local [OF stable(1) [OF assms(1) e] _ assms(4)] by blast
  with separate(2) [OF assms(1,2)] show ?thesis by simp
qed

end

section \<open>Combinators\<close>

text \<open>A cell without addresses.\<close>

definition flat_valid :: "(cell \<Rightarrow> bool) \<Rightarrow> heap \<Rightarrow> ref \<Rightarrow> bool" where
  "flat_valid P h r \<longleftrightarrow>
     (case r of None \<Rightarrow> True | Some a \<Rightarrow> a < next_addr h \<and> (\<exists>c. cells h a = Some c \<and> P c))"

lemma deep_copy_flat:
  assumes "\<And>r h. into r h = (case deref h r of None \<Rightarrow> (r, h) | Some c \<Rightarrow> if P c then alloc c h else (r, h))"
    and "\<And>h r. val h r = k (deref h r)"
  shows "deep_copy (flat_valid P) val (\<lambda>h r. set_option r) into"
  by unfold_locales
    (auto simp: assms flat_valid_def deref_def alloc_def extends_def split: option.splits if_splits)

text \<open>The elements of a list.\<close>

lemma deep_copy_list:
  assumes f: "deep_copy V val R f"
  shows "deep_copy (\<lambda>h xs. \<forall>x \<in> set xs. V h x) (\<lambda>h xs. map (val h) xs) (\<lambda>h xs. \<Union>x \<in> set xs. R h x) (copy_each f)"
proof
  fix h xs and h' :: heap
  assume v: "\<forall>x \<in> set xs. V h x" and e: "\<forall>a \<in> \<Union>x \<in> set xs. R h x. cells h' a = cells h a" "next_addr h \<le> next_addr h'"
  have "V h' x \<and> val h' x = val h x \<and> R h' x = R h x" if "x \<in> set xs" for x
    using deep_copy.local [OF f, of h x h'] v e that by blast
  then show "(\<forall>x \<in> set xs. V h' x) \<and> map (val h') xs = map (val h) xs \<and> (\<Union>x \<in> set xs. R h' x) = (\<Union>x \<in> set xs. R h x)"
    by simp
next
  fix h xs a
  assume "\<forall>x \<in> set xs. V h x" "a \<in> (\<Union>x \<in> set xs. R h x)"
  then show "a < next_addr h" using deep_copy.bounded [OF f] by blast
next
  fix h xs ys h'
  assume "\<forall>x \<in> set xs. V h x" "copy_each f xs h = (ys, h')"
  then show "extends h h' \<and> (\<forall>x \<in> set ys. V h' x) \<and> map (val h') ys = map (val h) xs \<and>
      (\<forall>a \<in> \<Union>x \<in> set ys. R h' x. next_addr h \<le> a)"
  proof (induction xs arbitrary: h ys)
    case (Cons x xs)
    obtain y h1 where y: "f x h = (y, h1)" by force
    obtain zs where zs: "copy_each f xs h1 = (zs, h')" "ys = y # zs"
      using Cons.prems(2) y by (auto split: prod.splits)
    note c = deep_copy.copied [OF f _ y]
    have 1: "extends h h1" "V h1 y" "val h1 y = val h x" "\<forall>a \<in> R h1 y. next_addr h \<le> a" using c Cons.prems(1) by auto
    have st: "V h1 z" "val h1 z = val h z" if "z \<in> set xs" for z
      using deep_copy.stable [OF f _ 1(1)] Cons.prems(1) that by auto
    have 2: "extends h1 h' \<and> (\<forall>x \<in> set zs. V h' x) \<and> map (val h') zs = map (val h1) xs \<and>
        (\<forall>a \<in> \<Union>x \<in> set zs. R h' x. next_addr h1 \<le> a)"
      using st(1) by (intro Cons.IH zs) blast
    then have 3: "V h' y" "val h' y = val h1 y" "R h' y = R h1 y"
      using deep_copy.stable [OF f 1(2)] by blast+
    have "map (val h1) xs = map (val h) xs" using st(2) by simp
    moreover have "next_addr h \<le> next_addr h1" using 1(1) by (simp add: extends_def)
    ultimately show ?case
      using 1 2 3 zs(2) extends_trans [OF 1(1), of h'] by (auto intro: order_trans)
  qed simp
qed

text \<open>Two fields, one after the other.\<close>

definition copy_both :: "('a \<Rightarrow> heap \<Rightarrow> 'a \<times> heap) \<Rightarrow> ('b \<Rightarrow> heap \<Rightarrow> 'b \<times> heap) \<Rightarrow> 'a \<times> 'b \<Rightarrow> heap \<Rightarrow> ('a \<times> 'b) \<times> heap" where
  "copy_both f g p h = (case f (fst p) h of (x, h1) \<Rightarrow> case g (snd p) h1 of (y, h2) \<Rightarrow> ((x, y), h2))"

lemma deep_copy_both:
  assumes f: "deep_copy V val R f" and g: "deep_copy W val2 S g"
  shows "deep_copy (\<lambda>h p. V h (fst p) \<and> W h (snd p)) (\<lambda>h p. (val h (fst p), val2 h (snd p)))
    (\<lambda>h p. R h (fst p) \<union> S h (snd p)) (copy_both f g)"
proof
  fix h p and h' :: heap
  assume "V h (fst p) \<and> W h (snd p)" "\<forall>a \<in> R h (fst p) \<union> S h (snd p). cells h' a = cells h a" "next_addr h \<le> next_addr h'"
  then show "(V h' (fst p) \<and> W h' (snd p)) \<and> (val h' (fst p), val2 h' (snd p)) = (val h (fst p), val2 h (snd p)) \<and>
      R h' (fst p) \<union> S h' (snd p) = R h (fst p) \<union> S h (snd p)"
    using deep_copy.local [OF f, of h "fst p" h'] deep_copy.local [OF g, of h "snd p" h'] by auto
next
  fix h p a
  show "V h (fst p) \<and> W h (snd p) \<Longrightarrow> a \<in> R h (fst p) \<union> S h (snd p) \<Longrightarrow> a < next_addr h"
    using deep_copy.bounded [OF f] deep_copy.bounded [OF g] by blast
next
  fix h p q h'
  assume v: "V h (fst p) \<and> W h (snd p)" and run: "copy_both f g p h = (q, h')"
  obtain x h1 where x: "f (fst p) h = (x, h1)" by force
  obtain y where y: "g (snd p) h1 = (y, h')" "q = (x, y)" using run x by (auto simp: copy_both_def split: prod.splits)
  have 1: "extends h h1" "V h1 x" "val h1 x = val h (fst p)" "\<forall>a \<in> R h1 x. next_addr h \<le> a"
    using deep_copy.copied [OF f _ x] v by auto
  have st: "W h1 (snd p)" "val2 h1 (snd p) = val2 h (snd p)" using deep_copy.stable [OF g _ 1(1)] v by auto
  have 2: "extends h1 h'" "W h' y" "val2 h' y = val2 h1 (snd p)" "\<forall>a \<in> S h' y. next_addr h1 \<le> a"
    using deep_copy.copied [OF g st(1) y(1)] by auto
  have 3: "V h' x" "val h' x = val h1 x" "R h' x = R h1 x" using deep_copy.stable [OF f 1(2) 2(1)] by auto
  have "next_addr h \<le> next_addr h1" using 1(1) by (simp add: extends_def)
  then show "extends h h' \<and> (V h' (fst q) \<and> W h' (snd q)) \<and> (val h' (fst q), val2 h' (snd q)) = (val h (fst p), val2 h (snd p)) \<and>
      (\<forall>a \<in> R h' (fst q) \<union> S h' (snd q). next_addr h \<le> a)"
    using 1 2 3 st y(2) extends_trans [OF 1(1) 2(1)] by (auto intro: order_trans)
qed

text \<open>A struct whose fields with addresses are \<open>get\<close>; the other fields are assigned.\<close>

lemma deep_copy_struct:
  assumes f: "deep_copy V val R f"
    and into: "\<And>x h. into x h = (case f (get x) h of (y, h') \<Rightarrow> (put x y, h'))"
    and get_put: "\<And>x y. get (put x y) = y" and rest: "\<And>x y v. k (put x y) v = k x v"
    and shape: "\<And>h x. V' h x = V h (get x)" "\<And>h x. R' h x = R h (get x)" "\<And>h x. val' h x = k x (val h (get x))"
  shows "deep_copy V' val' R' into"
proof
  fix h x and h' :: heap
  assume "V' h x" "\<forall>a \<in> R' h x. cells h' a = cells h a" "next_addr h \<le> next_addr h'"
  then show "V' h' x \<and> val' h' x = val' h x \<and> R' h' x = R' h x"
    using deep_copy.local [OF f, of h "get x" h'] by (simp add: shape)
next
  fix h x a
  show "V' h x \<Longrightarrow> a \<in> R' h x \<Longrightarrow> a < next_addr h"
    using deep_copy.bounded [OF f] by (simp add: shape)
next
  fix h x y h'
  assume v: "V' h x" and run: "into x h = (y, h')"
  obtain z where z: "f (get x) h = (z, h')" "y = put x z" using run by (auto simp: into split: prod.splits)
  then show "extends h h' \<and> V' h' y \<and> val' h' y = val' h x \<and> (\<forall>a \<in> R' h' y. next_addr h \<le> a)"
    using deep_copy.copied [OF f _ z(1)] v by (simp add: shape get_put rest)
qed

text \<open>A cell whose content is copied: \<open>proj\<close> takes the content out of the cells of its kind.\<close>

definition cell_valid :: "(cell \<Rightarrow> 'a option) \<Rightarrow> (heap \<Rightarrow> 'a \<Rightarrow> bool) \<Rightarrow> heap \<Rightarrow> ref \<Rightarrow> bool" where
  "cell_valid proj V h r \<longleftrightarrow>
     (case r of None \<Rightarrow> True | Some a \<Rightarrow>
        a < next_addr h \<and> (case cells h a of None \<Rightarrow> False | Some c \<Rightarrow> (case proj c of None \<Rightarrow> False | Some x \<Rightarrow> V h x)))"

definition cell_reach :: "(cell \<Rightarrow> 'a option) \<Rightarrow> (heap \<Rightarrow> 'a \<Rightarrow> nat set) \<Rightarrow> heap \<Rightarrow> ref \<Rightarrow> nat set" where
  "cell_reach proj R h r =
     (case r of None \<Rightarrow> {} | Some a \<Rightarrow>
        insert a (case cells h a of None \<Rightarrow> {} | Some c \<Rightarrow> case proj c of None \<Rightarrow> {} | Some x \<Rightarrow> R h x))"

lemma deep_copy_cell:
  assumes f: "deep_copy V val R f" and proj: "\<And>x. proj (C x) = Some x"
    and into: "\<And>r h c x. deref h r = Some c \<Longrightarrow> proj c = Some x \<Longrightarrow>
      into r h = (case f x h of (y, h1) \<Rightarrow> alloc (C y) h1)"
    and nil: "\<And>h. into None h = (None, h)"
    and shape: "\<And>h r. val' h r = k (case deref h r of None \<Rightarrow> None | Some c \<Rightarrow> map_option (val h) (proj c))"
  shows "deep_copy (cell_valid proj V) val' (cell_reach proj R) into"
    (is "deep_copy ?V' val' ?R' into")
proof
  fix h r and h' :: heap
  assume v: "?V' h r" and e: "\<forall>a \<in> ?R' h r. cells h' a = cells h a" "next_addr h \<le> next_addr h'"
  show "?V' h' r \<and> val' h' r = val' h r \<and> ?R' h' r = ?R' h r"
  proof (cases r)
    case (Some a)
    with v obtain c x where c: "a < next_addr h" "cells h a = Some c" "proj c = Some x" "V h x" by (auto simp: cell_valid_def split: option.splits)
    then have "\<forall>a \<in> R h x. cells h' a = cells h a" "cells h' a = Some c" using e Some by (simp_all add: cell_reach_def)
    with deep_copy.local [OF f c(4) this(1) e(2)] c Some e(2) show ?thesis by (simp add: shape deref_def cell_valid_def cell_reach_def)
  qed (simp add: shape deref_def cell_valid_def cell_reach_def)
next
  fix h r a
  assume "?V' h r" "a \<in> ?R' h r"
  then show "a < next_addr h" using deep_copy.bounded [OF f] by (auto simp: cell_valid_def cell_reach_def split: option.splits)
next
  fix h r q h'
  assume v: "?V' h r" and run: "into r h = (q, h')"
  show "extends h h' \<and> ?V' h' q \<and> val' h' q = val' h r \<and> (\<forall>a \<in> ?R' h' q. next_addr h \<le> a)"
  proof (cases r)
    case None
    then show ?thesis using run nil by (simp add: shape deref_def cell_valid_def cell_reach_def)
  next
    case (Some a)
    with v obtain c x where c: "a < next_addr h" "cells h a = Some c" "proj c = Some x" "V h x" by (auto simp: cell_valid_def split: option.splits)
    obtain y h1 where y: "f x h = (y, h1)" by force
    have "alloc (C y) h1 = (q, h')" using into [of h r c x] c y Some run by (simp add: deref_def)
    then have q: "q = Some (next_addr h1)" "next_addr h' = Suc (next_addr h1)" "cells h' (next_addr h1) = Some (C y)"
        "extends h1 h'"
      by (auto simp: alloc_def extends_def)
    have 1: "extends h h1" "V h1 y" "val h1 y = val h x" "\<forall>a \<in> R h1 y. next_addr h \<le> a"
      using deep_copy.copied [OF f c(4) y] by auto
    have 2: "V h' y" "val h' y = val h1 y" "R h' y = R h1 y" using deep_copy.stable [OF f 1(2) q(4)] by auto
    have "next_addr h \<le> next_addr h1" using 1(1) by (simp add: extends_def)
    then show ?thesis using 1 2 q Some c extends_trans [OF 1(1) q(4)] by (auto simp: shape deref_def proj cell_valid_def cell_reach_def)
  qed
qed

section \<open>The copiers of the API types\<close>

lemma copy_entries_id [simp]: "copy_entries m = m"
  by (induction m rule: copy_entries.induct) auto

lemma copy_elems_id [simp]: "copy_elems xs = xs"
  by (induction xs) auto

definition map_in :: "cell \<Rightarrow> string gomap option" where
  "map_in c = (case c of MapCell m \<Rightarrow> Some m | _ \<Rightarrow> None)"
definition strings_in :: "cell \<Rightarrow> string list option" where
  "strings_in c = (case c of StringsCell xs \<Rightarrow> Some xs | _ \<Rightarrow> None)"
definition availability_in :: "cell \<Rightarrow> HighAvailabilityT option" where
  "availability_in c = (case c of HighAvailabilityCell x \<Rightarrow> Some x | _ \<Rightarrow> None)"
definition conditions_in :: "cell \<Rightarrow> Condition list option" where
  "conditions_in c = (case c of ConditionsCell xs \<Rightarrow> Some xs | _ \<Rightarrow> None)"
definition time_in :: "cell \<Rightarrow> time option" where
  "time_in c = (case c of TimeCell t \<Rightarrow> Some t | _ \<Rightarrow> None)"
definition maps_in :: "cell \<Rightarrow> (string \<times> ref) list option" where
  "maps_in c = (case c of MapsCell m \<Rightarrow> Some m | _ \<Rightarrow> None)"
definition overrides_in :: "cell \<Rightarrow> p_ResourceRequirementsOverride list option" where
  "overrides_in c = (case c of OverridesCell xs \<Rightarrow> Some xs | _ \<Rightarrow> None)"
definition serving_in :: "cell \<Rightarrow> p_KnativeServing option" where
  "serving_in c = (case c of ServingCell x \<Rightarrow> Some x | _ \<Rightarrow> None)"
definition servings_in :: "cell \<Rightarrow> p_KnativeServing list option" where
  "servings_in c = (case c of ServingsCell xs \<Rightarrow> Some xs | _ \<Rightarrow> None)"

lemmas cell_contents = map_in_def strings_in_def availability_in_def conditions_in_def time_in_def maps_in_def
  overrides_in_def serving_in_def servings_in_def

text \<open>What the addresses stand for, as values of the model's records; a missing map or slice is empty.\<close>

definition at :: "(cell \<Rightarrow> 'a option) \<Rightarrow> heap \<Rightarrow> ref \<Rightarrow> 'a option" where
  "at proj h r = (case deref h r of None \<Rightarrow> None | Some c \<Rightarrow> proj c)"

definition list_at :: "(cell \<Rightarrow> 'a list option) \<Rightarrow> heap \<Rightarrow> ref \<Rightarrow> 'a list" where
  "list_at proj h r = (case at proj h r of None \<Rightarrow> [] | Some xs \<Rightarrow> xs)"

definition entry_at :: "heap \<Rightarrow> string \<times> ref \<Rightarrow> string \<times> string gomap" where
  "entry_at h e = (fst e, list_at map_in h (snd e))"

definition gateway_at :: "heap \<Rightarrow> p_IstioGatewayOverride \<Rightarrow> IstioGatewayOverride" where
  "gateway_at h g = \<lparr>Selector = list_at map_in h (p_Selector g)\<rparr>"

definition registry_at :: "heap \<Rightarrow> p_RegistryT \<Rightarrow> RegistryT" where
  "registry_at h r =
     \<lparr>Default = p_Default r, Override = list_at map_in h (p_Override r),
      ImagePullSecrets = list_at strings_in h (p_ImagePullSecrets r)\<rparr>"

definition override_at :: "heap \<Rightarrow> p_ResourceRequirementsOverride \<Rightarrow> ResourceRequirementsOverride" where
  "override_at h r =
     \<lparr>Container = p_Container r, Limits = list_at map_in h (p_Limits r), Requests = list_at map_in h (p_Requests r)\<rparr>"

definition config_at :: "heap \<Rightarrow> ref \<Rightarrow> string gomap gomap" where
  "config_at h r = map (entry_at h) (list_at maps_in h r)"

definition resources_at :: "heap \<Rightarrow> ref \<Rightarrow> ResourceRequirementsOverride list" where
  "resources_at h r = map (override_at h) (list_at overrides_in h r)"

definition spec_at :: "heap \<Rightarrow> p_KnativeServingSpec \<Rightarrow> KnativeServingSpec" where
  "spec_at h s =
     \<lparr>Config = config_at h (p_Config s), Registry = registry_at h (p_Registry s),
      KnativeIngressGateway = gateway_at h (p_KnativeIngressGateway s),
      ClusterLocalGateway = gateway_at h (p_ClusterLocalGateway s),
      ControllerCustomCerts = p_ControllerCustomCerts s,
      HighAvailability = at availability_in h (p_HighAvailability s),
      Resources = resources_at h (p_Resources s)\<rparr>"

definition status_at :: "heap \<Rightarrow> p_KnativeServingStatus \<Rightarrow> KnativeServingStatus" where
  "status_at h s =
     \<lparr>ObservedGeneration = p_ObservedGeneration s, Conditions = list_at conditions_in h (p_Conditions s),
      Version = p_Version s\<rparr>"

definition serving_at :: "heap \<Rightarrow> p_KnativeServing \<Rightarrow> KnativeServing" where
  "serving_at h s =
     \<lparr>ksName = p_Name s, ksNamespace = p_Namespace s, ksUID = p_UID s, ResourceVersion = p_ResourceVersion s,
      Generation = p_Generation s, DeletionTimestamp = at time_in h (p_DeletionTimestamp s),
      Finalizers = list_at strings_in h (p_Finalizers s), Spec = spec_at h (p_Spec s), Status = status_at h (p_Status s)\<rparr>"

text \<open>Cells without addresses.\<close>

abbreviation flat :: "(cell \<Rightarrow> 'a option) \<Rightarrow> heap \<Rightarrow> ref \<Rightarrow> bool" where
  "flat proj \<equiv> flat_valid (\<lambda>c. proj c \<noteq> None)"

lemma flat_copy_list:
  assumes "\<And>r h. into r h = (case deref h r of None \<Rightarrow> (r, h) | Some c \<Rightarrow> if proj c \<noteq> None then alloc c h else (r, h))"
  shows "deep_copy (flat proj) (list_at proj) (\<lambda>h r. set_option r) into"
  by (rule deep_copy_flat [where k = "\<lambda>c. case c of None \<Rightarrow> [] | Some c \<Rightarrow> (case proj c of None \<Rightarrow> [] | Some xs \<Rightarrow> xs)"])
    (auto simp: assms list_at_def at_def split: option.splits)

lemma flat_copy_at:
  assumes "\<And>r h. into r h = (case deref h r of None \<Rightarrow> (r, h) | Some c \<Rightarrow> if proj c \<noteq> None then alloc c h else (r, h))"
  shows "deep_copy (flat proj) (at proj) (\<lambda>h r. set_option r) into"
  by (rule deep_copy_flat [where k = "\<lambda>c. case c of None \<Rightarrow> None | Some c \<Rightarrow> proj c"])
    (auto simp: assms at_def split: option.splits)

interpretation maps: deep_copy "flat map_in" "list_at map_in" "\<lambda>h r. set_option r" copy_map
  by (rule flat_copy_list) (auto simp: copy_map_def map_in_def split: option.splits cell.splits)

interpretation strings: deep_copy "flat strings_in" "list_at strings_in" "\<lambda>h r. set_option r" copy_strings
  by (rule flat_copy_list) (auto simp: copy_strings_def strings_in_def split: option.splits cell.splits)

interpretation conditions: deep_copy "flat conditions_in" "list_at conditions_in" "\<lambda>h r. set_option r" copy_conditions
  by (rule flat_copy_list) (auto simp: copy_conditions_def conditions_in_def split: option.splits cell.splits)

interpretation times: deep_copy "flat time_in" "at time_in" "\<lambda>h r. set_option r" copy_time
  by (rule flat_copy_at) (auto simp: copy_time_def time_in_def split: option.splits cell.splits)

interpretation availability: deep_copy "flat availability_in" "at availability_in" "\<lambda>h r. set_option r" copy_availability
  by (rule flat_copy_at) (auto simp: copy_availability_def availability_in_def split: option.splits cell.splits)

text \<open>The structs, from the copies of their fields.\<close>

abbreviation or_nil :: "'a list option \<Rightarrow> 'a list" where
  "or_nil \<equiv> case_option [] (\<lambda>xs. xs)"

definition entry_valid :: "heap \<Rightarrow> string \<times> ref \<Rightarrow> bool" where
  "entry_valid h e \<longleftrightarrow> flat map_in h (snd e)"

definition entry_reach :: "heap \<Rightarrow> string \<times> ref \<Rightarrow> nat set" where
  "entry_reach h e = set_option (snd e)"

interpretation entries: deep_copy entry_valid entry_at entry_reach copy_entry
  by (rule deep_copy_struct [OF maps.deep_copy_axioms, where get = snd and put = "\<lambda>x y. (fst x, y)" and k = "\<lambda>x v. (fst x, v)"])
    (auto simp: copy_entry_def entry_at_def entry_valid_def entry_reach_def split: prod.splits)

definition config_valid :: "heap \<Rightarrow> ref \<Rightarrow> bool" where
  "config_valid = cell_valid maps_in (\<lambda>h xs. \<forall>x \<in> set xs. entry_valid h x)"

definition config_reach :: "heap \<Rightarrow> ref \<Rightarrow> nat set" where
  "config_reach = cell_reach maps_in (\<lambda>h xs. \<Union>x \<in> set xs. entry_reach h x)"

interpretation configs: deep_copy config_valid config_at config_reach copy_config
  unfolding config_valid_def config_reach_def
  by (rule deep_copy_cell [OF deep_copy_list [OF entries.deep_copy_axioms], where C = MapsCell and k = or_nil])
    (auto simp: maps_in_def copy_config_def config_at_def list_at_def at_def deref_def split: option.splits cell.splits)

definition gateway_valid :: "heap \<Rightarrow> p_IstioGatewayOverride \<Rightarrow> bool" where
  "gateway_valid h g \<longleftrightarrow> flat map_in h (p_Selector g)"

definition gateway_reach :: "heap \<Rightarrow> p_IstioGatewayOverride \<Rightarrow> nat set" where
  "gateway_reach h g = set_option (p_Selector g)"

interpretation gateways: deep_copy gateway_valid gateway_at gateway_reach IstioGatewayOverride_DeepCopyInto
  by (rule deep_copy_struct [OF maps.deep_copy_axioms, where get = p_Selector
        and put = "\<lambda>x y. x\<lparr>p_Selector := y\<rparr>" and k = "\<lambda>x v. \<lparr>Selector = v\<rparr>"])
    (simp_all add: IstioGatewayOverride_DeepCopyInto_def gateway_at_def gateway_valid_def gateway_reach_def)

definition registry_valid :: "heap \<Rightarrow> p_RegistryT \<Rightarrow> bool" where
  "registry_valid h r \<longleftrightarrow> flat map_in h (p_Override r) \<and> flat strings_in h (p_ImagePullSecrets r)"

definition registry_reach :: "heap \<Rightarrow> p_RegistryT \<Rightarrow> nat set" where
  "registry_reach h r = set_option (p_Override r) \<union> set_option (p_ImagePullSecrets r)"

interpretation registries: deep_copy registry_valid registry_at registry_reach Registry_DeepCopyInto
  by (rule deep_copy_struct [OF deep_copy_both [OF maps.deep_copy_axioms strings.deep_copy_axioms],
        where get = "\<lambda>x. (p_Override x, p_ImagePullSecrets x)"
        and put = "\<lambda>x y. x\<lparr>p_Override := fst y, p_ImagePullSecrets := snd y\<rparr>"
        and k = "\<lambda>x v. \<lparr>Default = p_Default x, Override = fst v, ImagePullSecrets = snd v\<rparr>"])
    (simp_all add: Registry_DeepCopyInto_def copy_both_def registry_at_def registry_valid_def registry_reach_def split: prod.split)

definition override_valid :: "heap \<Rightarrow> p_ResourceRequirementsOverride \<Rightarrow> bool" where
  "override_valid h r \<longleftrightarrow> flat map_in h (p_Limits r) \<and> flat map_in h (p_Requests r)"

definition override_reach :: "heap \<Rightarrow> p_ResourceRequirementsOverride \<Rightarrow> nat set" where
  "override_reach h r = set_option (p_Limits r) \<union> set_option (p_Requests r)"

interpretation overrides: deep_copy override_valid override_at override_reach ResourceRequirementsOverride_DeepCopyInto
  by (rule deep_copy_struct [OF deep_copy_both [OF maps.deep_copy_axioms maps.deep_copy_axioms],
        where get = "\<lambda>x. (p_Limits x, p_Requests x)"
        and put = "\<lambda>x y. x\<lparr>p_Limits := fst y, p_Requests := snd y\<rparr>"
        and k = "\<lambda>x v. \<lparr>Container = p_Container x, Limits = fst v, Requests = snd v\<rparr>"])
    (simp_all add: ResourceRequirementsOverride_DeepCopyInto_def copy_both_def override_at_def override_valid_def
      override_reach_def split: prod.split)

definition resources_valid :: "heap \<Rightarrow> ref \<Rightarrow> bool" where
  "resources_valid = cell_valid overrides_in (\<lambda>h xs. \<forall>x \<in> set xs. override_valid h x)"

definition resources_reach :: "heap \<Rightarrow> ref \<Rightarrow> nat set" where
  "resources_reach = cell_reach overrides_in (\<lambda>h xs. \<Union>x \<in> set xs. override_reach h x)"

interpretation resources: deep_copy resources_valid resources_at resources_reach copy_resources
  unfolding resources_valid_def resources_reach_def
  by (rule deep_copy_cell [OF deep_copy_list [OF overrides.deep_copy_axioms], where C = OverridesCell and k = or_nil])
    (auto simp: overrides_in_def copy_resources_def resources_at_def list_at_def at_def deref_def split: option.splits cell.splits)

definition spec_fields :: "p_KnativeServingSpec \<Rightarrow> ref \<times> p_RegistryT \<times> p_IstioGatewayOverride \<times> p_IstioGatewayOverride \<times> ref \<times> ref" where
  "spec_fields s = (p_Config s, p_Registry s, p_KnativeIngressGateway s, p_ClusterLocalGateway s, p_HighAvailability s, p_Resources s)"

definition spec_valid :: "heap \<Rightarrow> p_KnativeServingSpec \<Rightarrow> bool" where
  "spec_valid h s \<longleftrightarrow> config_valid h (p_Config s) \<and> registry_valid h (p_Registry s) \<and>
     gateway_valid h (p_KnativeIngressGateway s) \<and> gateway_valid h (p_ClusterLocalGateway s) \<and>
     flat availability_in h (p_HighAvailability s) \<and> resources_valid h (p_Resources s)"

definition spec_reach :: "heap \<Rightarrow> p_KnativeServingSpec \<Rightarrow> nat set" where
  "spec_reach h s = config_reach h (p_Config s) \<union> (registry_reach h (p_Registry s) \<union>
     (gateway_reach h (p_KnativeIngressGateway s) \<union> (gateway_reach h (p_ClusterLocalGateway s) \<union>
     (set_option (p_HighAvailability s) \<union> resources_reach h (p_Resources s)))))"

lemmas spec_fields_copy = deep_copy_both [OF configs.deep_copy_axioms deep_copy_both [OF registries.deep_copy_axioms
  deep_copy_both [OF gateways.deep_copy_axioms deep_copy_both [OF gateways.deep_copy_axioms
  deep_copy_both [OF availability.deep_copy_axioms resources.deep_copy_axioms]]]]]

interpretation specs: deep_copy spec_valid spec_at spec_reach KnativeServingSpec_DeepCopyInto
  by (rule deep_copy_struct [OF spec_fields_copy, where get = spec_fields
        and put = "\<lambda>x (c, r, i, l, a, q). x\<lparr>p_Config := c, p_Registry := r, p_KnativeIngressGateway := i,
          p_ClusterLocalGateway := l, p_HighAvailability := a, p_Resources := q\<rparr>"
        and k = "\<lambda>x (c, r, i, l, a, q). \<lparr>Config = c, Registry = r, KnativeIngressGateway = i, ClusterLocalGateway = l,
          ControllerCustomCerts = p_ControllerCustomCerts x, HighAvailability = a, Resources = q\<rparr>"])
    (auto simp: KnativeServingSpec_DeepCopyInto_def spec_fields_def copy_both_def spec_at_def spec_valid_def spec_reach_def
      split: prod.split)

definition status_valid :: "heap \<Rightarrow> p_KnativeServingStatus \<Rightarrow> bool" where
  "status_valid h s \<longleftrightarrow> flat conditions_in h (p_Conditions s)"

definition status_reach :: "heap \<Rightarrow> p_KnativeServingStatus \<Rightarrow> nat set" where
  "status_reach h s = set_option (p_Conditions s)"

interpretation statuses: deep_copy status_valid status_at status_reach KnativeServingStatus_DeepCopyInto
  by (rule deep_copy_struct [OF conditions.deep_copy_axioms, where get = p_Conditions
        and put = "\<lambda>x y. x\<lparr>p_Conditions := y\<rparr>"
        and k = "\<lambda>x v. \<lparr>ObservedGeneration = p_ObservedGeneration x, Conditions = v, Version = p_Version x\<rparr>"])
    (simp_all add: KnativeServingStatus_DeepCopyInto_def status_at_def status_valid_def status_reach_def)

definition serving_valid :: "heap \<Rightarrow> p_KnativeServing \<Rightarrow> bool" where
  "serving_valid h s \<longleftrightarrow> flat time_in h (p_DeletionTimestamp s) \<and> flat strings_in h (p_Finalizers s) \<and>
     spec_valid h (p_Spec s) \<and> status_valid h (p_Status s)"

definition serving_reach :: "heap \<Rightarrow> p_KnativeServing \<Rightarrow> nat set" where
  "serving_reach h s = set_option (p_DeletionTimestamp s) \<union> (set_option (p_Finalizers s) \<union>
     (spec_reach h (p_Spec s) \<union> status_reach h (p_Status s)))"

lemmas serving_fields_copy = deep_copy_both [OF times.deep_copy_axioms deep_copy_both [OF strings.deep_copy_axioms
  deep_copy_both [OF specs.deep_copy_axioms statuses.deep_copy_axioms]]]

interpretation kservings: deep_copy serving_valid serving_at serving_reach KnativeServing_DeepCopyInto
  by (rule deep_copy_struct [OF serving_fields_copy,
        where get = "\<lambda>x. (p_DeletionTimestamp x, p_Finalizers x, p_Spec x, p_Status x)"
        and put = "\<lambda>x (d, f, s, t). x\<lparr>p_DeletionTimestamp := d, p_Finalizers := f, p_Spec := s, p_Status := t\<rparr>"
        and k = "\<lambda>x (d, f, s, t). \<lparr>ksName = p_Name x, ksNamespace = p_Namespace x, ksUID = p_UID x,
          ResourceVersion = p_ResourceVersion x, Generation = p_Generation x, DeletionTimestamp = d, Finalizers = f,
          Spec = s, Status = t\<rparr>"])
    (auto simp: KnativeServing_DeepCopyInto_def ObjectMeta_DeepCopyInto_def copy_both_def serving_at_def serving_valid_def
      serving_reach_def split: prod.split)

section \<open>Behind pointers\<close>

definition pointer_valid :: "heap \<Rightarrow> ref \<Rightarrow> bool" where
  "pointer_valid = cell_valid serving_in serving_valid"

definition pointer_reach :: "heap \<Rightarrow> ref \<Rightarrow> nat set" where
  "pointer_reach = cell_reach serving_in serving_reach"

definition pointed_at :: "heap \<Rightarrow> ref \<Rightarrow> KnativeServing option" where
  "pointed_at h r = map_option (serving_at h) (at serving_in h r)"

interpretation pointers: deep_copy pointer_valid pointed_at pointer_reach KnativeServing_DeepCopy
  unfolding pointer_valid_def pointer_reach_def
  by (rule deep_copy_cell [OF kservings.deep_copy_axioms, where C = ServingCell and k = "\<lambda>v. v"])
    (auto simp: serving_in_def KnativeServing_DeepCopy_def pointed_at_def at_def deref_def split: option.splits cell.splits)

definition items_valid :: "heap \<Rightarrow> ref \<Rightarrow> bool" where
  "items_valid = cell_valid servings_in (\<lambda>h xs. \<forall>x \<in> set xs. serving_valid h x)"

definition items_reach :: "heap \<Rightarrow> ref \<Rightarrow> nat set" where
  "items_reach = cell_reach servings_in (\<lambda>h xs. \<Union>x \<in> set xs. serving_reach h x)"

definition items_at :: "heap \<Rightarrow> ref \<Rightarrow> KnativeServing list" where
  "items_at h r = map (serving_at h) (list_at servings_in h r)"

interpretation items: deep_copy items_valid items_at items_reach KnativeServingList_DeepCopyInto
  unfolding items_valid_def items_reach_def
  by (rule deep_copy_cell [OF deep_copy_list [OF kservings.deep_copy_axioms], where C = ServingsCell and k = or_nil])
    (auto simp: servings_in_def KnativeServingList_DeepCopyInto_def items_at_def list_at_def at_def deref_def
      split: option.splits cell.splits)

end
