(* ===== verification/Merge_Patch.thy ===== *)
theory Merge_Patch
  imports Overlay
begin

text \<open>
  JSON merge patches: computing one from three documents
  (\<open>vendor/k8s.io/apimachinery/pkg/util/jsonmergepatch/patch.go\<close> over the differences of
  \<open>vendor/github.com/evanphx/json-patch/merge.go\<close>) and applying one (\<open>merge.go\<close>). The code works on
  texts; here a text is the document it decodes to, if it is JSON at all. Every number of a decoded
  document is a \<open>float64\<close>. A nil node of the lazily decoded documents is the null it stands for.
\<close>

section \<open>Texts\<close>

text \<open>The empty text, a text that is no JSON (in brackets or not), and a document.\<close>

datatype doc_text = Empty_text | Malformed bool | Text json

definition errBadJSONDoc :: error where "errBadJSONDoc = Errorf ''Invalid JSON Document''"
definition errBadJSONPatch :: error where "errBadJSONPatch = Errorf ''Invalid JSON Patch''"
definition errBadMergeTypes :: error where "errBadMergeTypes = Errorf ''Mismatched JSON Documents''"

fun resemblesJSONArray :: "doc_text \<Rightarrow> bool" where
  "resemblesJSONArray (Text (JArr xs)) = True"
| "resemblesJSONArray (Malformed bracketed) = bracketed"
| "resemblesJSONArray _ = False"

text \<open>\<open>json.Unmarshal\<close> into a \<open>map[string]interface{}\<close>; null leaves the map nil.\<close>

fun unmarshal_map :: "doc_text \<Rightarrow> obj option" where
  "unmarshal_map (Text (JObj m)) = Some m"
| "unmarshal_map (Text JNull) = Some []"
| "unmarshal_map _ = None"

section \<open>Differences\<close>

text \<open>A key that is missing reads as nil.\<close>

fun matchesValue :: "json \<Rightarrow> json \<Rightarrow> bool"
and matchesArray :: "json list \<Rightarrow> json list \<Rightarrow> bool"
and matchesMap :: "obj \<Rightarrow> obj \<Rightarrow> bool" where
  "matchesValue av (JObj bt) = (case av of JObj am \<Rightarrow> length bt = length am \<and> matchesMap am bt | _ \<Rightarrow> False)"
| "matchesValue av (JArr bt) = (case av of JArr am \<Rightarrow> length am = length bt \<and> matchesArray am bt | _ \<Rightarrow> False)"
| "matchesValue av (JInt i) = False"
| "matchesValue av bv = (av = bv)"
| "matchesArray am [] = True"
| "matchesArray am (bv # bt) = (case am of [] \<Rightarrow> False | av # am' \<Rightarrow> matchesValue av bv \<and> matchesArray am' bt)"
| "matchesMap am [] = True"
| "matchesMap am ((key, bv) # bt) = (matchesValue (lookup_or JNull am key) bv \<and> matchesMap am bt)"

text \<open>The difference at one key, if any; \<open>av\<close> is what the first document has there.\<close>

definition unknown_type :: "'a result" where
  "unknown_type = Panic ''Unknown type''"

definition deleted_keys :: "obj \<Rightarrow> obj \<Rightarrow> obj" where
  "deleted_keys a b = map (\<lambda>(key, _). (key, JNull)) (filter (\<lambda>(key, _). \<not> has_key key b) a)"

fun diff_entry :: "json option \<Rightarrow> json \<Rightarrow> json option result"
and diff_values :: "obj \<Rightarrow> obj \<Rightarrow> obj result" where
  "diff_entry av (JObj bt) =
     (case av of
        Some (JObj am) \<Rightarrow>
          bind_result (diff_values am bt)
            (\<lambda>into. let dst = into @ deleted_keys am bt in Ok (if length dst > 0 then Some (JObj dst) else None))
      | _ \<Rightarrow> Ok (Some (JObj bt)))"
| "diff_entry av (JArr bt) =
     (case av of
        Some (JArr am) \<Rightarrow> Ok (if \<not> matchesValue (JArr am) (JArr bt) then Some (JArr bt) else None)
      | _ \<Rightarrow> Ok (Some (JArr bt)))"
| "diff_entry av (JInt i) = (case av of Some (JInt j) \<Rightarrow> unknown_type | _ \<Rightarrow> Ok (Some (JInt i)))"
| "diff_entry av JNull = (case av of Some JNull \<Rightarrow> Ok None | _ \<Rightarrow> Ok (Some JNull))"
| "diff_entry av bv =
     (case av of
        None \<Rightarrow> Ok (Some bv)
      | Some v \<Rightarrow> if go_type v \<noteq> go_type bv then Ok (Some bv)
                  else Ok (if \<not> matchesValue v bv then Some bv else None))"
| "diff_values a [] = Ok []"
| "diff_values a ((key, bv) # b) =
     bind_result (diff_entry (map_of a key) bv)
       (\<lambda>d. bind_result (diff_values a b)
         (\<lambda>into. Ok (case d of None \<Rightarrow> into | Some v \<Rightarrow> (key, v) # into)))"

definition getDiff :: "obj \<Rightarrow> obj \<Rightarrow> obj result" where
  "getDiff a b = bind_result (diff_values a b) (\<lambda>into. Ok (into @ deleted_keys a b))"

definition createObjectMergePatch :: "doc_text \<Rightarrow> doc_text \<Rightarrow> json result" where
  "createObjectMergePatch originalJSON modifiedJSON =
     (case (unmarshal_map originalJSON, unmarshal_map modifiedJSON) of
        (Some originalDoc, Some modifiedDoc) \<Rightarrow> bind_result (getDiff originalDoc modifiedDoc) (\<lambda>dest. Ok (JObj dest))
      | _ \<Rightarrow> Err errBadJSONDoc)"

definition createArrayMergePatch :: "doc_text \<Rightarrow> doc_text \<Rightarrow> json result" where
  "createArrayMergePatch originalJSON modifiedJSON =
     (case (originalJSON, modifiedJSON) of
        (Text (JArr originalDocs), Text (JArr modifiedDocs)) \<Rightarrow>
          if length modifiedDocs \<noteq> length originalDocs then Err errBadJSONDoc
          else bind_result
                 (map_result (\<lambda>(original, modified). createObjectMergePatch (Text original) (Text modified))
                   (zip originalDocs modifiedDocs))
                 (\<lambda>ps. Ok (JArr ps))
      | _ \<Rightarrow> Err errBadJSONDoc)"

definition CreateMergePatch :: "doc_text \<Rightarrow> doc_text \<Rightarrow> json result" where
  "CreateMergePatch originalJSON modifiedJSON =
     (let originalResemblesArray = resemblesJSONArray originalJSON;
          modifiedResemblesArray = resemblesJSONArray modifiedJSON
      in if originalResemblesArray \<and> modifiedResemblesArray then createArrayMergePatch originalJSON modifiedJSON
         else if \<not> originalResemblesArray \<and> \<not> modifiedResemblesArray then createObjectMergePatch originalJSON modifiedJSON
         else Err errBadMergeTypes)"

section \<open>Applying a patch\<close>

fun pruneNulls :: "json \<Rightarrow> json"
and pruneDocNulls :: "obj \<Rightarrow> obj"
and pruneAryNulls :: "json list \<Rightarrow> json list" where
  "pruneNulls (JObj m) = JObj (pruneDocNulls m)"
| "pruneNulls (JArr xs) = JArr (pruneAryNulls xs)"
| "pruneNulls v = v"
| "pruneDocNulls [] = []"
| "pruneDocNulls ((k, v) # doc) = (if v = JNull then pruneDocNulls doc else (k, pruneNulls v) # pruneDocNulls doc)"
| "pruneAryNulls [] = []"
| "pruneAryNulls (v # ary) = (if v = JNull then pruneAryNulls ary else pruneNulls v # pruneAryNulls ary)"

fun merge_nodes :: "bool \<Rightarrow> json \<Rightarrow> json \<Rightarrow> json"
and mergeDocs :: "bool \<Rightarrow> obj \<Rightarrow> obj \<Rightarrow> obj" where
  "merge_nodes mergeMerge cur (JObj patchDoc) =
     (case cur of JObj curDoc \<Rightarrow> JObj (mergeDocs mergeMerge curDoc patchDoc) | _ \<Rightarrow> pruneNulls (JObj patchDoc))"
| "merge_nodes mergeMerge cur patch = (case cur of JObj curDoc \<Rightarrow> patch | _ \<Rightarrow> pruneNulls patch)"
| "mergeDocs mergeMerge doc [] = doc"
| "mergeDocs mergeMerge doc ((k, v) # patch) =
     mergeDocs mergeMerge
       (if v = JNull then (if mergeMerge then AList.update k JNull doc else AList.delete k doc)
        else case map_of doc k of
               None \<Rightarrow> AList.update k (pruneNulls v) doc
             | Some JNull \<Rightarrow> AList.update k (pruneNulls v) doc
             | Some cur \<Rightarrow> AList.update k (merge_nodes mergeMerge cur v) doc)
       patch"

fun is_syntax_error :: "doc_text \<Rightarrow> bool" where
  "is_syntax_error (Text j) = False"
| "is_syntax_error _ = True"

definition doMergePatch :: "doc_text \<Rightarrow> doc_text \<Rightarrow> bool \<Rightarrow> json result" where
  "doMergePatch docData patchData mergeMerge =
     (case (docData, patchData) of
        (Text d, Text p) \<Rightarrow>
          if d = JNull then Err errBadJSONDoc
          else if p = JNull then Err errBadJSONPatch
          else (case (d, p) of
                  (JObj doc, JObj patch) \<Rightarrow> Ok (JObj (mergeDocs mergeMerge doc patch))
                | (_, JObj patch) \<Rightarrow> Ok (JObj (if mergeMerge then patch else pruneDocNulls patch))
                | (_, JArr patchAry) \<Rightarrow> Ok (JArr (pruneAryNulls patchAry))
                | _ \<Rightarrow> Err errBadJSONPatch)
      | _ \<Rightarrow> if is_syntax_error docData then Err errBadJSONDoc else Err errBadJSONPatch)"

definition MergePatch :: "doc_text \<Rightarrow> doc_text \<Rightarrow> json result" where
  "MergePatch docData patchData = doMergePatch docData patchData False"

definition MergeMergePatches :: "doc_text \<Rightarrow> doc_text \<Rightarrow> json result" where
  "MergeMergePatches patch1Data patch2Data = doMergePatch patch1Data patch2Data True"

section \<open>The three-way patch\<close>

fun keep_entry :: "bool \<Rightarrow> json \<Rightarrow> json option"
and keepOrDeleteNullInObj :: "bool \<Rightarrow> obj \<Rightarrow> obj" where
  "keep_entry keepNull JNull = (if keepNull then Some JNull else None)"
| "keep_entry keepNull (JObj typedVal) =
     (if length typedVal = 0 then (if \<not> keepNull then Some (JObj typedVal) else None)
      else let filteredSubMap = keepOrDeleteNullInObj keepNull typedVal
           in if length filteredSubMap \<noteq> 0 then Some (JObj filteredSubMap) else None)"
| "keep_entry keepNull v = (if \<not> keepNull then Some v else None)"
| "keepOrDeleteNullInObj keepNull [] = []"
| "keepOrDeleteNullInObj keepNull ((key, v) # m) =
     (case keep_entry keepNull v of
        None \<Rightarrow> keepOrDeleteNullInObj keepNull m
      | Some x \<Rightarrow> (key, x) # keepOrDeleteNullInObj keepNull m)"

definition keepOrDeleteNullInJsonPatch :: "json \<Rightarrow> bool \<Rightarrow> obj result" where
  "keepOrDeleteNullInJsonPatch patch keepNull =
     (case unmarshal_map (Text patch) of
        Some patchMap \<Rightarrow> Ok (keepOrDeleteNullInObj keepNull patchMap)
      | None \<Rightarrow> Err (Errorf ''json: cannot unmarshal''))"

fun HasConflicts :: "json \<Rightarrow> json \<Rightarrow> bool"
and conflicting_maps :: "obj \<Rightarrow> obj \<Rightarrow> bool"
and conflicting_lists :: "json list \<Rightarrow> json list \<Rightarrow> bool" where
  "HasConflicts (JObj typedLeft) right =
     (case right of JObj typedRight \<Rightarrow> conflicting_maps typedLeft typedRight | _ \<Rightarrow> True)"
| "HasConflicts (JArr typedLeft) right =
     (case right of
        JArr typedRight \<Rightarrow> length typedLeft \<noteq> length typedRight \<or> conflicting_lists typedLeft typedRight
      | _ \<Rightarrow> True)"
| "HasConflicts left right = (left \<noteq> right)"
| "conflicting_maps [] typedRight = False"
| "conflicting_maps ((key, leftValue) # typedLeft) typedRight =
     ((case map_of typedRight key of None \<Rightarrow> False | Some rightValue \<Rightarrow> HasConflicts leftValue rightValue) \<or>
      conflicting_maps typedLeft typedRight)"
| "conflicting_lists [] ys = False"
| "conflicting_lists (x # xs) ys =
     (case ys of [] \<Rightarrow> False | y # ys' \<Rightarrow> HasConflicts x y \<or> conflicting_lists xs ys')"

definition or_empty :: "doc_text \<Rightarrow> doc_text" where
  "or_empty t = (if t = Empty_text then Text (JObj []) else t)"

text \<open>The text of the conflict error lists the two patches and is left out.\<close>

definition CreateThreeWayJSONMergePatch :: "doc_text \<Rightarrow> doc_text \<Rightarrow> doc_text \<Rightarrow> json result" where
  "CreateThreeWayJSONMergePatch original modified current =
     bind_result (CreateMergePatch (or_empty current) (or_empty modified)) (\<lambda>changes.
     bind_result (keepOrDeleteNullInJsonPatch changes False) (\<lambda>addAndChangePatch.
     bind_result (CreateMergePatch (or_empty original) (or_empty modified)) (\<lambda>deletions.
     bind_result (keepOrDeleteNullInJsonPatch deletions True) (\<lambda>deletePatch.
       if HasConflicts (JObj addAndChangePatch) (JObj deletePatch) then Err (Errorf ''patch conflict'')
       else MergePatch (Text (JObj deletePatch)) (Text (JObj addAndChangePatch))))))"

end
