(* ===== verification/Merge_Patch_Laws.thy ===== *)
theory Merge_Patch_Laws
  imports Merge_Patch
begin

text \<open>
  What the three-way patch is for: applied to the current document it sets what the modified document
  says, removes what the original had and the modified document has no more, and keeps the rest. The
  documents are those of Kubernetes objects: the modified one has no nulls.
\<close>

section \<open>Documents\<close>

fun null_free :: "json \<Rightarrow> bool" and null_free_obj :: "obj \<Rightarrow> bool" and null_free_list :: "json list \<Rightarrow> bool" where
  "null_free JNull = False"
| "null_free (JObj m) = null_free_obj m"
| "null_free (JArr xs) = null_free_list xs"
| "null_free v = True"
| "null_free_obj [] = True"
| "null_free_obj ((k, v) # m) = (null_free v \<and> null_free_obj m)"
| "null_free_list [] = True"
| "null_free_list (v # xs) = (null_free v \<and> null_free_list xs)"

text \<open>Every number is a float: what \<open>json.Unmarshal\<close> makes.\<close>

fun floats :: "json \<Rightarrow> bool" and floats_obj :: "obj \<Rightarrow> bool" and floats_list :: "json list \<Rightarrow> bool" where
  "floats (JInt i) = False"
| "floats (JObj m) = floats_obj m"
| "floats (JArr xs) = floats_list xs"
| "floats v = True"
| "floats_obj [] = True"
| "floats_obj ((k, v) # m) = (floats v \<and> floats_obj m)"
| "floats_list [] = True"
| "floats_list (v # xs) = (floats v \<and> floats_list xs)"

definition config_doc :: "obj \<Rightarrow> bool" where
  "config_doc m \<longleftrightarrow> distinct (keys m) \<and> wf_obj m \<and> floats_obj m \<and> null_free_obj m"

lemma null_free_lookup: "null_free_obj m \<Longrightarrow> map_of m k = Some v \<Longrightarrow> null_free v"
  by (induction m) (auto split: if_splits)

lemma floats_lookup: "floats_obj m \<Longrightarrow> map_of m k = Some v \<Longrightarrow> floats v"
  by (induction m) (auto split: if_splits)

lemma config_doc_nested: "config_doc m \<Longrightarrow> map_of m k = Some (JObj m') \<Longrightarrow> config_doc m'"
  using wf_obj_lookup floats_lookup null_free_lookup by (fastforce simp: config_doc_def)

definition go_doc :: "obj \<Rightarrow> bool" where
  "go_doc m \<longleftrightarrow> distinct (keys m) \<and> wf_obj m"

lemma go_doc_empty [simp]: "go_doc []"
  by (simp add: go_doc_def)

lemma config_go_doc: "config_doc m \<Longrightarrow> go_doc m"
  by (simp add: go_doc_def config_doc_def)

lemma config_doc_Cons: "config_doc ((k, v) # m) \<Longrightarrow> config_doc m"
  by (simp add: config_doc_def)

lemma has_key_lookup: "has_key k m \<longleftrightarrow> map_of m k \<noteq> None"
  by (simp add: has_key_iff map_of_eq_None_iff)

lemma empty_iff_lookup: "(m = []) \<longleftrightarrow> (\<forall>k. map_of m k = None)"
  by (cases m) auto

definition as_obj :: "json option \<Rightarrow> obj" where
  "as_obj j = (case j of Some (JObj m) \<Rightarrow> m | _ \<Rightarrow> [])"

lemma as_obj_simps [simp]: "as_obj (Some (JObj m)) = m" "as_obj None = []"
  by (simp_all add: as_obj_def)

lemma go_doc_nested: "go_doc m \<Longrightarrow> go_doc (as_obj (map_of m k))"
  using wf_obj_lookup by (fastforce simp: go_doc_def as_obj_def split: option.splits json.splits)

section \<open>Pruning and merging\<close>

lemma prune_null_free:
  "null_free v \<Longrightarrow> pruneNulls v = v" "null_free_obj m \<Longrightarrow> pruneDocNulls m = m" "null_free_list xs \<Longrightarrow> pruneAryNulls xs = xs"
  by (induction v and m and xs rule: pruneNulls_pruneDocNulls_pruneAryNulls.induct) auto

definition merged :: "json option \<Rightarrow> json \<Rightarrow> json" where
  "merged cur v = (case cur of None \<Rightarrow> pruneNulls v | Some JNull \<Rightarrow> pruneNulls v | Some c \<Rightarrow> merge_nodes False c v)"

lemma mergeDocs_lookup:
  "distinct (keys patch) \<Longrightarrow>
   map_of (mergeDocs False doc patch) k =
     (case map_of patch k of None \<Rightarrow> map_of doc k | Some v \<Rightarrow> if v = JNull then None else Some (merged (map_of doc k) v))"
proof (induction patch arbitrary: doc)
  case (Cons p patch)
  obtain k0 v0 where p: "p = (k0, v0)" by force
  show ?case
  proof (cases "k = k0")
    case True
    with Cons.prems p have "map_of patch k = None" by (simp add: map_of_eq_None_iff)
    with True Cons p show ?thesis
      by (auto simp: merged_def update_conv' delete_conv split: option.splits json.splits)
  next
    case False
    with Cons p show ?thesis
      by (auto simp: update_conv' delete_conv split: option.splits json.splits)
  qed
qed simp

lemma merged_obj: "merged cur (JObj p) = JObj (if (\<exists>c. cur = Some (JObj c)) then mergeDocs False (as_obj cur) p else pruneDocNulls p)"
  by (cases cur) (auto simp: merged_def as_obj_def split: json.splits)

lemma merged_value: "null_free v \<Longrightarrow> (\<nexists>m. v = JObj m) \<Longrightarrow> merged cur v = v"
  by (cases cur; cases v) (auto simp: merged_def prune_null_free split: json.splits)

lemma mergeDocs_distinct: "distinct (keys doc) \<Longrightarrow> distinct (keys (mergeDocs b doc patch))"
proof (induction patch arbitrary: doc)
  case (Cons p patch)
  then show ?case by (cases p) (auto split: option.splits json.splits)
qed simp

section \<open>Differences\<close>

lemma is_ok_bind: "is_ok r \<Longrightarrow> (\<And>x. r = Ok x \<Longrightarrow> is_ok (f x)) \<Longrightarrow> is_ok (bind_result r f)"
  by (cases r) auto

lemma diff_is_ok:
  "floats bv \<Longrightarrow> is_ok (diff_entry av bv)" "floats_obj b \<Longrightarrow> is_ok (diff_values a b)"
  by (induction av bv and a b rule: diff_entry_diff_values.induct)
    (auto simp: Let_def intro!: is_ok_bind split: option.splits json.splits)

text \<open>The difference without its error, which documents do not have.\<close>

definition diff_at :: "json option \<Rightarrow> json \<Rightarrow> json option" where
  "diff_at av bv = (case diff_entry av bv of Ok d \<Rightarrow> d | _ \<Rightarrow> None)"

definition diff :: "obj \<Rightarrow> obj \<Rightarrow> obj" where
  "diff a b = (case getDiff a b of Ok d \<Rightarrow> d | _ \<Rightarrow> [])"

lemma diff_Ok: "floats_obj b \<Longrightarrow> getDiff a b = Ok (diff a b)"
  using diff_is_ok(2) [of b a] by (auto simp: diff_def getDiff_def is_ok_iff)

lemma diff_at_Ok: "floats bv \<Longrightarrow> diff_entry av bv = Ok (diff_at av bv)"
  using diff_is_ok(1) [of bv av] by (auto simp: diff_at_def is_ok_iff)

lemma diff_at_obj:
  assumes "floats_obj b"
  shows "diff_at av (JObj b) =
    (case av of Some (JObj a) \<Rightarrow> (if diff a b = [] then None else Some (JObj (diff a b))) | _ \<Rightarrow> Some (JObj b))"
proof (cases "\<exists>a. av = Some (JObj a)")
  case True
  then obtain a where av: "av = Some (JObj a)" by blast
  from diff_is_ok(2) [OF assms, of a] obtain into where "diff_values a b = Ok into" by (auto simp: is_ok_iff)
  then show ?thesis by (simp add: av diff_at_def diff_def getDiff_def Let_def)
qed (auto simp: diff_at_def split: option.splits json.splits)

lemma diff_at_value:
  assumes "null_free bv" and "floats bv" and "\<nexists>m. bv = JObj m"
  shows "diff_at av bv = (case av of Some v \<Rightarrow> if matchesValue v bv then None else Some bv | None \<Rightarrow> Some bv)"
  using assms by (cases bv) (auto simp: diff_at_def split: option.splits json.splits)

lemma diff_values_lookup:
  "diff_values a b = Ok into \<Longrightarrow> distinct (keys b) \<Longrightarrow> floats_obj b \<Longrightarrow>
   distinct (keys into) \<and> set (keys into) \<subseteq> set (keys b) \<and>
   map_of into k = Option.bind (map_of b k) (diff_at (map_of a k))"
proof (induction b arbitrary: into)
  case (Cons p b)
  obtain k0 v0 where p: "p = (k0, v0)" by force
  with Cons.prems obtain d rest where d: "diff_entry (map_of a k0) v0 = Ok d" "diff_values a b = Ok rest"
      "into = (case d of None \<Rightarrow> rest | Some v \<Rightarrow> (k0, v) # rest)"
    by auto
  have e: "diff_at (map_of a k0) v0 = d" using d(1) by (simp add: diff_at_def)
  have ih: "distinct (keys rest)" "set (keys rest) \<subseteq> set (keys b)"
      "map_of rest k = Option.bind (map_of b k) (diff_at (map_of a k))"
    using Cons.IH [OF d(2)] Cons.prems p by auto
  have none: "map_of rest k0 = None" using ih(2) Cons.prems p by (auto simp: map_of_eq_None_iff)
  show ?case
    using ih e d(3) p Cons.prems none by (cases d) (auto split: option.splits)
qed simp

lemma deleted_keys_keys: "keys (deleted_keys a b) = filter (\<lambda>k. \<not> has_key k b) (keys a)"
  by (induction a) (auto simp: deleted_keys_def)

lemma deleted_keys_Cons:
  "deleted_keys ((k, v) # a) b = (if has_key k b then deleted_keys a b else (k, JNull) # deleted_keys a b)"
  by (simp add: deleted_keys_def)

lemma deleted_keys_lookup:
  "map_of (deleted_keys a b) k = (if has_key k a \<and> \<not> has_key k b then Some JNull else None)"
  by (induction a) (auto simp: deleted_keys_Cons has_key_lookup deleted_keys_def [of "[]"])

lemma diff_lookup:
  assumes "distinct (keys b)" and "floats_obj b"
  shows "map_of (diff a b) k =
    (case map_of b k of Some bv \<Rightarrow> diff_at (map_of a k) bv | None \<Rightarrow> if has_key k a then Some JNull else None)"
proof -
  obtain into where into: "diff_values a b = Ok into" using diff_is_ok(2) [OF assms(2)] by (auto simp: is_ok_iff)
  note l = diff_values_lookup [OF into assms]
  have "diff a b = into @ deleted_keys a b" by (simp add: diff_def getDiff_def into)
  with l [of k] show ?thesis
    by (auto simp: map_add_def deleted_keys_lookup has_key_lookup split: option.splits)
qed

lemma diff_distinct:
  assumes "distinct (keys a)" and "distinct (keys b)" and "floats_obj b"
  shows "distinct (keys (diff a b))"
proof -
  obtain into where into: "diff_values a b = Ok into" using diff_is_ok(2) [OF assms(3)] by (auto simp: is_ok_iff)
  have "distinct (keys (into @ deleted_keys a b))"
    using diff_values_lookup [OF into assms(2,3)] assms(1) by (auto simp: deleted_keys_keys has_key_iff)
  then show ?thesis by (simp add: diff_def getDiff_def into)
qed

text \<open>Everything is new to an empty document.\<close>

lemma diff_empty:
  assumes "floats_obj b"
  shows "diff [] b = b"
proof -
  have "diff_values [] b = Ok b" using assms
  proof (induction b)
    case (Cons p b)
    obtain k v where "p = (k, v)" by force
    moreover from this have "diff_entry None v = Ok (Some v)" by (cases v) (auto simp: Cons)
    ultimately show ?case using Cons by simp
  qed simp
  then show ?thesis by (simp add: diff_def getDiff_def deleted_keys_def)
qed

section \<open>Keeping nulls or the rest\<close>

lemma keep_subset: "set (keys (keepOrDeleteNullInObj b m)) \<subseteq> set (keys m)"
proof (induction m)
  case (Cons p m)
  obtain k v where "p = (k, v)" by force
  with Cons show ?case by (cases "keep_entry b v") (simp_all, blast+)
qed simp

lemma keep_lookup:
  "distinct (keys m) \<Longrightarrow>
   map_of (keepOrDeleteNullInObj b m) k = Option.bind (map_of m k) (keep_entry b)"
proof (induction m)
  case (Cons p m)
  obtain k0 v0 where p: "p = (k0, v0)" by force
  have "map_of (keepOrDeleteNullInObj b m) k0 = None" if "k0 \<notin> set (keys m)"
    using that keep_subset [of b m] by (auto simp: map_of_eq_None_iff)
  with Cons p show ?case by (auto split: option.splits)
qed simp

lemma keep_distinct: "distinct (keys m) \<Longrightarrow> distinct (keys (keepOrDeleteNullInObj b m))"
proof (induction m)
  case (Cons p m)
  obtain k v where p: "p = (k, v)" by force
  with Cons keep_subset [of b m] have "k \<notin> set (keys (keepOrDeleteNullInObj b m))" by auto
  with Cons p show ?case by (auto split: option.splits)
qed simp

lemma keep_null_free:
  "null_free v \<Longrightarrow> keep_entry False v = Some v \<and> keep_entry True v = None"
  "null_free_obj m \<Longrightarrow> keepOrDeleteNullInObj False m = m \<and> keepOrDeleteNullInObj True m = []"
  "null_free_list xs \<Longrightarrow> True"
  by (induction v and m and xs rule: null_free_null_free_obj_null_free_list.induct) auto

lemma keep_entry_obj: "m \<noteq> [] \<Longrightarrow>
   keep_entry b (JObj m) = (if keepOrDeleteNullInObj b m = [] then None else Some (JObj (keepOrDeleteNullInObj b m)))"
  by simp

text \<open>What is kept without nulls has none.\<close>

lemma keep_False_null:
  "keep_entry False v \<noteq> Some JNull"
  by (cases v) (auto simp: Let_def)

section \<open>The parts of the three-way patch\<close>

definition deletions :: "obj \<Rightarrow> obj \<Rightarrow> obj" where
  "deletions a b = keepOrDeleteNullInObj True (diff a b)"

definition changes :: "obj \<Rightarrow> obj \<Rightarrow> obj" where
  "changes c b = keepOrDeleteNullInObj False (diff c b)"

definition patch_of :: "obj \<Rightarrow> obj \<Rightarrow> obj \<Rightarrow> obj" where
  "patch_of a b c = mergeDocs False (deletions a b) (changes c b)"

definition patched_doc :: "obj \<Rightarrow> obj \<Rightarrow> obj \<Rightarrow> obj" where
  "patched_doc a b c = mergeDocs False c (patch_of a b c)"

lemma config_docD:
  assumes "config_doc b"
  shows "distinct (keys b)" "wf_obj b" "floats_obj b" "null_free_obj b"
  using assms by (simp_all add: config_doc_def)

lemma empty_original:
  assumes "config_doc b"
  shows "deletions [] b = []" and "changes [] b = b"
  using keep_null_free(2) [of b] config_docD [OF assms] by (simp_all add: deletions_def changes_def diff_empty)

lemma nonempty_obj: "(if m = [] then None else Some (JObj m)) = None \<longleftrightarrow> m = []"
  by simp

lemma kept_diff:
  assumes "floats_obj b"
  shows "Option.bind (diff_at (Some (JObj a)) (JObj b)) (keep_entry True) =
      (if deletions a b = [] then None else Some (JObj (deletions a b)))"
    and "Option.bind (diff_at (Some (JObj a)) (JObj b)) (keep_entry False) =
      (if changes a b = [] then None else Some (JObj (changes a b)))"
  using assms by (auto simp: diff_at_obj deletions_def changes_def simp del: keep_entry.simps simp add: keep_entry_obj)

lemma deletions_lookup:
  assumes a: "distinct (keys a)" and b: "config_doc b"
  shows "map_of (deletions a b) k =
    (case map_of b k of
       None \<Rightarrow> if has_key k a then Some JNull else None
     | Some (JObj bt) \<Rightarrow> (let d = deletions (as_obj (map_of a k)) bt in if d = [] then None else Some (JObj d))
     | Some v \<Rightarrow> None)"
proof (cases "map_of b k")
  case None
  then show ?thesis
    using config_docD [OF b] a by (simp add: deletions_def keep_lookup diff_distinct diff_lookup)
next
  case (Some v)
  note n = null_free_lookup [OF config_docD(4) [OF b] Some] floats_lookup [OF config_docD(3) [OF b] Some]
  have l: "map_of (deletions a b) k = Option.bind (diff_at (map_of a k) v) (keep_entry True)"
    using config_docD [OF b] a Some by (simp add: deletions_def keep_lookup diff_distinct diff_lookup)
  show ?thesis
  proof (cases "\<exists>bt. v = JObj bt")
    case True
    then obtain bt where v: "v = JObj bt" by blast
    with Some b have bt: "config_doc bt" using config_doc_nested by blast
    show ?thesis
    proof (cases "\<exists>am. map_of a k = Some (JObj am)")
      case True
      then show ?thesis using l kept_diff(1) [OF config_docD(3) [OF bt]] by (auto simp: Some v Let_def)
    next
      case False
      then have "as_obj (map_of a k) = []" by (auto simp: as_obj_def split: option.splits json.splits)
      moreover from False have "diff_at (map_of a k) (JObj bt) = Some (JObj bt)"
        using diff_at_obj [OF config_docD(3) [OF bt]] by (auto split: option.splits json.splits)
      ultimately show ?thesis
        using l keep_null_free(1) [OF n(1)] by (simp add: Some v empty_original [OF bt])
    qed
  next
    case False
    with n have "diff_at (map_of a k) v \<in> {None, Some v}" by (simp add: diff_at_value split: option.splits)
    then have "map_of (deletions a b) k = None" using l keep_null_free(1) [OF n(1)] by auto
    with False show ?thesis by (auto simp: Some split: json.splits)
  qed
qed

lemma changes_lookup:
  assumes c: "distinct (keys c)" and b: "config_doc b"
  shows "map_of (changes c b) k =
    (case map_of b k of
       None \<Rightarrow> None
     | Some (JObj bt) \<Rightarrow>
         (case map_of c k of
            Some (JObj ct) \<Rightarrow> (if changes ct bt = [] then None else Some (JObj (changes ct bt)))
          | _ \<Rightarrow> Some (JObj bt))
     | Some v \<Rightarrow> (case map_of c k of Some w \<Rightarrow> if matchesValue w v then None else Some v | None \<Rightarrow> Some v))"
proof (cases "map_of b k")
  case None
  then show ?thesis
    using config_docD [OF b] c by (simp add: changes_def keep_lookup diff_distinct diff_lookup)
next
  case (Some v)
  note n = null_free_lookup [OF config_docD(4) [OF b] Some] floats_lookup [OF config_docD(3) [OF b] Some]
  have l: "map_of (changes c b) k = Option.bind (diff_at (map_of c k) v) (keep_entry False)"
    using config_docD [OF b] c Some by (simp add: changes_def keep_lookup diff_distinct diff_lookup)
  show ?thesis
  proof (cases "\<exists>bt. v = JObj bt")
    case True
    then obtain bt where v: "v = JObj bt" by blast
    with Some b have bt: "config_doc bt" using config_doc_nested by blast
    show ?thesis
    proof (cases "\<exists>ct. map_of c k = Some (JObj ct)")
      case True
      then show ?thesis using l kept_diff(2) [OF config_docD(3) [OF bt]] by (auto simp: Some v)
    next
      case False
      then have "diff_at (map_of c k) (JObj bt) = Some (JObj bt)"
        using diff_at_obj [OF config_docD(3) [OF bt]] by (auto split: option.splits json.splits)
      with l keep_null_free(1) [OF n(1)] False show ?thesis
        by (auto simp: Some v split: option.splits json.splits)
    qed
  next
    case False
    with n l keep_null_free(1) [OF n(1)] have "map_of (changes c b) k =
        (case map_of c k of Some w \<Rightarrow> if matchesValue w v then None else Some v | None \<Rightarrow> Some v)"
      by (simp add: diff_at_value split: option.splits)
    with False show ?thesis by (cases v) (simp_all add: Some split: option.split)
  qed
qed

lemma parts_distinct:
  assumes "distinct (keys a)" and "config_doc b"
  shows "distinct (keys (deletions a b))" and "distinct (keys (changes a b))" and "distinct (keys (patch_of a b c))"
  using assms config_docD by (auto simp: deletions_def changes_def patch_of_def intro!: keep_distinct diff_distinct mergeDocs_distinct)


text \<open>The patch at a key, for what the current document has there.\<close>

lemma mergeDocs_empty_patch: "mergeDocs b doc [] = doc"
  by simp

lemma mergeDocs_empty_doc: "distinct (keys patch) \<Longrightarrow> mergeDocs False [] patch = pruneDocNulls patch"
proof -
  have "distinct (keys (doc @ patch)) \<Longrightarrow> mergeDocs False doc patch = doc @ pruneDocNulls patch" for doc
  proof (induction patch arbitrary: doc)
    case (Cons p patch)
    obtain k v where p: "p = (k, v)" by force
    have k: "k \<notin> set (keys doc)" using Cons.prems p by auto
    then have "map_of doc k = None" "AList.delete k doc = doc" by (simp_all add: map_of_eq_None_iff)
    moreover have "AList.update k x doc = doc @ [(k, x)]" for x
      using k by (induction doc) auto
    ultimately show ?case
      using Cons.IH [of "doc @ [(k, pruneNulls v)]"] Cons.IH [of doc] Cons.prems p by auto
  qed simp
  then show "distinct (keys patch) \<Longrightarrow> mergeDocs False [] patch = pruneDocNulls patch" by simp
qed

lemma changes_no_null: "map_of (changes c b) k = Some v \<Longrightarrow> distinct (keys (diff c b)) \<Longrightarrow> v \<noteq> JNull"
  using keep_False_null by (fastforce simp: changes_def keep_lookup bind_eq_Some_conv)

lemma patch_of_empty:
  assumes "distinct (keys c)" and "config_doc b"
  shows "patch_of a b c = [] \<longleftrightarrow> deletions a b = [] \<and> changes c b = []"
proof -
  have d: "distinct (keys (diff c b))" "distinct (keys (changes c b))"
    using assms config_docD by (auto intro!: diff_distinct parts_distinct)
  have "map_of (patch_of a b c) k = None \<longleftrightarrow> map_of (deletions a b) k = None \<and> map_of (changes c b) k = None" for k
    using changes_no_null [OF _ d(1), of k]
    by (auto simp: patch_of_def mergeDocs_lookup [OF d(2)] split: option.splits)
  then show ?thesis unfolding empty_iff_lookup by blast
qed

lemma patch_of_lookup:
  assumes a: "go_doc a" and b: "config_doc b" and c: "go_doc c"
  shows "map_of (patch_of a b c) k =
    (case map_of b k of
       None \<Rightarrow> if has_key k a then Some JNull else None
     | Some (JObj bt) \<Rightarrow>
         (let p = patch_of (as_obj (map_of a k)) bt (as_obj (map_of c k))
          in if p = [] \<and> (\<exists>ct. map_of c k = Some (JObj ct)) then None else Some (JObj p))
     | Some v \<Rightarrow> (case map_of c k of Some w \<Rightarrow> if matchesValue w v then None else Some v | None \<Rightarrow> Some v))"
proof -
  have ad: "distinct (keys a)" and cd: "distinct (keys c)" using a c by (simp_all add: go_doc_def)
  note l = mergeDocs_lookup [OF parts_distinct(2) [OF cd b]] changes_lookup [OF cd b] deletions_lookup [OF ad b]
  show ?thesis
  proof (cases "map_of b k")
    case None
    then show ?thesis by (simp add: patch_of_def l)
  next
    case (Some v)
    show ?thesis
    proof (cases "\<exists>bt. v = JObj bt")
      case True
      then obtain bt where v: "v = JObj bt" by blast
      with Some b have bt: "config_doc bt" using config_doc_nested by blast
      let ?d = "deletions (as_obj (map_of a k)) bt" and ?ct = "as_obj (map_of c k)"
      have ct: "distinct (keys ?ct)" using go_doc_nested [OF c] by (simp add: go_doc_def)
      note e = mergeDocs_empty_doc [OF parts_distinct(2) [OF ct bt]]
      have del: "map_of (deletions a b) k = (if ?d = [] then None else Some (JObj ?d))"
        by (simp add: l Some v Let_def)
      have ch: "map_of (changes c b) k =
          (if changes ?ct bt = [] \<and> (\<exists>ct. map_of c k = Some (JObj ct)) then None else Some (JObj (changes ?ct bt)))"
        using empty_original(2) [OF bt]
        by (auto simp: l Some v as_obj_def split: option.splits json.splits)
      show ?thesis
      proof (cases "changes ?ct bt = [] \<and> (\<exists>ct. map_of c k = Some (JObj ct))")
        case True
        with ch have "map_of (patch_of a b c) k = map_of (deletions a b) k" by (simp add: patch_of_def l(1))
        with True del show ?thesis
          by (auto simp: Some v Let_def patch_of_empty [OF ct bt] patch_of_def [of "as_obj (map_of a k)"])
      next
        case False
        have p: "patch_of (as_obj (map_of a k)) bt ?ct = [] \<Longrightarrow> changes ?ct bt = []"
          by (simp add: patch_of_empty [OF ct bt])
        from ch False have "map_of (patch_of a b c) k = Some (merged (map_of (deletions a b) k) (JObj (changes ?ct bt)))"
          by (simp add: patch_of_def l(1))
        also have "\<dots> = Some (JObj (patch_of (as_obj (map_of a k)) bt ?ct))"
          by (simp add: merged_obj del patch_of_def e)
        finally show ?thesis using False p by (auto simp: Some v Let_def)
      qed
    next
      case False
      then have "map_of (deletions a b) k = None" by (cases v) (simp_all add: l Some)
      moreover have "null_free v" using null_free_lookup [OF config_docD(4) [OF b] Some] .
      ultimately show ?thesis
        using False merged_value [of v None]
        by (cases v) (auto simp: patch_of_def l Some split: option.splits)
    qed
  qed
qed

text \<open>The document after the patch.\<close>

lemma patched_doc_lookup:
  assumes a: "go_doc a" and b: "config_doc b" and c: "go_doc c"
  shows "map_of (patched_doc a b c) k =
    (case map_of b k of
       None \<Rightarrow> if has_key k a then None else map_of c k
     | Some (JObj bt) \<Rightarrow> Some (JObj (patched_doc (as_obj (map_of a k)) bt (as_obj (map_of c k))))
     | Some v \<Rightarrow> (case map_of c k of Some w \<Rightarrow> if matchesValue w v then Some w else Some v | None \<Rightarrow> Some v))"
proof -
  have "distinct (keys a)" using a by (simp add: go_doc_def)
  note l = mergeDocs_lookup [OF parts_distinct(3) [OF this b, of c]] patch_of_lookup [OF a b c]
  show ?thesis
  proof (cases "map_of b k")
    case None
    then show ?thesis by (simp add: patched_doc_def l)
  next
    case (Some v)
    show ?thesis
    proof (cases "\<exists>bt. v = JObj bt")
      case True
      then obtain bt where v: "v = JObj bt" by blast
      let ?p = "patch_of (as_obj (map_of a k)) bt (as_obj (map_of c k))"
      have bt: "config_doc bt" using config_doc_nested [OF b] Some v by blast
      have "distinct (keys ?p)"
        using go_doc_nested [OF a] by (auto simp: go_doc_def intro!: parts_distinct bt)
      then show ?thesis
        by (auto simp: patched_doc_def l Some v Let_def merged_obj mergeDocs_empty_doc as_obj_def
            split: option.splits json.splits)
    next
      case False
      moreover have "null_free v" using null_free_lookup [OF config_docD(4) [OF b] Some] .
      ultimately show ?thesis
        using merged_value [of v "map_of c k"]
        by (cases v) (auto simp: patched_doc_def l Some split: option.splits)
    qed
  qed
qed

end
