(* ===== verification/Three_Way_Patch.thy ===== *)
theory Three_Way_Patch
  imports Merge_Patch_Laws
begin

text \<open>
  A reference for the three-way patch, and the patches the code computes against it.
\<close>

section \<open>The reference\<close>

text \<open>Equality of documents, which does not depend on the order of keys.\<close>

fun same :: "json \<Rightarrow> json \<Rightarrow> bool" and same_obj :: "obj \<Rightarrow> obj \<Rightarrow> bool" and same_list :: "json list \<Rightarrow> json list \<Rightarrow> bool" where
  "same j (JObj y) = (case j of JObj x \<Rightarrow> list_all (\<lambda>(k, _). has_key k y) x \<and> same_obj x y | _ \<Rightarrow> False)"
| "same j (JArr ys) = (case j of JArr xs \<Rightarrow> same_list xs ys | _ \<Rightarrow> False)"
| "same j v = (j = v)"
| "same_obj x [] = True"
| "same_obj x ((k, v) # y) = ((case map_of x k of None \<Rightarrow> False | Some w \<Rightarrow> same w v) \<and> same_obj x y)"
| "same_list xs [] = (xs = [])"
| "same_list xs (v # ys) = (case xs of [] \<Rightarrow> False | w # xs' \<Rightarrow> same w v \<and> same_list xs' ys)"

text \<open>
  Every key of the modified document, objects key by key and other values as they are; of the other keys
  those of the current document that the original did not have.
\<close>

fun three_way_value :: "json option \<Rightarrow> json \<Rightarrow> json option \<Rightarrow> json"
and three_way_entries :: "obj \<Rightarrow> obj \<Rightarrow> obj \<Rightarrow> obj" where
  "three_way_value ov (JObj b) cv =
     JObj (three_way_entries (as_obj ov) b (as_obj cv) @
           filter (\<lambda>(k, _). \<not> has_key k b \<and> \<not> has_key k (as_obj ov)) (as_obj cv))"
| "three_way_value ov v cv = v"
| "three_way_entries a [] c = []"
| "three_way_entries a ((k, v) # b) c = (k, three_way_value (map_of a k) v (map_of c k)) # three_way_entries a b c"

definition three_way :: "obj \<Rightarrow> obj \<Rightarrow> obj \<Rightarrow> obj" where
  "three_way a b c = three_way_entries a b c @ filter (\<lambda>(k, _). \<not> has_key k b \<and> \<not> has_key k a) c"

lemma three_way_obj: "three_way_value ov (JObj b) cv = JObj (three_way (as_obj ov) b (as_obj cv))"
  by (simp add: three_way_def)

lemma three_way_entries_keys [simp]: "keys (three_way_entries a b c) = keys b"
  by (induction b) auto

lemma three_way_entries_lookup:
  "map_of (three_way_entries a b c) k = map_option (\<lambda>v. three_way_value (map_of a k) v (map_of c k)) (map_of b k)"
  by (induction b) auto

lemma map_of_filter_keys: "map_of (filter (\<lambda>(k, _). P k) m) k = (if P k then map_of m k else None)"
  by (induction m) auto

lemma three_way_lookup:
  "map_of (three_way a b c) k =
     (case map_of b k of
        Some v \<Rightarrow> Some (three_way_value (map_of a k) v (map_of c k))
      | None \<Rightarrow> if has_key k a then None else map_of c k)"
  by (auto simp: three_way_def map_add_def three_way_entries_lookup has_key_lookup map_of_filter_keys
      split: option.splits)

lemma keys_filter: "keys (filter (\<lambda>(k, _). P k) m) = filter P (keys m)"
  by (induction m) auto

lemma three_way_distinct:
  "distinct (keys b) \<Longrightarrow> distinct (keys c) \<Longrightarrow> distinct (keys (three_way a b c))"
  by (auto simp: three_way_def keys_filter has_key_iff)

lemma same_obj_iff:
  assumes "distinct (keys y)"
  shows "same (JObj x) (JObj y) \<longleftrightarrow> (\<forall>k. rel_option same (map_of x k) (map_of y k))"
proof -
  have f: "same_obj x y \<longleftrightarrow> (\<forall>k v. map_of y k = Some v \<longrightarrow> (\<exists>w. map_of x k = Some w \<and> same w v))"
    using assms
  proof (induction y)
    case (Cons p y)
    obtain k v where p: "p = (k, v)" by force
    with Cons.prems have "map_of y k = None" by (auto simp: map_of_eq_None_iff)
    with Cons p show ?case by (auto split: option.splits)
  qed simp
  have s: "list_all (\<lambda>(k, _). has_key k y) x \<longleftrightarrow> (\<forall>k. map_of y k = None \<longrightarrow> map_of x k = None)"
  proof -
    have "list_all (\<lambda>(k, _). has_key k y) x \<longleftrightarrow> set (keys x) \<subseteq> set (keys y)"
      unfolding has_key_iff by (simp add: list_all_iff case_prod_unfold image_subset_iff)
    then show ?thesis unfolding map_of_eq_None_iff by auto
  qed
  show ?thesis
  proof
    assume "same (JObj x) (JObj y)"
    then have l: "\<And>k v. map_of y k = Some v \<Longrightarrow> \<exists>w. map_of x k = Some w \<and> same w v"
        "\<And>k. map_of y k = None \<Longrightarrow> map_of x k = None" by (simp_all add: f s)
    show "\<forall>k. rel_option same (map_of x k) (map_of y k)"
    proof
      fix k
      show "rel_option same (map_of x k) (map_of y k)"
        using l(1) [of k] l(2) [of k] by (cases "map_of y k") auto
    qed
  next
    assume r: "\<forall>k. rel_option same (map_of x k) (map_of y k)"
    have "\<exists>w. map_of x k = Some w \<and> same w v" if "map_of y k = Some v" for k v
      using r [rule_format, of k] that by (auto simp: option_rel_Some2)
    moreover have "map_of x k = None" if "map_of y k = None" for k
      using r [rule_format, of k] that by simp
    ultimately show "same (JObj x) (JObj y)" by (simp add: f s)
  qed
qed

lemma size_lookup: "map_of m k = Some v \<Longrightarrow> size v < size (JObj m)"
  by (induction m) (auto split: if_splits)

lemma obj_induct [case_names nested]:
  assumes "\<And>b. (\<And>k bt. map_of b k = Some (JObj bt) \<Longrightarrow> P bt) \<Longrightarrow> P b"
  shows "P (b :: obj)"
proof (induction "size (JObj b)" arbitrary: b rule: less_induct)
  case less
  show ?case by (rule assms, rule less) (erule size_lookup)
qed

lemma same_refl: "wf_json v \<Longrightarrow> same v v" "wf_obj m \<Longrightarrow> \<forall>(k, v) \<in> set m. same v v" "wf_list xs \<Longrightarrow> same_list xs xs"
proof (induction v and m and xs rule: json_induct)
  case (JObj m)
  then have "rel_option same (map_of m k) (map_of m k)" for k
    by (cases "map_of m k") (auto dest: map_of_SomeD)
  with JObj.prems show ?case using same_obj_iff [of m m] by simp
qed auto


text \<open>Values that match are the same, when the second one has no nulls.\<close>

lemma matchesMap_lookup: "matchesMap x y \<Longrightarrow> (k, v) \<in> set y \<Longrightarrow> matchesValue (lookup_or JNull x k) v"
  by (induction y) auto

lemma matchesMap_keys:
  assumes "null_free_obj y" and "distinct (keys y)" and "length y = length x" and "matchesMap x y"
  shows "set (keys y) = set (keys x)"
proof -
  have "k \<in> set (keys x)" if "(k, v) \<in> set y" for k v
  proof (rule ccontr)
    assume "k \<notin> set (keys x)"
    then have "map_of x k = None" by (simp add: map_of_eq_None_iff)
    with matchesMap_lookup [OF assms(4) that] have "matchesValue JNull v" by (simp add: lookup_or_def)
    moreover have "null_free v" using null_free_lookup [OF assms(1)] that assms(2) by simp
    ultimately show False by (cases v) auto
  qed
  then have sub: "set (keys y) \<subseteq> set (keys x)" by auto
  have "card (set (keys x)) \<le> length (keys x)" by (rule card_length)
  also have "\<dots> = card (set (keys y))" using assms(3) distinct_card [OF assms(2)] by simp
  finally show ?thesis using sub by (intro card_seteq) simp_all
qed

lemma matches_same:
  "matchesValue w v \<Longrightarrow> null_free v \<Longrightarrow> wf_json v \<Longrightarrow> same w v"
  "matchesArray ws vs \<Longrightarrow> null_free_list vs \<Longrightarrow> wf_list vs \<Longrightarrow> length ws = length vs \<Longrightarrow> same_list ws vs"
  "matchesMap x y \<Longrightarrow> null_free_obj y \<Longrightarrow> wf_obj y \<Longrightarrow> set (keys y) \<subseteq> set (keys x) \<Longrightarrow> same_obj x y"
proof (induction w v and ws vs and x y rule: matchesValue_matchesArray_matchesMap.induct)
  case (1 av bt)
  then obtain x where av: "av = JObj x" "length bt = length x" "matchesMap x bt" by (auto split: json.splits)
  with 1 have k: "set (keys bt) = set (keys x)" by (intro matchesMap_keys) auto
  with 1 av have "same_obj x bt" by auto
  moreover have "list_all (\<lambda>(k, _). has_key k bt) x" unfolding has_key_iff k by (force simp: list_all_iff)
  ultimately show ?case by (simp add: av)
next
  case (8 x key v y)
  then obtain w where "map_of x key = Some w" by (force simp: map_of_eq_None_iff dest: weak_map_of_SomeI)
  with 8 show ?case by (auto simp: lookup_or_def)
qed (auto split: json.splits list.splits)

lemma patched_doc_three_way:
  assumes "go_doc a" and "config_doc b" and "go_doc c"
  shows "same (JObj (patched_doc a b c)) (JObj (three_way a b c))"
  using assms
proof (induction b arbitrary: a c rule: obj_induct)
  case (nested b)
  note l = patched_doc_lookup [OF nested.prems] three_way_lookup [of a b c]
  have "rel_option same (map_of (patched_doc a b c) k) (map_of (three_way a b c) k)" for k
  proof (cases "map_of b k")
    case None
    have "same w w" if "map_of c k = Some w" for w
      using that nested.prems(3) wf_obj_lookup by (auto simp: go_doc_def intro: same_refl)
    then show ?thesis by (cases "map_of c k") (simp_all add: l None)
  next
    case (Some v)
    note v = null_free_lookup [OF config_docD(4) [OF nested.prems(2)] Some]
      wf_obj_lookup [OF config_docD(2) [OF nested.prems(2)] Some]
    show ?thesis
    proof (cases "\<exists>bt. v = JObj bt")
      case True
      then obtain bt where bt: "v = JObj bt" by blast
      with Some nested.prems(2) have "config_doc bt" using config_doc_nested by blast
      then have "same (JObj (patched_doc (as_obj (map_of a k)) bt (as_obj (map_of c k))))
          (JObj (three_way (as_obj (map_of a k)) bt (as_obj (map_of c k))))"
        using nested.IH [of k bt] Some bt nested.prems go_doc_nested by blast
      then show ?thesis by (simp add: l Some bt three_way_obj del: same.simps three_way_value.simps(1))
    next
      case False
      then have "three_way_value (map_of a k) v (map_of c k) = v" by (cases v) simp_all
      with False v show ?thesis
        using matches_same(1) [of _ v] same_refl(1) [of v]
        by (cases v) (simp_all add: l Some split: option.split)
    qed
  qed
  moreover have d: "distinct (keys (three_way a b c))"
    using nested.prems config_docD by (auto simp: go_doc_def intro!: three_way_distinct)
  ultimately show ?case unfolding same_obj_iff [OF d] by blast
qed

section \<open>The patch the code computes\<close>

lemma conflicting_mapsD:
  "conflicting_maps x y \<Longrightarrow> \<exists>(k, v) \<in> set x. \<exists>w. map_of y k = Some w \<and> HasConflicts v w"
  by (induction x) (auto split: option.splits)

text \<open>What changes and what goes never conflict.\<close>

lemma no_conflict:
  "go_doc a \<Longrightarrow> config_doc b \<Longrightarrow> go_doc c \<Longrightarrow> \<not> HasConflicts (JObj (changes c b)) (JObj (deletions a b))"
proof (induction b arbitrary: a c rule: obj_induct)
  case (nested b)
  have ad: "distinct (keys a)" and cd: "distinct (keys c)" using nested.prems by (simp_all add: go_doc_def)
  note l = changes_lookup [OF cd nested.prems(2)] deletions_lookup [OF ad nested.prems(2)]
  have "\<not> HasConflicts v w" if v: "map_of (changes c b) k = Some v" and w: "map_of (deletions a b) k = Some w" for k v w
  proof -
    from v w obtain bt where bt: "map_of b k = Some (JObj bt)"
      by (auto simp: l split: option.splits json.splits)
    then have "config_doc bt" using config_doc_nested nested.prems(2) by blast
    moreover from this have "v = JObj (changes (as_obj (map_of c k)) bt)"
      using v bt empty_original(2) by (auto simp: l as_obj_def split: option.splits json.splits if_splits)
    moreover have "w = JObj (deletions (as_obj (map_of a k)) bt)"
      using w bt by (auto simp: l Let_def split: if_splits)
    ultimately show ?thesis using nested.IH [OF bt] nested.prems go_doc_nested by blast
  qed
  then show ?case
    using parts_distinct(2) [OF cd nested.prems(2)] by (fastforce dest: conflicting_mapsD)
qed

lemma createObjectMergePatch_Ok:
  "config_doc b \<Longrightarrow> CreateMergePatch (Text (JObj a)) (Text (JObj b)) = Ok (JObj (diff a b))"
  by (simp add: CreateMergePatch_def createObjectMergePatch_def diff_Ok config_docD)

lemma CreateThreeWay_Ok:
  assumes "go_doc a" and "config_doc b" and "go_doc c"
  shows "CreateThreeWayJSONMergePatch (Text (JObj a)) (Text (JObj b)) (Text (JObj c)) = Ok (JObj (patch_of a b c))"
  using no_conflict [OF assms]
  by (simp add: CreateThreeWayJSONMergePatch_def or_empty_def createObjectMergePatch_Ok [OF assms(2)]
      keepOrDeleteNullInJsonPatch_def MergePatch_def doMergePatch_def patch_of_def changes_def deletions_def
      del: HasConflicts.simps)

lemma CreateThreeWay_new:
  assumes "config_doc b" and "go_doc c"
  shows "CreateThreeWayJSONMergePatch Empty_text (Text (JObj b)) (Text (JObj c)) = Ok (JObj (patch_of [] b c))"
  using CreateThreeWay_Ok [OF go_doc_empty assms] by (simp add: CreateThreeWayJSONMergePatch_def or_empty_def)

lemma MergePatch_patched:
  "MergePatch (Text (JObj c)) (Text (JObj (patch_of a b c))) = Ok (JObj (patched_doc a b c))"
  by (simp add: MergePatch_def doMergePatch_def patched_doc_def)

section \<open>When there is nothing to do\<close>

text \<open>A document has the configuration: objects may hold more, other values are as they are.\<close>

fun has_config :: "json \<Rightarrow> json \<Rightarrow> bool" and has_entries :: "obj \<Rightarrow> obj \<Rightarrow> bool" where
  "has_config j (JObj b) = (case j of JObj x \<Rightarrow> has_entries x b | _ \<Rightarrow> False)"
| "has_config j v = matchesValue j v"
| "has_entries x [] = True"
| "has_entries x ((k, v) # b) = ((case map_of x k of None \<Rightarrow> False | Some w \<Rightarrow> has_config w v) \<and> has_entries x b)"

lemma has_entries_iff:
  "distinct (keys b) \<Longrightarrow>
   has_entries x b \<longleftrightarrow> (\<forall>k v. map_of b k = Some v \<longrightarrow> (\<exists>w. map_of x k = Some w \<and> has_config w v))"
proof (induction b)
  case (Cons p b)
  obtain k v where p: "p = (k, v)" by force
  with Cons.prems have "map_of b k = None" by (auto simp: map_of_eq_None_iff)
  with Cons p show ?case by (auto split: option.splits)
qed simp

lemma has_config_value: "(\<nexists>b. v = JObj b) \<Longrightarrow> has_config w v = matchesValue w v"
  by (cases v) auto

lemma no_changes_iff:
  "go_doc x \<Longrightarrow> config_doc b \<Longrightarrow> changes x b = [] \<longleftrightarrow> has_entries x b"
proof (induction b arbitrary: x rule: obj_induct)
  case (nested b)
  have xd: "distinct (keys x)" using nested.prems by (simp add: go_doc_def)
  have "map_of (changes x b) k = None \<longleftrightarrow>
      (\<forall>v. map_of b k = Some v \<longrightarrow> (\<exists>w. map_of x k = Some w \<and> has_config w v))" for k
  proof (cases "map_of b k")
    case None
    then show ?thesis by (simp add: changes_lookup [OF xd nested.prems(2)])
  next
    case (Some v)
    show ?thesis
    proof (cases "\<exists>bt. v = JObj bt")
      case True
      then obtain bt where v: "v = JObj bt" by blast
      with Some have bt: "config_doc bt" using config_doc_nested nested.prems(2) by blast
      have "changes xt bt = [] \<longleftrightarrow> has_entries xt bt" if "map_of x k = Some (JObj xt)" for xt
        using nested.IH [OF Some [unfolded v] _ bt, of xt] go_doc_nested [OF nested.prems(1), of k] that by simp
      then show ?thesis
        by (auto simp: changes_lookup [OF xd nested.prems(2)] Some v split: option.splits json.splits)
    next
      case False
      then show ?thesis
        using has_config_value [OF False]
        by (cases v) (auto simp: changes_lookup [OF xd nested.prems(2)] Some split: option.splits)
    qed
  qed
  then show ?case
    unfolding empty_iff_lookup has_entries_iff [OF config_docD(1) [OF nested.prems(2)]] by blast
qed

lemma no_deletions: "config_doc b \<Longrightarrow> deletions b b = []"
proof (induction b rule: obj_induct)
  case (nested b)
  have "map_of (deletions b b) k = None" for k
  proof (cases "\<exists>bt. map_of b k = Some (JObj bt)")
    case True
    then obtain bt where bt: "map_of b k = Some (JObj bt)" by blast
    then have "deletions bt bt = []" using nested.IH [OF bt] nested.prems config_doc_nested by blast
    with bt show ?thesis by (simp add: deletions_lookup [OF config_docD(1) nested.prems] nested.prems)
  next
    case False
    then show ?thesis
      using deletions_lookup [OF config_docD(1) nested.prems, where k = k] nested.prems
      by (auto simp: has_key_lookup split: option.splits json.splits)
  qed
  then show ?case by (simp add: empty_iff_lookup)
qed

lemma patch_of_settled:
  assumes "config_doc b" and "go_doc x"
  shows "patch_of b b x = [] \<longleftrightarrow> has_entries x b"
  using assms patch_of_empty no_deletions no_changes_iff by (simp add: go_doc_def)

text \<open>What was patched has the configuration, so a second patch is empty.\<close>

lemma wf_obj_iff: "wf_obj m \<longleftrightarrow> (\<forall>(k, v) \<in> set m. wf_json v)"
  by (induction m) auto

lemma wf_obj_lookups: "distinct (keys m) \<Longrightarrow> wf_obj m \<longleftrightarrow> (\<forall>k v. map_of m k = Some v \<longrightarrow> wf_json v)"
  by (auto simp: wf_obj_iff)

lemma patched_doc_go: "go_doc a \<Longrightarrow> config_doc b \<Longrightarrow> go_doc c \<Longrightarrow> go_doc (patched_doc a b c)"
proof (induction b arbitrary: a c rule: obj_induct)
  case (nested b)
  have d: "distinct (keys (patched_doc a b c))"
    using nested.prems(3) by (auto simp: patched_doc_def go_doc_def intro: mergeDocs_distinct)
  have "wf_json v" if v: "map_of (patched_doc a b c) k = Some v" for k v
  proof (cases "\<exists>bt. map_of b k = Some (JObj bt)")
    case True
    then obtain bt where bt: "map_of b k = Some (JObj bt)" by blast
    have "go_doc (patched_doc (as_obj (map_of a k)) bt (as_obj (map_of c k)))"
      using nested.IH [OF bt] nested.prems go_doc_nested config_doc_nested [OF _ bt] by blast
    with v bt show ?thesis by (auto simp: patched_doc_lookup [OF nested.prems] go_doc_def)
  next
    case False
    then have "map_of b k = Some v \<or> map_of c k = Some v"
      using v by (auto simp: patched_doc_lookup [OF nested.prems] split: option.splits json.splits if_splits)
    then show ?thesis
      using nested.prems wf_obj_lookup by (auto simp: go_doc_def config_doc_def)
  qed
  with d show ?case by (simp add: go_doc_def wf_obj_lookups)
qed

lemma matches_refl:
  "null_free v \<Longrightarrow> floats v \<Longrightarrow> wf_json v \<Longrightarrow> matchesValue v v"
  "null_free_obj m \<Longrightarrow> floats_obj m \<Longrightarrow> wf_obj m \<Longrightarrow> \<forall>(k, v) \<in> set m. matchesValue v v"
  "null_free_list xs \<Longrightarrow> floats_list xs \<Longrightarrow> wf_list xs \<Longrightarrow> matchesArray xs xs"
proof (induction v and m and xs rule: json_induct)
  case (JObj m)
  have "matchesMap m y" if "\<forall>(k, v) \<in> set y. map_of m k = Some v \<and> matchesValue v v" for y
    using that by (induction y) (auto simp: lookup_or_def)
  moreover have "\<forall>(k, v) \<in> set m. map_of m k = Some v \<and> matchesValue v v"
    using JObj by auto
  ultimately show ?case by simp
qed auto

lemma patched_doc_has: "go_doc a \<Longrightarrow> config_doc b \<Longrightarrow> go_doc c \<Longrightarrow> has_entries (patched_doc a b c) b"
proof (induction b arbitrary: a c rule: obj_induct)
  case (nested b)
  have "\<exists>w. map_of (patched_doc a b c) k = Some w \<and> has_config w v" if v: "map_of b k = Some v" for k v
  proof (cases "\<exists>bt. v = JObj bt")
    case True
    then obtain bt where bt: "v = JObj bt" by blast
    have "has_entries (patched_doc (as_obj (map_of a k)) bt (as_obj (map_of c k))) bt"
      using nested.IH [OF v [unfolded bt]] nested.prems go_doc_nested config_doc_nested [OF _ v [unfolded bt]] by blast
    with v bt show ?thesis by (simp add: patched_doc_lookup [OF nested.prems])
  next
    case False
    have "matchesValue v v"
      using v nested.prems(2) null_free_lookup floats_lookup wf_obj_lookup
      by (auto simp: config_doc_def intro!: matches_refl(1))
    with False v show ?thesis
      using has_config_value [OF False]
      by (cases v) (auto simp: patched_doc_lookup [OF nested.prems] split: option.splits)
  qed
  then show ?case by (simp add: has_entries_iff config_docD nested.prems)
qed

section \<open>RFC 7386\<close>

text \<open>The pseudo code of the standard for applying a patch.\<close>

fun rfc_MergePatch :: "json \<Rightarrow> json \<Rightarrow> json" and rfc_fields :: "obj \<Rightarrow> obj \<Rightarrow> obj" where
  "rfc_MergePatch target (JObj patch) = JObj (rfc_fields (case target of JObj t \<Rightarrow> t | _ \<Rightarrow> []) patch)"
| "rfc_MergePatch target patch = patch"
| "rfc_fields target [] = target"
| "rfc_fields target ((name, v) # patch) =
     rfc_fields
       (if v = JNull then (if has_key name target then AList.delete name target else target)
        else AList.update name (rfc_MergePatch (lookup_or JNull target name) v) target)
       patch"

text \<open>Arrays without nulls in them.\<close>

fun plain_arrays :: "json \<Rightarrow> bool" and plain_arrays_obj :: "obj \<Rightarrow> bool" where
  "plain_arrays (JObj m) = plain_arrays_obj m"
| "plain_arrays (JArr xs) = null_free_list xs"
| "plain_arrays v = True"
| "plain_arrays_obj [] = True"
| "plain_arrays_obj ((k, v) # m) = (plain_arrays v \<and> plain_arrays_obj m)"

lemma prune_scalar: "plain_arrays v \<Longrightarrow> \<nexists>m. v = JObj m \<Longrightarrow> pruneNulls v = v"
  by (cases v) (auto simp: prune_null_free)

lemma merge_rfc:
  "plain_arrays p \<Longrightarrow> wf_json p \<Longrightarrow> p \<noteq> JNull \<Longrightarrow> merged (Some t) p = rfc_MergePatch t p \<and> pruneNulls p = rfc_MergePatch JNull p"
  "plain_arrays_obj ps \<Longrightarrow> wf_obj ps \<Longrightarrow> distinct (keys ps) \<Longrightarrow> mergeDocs False d ps = rfc_fields d ps"
proof (induction p and ps arbitrary: t and d rule: plain_arrays_plain_arrays_obj.induct)
  case (1 patch)
  then have "mergeDocs False d patch = rfc_fields d patch" for d by auto
  with 1 show ?case
    using mergeDocs_empty_doc [of patch] by (auto simp: merged_def split: json.splits)
next
  case (5 k v m)
  show ?case
  proof (cases "v = JNull")
    case True
    moreover have "AList.delete k d = (if has_key k d then AList.delete k d else d)"
      by (simp add: has_key_iff delete_id)
    ultimately show ?thesis using 5 by simp
  next
    case False
    have "merged (map_of d k) v = rfc_MergePatch (lookup_or JNull d k) v"
      using 5 False by (cases "map_of d k") (auto simp: lookup_or_def merged_def)
    moreover have "mergeDocs False d ((k, v) # m) = mergeDocs False (AList.update k (merged (map_of d k) v) d) m"
      using False by (auto simp: merged_def split: option.splits json.splits)
    ultimately show ?thesis using 5 False by simp
  qed
qed (auto simp: merged_def prune_null_free split: option.splits json.splits)

lemma MergePatch_rfc:
  assumes "plain_arrays_obj ps" and "wf_obj ps" and "distinct (keys ps)"
  shows "MergePatch (Text (JObj d)) (Text (JObj ps)) = Ok (rfc_MergePatch (JObj d) (JObj ps))"
  using merge_rfc(2) [OF assms] by (simp add: MergePatch_def doMergePatch_def)

end
