(* ===== verification/Json_Patches.thy ===== *)
theory Json_Patches
  imports Three_Way_Patch Manifest_Apply
begin

text \<open>
  \<open>vendor/github.com/manifestival/manifestival/patch/patch.go\<close>: the patches of the manifest library. A
  kind the clientset's scheme does not know gets a JSON merge patch; the others get a strategic patch, a
  parameter here for which \<open>Strategic_Apply\<close> has the instance. The JSON syntax is a parameter: what a text
  in an annotation decodes to. A text stands for its document with the numbers as they are written; the
  JSON merge patches decode every number to a float.
\<close>

section \<open>Numbers\<close>

text \<open>The nearest \<open>float64\<close> of an integer of at most 64 bits, ties to even: 53 bits are kept.\<close>

definition rounded :: "nat \<Rightarrow> nat \<Rightarrow> nat" where
  "rounded e n =
     (let q = n div 2 ^ e; r = n mod 2 ^ e; half = 2 ^ (e - 1)
      in (if r > half \<or> (r = half \<and> odd q) then q + 1 else q) * 2 ^ e)"

definition float64_nat :: "nat \<Rightarrow> nat" where
  "float64_nat n =
     (case find (\<lambda>e. n < 2 ^ (53 + e)) [0 ..< 12] of
        None \<Rightarrow> n
      | Some e \<Rightarrow> if e = 0 then n else rounded e n)"

definition float64_of :: "64 word \<Rightarrow> rat" where
  "float64_of i = (let n = sint i in if n < 0 then - of_nat (float64_nat (nat (- n))) else of_nat (float64_nat (nat n)))"

lemma float64_nat_exact: "n < 2 ^ 53 \<Longrightarrow> float64_nat n = n"
  by (simp add: float64_nat_def upt_rec [of 0])

fun document :: "json \<Rightarrow> json" and document_obj :: "obj \<Rightarrow> obj" and document_list :: "json list \<Rightarrow> json list" where
  "document (JInt i) = JFloat (float64_of i)"
| "document (JObj m) = JObj (document_obj m)"
| "document (JArr xs) = JArr (document_list xs)"
| "document v = v"
| "document_obj [] = []"
| "document_obj ((k, v) # m) = (k, document v) # document_obj m"
| "document_list [] = []"
| "document_list (v # xs) = document v # document_list xs"

fun document_text :: "doc_text \<Rightarrow> doc_text" where
  "document_text (Text j) = Text (document j)"
| "document_text t = t"

text \<open>\<open>convertNumber\<close>: an integer in the range of \<open>int64\<close> is read as one.\<close>

definition convertNumber :: "rat \<Rightarrow> json" where
  "convertNumber q =
     (if of_int \<lfloor>q\<rfloor> = q \<and> - (2 ^ 63) \<le> \<lfloor>q\<rfloor> \<and> \<lfloor>q\<rfloor> < 2 ^ 63 then JInt (of_int \<lfloor>q\<rfloor>) else JFloat q)"

fun convertNumbers :: "json \<Rightarrow> json"
and convertMapNumbers :: "obj \<Rightarrow> obj"
and convertSliceNumbers :: "json list \<Rightarrow> json list" where
  "convertNumbers (JFloat q) = convertNumber q"
| "convertNumbers (JObj m) = JObj (convertMapNumbers m)"
| "convertNumbers (JArr xs) = JArr (convertSliceNumbers xs)"
| "convertNumbers v = v"
| "convertMapNumbers [] = []"
| "convertMapNumbers ((k, v) # m) = (k, convertNumbers v) # convertMapNumbers m"
| "convertSliceNumbers [] = []"
| "convertSliceNumbers (v # xs) = convertNumbers v # convertSliceNumbers xs"

text \<open>Decoding into an unstructured object, which must have a kind.\<close>

definition UnmarshalJSON :: "json \<Rightarrow> obj result" where
  "UnmarshalJSON b =
     (case unmarshal_map (Text b) of
        None \<Rightarrow> Err (Errorf ''json: cannot unmarshal'')
      | Some m \<Rightarrow>
          let u = convertMapNumbers m
          in if length (GetKind u) = 0 then Err (Errorf ''Object 'Kind' is missing'') else Ok u)"

section \<open>Patches\<close>

definition getLastAppliedConfig :: "(string \<Rightarrow> doc_text) \<Rightarrow> obj \<Rightarrow> doc_text" where
  "getLastAppliedConfig parse u =
     (let s = lookup_or [] (GetAnnotations u) LastAppliedConfigAnnotation in if s = [] then Empty_text else parse s)"

definition create :: "json \<Rightarrow> json option" where
  "create patch = (if patch = JObj [] then None else Some patch)"

definition createJsonMergePatch :: "doc_text \<Rightarrow> doc_text \<Rightarrow> doc_text \<Rightarrow> json option result" where
  "createJsonMergePatch original modified current =
     bind_result (CreateThreeWayJSONMergePatch original modified current) (\<lambda>patch. Ok (create patch))"

definition New_patch ::
    "(string \<Rightarrow> doc_text) \<Rightarrow> (GroupVersionKind \<Rightarrow> bool) \<Rightarrow> 'p patching \<Rightarrow> obj \<Rightarrow> obj \<Rightarrow> (json + 'p) option result" where
  "New_patch parse registered strategic current modif =
     (if \<not> registered (GroupVersionKind_of modif) then
        bind_result
          (createJsonMergePatch (document_text (getLastAppliedConfig parse current)) (document_text (Text (JObj modif)))
            (document_text (Text (JObj current))))
          (\<lambda>p. Ok (map_option Inl p))
      else bind_result (patch_New strategic current modif) (\<lambda>p. Ok (map_option Inr p)))"

definition Merge :: "'p patching \<Rightarrow> json + 'p \<Rightarrow> obj \<Rightarrow> obj result" where
  "Merge strategic p u =
     (case p of
        Inl patch \<Rightarrow> bind_result (MergePatch (Text (JObj u)) (Text patch)) UnmarshalJSON
      | Inr patch \<Rightarrow> patch_Merge strategic patch u)"

definition merge_patching ::
    "(string \<Rightarrow> doc_text) \<Rightarrow> (GroupVersionKind \<Rightarrow> bool) \<Rightarrow> 'p patching \<Rightarrow> (json + 'p) patching" where
  "merge_patching parse registered strategic =
     \<lparr>MarshalJSON = MarshalJSON strategic, patch_New = New_patch parse registered strategic, patch_Merge = Merge strategic\<rparr>"

section \<open>Objects and their documents\<close>

lemma document_keys [simp]: "keys (document_obj m) = keys m"
  by (induction m) auto

lemma document_invs:
  "floats (document v) \<and> wf_json (document v) = wf_json v \<and> null_free (document v) = null_free v"
  "floats_obj (document_obj m) \<and> wf_obj (document_obj m) = wf_obj m \<and> null_free_obj (document_obj m) = null_free_obj m"
  "floats_list (document_list xs) \<and> wf_list (document_list xs) = wf_list xs \<and> null_free_list (document_list xs) = null_free_list xs"
  by (induction v and m and xs rule: document_document_obj_document_list.induct) auto

lemma document_go: "distinct (keys u) \<Longrightarrow> wf_obj u \<Longrightarrow> go_doc (document_obj u)"
  by (simp add: go_doc_def document_invs)

lemma document_config: "distinct (keys u) \<Longrightarrow> wf_obj u \<Longrightarrow> null_free_obj u \<Longrightarrow> config_doc (document_obj u)"
  by (simp add: config_doc_def document_invs)

text \<open>A resource that is as it should be and was last applied as it is gets no patch, and is not written.\<close>

lemma New_patch_settled:
  assumes "\<not> registered (GroupVersionKind_of spec)"
    and "distinct (keys spec)" "wf_obj spec" "null_free_obj spec" and "distinct (keys cur)" "wf_obj cur"
    and "getLastAppliedConfig parse cur = Text (JObj spec)"
  shows "New_patch parse registered strategic cur spec = Ok None \<longleftrightarrow> has_entries (document_obj cur) (document_obj spec)"
proof -
  note b = document_config [OF assms(2-4)] and x = document_go [OF assms(5,6)]
  have "CreateThreeWayJSONMergePatch (Text (JObj (document_obj spec))) (Text (JObj (document_obj spec)))
      (Text (JObj (document_obj cur))) = Ok (JObj (patch_of (document_obj spec) (document_obj spec) (document_obj cur)))"
    by (rule CreateThreeWay_Ok [OF config_go_doc [OF b] b x])
  then show ?thesis
    using patch_of_settled [OF b x] assms(1,7) by (auto simp: New_patch_def createJsonMergePatch_def create_def)
qed

lemma mf_apply_settled:
  assumes get: "c_Get c spec w = (Ok cur, w')" and none: "patch_New P cur spec = Ok None"
  shows "mf_apply c P opts spec w = (Ok (), w')"
  using assms by (simp add: mf_apply_def mf_get_def attempt_def bind_io_def return_io_def of_result_def)

end
