(* ===== verification/Work_Queue.thy ===== *)
theory Work_Queue
  imports Prelude
begin

text \<open>
  The work queue of the controller (\<open>vendor/k8s.io/client-go/util/workqueue\<close>): the queue itself
  (\<open>queue.go\<close>), the delayed additions (\<open>delaying_queue.go\<close>) and the limit on the rate of retries
  (\<open>default_rate_limiters.go\<close>, \<open>rate_limiting_queue.go\<close>). Every operation holds the lock of the queue,
  so it is one step. A time is a number of nanoseconds. Metrics are left out.
\<close>

section \<open>The queue\<close>

record 'a work_queue =
  wq_queue :: "'a list"
  wq_dirty :: "'a set"
  wq_processing :: "'a set"
  wq_shuttingDown :: bool

definition newQueue :: "'a work_queue" where
  "newQueue = \<lparr>wq_queue = [], wq_dirty = {}, wq_processing = {}, wq_shuttingDown = False\<rparr>"

definition wq_Add :: "'a \<Rightarrow> 'a work_queue \<Rightarrow> 'a work_queue" where
  "wq_Add item q =
     (if wq_shuttingDown q then q
      else if item \<in> wq_dirty q then q
      else let q' = q\<lparr>wq_dirty := insert item (wq_dirty q)\<rparr>
           in if item \<in> wq_processing q then q' else q'\<lparr>wq_queue := wq_queue q @ [item]\<rparr>)"

definition wq_Len :: "'a work_queue \<Rightarrow> nat" where
  "wq_Len q = length (wq_queue q)"

text \<open>\<open>Get\<close> waits while there is nothing to give.\<close>

datatype 'a got = Waits | Shut_down | Got 'a

definition wq_Get :: "'a work_queue \<Rightarrow> 'a got \<times> 'a work_queue" where
  "wq_Get q =
     (case wq_queue q of
        [] \<Rightarrow> (if wq_shuttingDown q then Shut_down else Waits, q)
      | item # rest \<Rightarrow>
          (Got item,
           q\<lparr>wq_queue := rest, wq_processing := insert item (wq_processing q), wq_dirty := wq_dirty q - {item}\<rparr>))"

definition wq_Done :: "'a \<Rightarrow> 'a work_queue \<Rightarrow> 'a work_queue" where
  "wq_Done item q =
     (let q' = q\<lparr>wq_processing := wq_processing q - {item}\<rparr>
      in if item \<in> wq_dirty q then q'\<lparr>wq_queue := wq_queue q @ [item]\<rparr> else q')"

definition wq_ShutDown :: "'a work_queue \<Rightarrow> 'a work_queue" where
  "wq_ShutDown q = q\<lparr>wq_shuttingDown := True\<rparr>"

definition wq_ShuttingDown :: "'a work_queue \<Rightarrow> bool" where
  "wq_ShuttingDown q = wq_shuttingDown q"

text \<open>What the comment of the type says: the queue holds each dirty item that is not being processed, once.\<close>

definition wq_inv :: "'a work_queue \<Rightarrow> bool" where
  "wq_inv q \<longleftrightarrow> distinct (wq_queue q) \<and> set (wq_queue q) = wq_dirty q - wq_processing q"

lemmas wq_defs = wq_Add_def wq_Get_def wq_Done_def wq_ShutDown_def newQueue_def Let_def

lemma newQueue_inv [simp]: "wq_inv newQueue"
  by (simp add: wq_inv_def newQueue_def)

lemma wq_Add_inv [simp]: "wq_inv q \<Longrightarrow> wq_inv (wq_Add item q)"
  by (auto simp: wq_inv_def wq_defs)

lemma wq_Get_inv: "wq_Get q = (r, q') \<Longrightarrow> wq_inv q \<Longrightarrow> wq_inv q'"
  by (auto simp: wq_inv_def wq_defs split: list.splits)

lemma wq_Done_inv: "wq_inv q \<Longrightarrow> item \<in> wq_processing q \<Longrightarrow> wq_inv (wq_Done item q)"
  by (auto simp: wq_inv_def wq_defs)

lemma wq_ShutDown_inv [simp]: "wq_inv q \<Longrightarrow> wq_inv (wq_ShutDown q)"
  by (simp add: wq_inv_def wq_defs)

lemma wq_Get_Got:
  assumes "wq_Get q = (Got item, q')"
  shows "wq_queue q = item # wq_queue q'" and "wq_dirty q' = wq_dirty q - {item}"
    and "wq_processing q' = insert item (wq_processing q)" and "wq_shuttingDown q' = wq_shuttingDown q"
  using assms by (auto simp: wq_Get_def split: list.splits if_splits)

lemma wq_Add_fields [simp]:
  "wq_dirty (wq_Add item q) = (if wq_shuttingDown q then wq_dirty q else insert item (wq_dirty q))"
  "wq_processing (wq_Add item q) = wq_processing q"
  "wq_shuttingDown (wq_Add item q) = wq_shuttingDown q"
  by (auto simp: wq_Add_def Let_def)

lemma wq_Done_fields [simp]:
  "wq_dirty (wq_Done item q) = wq_dirty q" "wq_processing (wq_Done item q) = wq_processing q - {item}"
  "wq_shuttingDown (wq_Done item q) = wq_shuttingDown q"
  by (simp_all add: wq_Done_def Let_def)

lemma wq_ShutDown_fields [simp]:
  "wq_dirty (wq_ShutDown q) = wq_dirty q" "wq_processing (wq_ShutDown q) = wq_processing q"
  "wq_queue (wq_ShutDown q) = wq_queue q" "wq_shuttingDown (wq_ShutDown q)"
  by (simp_all add: wq_ShutDown_def)

text \<open>Nothing but \<open>Get\<close> takes from the queue; the others append.\<close>

lemma wq_append:
  "\<exists>xs. wq_queue (wq_Add item q) = wq_queue q @ xs" "\<exists>xs. wq_queue (wq_Done item q) = wq_queue q @ xs"
  by (auto simp: wq_Add_def wq_Done_def Let_def)

section \<open>What workers rely on\<close>

text \<open>
  A queue gives an item out only when nobody holds it, until it is finished. Workers that take items from
  such a queue, and finish what they hold, never hold the same item.
\<close>

definition assigned :: "('q \<Rightarrow> bool) \<Rightarrow> ('q \<Rightarrow> 'a set) \<Rightarrow> (nat \<Rightarrow> 'a option) \<Rightarrow> 'q \<Rightarrow> bool" where
  "assigned ok held w q \<longleftrightarrow>
     ok q \<and> held q = {k. \<exists>i. w i = Some k} \<and> (\<forall>i j k. w i = Some k \<longrightarrow> w j = Some k \<longrightarrow> i = j)"

locale exclusive_queue =
  fixes ok :: "'q \<Rightarrow> bool" and held :: "'q \<Rightarrow> 'a set" and get :: "'q \<Rightarrow> 'a got \<times> 'q" and finish :: "'a \<Rightarrow> 'q \<Rightarrow> 'q"
  assumes get_ok: "get q = (Got k, q') \<Longrightarrow> ok q \<Longrightarrow> ok q'"
    and get_free: "get q = (Got k, q') \<Longrightarrow> ok q \<Longrightarrow> k \<notin> held q"
    and get_held: "get q = (Got k, q') \<Longrightarrow> held q' = insert k (held q)"
    and finish_ok: "ok q \<Longrightarrow> k \<in> held q \<Longrightarrow> ok (finish k q)"
    and finish_held: "held (finish k q) = held q - {k}"
begin

lemma assigned_take:
  assumes "assigned ok held w q" and "w i = None" and g: "get q = (Got k, q')"
  shows "assigned ok held (w(i := Some k)) q'"
proof -
  have ok: "ok q" and h: "held q = {k. \<exists>i. w i = Some k}" and inj: "\<forall>i j k. w i = Some k \<longrightarrow> w j = Some k \<longrightarrow> i = j"
    using assms(1) by (simp_all add: assigned_def)
  have "{x. \<exists>j. (w(i := Some k)) j = Some x} = insert k {x. \<exists>j. w j = Some x}"
    using assms(2) by (force split: if_splits)
  moreover have "\<nexists>j. w j = Some k" using get_free [OF g ok] h by blast
  ultimately show ?thesis using get_ok [OF g ok] get_held [OF g] h inj unfolding assigned_def by auto
qed

lemma assigned_finish:
  assumes "assigned ok held w q" and "w i = Some k"
  shows "assigned ok held (w(i := None)) (finish k q)"
proof -
  have ok: "ok q" and h: "held q = {k. \<exists>i. w i = Some k}" and inj: "\<forall>i j k. w i = Some k \<longrightarrow> w j = Some k \<longrightarrow> i = j"
    using assms(1) by (simp_all add: assigned_def)
  have "{x. \<exists>j. (w(i := None)) j = Some x} = {x. \<exists>j. w j = Some x} - {k}"
    using assms(2) inj by (force split: if_splits)
  moreover have "k \<in> held q" using assms(2) h by blast
  ultimately show ?thesis using finish_ok [OF ok] finish_held h inj unfolding assigned_def by auto
qed

end

interpretation wq: exclusive_queue wq_inv wq_processing wq_Get wq_Done
proof
  fix q q' :: "'a work_queue" and k
  assume g: "wq_Get q = (Got k, q')"
  show "wq_processing q' = insert k (wq_processing q)" by (rule wq_Get_Got(3) [OF g])
  assume "wq_inv q"
  then show "wq_inv q'" by (rule wq_Get_inv [OF g])
  show "k \<notin> wq_processing q" using \<open>wq_inv q\<close> wq_Get_Got(1) [OF g] by (auto simp: wq_inv_def)
qed (simp_all add: wq_Done_inv)

section \<open>Runs of the queue\<close>

datatype 'a queue_op = OAdd 'a | OGet | ODone 'a | OShut

text \<open>The items the \<open>Get\<close>s of a run return, and the queue at the end.\<close>

fun queue_run :: "'a queue_op list \<Rightarrow> 'a work_queue \<Rightarrow> 'a list \<times> 'a work_queue" where
  "queue_run [] q = ([], q)"
| "queue_run (OAdd item # ops) q = queue_run ops (wq_Add item q)"
| "queue_run (ODone item # ops) q = queue_run ops (wq_Done item q)"
| "queue_run (OShut # ops) q = queue_run ops (wq_ShutDown q)"
| "queue_run (OGet # ops) q =
     (case wq_Get q of
        (Got item, q') \<Rightarrow> (case queue_run ops q' of (items, q'') \<Rightarrow> (item # items, q''))
      | (_, q') \<Rightarrow> queue_run ops q')"

fun is_get :: "'a queue_op \<Rightarrow> bool" where
  "is_get OGet = True"
| "is_get _ = False"

lemma wq_Get_empty: "wq_queue q = [] \<Longrightarrow> wq_Get q = (if wq_shuttingDown q then Shut_down else Waits, q)"
  by (simp add: wq_Get_def)

lemma wq_Get_Cons:
  "wq_queue q = item # rest \<Longrightarrow> \<exists>q'. wq_Get q = (Got item, q') \<and> wq_queue q' = rest"
  by (simp add: wq_Get_def)

lemma queue_run_served:
  "take (length (wq_queue q)) (fst (queue_run ops q)) = take (length (filter is_get ops)) (wq_queue q)"
proof (induction ops arbitrary: q)
  case Nil
  then show ?case by simp
next
  case (Cons x ops)
  note IH = Cons.IH
  have grown: "take (length xs) gs = take n xs"
    if "take (length (xs @ ys)) gs = take n (xs @ ys)" for xs ys :: "'a list" and gs n
  proof -
    have "take (length xs) (take (length (xs @ ys)) gs) = take (length xs) (take n (xs @ ys))"
      by (simp only: that)
    then show ?thesis by (simp add: min_def split: if_splits)
  qed
  show ?case
  proof (cases x)
    case (OAdd item)
    obtain ys where e: "wq_queue (wq_Add item q) = wq_queue q @ ys" using wq_append(1) [of item q] by blast
    from grown [OF IH [of "wq_Add item q", unfolded e]] show ?thesis unfolding OAdd by simp
  next
    case OGet
    show ?thesis
    proof (cases "wq_queue q")
      case (Cons item rest)
      note c = this
      from wq_Get_Cons [OF c] obtain q' where "wq_Get q = (Got item, q')" "wq_queue q' = rest" by blast
      moreover obtain items q'' where "queue_run ops q' = (items, q'')" by force
      ultimately show ?thesis using c IH [of q'] by (simp add: OGet)
    qed simp
  next
    case (ODone item)
    obtain ys where e: "wq_queue (wq_Done item q) = wq_queue q @ ys" using wq_append(2) [of item q] by blast
    from grown [OF IH [of "wq_Done item q", unfolded e]] show ?thesis unfolding ODone by simp
  next
    case OShut
    then show ?thesis using Cons.IH [of "wq_ShutDown q"] by simp
  qed
qed

section \<open>Retry delays\<close>

text \<open>
  \<open>ItemExponentialFailureRateLimiter\<close>. A delay that does not fit a \<open>Duration\<close> becomes the largest one.
  The floats of the code hold the products exactly as long as the base delay has at most 53 bits.
\<close>

record 'a exp_limiter =
  failures :: "'a \<Rightarrow> nat"
  baseDelay :: nat
  maxDelay :: nat

definition NewItemExponentialFailureRateLimiter :: "nat \<Rightarrow> nat \<Rightarrow> 'a exp_limiter" where
  "NewItemExponentialFailureRateLimiter base mx = \<lparr>failures = (\<lambda>_. 0), baseDelay = base, maxDelay = mx\<rparr>"

definition exp_When :: "'a \<Rightarrow> 'a exp_limiter \<Rightarrow> nat \<times> 'a exp_limiter" where
  "exp_When item r =
     (let exponent = failures r item;
          r' = r\<lparr>failures := (failures r)(item := failures r item + 1)\<rparr>;
          backoff = baseDelay r * 2 ^ exponent
      in if backoff > 2 ^ 63 then (maxDelay r, r')
         else if backoff > maxDelay r then (maxDelay r, r') else (backoff, r'))"

definition exp_NumRequeues :: "'a \<Rightarrow> 'a exp_limiter \<Rightarrow> nat" where
  "exp_NumRequeues item r = failures r item"

definition exp_Forget :: "'a \<Rightarrow> 'a exp_limiter \<Rightarrow> 'a exp_limiter" where
  "exp_Forget item r = r\<lparr>failures := (failures r)(item := 0)\<rparr>"

text \<open>
  \<open>DefaultControllerRateLimiter\<close>: the larger of that delay and the one the token bucket asks for, which
  is an argument.
\<close>

definition DefaultControllerRateLimiter :: "'a exp_limiter" where
  "DefaultControllerRateLimiter = NewItemExponentialFailureRateLimiter (5 * 10 ^ 6) (1000 * 10 ^ 9)"

definition max_When :: "nat \<Rightarrow> 'a \<Rightarrow> 'a exp_limiter \<Rightarrow> nat \<times> 'a exp_limiter" where
  "max_When bucket item r =
     (case exp_When item r of
        (d, r') \<Rightarrow> let ret = (if d > 0 then d else 0) in (if bucket > ret then bucket else ret, r'))"

lemma exp_When_min:
  assumes "maxDelay r \<le> 2 ^ 63"
  shows "exp_When item r =
    (min (maxDelay r) (baseDelay r * 2 ^ failures r item), r\<lparr>failures := (failures r)(item := failures r item + 1)\<rparr>)"
  using assms by (auto simp: exp_When_def Let_def min_def)

text \<open>What the limiter is told in the course of time: an item failed, or is forgotten.\<close>

datatype 'a limit_op = Failed 'a | Forgotten 'a

fun limit_run :: "'a limit_op list \<Rightarrow> 'a exp_limiter \<Rightarrow> 'a exp_limiter" where
  "limit_run [] r = r"
| "limit_run (Failed item # ops) r = limit_run ops (snd (exp_When item r))"
| "limit_run (Forgotten item # ops) r = limit_run ops (exp_Forget item r)"

text \<open>The failures of an item since it was last forgotten.\<close>

definition recent_failures :: "'a \<Rightarrow> 'a limit_op list \<Rightarrow> nat" where
  "recent_failures item ops =
     length (filter (\<lambda>x. x = Failed item) (takeWhile (\<lambda>x. x \<noteq> Forgotten item) (rev ops)))"

lemma limit_run_append: "limit_run (ops @ ops') r = limit_run ops' (limit_run ops r)"
proof (induction ops arbitrary: r)
  case (Cons x ops)
  then show ?case by (cases x) simp_all
qed simp

lemma limit_run_delays:
  "baseDelay (limit_run ops r) = baseDelay r" "maxDelay (limit_run ops r) = maxDelay r"
  by (induction ops r rule: limit_run.induct) (simp_all add: exp_When_def exp_Forget_def Let_def)

lemma limit_run_failures:
  "failures (limit_run ops DefaultControllerRateLimiter) item = recent_failures item ops"
proof (induction ops rule: rev_induct)
  case Nil
  then show ?case
    by (simp add: recent_failures_def DefaultControllerRateLimiter_def NewItemExponentialFailureRateLimiter_def)
next
  case (snoc x ops)
  then show ?case
    by (cases x) (auto simp: limit_run_append recent_failures_def exp_When_def exp_Forget_def Let_def)
qed

lemma max_When_max: "fst (max_When bucket item r) = max bucket (fst (exp_When item r))"
  by (cases "exp_When item r") (simp add: max_When_def max_def)

section \<open>The queue with delays\<close>

text \<open>\<open>waiting\<close> is the priority queue: an item once, with the earliest time it was asked for.\<close>

record 'a limited_queue =
  lq_queue :: "'a work_queue"
  waiting :: "('a \<times> nat) list"
  limiter :: "'a exp_limiter"

definition NewNamedRateLimitingQueue :: "'a exp_limiter \<Rightarrow> 'a limited_queue" where
  "NewNamedRateLimitingQueue l = \<lparr>lq_queue = newQueue, waiting = [], limiter = l\<rparr>"

definition on_queue :: "('a work_queue \<Rightarrow> 'a work_queue) \<Rightarrow> 'a limited_queue \<Rightarrow> 'a limited_queue" where
  "on_queue f q = q\<lparr>lq_queue := f (lq_queue q)\<rparr>"

definition waiting_insert :: "('a \<times> nat) list \<Rightarrow> 'a \<Rightarrow> nat \<Rightarrow> ('a \<times> nat) list" where
  "waiting_insert ws item readyAt =
     (case map_of ws item of
        Some existing \<Rightarrow> (if existing > readyAt then AList.update item readyAt ws else ws)
      | None \<Rightarrow> AList.update item readyAt ws)"

text \<open>
  \<open>AddAfter\<close> at the time \<open>now\<close>, with the receiving end of its channel in \<open>waitingLoop\<close>; \<open>later\<close> is the time
  at which the loop receives.
\<close>

definition AddAfter :: "nat \<Rightarrow> nat \<Rightarrow> 'a \<Rightarrow> nat \<Rightarrow> 'a limited_queue \<Rightarrow> 'a limited_queue" where
  "AddAfter now later item duration q =
     (if wq_ShuttingDown (lq_queue q) then q
      else if duration \<le> 0 then on_queue (wq_Add item) q
      else let readyAt = now + duration
           in if readyAt > later then q\<lparr>waiting := waiting_insert (waiting q) item readyAt\<rparr>
              else on_queue (wq_Add item) q)"

text \<open>One entry of \<open>waitingLoop\<close>: the earliest one, if its time has come. Of equal ones the first.\<close>

definition earliest :: "('a \<times> nat) list \<Rightarrow> ('a \<times> nat) option" where
  "earliest ws = find (\<lambda>(_, t). list_all (\<lambda>(_, t'). t \<le> t') ws) ws"

definition add_ready :: "nat \<Rightarrow> 'a limited_queue \<Rightarrow> 'a limited_queue" where
  "add_ready now q =
     (if wq_ShuttingDown (lq_queue q) then q
      else case earliest (waiting q) of
             None \<Rightarrow> q
           | Some (item, readyAt) \<Rightarrow>
               if readyAt > now then q
               else (on_queue (wq_Add item) q)\<lparr>waiting := AList.delete item (waiting q)\<rparr>)"

definition AddRateLimited :: "nat \<Rightarrow> nat \<Rightarrow> nat \<Rightarrow> 'a \<Rightarrow> 'a limited_queue \<Rightarrow> 'a limited_queue" where
  "AddRateLimited now later bucket item q =
     (case max_When bucket item (limiter q) of (d, l) \<Rightarrow> AddAfter now later item d (q\<lparr>limiter := l\<rparr>))"

definition lq_Forget :: "'a \<Rightarrow> 'a limited_queue \<Rightarrow> 'a limited_queue" where
  "lq_Forget item q = q\<lparr>limiter := exp_Forget item (limiter q)\<rparr>"

lemmas lq_defs = on_queue_def AddAfter_def AddRateLimited_def lq_Forget_def add_ready_def

lemma earliest_in: "earliest ws = Some (item, t) \<Longrightarrow> (item, t) \<in> set ws"
  unfolding earliest_def by (auto dest: find_SomeD)

lemma earliest_None: "earliest ws = None \<Longrightarrow> ws = []"
proof (rule ccontr)
  assume e: "earliest ws = None" and "ws \<noteq> []"
  then have ne: "set (map snd ws) \<noteq> {}" by simp
  then have "Min (set (map snd ws)) \<in> set (map snd ws)" by (intro Min_in) simp_all
  then obtain item t where "(item, t) \<in> set ws" and t: "t = Min (set (map snd ws))" by auto
  moreover have "list_all (\<lambda>(_, t'). t \<le> t') ws" by (force simp: t list_all_iff intro!: Min_le)
  ultimately show False using e unfolding earliest_def find_None_iff by blast
qed

lemma waiting_insert_keys: "fst ` set (waiting_insert ws item t) = insert item (fst ` set ws)"
proof -
  have "fst ` set (AList.update item t ws) = insert item (fst ` set ws)"
    by (induction ws) auto
  moreover have "item \<in> fst ` set ws" if "map_of ws item = Some x" for x
    using map_of_SomeD [OF that] by force
  ultimately show ?thesis by (auto simp: waiting_insert_def split: option.splits)
qed

text \<open>After a retry was asked for the item is on its way: dirty, or waiting for its time.\<close>

lemma AddRateLimited_pending:
  assumes "\<not> wq_shuttingDown (lq_queue q)"
  shows "item \<in> wq_dirty (lq_queue (AddRateLimited now later bucket item q)) \<or>
    item \<in> fst ` set (waiting (AddRateLimited now later bucket item q))"
  using assms by (auto simp: lq_defs wq_ShuttingDown_def Let_def waiting_insert_keys split: prod.splits)

end
