(* ===== verification/Cache_Frame.thy ===== *)
theory Cache_Frame
  imports Generated_Reconciler
begin

text \<open>
  What a reconciliation leaves of the informer's cache: every entry as it was, but for the finalizers. The
  only write is that of \<open>delete\<close>, to the finalizers of the object the lister returned.
\<close>

definition no_finalizers :: "KnativeServing option \<Rightarrow> KnativeServing option" where
  "no_finalizers = map_option (\<lambda>ks. ks\<lparr>Finalizers := []\<rparr>)"

definition cache_like :: "KnativeServing gomap \<Rightarrow> 'w rstate \<Rightarrow> bool" where
  "cache_like m s \<longleftrightarrow> (\<forall>k. no_finalizers (map_of (indexer s) k) = no_finalizers (map_of m k))"

lemma cache_like_same [simp]: "cache_like (indexer s) s"
  by (simp add: cache_like_def)

lemma cache_like_fields [simp]:
  "cache_like m (s\<lparr>world := w\<rparr>) = cache_like m s" "cache_like m (s\<lparr>inst := ks\<rparr>) = cache_like m s"
  "cache_like m (s\<lparr>servings := g\<rparr>) = cache_like m s" "cache_like m (s\<lparr>reported := r\<rparr>) = cache_like m s"
  "cache_like m (s\<lparr>recorded := ev\<rparr>) = cache_like m s" "cache_like m (s\<lparr>now := t\<rparr>) = cache_like m s"
  by (simp_all add: cache_like_def)

section \<open>Steps that write no cache\<close>

lemma keeps_modify: "(\<And>s. P s \<Longrightarrow> P (f s)) \<Longrightarrow> keeps_io P (modify_io f)"
  by (simp add: keeps_io_def)

lemma cache_on_world: "keeps_io (cache_like m) (on_world a)"
  by (simp add: keeps_io_def on_world_def split: prod.split)

lemma cache_mark: "keeps_io (cache_like m) (mark f)"
  by (simp add: keeps_io_def mark_def split: prod.split)

lemma keeps_lister: "keeps_io P (lister_Get ns name)"
  by (simp add: keeps_io_def lister_Get_def split: option.split)

lemma cache_nil: "keeps_io P nil_dereference"
  by (simp add: nil_dereference_def)

lemmas keeps_cache = keeps_modify cache_on_world cache_mark keeps_lister cache_nil keeps_bind keeps_then keeps_attempt
  keeps_for_each

section \<open>The operator's reconciler\<close>

lemma keeps_status_update: "keeps_io (cache_like m) (rec_updateStatus e)"
  by (auto simp: rec_updateStatus_def intro!: keeps_cache split: option.split)

lemma keeps_init: "keeps_io (cache_like m) (initStatus e manifest)"
  by (auto simp: initStatus_def intro!: keeps_cache keeps_status_update)

lemma keeps_apply: "keeps_io (cache_like m) (apply_or_fail e a)"
  by (auto simp: apply_or_fail_def intro!: keeps_cache split: result.split)

lemma keeps_install: "keeps_io (cache_like m) (install e manifest)"
  by (auto simp: install_def intro!: keeps_cache keeps_apply)

lemma keeps_check_loop: "keeps_io (cache_like m) (check_loop e us)"
  by (induction us) (auto intro!: keeps_cache split: result.split)

lemma keeps_ensure: "keeps_io (cache_like m) (ensureFinalizer e manifest)"
  by (auto simp: ensureFinalizer_def Let_def intro!: keeps_cache)

lemma keeps_obsolete: "keeps_io (cache_like m) (deleteObsoleteResources e manifest)"
  by (auto simp: deleteObsoleteResources_def intro!: keeps_cache)

lemma keeps_reconcile: "keeps_io (cache_like m) (reconcile e)"
  by (auto simp: reconcile_def stages_def checkDeployments_def intro!: keeps_cache keeps_ensure keeps_init keeps_install
      keeps_check_loop keeps_obsolete split: result.split)

lemma keeps_track: "keeps_io (cache_like m) (track_generation key g)"
  by (auto simp: track_generation_def report_def intro!: keeps_cache split: option.split)

lemma keeps_ReconcileKind: "keeps_io (cache_like m) (ReconcileKind e)"
  by (auto simp: ReconcileKind_def intro!: keeps_cache keeps_track keeps_reconcile split: result.split)

text \<open>The write of \<open>delete\<close>: the object that was found, with other finalizers.\<close>

lemma cache_like_refetched:
  assumes "cache_like m s" and "map_of (indexer s) k = Some ks"
  shows "cache_like m (s\<lparr>indexer := AList.update k (ks\<lparr>Finalizers := fs\<rparr>) (indexer s)\<rparr>)"
proof -
  have "no_finalizers (Some (ks\<lparr>Finalizers := fs\<rparr>)) = no_finalizers (map_of (indexer s) k)"
    by (simp add: no_finalizers_def assms(2))
  then show ?thesis using assms(1) by (auto simp: cache_like_def update_conv')
qed

lemma keeps_release: "keeps_io (cache_like m) (release e ks)"
  unfolding keeps_io_def
proof (intro allI impI)
  fix s :: "'a rstate"
  assume l: "cache_like m s"
  let ?k = "ksNamespace ks @ ''/'' @ ksName ks"
  show "cache_like m (snd (release e ks s))"
  proof (cases "map_of (indexer s) ?k")
    case None
    then show ?thesis using l by (simp add: release_def bind_io_def lister_Get_def)
  next
    case (Some re)
    note written = cache_like_refetched [OF l Some]
    show ?thesis
    proof (cases "Finalizers re")
      case (Cons f rest)
      have w: "keeps_io (cache_like m) (bind_io (on_world (checked (api_Update (servingClient e)
          (ksNamespace (re\<lparr>Finalizers := rest\<rparr>)) (re\<lparr>Finalizers := rest\<rparr>)))) (\<lambda>_. return_io ()))"
        by (auto intro!: keeps_cache)
      show ?thesis using Some Cons written [of rest] w [unfolded keeps_io_def]
        by (simp add: release_def lister_Get_def bind_io_cases(1) then_io_cases(1) Let_def)
    qed (use Some l in \<open>simp add: release_def bind_io_def lister_Get_def\<close>)
  qed
qed

lemma keeps_FinalizeKind: "keeps_io (cache_like m) (FinalizeKind e)"
  by (auto simp: FinalizeKind_def rec_delete_def intro!: keeps_cache keeps_release split: result.split)

section \<open>The generated reconciler\<close>

lemma keeps_event: "keeps_io (cache_like m) (Eventf t r x)"
  by (auto simp: Eventf_def intro!: keeps_cache)

lemma keeps_patched: "keeps_io (cache_like m) (patched answer)"
  by (auto simp: patched_def intro!: keeps_cache keeps_event split: prod.split option.split)

lemma keeps_update_finalizers: "keeps_io (cache_like m) (updateFinalizersFiltered r)"
  by (auto simp: updateFinalizersFiltered_def Let_def intro!: keeps_cache keeps_patched split: option.split)

lemma keeps_set_finalizers: "keeps_io (cache_like m) (set_finalizers f)"
  by (auto simp: set_finalizers_def intro!: keeps_cache)

lemma keeps_set_if: "keeps_io (cache_like m) (setFinalizerIfFinalizer r)"
  by (auto simp: setFinalizerIfFinalizer_def intro!: keeps_cache keeps_set_finalizers keeps_update_finalizers split: option.split)

lemma keeps_clear: "keeps_io (cache_like m) (clearFinalizer r ev)"
  by (auto simp: clearFinalizer_def intro!: keeps_cache keeps_set_finalizers keeps_update_finalizers split: option.split)

lemma keeps_run_kind: "keeps_io (cache_like m) (run_kind (operator_impl e))"
  by (auto simp: run_kind_def ignored_def as_event_def operator_impl_def intro!: keeps_cache keeps_set_if keeps_clear
      keeps_ReconcileKind keeps_FinalizeKind split: option.split)

lemma keeps_sync: "keeps_io (cache_like m) (sync_status r original)"
  by (auto simp: sync_status_def intro!: keeps_cache keeps_event split: result.split)

lemma keeps_report: "keeps_io (cache_like m) (report_event ev)"
  by (auto simp: report_event_def intro!: keeps_cache keeps_event split: option.split error.split)

theorem keeps_Reconcile: "keeps_io (cache_like m) (Reconcile (operator_impl e) key)"
  by (auto simp: Reconcile_def intro!: keeps_cache keeps_run_kind keeps_sync keeps_report split: result.split prod.split)

end
