(* ===== verification/Operator_Loop.thy ===== *)
theory Operator_Loop
  imports Work_Queue Controller Finalization Cache_Frame
begin

text \<open>
  The running operator as a state machine: informers change the cache and notify the handlers, the
  handlers put keys into the work queue, and the worker threads of the controller
  (\<open>processNextWorkItem\<close> and \<open>Run\<close> of \<open>vendor/knative.dev/pkg/controller/controller.go\<close>) take keys and
  call the reconciler. A worker takes a key in one step and reconciles it in another; one call of
  \<open>Reconcile\<close> is a single step, as if the calls of the workers did not overlap. The history records the
  changes of the cache and the outcomes of the reconciliations.
\<close>

section \<open>Work items\<close>

type_synonym NamespacedName = "string \<times> string"

definition safeKey :: "NamespacedName \<Rightarrow> string" where
  "safeKey key = (if fst key = [] then snd key else fst key @ ''/'' @ snd key)"

definition DefaultThreadsPerController :: nat where "DefaultThreadsPerController = 2"

definition EnqueueKey :: "NamespacedName \<Rightarrow> NamespacedName limited_queue \<Rightarrow> NamespacedName limited_queue" where
  "EnqueueKey key = on_queue (wq_Add key)"

text \<open>
  \<open>permanent\<close> tells the errors the caller marked as permanent; \<open>current\<close>, \<open>later\<close> and \<open>bucket\<close> are the clock,
  its reading when the delayed addition is received, and what the token bucket asks for.
\<close>

definition handleErr ::
    "(error \<Rightarrow> bool) \<Rightarrow> nat \<Rightarrow> nat \<Rightarrow> nat \<Rightarrow> error \<Rightarrow> NamespacedName \<Rightarrow>
     NamespacedName limited_queue \<Rightarrow> NamespacedName limited_queue" where
  "handleErr permanent current later bucket err key q =
     (if \<not> permanent err \<and> \<not> wq_ShuttingDown (lq_queue q) then AddRateLimited current later bucket key q
      else lq_Forget key q)"

text \<open>What \<open>processNextWorkItem\<close> does with the outcome; \<open>Done\<close> is deferred.\<close>

definition finish_item ::
    "(error \<Rightarrow> bool) \<Rightarrow> nat \<Rightarrow> nat \<Rightarrow> nat \<Rightarrow> unit result \<Rightarrow> NamespacedName \<Rightarrow>
     NamespacedName limited_queue \<Rightarrow> NamespacedName limited_queue" where
  "finish_item permanent current later bucket res key q =
     on_queue (wq_Done key)
       (case res of Err err \<Rightarrow> handleErr permanent current later bucket err key q | _ \<Rightarrow> lq_Forget key q)"

section \<open>The machine\<close>

datatype notice = Serving_notice "KnativeServing event" | Deployment_notice "obj event"

text \<open>The keys the handlers of \<open>NewController\<close> add for a notice.\<close>

fun handled :: "notice \<Rightarrow> NamespacedName list" where
  "handled (Serving_notice ev) = on_serving_event ev []"
| "handled (Deployment_notice ev) = on_deployment_event ev []"

text \<open>
  An entry of the history is about the key of an object in the cache; of a reconciliation it has what the
  cache held for the key, and the outcome.
\<close>

datatype entry = Changed NamespacedName | Reconciled NamespacedName "KnativeServing option" "unit result"

fun entry_key :: "entry \<Rightarrow> string" where
  "entry_key (Changed k) = safeKey k"
| "entry_key (Reconciled k seen r) = safeKey k"

definition cached_now :: "'w rstate \<Rightarrow> NamespacedName \<Rightarrow> KnativeServing option" where
  "cached_now st k = map_of (indexer st) (safeKey k)"

record 'w operator =
  op_state :: "'w rstate"
  op_queue :: "NamespacedName limited_queue"
  op_notices :: "notice list"
  op_working :: "nat \<Rightarrow> NamespacedName option"
  op_time :: nat
  op_history :: "entry list"

definition serving_name :: "KnativeServing \<Rightarrow> NamespacedName" where
  "serving_name ks = (ksNamespace ks, ksName ks)"

text \<open>The informer writes what it was told into its cache.\<close>

fun event_object :: "'a event \<Rightarrow> 'a" where
  "event_object (Added x) = x"
| "event_object (Updated x y) = y"
| "event_object (Deleted x) = x"

fun cache_event :: "KnativeServing event \<Rightarrow> KnativeServing gomap \<Rightarrow> KnativeServing gomap" where
  "cache_event (Deleted ks) m = AList.delete (safeKey (serving_name ks)) m"
| "cache_event ev m = AList.update (safeKey (serving_name (event_object ev))) (event_object ev) m"

text \<open>The serving that controls a Deployment, if one does.\<close>

definition controlling_serving :: "obj \<Rightarrow> NamespacedName list" where
  "controlling_serving u =
     (case GetControllerOf u of
        None \<Rightarrow> []
      | Some owner \<Rightarrow>
          if or_APIVersion owner = ''operator.knative.dev/v1alpha1'' \<and> or_Kind owner = ''KnativeServing''
          then [(GetNamespace u, or_Name owner)] else [])"

inductive operator_step :: "'w reconcilerImpl \<Rightarrow> (error \<Rightarrow> bool) \<Rightarrow> 'w operator \<Rightarrow> 'w operator \<Rightarrow> bool"
  for r permanent where
  world_changes: "operator_step r permanent s (s\<lparr>op_state := (op_state s)\<lparr>world := w\<rparr>\<rparr>)"
| serving_changes:
    "operator_step r permanent s
       (s\<lparr>op_state := (op_state s)\<lparr>indexer := cache_event ev (indexer (op_state s))\<rparr>,
          op_notices := op_notices s @ [Serving_notice ev],
          op_history := op_history s @ [Changed (serving_name (event_object ev))]\<rparr>)"
| deployment_changes:
    "operator_step r permanent s
       (s\<lparr>op_notices := op_notices s @ [Deployment_notice ev],
          op_history := op_history s @ map Changed (controlling_serving (event_object ev))\<rparr>)"
| notify:
    "op_notices s = n # ns \<Longrightarrow>
     operator_step r permanent s (s\<lparr>op_notices := ns, op_queue := fold EnqueueKey (handled n) (op_queue s)\<rparr>)"
| take:
    "i < DefaultThreadsPerController \<Longrightarrow> op_working s i = None \<Longrightarrow> wq_Get (lq_queue (op_queue s)) = (Got key, q) \<Longrightarrow>
     operator_step r permanent s
       (s\<lparr>op_working := (op_working s)(i := Some key), op_queue := (op_queue s)\<lparr>lq_queue := q\<rparr>\<rparr>)"
| work:
    "op_working s i = Some key \<Longrightarrow> Reconcile r (safeKey key) (op_state s) = (res, st) \<Longrightarrow> \<not> is_panic res \<Longrightarrow>
     operator_step r permanent s
       (s\<lparr>op_state := st, op_queue := finish_item permanent (op_time s) later bucket res key (op_queue s),
          op_working := (op_working s)(i := None), op_history := op_history s @ [Reconciled key (cached_now (op_state s) key) res]\<rparr>)"
| tick:
    "t \<ge> op_time s \<Longrightarrow> operator_step r permanent s (s\<lparr>op_time := t, op_queue := add_ready t (op_queue s)\<rparr>)"
| shut_down:
    "operator_step r permanent s (s\<lparr>op_queue := on_queue wq_ShutDown (op_queue s)\<rparr>)"

inductive_cases work_stepE: "operator_step r permanent s t"

definition initial_operator :: "'w rstate \<Rightarrow> 'w operator" where
  "initial_operator st =
     \<lparr>op_state = st, op_queue = NewNamedRateLimitingQueue DefaultControllerRateLimiter, op_notices = [],
      op_working = (\<lambda>_. None), op_time = 0, op_history = []\<rparr>"

inductive operator_reachable :: "'w reconcilerImpl \<Rightarrow> (error \<Rightarrow> bool) \<Rightarrow> 'w operator \<Rightarrow> bool" for r permanent where
  start: "operator_reachable r permanent (initial_operator st)"
| step: "operator_reachable r permanent s \<Longrightarrow> operator_step r permanent s t \<Longrightarrow> operator_reachable r permanent t"

section \<open>One worker for each key\<close>

definition workers_inv :: "'w operator \<Rightarrow> bool" where
  "workers_inv s \<longleftrightarrow> assigned wq_inv wq_processing (op_working s) (lq_queue (op_queue s))"

text \<open>Whatever keeps the queue's invariant and what is held keeps the assignment.\<close>

lemma assigned_keep:
  "assigned wq_inv wq_processing w q \<Longrightarrow> wq_inv q' \<Longrightarrow> wq_processing q' = wq_processing q \<Longrightarrow>
   assigned wq_inv wq_processing w q'"
  by (simp add: assigned_def)

lemma EnqueueKey_fold:
  "wq_inv (lq_queue q) \<Longrightarrow> wq_inv (lq_queue (fold EnqueueKey ks q))"
  "wq_processing (lq_queue (fold EnqueueKey ks q)) = wq_processing (lq_queue q)"
  "wq_shuttingDown (lq_queue (fold EnqueueKey ks q)) = wq_shuttingDown (lq_queue q)"
  "waiting (fold EnqueueKey ks q) = waiting q"
  "\<not> wq_shuttingDown (lq_queue q) \<Longrightarrow> wq_dirty (lq_queue (fold EnqueueKey ks q)) = set ks \<union> wq_dirty (lq_queue q)"
  by (induction ks arbitrary: q) (auto simp: EnqueueKey_def on_queue_def)

lemma handleErr_queue:
  "wq_inv (lq_queue q) \<Longrightarrow> wq_inv (lq_queue (handleErr permanent current later bucket err key q))"
  "wq_processing (lq_queue (handleErr permanent current later bucket err key q)) = wq_processing (lq_queue q)"
  "wq_shuttingDown (lq_queue (handleErr permanent current later bucket err key q)) = wq_shuttingDown (lq_queue q)"
  by (auto simp: handleErr_def lq_defs Let_def split: prod.splits)

lemma finish_item_queue:
  "\<exists>q'. lq_queue (finish_item permanent current later bucket res key q) = wq_Done key q' \<and>
     (wq_inv (lq_queue q) \<longrightarrow> wq_inv q') \<and> wq_processing q' = wq_processing (lq_queue q) \<and>
     wq_shuttingDown q' = wq_shuttingDown (lq_queue q)"
proof (cases res)
  case (Err err)
  then show ?thesis using handleErr_queue [where q = q and key = key]
    by (intro exI [where x = "lq_queue (handleErr permanent current later bucket err key q)"]) (simp add: finish_item_def on_queue_def)
qed (auto simp: finish_item_def on_queue_def lq_Forget_def)

lemma add_ready_queue:
  "wq_inv (lq_queue q) \<Longrightarrow> wq_inv (lq_queue (add_ready current q))"
  "wq_processing (lq_queue (add_ready current q)) = wq_processing (lq_queue q)"
  "wq_shuttingDown (lq_queue (add_ready current q)) = wq_shuttingDown (lq_queue q)"
  by (auto simp: lq_defs split: option.splits prod.splits)

lemma operator_step_workers:
  assumes "operator_step r permanent s t" and "workers_inv s"
  shows "workers_inv t"
  using assms
proof (induction rule: operator_step.induct)
  case (take i s key q)
  then show ?case using wq.assigned_take [where w = "op_working s" and q = "lq_queue (op_queue s)" and i = i]
    by (simp add: workers_inv_def)
next
  case (work s i key res st later bucket)
  obtain q' where q': "lq_queue (finish_item permanent (op_time s) later bucket res key (op_queue s)) = wq_Done key q'"
    "wq_inv (lq_queue (op_queue s)) \<longrightarrow> wq_inv q'" "wq_processing q' = wq_processing (lq_queue (op_queue s))"
    using finish_item_queue by metis
  from work(4) have "assigned wq_inv wq_processing (op_working s) q'"
    unfolding workers_inv_def using q'(2,3) by (auto intro: assigned_keep simp: assigned_def)
  from wq.assigned_finish [where w = "op_working s" and i = i, OF this work(1)] show ?case by (simp add: workers_inv_def q'(1))
qed (auto simp: workers_inv_def assigned_def EnqueueKey_fold add_ready_queue on_queue_def)

lemma reachable_workers: "operator_reachable r permanent s \<Longrightarrow> workers_inv s"
proof (induction rule: operator_reachable.induct)
  case (start st)
  then show ?case by (simp add: workers_inv_def assigned_def initial_operator_def NewNamedRateLimitingQueue_def newQueue_def wq_inv_def)
next
  case (step s t)
  then show ?case by (blast intro: operator_step_workers)
qed

section \<open>No change is lost\<close>

text \<open>
  An outcome ends the work on a key unless it is an error worth a retry; a key is settled when the last
  entry about it is such an outcome, and outstanding when something will still bring it to a worker.
\<close>

fun final_outcome :: "(error \<Rightarrow> bool) \<Rightarrow> unit result \<Rightarrow> bool" where
  "final_outcome permanent (Err e) = permanent e"
| "final_outcome permanent _ = True"

definition last_entry :: "entry list \<Rightarrow> string \<Rightarrow> entry option" where
  "last_entry h k = find (\<lambda>x. entry_key x = k) (rev h)"

fun unfinished :: "(error \<Rightarrow> bool) \<Rightarrow> entry option \<Rightarrow> bool" where
  "unfinished permanent (Some (Reconciled k seen res)) = (\<not> final_outcome permanent res)"
| "unfinished permanent (Some (Changed k)) = True"
| "unfinished permanent None = False"

definition unsettled :: "(error \<Rightarrow> bool) \<Rightarrow> entry list \<Rightarrow> string \<Rightarrow> bool" where
  "unsettled permanent h k = unfinished permanent (last_entry h k)"

lemma last_entry_snoc:
  "last_entry (h @ [x]) k = (if entry_key x = k then Some x else last_entry h k)" "last_entry [] k = None"
  by (simp_all add: last_entry_def)

lemma last_entry_changes:
  "last_entry (h @ map Changed ks) k = last_entry h k \<or> (\<exists>c \<in> set ks. last_entry (h @ map Changed ks) k = Some (Changed c))"
  by (induction ks rule: rev_induct) (auto simp: last_entry_snoc simp flip: append_assoc)

lemma unsettled_snoc:
  "unsettled permanent (h @ [Changed c]) k = (k = safeKey c \<or> unsettled permanent h k)"
  "unsettled permanent (h @ [Reconciled c seen res]) k =
     (if k = safeKey c then \<not> final_outcome permanent res else unsettled permanent h k)"
  "unsettled permanent [] k = False"
  by (auto simp: unsettled_def last_entry_snoc)

lemma unsettled_append_changes:
  "unsettled permanent (h @ map Changed ks) k = (k \<in> safeKey ` set ks \<or> unsettled permanent h k)"
  by (induction ks rule: rev_induct) (auto simp: unsettled_snoc simp flip: append_assoc)

text \<open>A settled key that changed had a final outcome last.\<close>

lemma settledD:
  assumes "\<not> unsettled permanent h k" and "k \<in> entry_key ` set h"
  obtains key seen res where "last_entry h k = Some (Reconciled key seen res)" and "safeKey key = k"
    and "final_outcome permanent res"
proof -
  have "last_entry h k \<noteq> None" using assms(2) by (auto simp: last_entry_def find_None_iff)
  then obtain x where x: "last_entry h k = Some x" by blast
  have "entry_key x = k" using x by (auto simp: last_entry_def find_Some_iff)
  with x assms(1) that show thesis by (cases x) (auto simp: unsettled_def)
qed

definition outstanding :: "'w operator \<Rightarrow> NamespacedName set" where
  "outstanding s =
     wq_dirty (lq_queue (op_queue s)) \<union> {k. \<exists>i. op_working s i = Some k} \<union> fst ` set (waiting (op_queue s)) \<union>
     (\<Union>n \<in> set (op_notices s). set (handled n))"

definition stopping :: "'w operator \<Rightarrow> bool" where
  "stopping s = wq_shuttingDown (lq_queue (op_queue s))"

definition no_lost_change :: "(error \<Rightarrow> bool) \<Rightarrow> 'w operator \<Rightarrow> bool" where
  "no_lost_change permanent s \<longleftrightarrow>
     (\<not> stopping s \<longrightarrow> (\<forall>k. unsettled permanent (op_history s) k \<longrightarrow> k \<in> safeKey ` outstanding s))"

lemma handled_serving [simp]: "handled (Serving_notice ev) = [serving_name (event_object ev)]"
  by (cases ev) (simp_all add: on_serving_event_def Enqueue_def serving_name_def)

lemma handled_deployment: "set (controlling_serving (event_object ev)) \<subseteq> set (handled (Deployment_notice ev))"
proof -
  have v: "gv_String \<lparr>gvGroup = gvkGroup (WithKind SchemeGroupVersion Kind), gvVersion = gvkVersion (WithKind SchemeGroupVersion Kind)\<rparr>
      = ''operator.knative.dev/v1alpha1''" "gvkKind (WithKind SchemeGroupVersion Kind) = ''KnativeServing''"
    by code_simp+
  have "controlling_serving u =
      (if FilterGroupVersionKind (WithKind SchemeGroupVersion Kind) u then EnqueueControllerOf u [] else [])" for u
    by (simp add: controlling_serving_def FilterGroupVersionKind_def EnqueueControllerOf_def v split: option.split)
  then show ?thesis by (cases ev) (simp_all add: on_deployment_event_def)
qed

declare handled.simps [simp del]

text \<open>What a worker's outcome leaves outstanding.\<close>

lemma handleErr_pending:
  assumes "\<not> wq_shuttingDown (lq_queue q)" and "\<not> permanent err"
  shows "key \<in> wq_dirty (lq_queue (handleErr permanent current later bucket err key q)) \<or>
    key \<in> fst ` set (waiting (handleErr permanent current later bucket err key q))"
  using assms AddRateLimited_pending [OF assms(1)] by (simp add: handleErr_def wq_ShuttingDown_def)

lemma AddAfter_keeps:
  "wq_dirty (lq_queue q) \<subseteq> wq_dirty (lq_queue (AddAfter current later item d q))"
  "fst ` set (waiting q) \<subseteq> fst ` set (waiting (AddAfter current later item d q))"
  by (auto simp: AddAfter_def Let_def on_queue_def waiting_insert_keys)

lemma handleErr_keeps:
  "wq_dirty (lq_queue q) \<subseteq> wq_dirty (lq_queue (handleErr permanent current later bucket err key q))"
  "fst ` set (waiting q) \<subseteq> fst ` set (waiting (handleErr permanent current later bucket err key q))"
  using AddAfter_keeps [where q = "q\<lparr>limiter := l\<rparr>" for l]
  by (auto simp: handleErr_def AddRateLimited_def lq_Forget_def split: prod.splits)

lemma finish_item_keeps:
  "wq_dirty (lq_queue q) \<subseteq> wq_dirty (lq_queue (finish_item permanent current later bucket res key q))"
  "fst ` set (waiting q) \<subseteq> fst ` set (waiting (finish_item permanent current later bucket res key q))"
  using handleErr_keeps [where q = q]
  by (auto simp: finish_item_def on_queue_def lq_Forget_def split: result.splits)

lemma finish_item_pending:
  assumes "\<not> wq_shuttingDown (lq_queue q)" and "\<not> final_outcome permanent res"
  shows "key \<in> wq_dirty (lq_queue (finish_item permanent current later bucket res key q)) \<union>
    fst ` set (waiting (finish_item permanent current later bucket res key q))"
proof -
  from assms(2) obtain err where "res = Err err" "\<not> permanent err" by (cases res) auto
  then show ?thesis using handleErr_pending [OF assms(1)] by (simp add: finish_item_def on_queue_def)
qed

lemma add_ready_outstanding:
  assumes "\<not> wq_shuttingDown (lq_queue q)"
  shows "wq_dirty (lq_queue q) \<union> fst ` set (waiting q) \<subseteq>
    wq_dirty (lq_queue (add_ready t q)) \<union> fst ` set (waiting (add_ready t q))"
proof (cases "earliest (waiting q)")
  case None
  then show ?thesis by (simp add: add_ready_def)
next
  case (Some item_time)
  obtain k readyAt where it: "item_time = (k, readyAt)" by force
  have "x \<in> insert k (fst ` set (AList.delete k (waiting q)))" if "x \<in> fst ` set (waiting q)" for x
    using that by (cases "x = k") (auto simp: AList.delete_eq)
  then show ?thesis using assms Some
    by (auto simp: it add_ready_def on_queue_def wq_ShuttingDown_def)
qed

lemma union_mono4: "a \<union> w \<subseteq> a' \<union> w' \<Longrightarrow> a \<union> h \<union> w \<union> n \<subseteq> a' \<union> h \<union> w' \<union> n"
  by blast

lemma no_lost_change_keep:
  assumes "no_lost_change permanent s" and "stopping t = stopping s" and "op_history t = op_history s"
    and "\<not> stopping s \<Longrightarrow> outstanding s \<subseteq> outstanding t"
  shows "no_lost_change permanent t"
  unfolding no_lost_change_def assms(2,3)
proof (intro impI allI)
  fix k
  assume "\<not> stopping s" and "unsettled permanent (op_history s) k"
  then have "k \<in> safeKey ` outstanding s" using assms(1) by (simp add: no_lost_change_def)
  then show "k \<in> safeKey ` outstanding t" using assms(4) [OF \<open>\<not> stopping s\<close>] by blast
qed

lemma operator_step_no_lost_change:
  assumes "operator_step r permanent s t" and "workers_inv s" and "no_lost_change permanent s"
  shows "no_lost_change permanent t"
  using assms
proof (induction rule: operator_step.induct)
  case (world_changes s w)
  then show ?case by (simp add: no_lost_change_def outstanding_def stopping_def)
next
  case (serving_changes s ev)
  have "outstanding (s\<lparr>op_state := (op_state s)\<lparr>indexer := cache_event ev (indexer (op_state s))\<rparr>,
      op_notices := op_notices s @ [Serving_notice ev], op_history := op_history s @ [Changed (serving_name (event_object ev))]\<rparr>)
    = insert (serving_name (event_object ev)) (outstanding s)" by (auto simp: outstanding_def)
  with serving_changes show ?case by (auto simp: no_lost_change_def stopping_def unsettled_snoc)
next
  case (deployment_changes s ev)
  have "outstanding (s\<lparr>op_notices := op_notices s @ [Deployment_notice ev],
      op_history := op_history s @ map Changed (controlling_serving (event_object ev))\<rparr>)
    = set (handled (Deployment_notice ev)) \<union> outstanding s" by (auto simp: outstanding_def)
  with deployment_changes show ?case using handled_deployment [of ev]
    by (auto simp: no_lost_change_def stopping_def unsettled_append_changes)
next
  case (notify s n ns)
  let ?t = "s\<lparr>op_notices := ns, op_queue := fold EnqueueKey (handled n) (op_queue s)\<rparr>"
  have "outstanding ?t = outstanding s" if "\<not> stopping s"
    using that notify(1) by (auto simp: outstanding_def stopping_def EnqueueKey_fold)
  moreover have "stopping ?t = stopping s" by (simp add: stopping_def EnqueueKey_fold)
  ultimately show ?case using notify(3) by (intro no_lost_change_keep [OF notify(3)]) simp_all
next
  case (take i s key q)
  note g = wq_Get_Got [OF take(3)]
  have "outstanding s \<subseteq> outstanding (s\<lparr>op_working := (op_working s)(i := Some key),
      op_queue := (op_queue s)\<lparr>lq_queue := q\<rparr>\<rparr>)"
  proof -
    have "\<exists>j'. ((op_working s)(i := Some key)) j' = Some k" if "op_working s j = Some k" for j k
      using that take(2) by (intro exI [where x = j]) auto
    moreover have "((op_working s)(i := Some key)) i = Some key" by simp
    ultimately show ?thesis by (auto simp: outstanding_def g simp del: fun_upd_apply split_paired_Ex)
  qed
  then show ?case by (intro no_lost_change_keep [OF take(5)]) (simp_all add: stopping_def g)
next
  case (work s i key res st later bucket)
  let ?q = "finish_item permanent (op_time s) later bucket res key (op_queue s)"
  let ?t = "s\<lparr>op_state := st, op_queue := ?q, op_working := (op_working s)(i := None),
    op_history := op_history s @ [Reconciled key (cached_now (op_state s) key) res]\<rparr>"
  have sd: "wq_shuttingDown (lq_queue ?q) = wq_shuttingDown (lq_queue (op_queue s))"
    using finish_item_queue [of permanent "op_time s" later bucket res key "op_queue s"] by auto
  have held: "\<exists>j. ((op_working s)(i := None)) j = Some k" if "op_working s j = Some k" "k \<noteq> key" for j k
    using that work(1) by (intro exI [where x = j]) auto
  have keep: "k \<in> outstanding ?t" if "k \<in> outstanding s" "k \<noteq> key" for k
  proof -
    from that(1) consider "k \<in> wq_dirty (lq_queue (op_queue s))" | j where "op_working s j = Some k"
      | "k \<in> fst ` set (waiting (op_queue s))" | "k \<in> (\<Union>n \<in> set (op_notices s). set (handled n))"
      unfolding outstanding_def by blast
    then show ?thesis
    proof cases
      case 1
      then have "k \<in> wq_dirty (lq_queue ?q)" using finish_item_keeps(1) by (rule rev_subsetD)
      then show ?thesis by (simp add: outstanding_def)
    next
      case 2
      with held [OF 2 that(2)] show ?thesis unfolding outstanding_def by simp
    next
      case 3
      then have "k \<in> fst ` set (waiting ?q)" using finish_item_keeps(2) by (rule rev_subsetD)
      then show ?thesis by (simp add: outstanding_def)
    next
      case 4
      then show ?thesis by (simp add: outstanding_def)
    qed
  qed
  have "key \<in> outstanding ?t" if "\<not> stopping s" "\<not> final_outcome permanent res"
  proof -
    have "key \<in> wq_dirty (lq_queue ?q) \<union> fst ` set (waiting ?q)"
      by (rule finish_item_pending [OF that(1) [unfolded stopping_def] that(2)])
    then show ?thesis unfolding outstanding_def operator.simps by (elim UnE) simp_all
  qed
  moreover have "k \<in> safeKey ` outstanding ?t" if "k \<in> safeKey ` outstanding s" "k \<noteq> safeKey key" for k
    using that keep by blast
  ultimately show ?case using work(5) sd
    by (simp add: no_lost_change_def stopping_def unsettled_snoc)
next
  case (tick time s)
  have "outstanding s \<subseteq> outstanding (s\<lparr>op_time := time, op_queue := add_ready time (op_queue s)\<rparr>)" if "\<not> stopping s"
    using add_ready_outstanding [OF that [unfolded stopping_def], of time]
    by (simp add: outstanding_def union_mono4 del: Un_subset_iff sup.bounded_iff)
  then show ?case by (intro no_lost_change_keep [OF tick(3)]) (simp_all add: stopping_def add_ready_queue)
next
  case (shut_down s)
  then show ?case by (simp add: no_lost_change_def stopping_def on_queue_def)
qed

lemma reachable_no_lost_change: "operator_reachable r permanent s \<Longrightarrow> no_lost_change permanent s"
proof (induction rule: operator_reachable.induct)
  case (start st)
  then show ?case by (simp add: no_lost_change_def initial_operator_def unsettled_snoc)
next
  case (step s t)
  then show ?case by (blast intro: operator_step_no_lost_change reachable_workers)
qed

section \<open>What was reconciled is what is there\<close>

text \<open>
  When the last entry about a key is a reconciliation, the cache still holds what it was given, but for
  finalizers.
\<close>

definition up_to_date :: "'w operator \<Rightarrow> bool" where
  "up_to_date s \<longleftrightarrow>
     (\<forall>k key seen res. last_entry (op_history s) k = Some (Reconciled key seen res) \<longrightarrow>
        no_finalizers seen = no_finalizers (map_of (indexer (op_state s)) k))"

lemma cache_event_other:
  "safeKey (serving_name (event_object ev)) \<noteq> k \<Longrightarrow> map_of (cache_event ev m) k = map_of m k"
  by (cases ev) (simp_all add: update_conv' delete_conv')

lemma operator_step_up_to_date:
  assumes "operator_step (operator_impl e) permanent s t" and "up_to_date s"
  shows "up_to_date t"
  using assms
proof (induction rule: operator_step.induct)
  case (serving_changes s ev)
  then show ?case by (auto simp: up_to_date_def last_entry_snoc cache_event_other split: if_splits)
next
  case (deployment_changes s ev)
  then show ?case using last_entry_changes [of "op_history s" "controlling_serving (event_object ev)"]
    unfolding up_to_date_def by (simp, metis entry.distinct(1) option.inject)
next
  case (work s i key res st later bucket)
  have "cache_like (indexer (op_state s)) st"
    using keeps_Reconcile [THEN keeps_ioD, OF cache_like_same work(2)] .
  then have same: "no_finalizers (map_of (indexer st) k) = no_finalizers (map_of (indexer (op_state s)) k)" for k
    by (simp add: cache_like_def)
  show ?case using work(4) by (auto simp: up_to_date_def last_entry_snoc same cached_now_def)
qed (simp_all add: up_to_date_def)

lemma reachable_up_to_date: "operator_reachable (operator_impl e) permanent s \<Longrightarrow> up_to_date s"
proof (induction rule: operator_reachable.induct)
  case (start st)
  then show ?case by (simp add: up_to_date_def initial_operator_def last_entry_snoc)
next
  case (step s t)
  then show ?case by (blast intro: operator_step_up_to_date)
qed

section \<open>Two workers at once\<close>

lemma wq_Get_head:
  "wq_Get \<lparr>wq_queue = k # ks, wq_dirty = d, wq_processing = p, wq_shuttingDown = b\<rparr> =
   (Got k, \<lparr>wq_queue = ks, wq_dirty = d - {k}, wq_processing = insert k p, wq_shuttingDown = b\<rparr>)"
  by (simp add: wq_Get_def)

lemma reachable_take:
  assumes "operator_reachable r permanent s" and "i < DefaultThreadsPerController" and "op_working s i = None"
    and "wq_Get (lq_queue (op_queue s)) = (Got key, q)"
    and "t = s\<lparr>op_working := (op_working s)(i := Some key), op_queue := (op_queue s)\<lparr>lq_queue := q\<rparr>\<rparr>"
  shows "operator_reachable r permanent t"
  unfolding assms(5) using assms(1) take [OF assms(2-4)] by (rule operator_reachable.step)

lemma reachable_notify:
  assumes "operator_reachable r permanent s" and "op_notices s = Serving_notice ev # ns"
    and "t = s\<lparr>op_notices := ns, op_queue := EnqueueKey (serving_name (event_object ev)) (op_queue s)\<rparr>"
  shows "operator_reachable r permanent t"
  using operator_reachable.step [OF assms(1) notify [OF assms(2)]] by (simp add: assms(3))

lemma two_workers:
  fixes r :: "'w reconcilerImpl"
  assumes "serving_name a \<noteq> serving_name b"
  shows "\<exists>s. operator_reachable r permanent s \<and> op_working s 0 = Some (serving_name a) \<and>
    op_working s 1 = Some (serving_name b)"
proof -
  let ?a = "serving_name a" and ?b = "serving_name b"
  note init = operator_reachable.start [where r = r and permanent = permanent]
  note go = operator_reachable.step
  define st :: "'w rstate" where "st = undefined"
  let ?s1 = "\<lparr>op_state = st\<lparr>indexer := cache_event (Added a) (indexer st)\<rparr>,
    op_queue = NewNamedRateLimitingQueue DefaultControllerRateLimiter, op_notices = [Serving_notice (Added a)],
    op_working = (\<lambda>_. None), op_time = 0, op_history = [Changed ?a]\<rparr>"
  have "operator_reachable r permanent ?s1"
    using go [OF init serving_changes [where ev = "Added a"], of st] by (simp add: initial_operator_def)
  from go [OF this serving_changes [where ev = "Added b"]]
  obtain st2 where 2: "operator_reachable r permanent \<lparr>op_state = st2,
    op_queue = NewNamedRateLimitingQueue DefaultControllerRateLimiter,
    op_notices = [Serving_notice (Added a), Serving_notice (Added b)],
    op_working = (\<lambda>_. None), op_time = 0, op_history = [Changed ?a, Changed ?b]\<rparr>" by auto
  let ?q = "\<lambda>w. \<lparr>lq_queue = w, waiting = [], limiter = DefaultControllerRateLimiter\<rparr>"
  let ?w2 = "\<lparr>wq_queue = [?a, ?b], wq_dirty = {?b, ?a}, wq_processing = {}, wq_shuttingDown = False\<rparr>"
  have "operator_reachable r permanent \<lparr>op_state = st2, op_queue = ?q ?w2, op_notices = [],
    op_working = (\<lambda>_. None), op_time = 0, op_history = [Changed ?a, Changed ?b]\<rparr>"
  proof (rule reachable_notify [where ev = "Added b"])
    let ?w1 = "\<lparr>wq_queue = [?a], wq_dirty = {?a}, wq_processing = {}, wq_shuttingDown = False\<rparr>"
    show "operator_reachable r permanent \<lparr>op_state = st2, op_queue = ?q ?w1, op_notices = [Serving_notice (Added b)],
      op_working = (\<lambda>_. None), op_time = 0, op_history = [Changed ?a, Changed ?b]\<rparr>"
      by (rule reachable_notify [OF 2, where ev = "Added a" and ns = "[Serving_notice (Added b)]"])
        (simp_all add: EnqueueKey_def on_queue_def NewNamedRateLimitingQueue_def wq_defs)
  qed (use assms in \<open>simp_all add: EnqueueKey_def on_queue_def wq_defs\<close>)
  then have "operator_reachable r permanent \<lparr>op_state = st2,
    op_queue = ?q \<lparr>wq_queue = [?b], wq_dirty = {?b, ?a} - {?a}, wq_processing = {?a}, wq_shuttingDown = False\<rparr>,
    op_notices = [], op_working = (\<lambda>_. None)(0 := Some ?a), op_time = 0, op_history = [Changed ?a, Changed ?b]\<rparr>"
    by (rule reachable_take [where i = 0]) (simp_all add: DefaultThreadsPerController_def wq_Get_head)
  then have "operator_reachable r permanent \<lparr>op_state = st2,
    op_queue = ?q \<lparr>wq_queue = [], wq_dirty = {?b, ?a} - {?a} - {?b}, wq_processing = {?b, ?a}, wq_shuttingDown = False\<rparr>,
    op_notices = [], op_working = (\<lambda>_. None)(0 := Some ?a, 1 := Some ?b), op_time = 0,
    op_history = [Changed ?a, Changed ?b]\<rparr>"
    by (rule reachable_take [where i = 1]) (simp_all add: DefaultThreadsPerController_def wq_Get_head)
  then show ?thesis by (intro exI conjI) (assumption | simp)+
qed

text \<open>A serving is deleted and a worker finds nothing to reconcile.\<close>

lemma reachable_work:
  assumes "operator_reachable r permanent s" and "op_working s i = Some key"
    and "Reconcile r (safeKey key) (op_state s) = (res, st)" and "\<not> is_panic res"
    and "t = s\<lparr>op_state := st, op_queue := finish_item permanent (op_time s) later bucket res key (op_queue s),
          op_working := (op_working s)(i := None), op_history := op_history s @ [Reconciled key (cached_now (op_state s) key) res]\<rparr>"
  shows "operator_reachable r permanent t"
  unfolding assms(5) using assms(1) work [OF assms(2-4)] by (rule operator_reachable.step)

lemma settled_run:
  fixes r :: "'w reconcilerImpl" and st :: "'w rstate"
  assumes "SplitMetaNamespaceKey (safeKey (serving_name ks)) = Ok (ksNamespace ks, ksName ks)" and "indexer st = []"
  shows "\<exists>s. operator_reachable r permanent s \<and> \<not> stopping s \<and> outstanding s = {} \<and>
    op_history s = [Changed (serving_name ks), Reconciled (serving_name ks) None (Ok ())]"
proof -
  let ?k = "serving_name ks" and ?l = "exp_Forget (serving_name ks) DefaultControllerRateLimiter"
  let ?s = "\<lambda>w ns wk l h. \<lparr>op_state = st, op_queue = \<lparr>lq_queue = w, waiting = [], limiter = l\<rparr>,
    op_notices = ns, op_working = wk, op_time = 0, op_history = h\<rparr>"
  have same: "st\<lparr>indexer := []\<rparr> = st" using assms(2) by (cases st) simp
  have 1: "operator_reachable r permanent
      (?s newQueue [Serving_notice (Deleted ks)] (\<lambda>_. None) DefaultControllerRateLimiter [Changed ?k])"
    using operator_reachable.step [OF operator_reachable.start serving_changes [where ev = "Deleted ks"], of r permanent st] assms(2) same
    by (simp add: initial_operator_def NewNamedRateLimitingQueue_def)
  let ?w1 = "\<lparr>wq_queue = [?k], wq_dirty = {?k}, wq_processing = {}, wq_shuttingDown = False\<rparr>"
  have 2: "operator_reachable r permanent (?s ?w1 [] (\<lambda>_. None) DefaultControllerRateLimiter [Changed ?k])"
    by (rule reachable_notify [OF 1, where ev = "Deleted ks" and ns = "[]"])
      (simp_all add: EnqueueKey_def on_queue_def wq_defs)
  let ?w2 = "\<lparr>wq_queue = [], wq_dirty = {?k} - {?k}, wq_processing = {?k}, wq_shuttingDown = False\<rparr>"
  have 3: "operator_reachable r permanent
      (?s ?w2 [] ((\<lambda>_. None)(0 := Some ?k)) DefaultControllerRateLimiter [Changed ?k])"
    by (rule reachable_take [OF 2, where i = 0]) (simp_all add: DefaultThreadsPerController_def wq_Get_head)
  have "operator_reachable r permanent
      (?s newQueue [] (\<lambda>_. None) ?l [Changed ?k, Reconciled ?k None (Ok ())])"
    by (rule reachable_work [OF 3, where i = 0 and res = "Ok ()" and st = st])
      (simp_all add: Reconcile_nothing(2) [OF assms(1)] assms(2) finish_item_def lq_Forget_def on_queue_def wq_defs cached_now_def)
  then show ?thesis
    by (intro exI conjI) (assumption | simp add: stopping_def outstanding_def newQueue_def)+
qed

end
