(* ===== verification/Clientset.thy ===== *)
theory Clientset
  imports Complex_Main Serving_Client
begin

text \<open>
  How the clients are made from a configuration: the clientset
  (\<open>pkg/client/clientset/versioned/clientset.go\<close>), the client of the group
  (\<open>typed/serving/v1alpha1/serving_client.go\<close>) and what they call of \<open>client-go/rest\<close> (\<open>config.go\<close>,
  \<open>client.go\<close>, \<open>url_utils.go\<close>) and \<open>client-go/discovery\<close>. Parsing URLs, making transports and the codecs of
  a media type are parameters. The state is the number of rate limiters made so far, which tells
  limiters with the same settings apart.
\<close>

section \<open>Configurations and clients\<close>

datatype rate_limiter = TokenBucket nat rat int | CallersLimiter nat

text \<open>\<open>rest.Config\<close>; authentication and transports are in \<open>cfg_more\<close>.\<close>

record ('s, 'm) rest_config =
  Host :: string
  APIPath :: string
  cfg_GroupVersion :: "GroupVersion option"
  ContentType :: string
  NegotiatedSerializer :: "'s option"
  UserAgent :: string
  QPS :: rat
  Burst :: int
  RateLimiter :: "rate_limiter option"
  cfg_Timeout :: int
  CAFile :: string
  CAData :: string
  CertFile :: string
  CertData :: string
  Insecure :: bool
  cfg_more :: 'm

record url =
  url_Scheme :: string
  url_Host :: string
  url_Path :: string
  url_RawQuery :: string
  url_Fragment :: string

record 't http_client =
  hc_Transport :: 't
  hc_Timeout :: int

record ('z, 't) RESTClient =
  base :: url
  versionedAPIPath :: "string list"
  rc_GroupVersion :: GroupVersion
  rc_ContentType :: string
  rc_serializers :: 'z
  Throttle :: "rate_limiter option"
  rc_Client :: "'t http_client option"

record ('s, 'm, 'z, 't) rest_lib =
  DefaultKubernetesUserAgent :: string
  Codecs :: 's
  discovery_codec :: 's
  url_Parse :: "string \<Rightarrow> url result"
  TransportFor :: "('s, 'm) rest_config \<Rightarrow> 't result"
  is_DefaultTransport :: "'t \<Rightarrow> bool"
  createSerializers :: "string \<Rightarrow> GroupVersion \<Rightarrow> 's \<Rightarrow> 'z result"

text \<open>Copies of a configuration share its rate limiter.\<close>

definition NewTokenBucketRateLimiter :: "rat \<Rightarrow> int \<Rightarrow> (nat, rate_limiter) io" where
  "NewTokenBucketRateLimiter qps burst n = (Ok (TokenBucket n qps burst), n + 1)"

section \<open>The server's address\<close>

text \<open>\<open>path.Join\<close> onto a rooted path, as the list of its segments.\<close>

fun clean_step :: "string list \<Rightarrow> string \<Rightarrow> string list" where
  "clean_step segs s = (if s = [] \<or> s = ''.'' then segs else if s = ''..'' then butlast segs else segs @ [s])"

definition path_Join :: "string list \<Rightarrow> string list \<Rightarrow> string list" where
  "path_Join segs parts = foldl clean_step segs (concat (map (Split (CHR ''/'')) parts))"

definition DefaultVersionedAPIPath :: "string \<Rightarrow> GroupVersion \<Rightarrow> string list" where
  "DefaultVersionedAPIPath apiPath gv =
     (let p = path_Join [] [apiPath]
      in if length (gvGroup gv) > 0 then path_Join p [gvGroup gv, gvVersion gv] else path_Join p [gvVersion gv])"

definition DefaultServerURL ::
    "(string \<Rightarrow> url result) \<Rightarrow> string \<Rightarrow> string \<Rightarrow> GroupVersion \<Rightarrow> bool \<Rightarrow> (url \<times> string list) result" where
  "DefaultServerURL parse host apiPath gv defaultTLS =
     (if host = [] then Err (Errorf ''host must be a URL or a host:port pair'')
      else bind_result
        (case parse host of
           Ok u \<Rightarrow> Ok (if url_Scheme u = [] \<or> url_Host u = [] then None else Some u)
         | Err e \<Rightarrow> Ok None
         | Panic p \<Rightarrow> Panic p)
        (\<lambda>found. bind_result
          (case found of
             Some u \<Rightarrow> Ok u
           | None \<Rightarrow>
               bind_result (parse ((if defaultTLS then ''https://'' else ''http://'') @ host))
                 (\<lambda>u. if url_Path u \<noteq> [] \<and> url_Path u \<noteq> ''/''
                      then Err (Errorf (''host must be a URL or a host:port pair: '' @ quoted host)) else Ok u))
          (\<lambda>u. Ok (u, DefaultVersionedAPIPath apiPath gv))))"

definition defaultServerUrlFor ::
    "(string \<Rightarrow> url result) \<Rightarrow> ('s, 'm) rest_config \<Rightarrow> (url \<times> string list) result" where
  "defaultServerUrlFor parse c =
     (let hasCA = length (CAFile c) \<noteq> 0 \<or> length (CAData c) \<noteq> 0;
          hasCert = length (CertFile c) \<noteq> 0 \<or> length (CertData c) \<noteq> 0;
          defaultTLS = hasCA \<or> hasCert \<or> Insecure c;
          host = (if Host c = [] then ''localhost'' else Host c)
      in case cfg_GroupVersion c of
           Some gv \<Rightarrow> DefaultServerURL parse host (APIPath c) gv defaultTLS
         | None \<Rightarrow> DefaultServerURL parse host (APIPath c) \<lparr>gvGroup = [], gvVersion = []\<rparr> defaultTLS)"

section \<open>REST clients\<close>

definition DefaultQPS :: rat where "DefaultQPS = 5"
definition DefaultBurst :: int where "DefaultBurst = 10"

definition NewRESTClient ::
    "('s, 'm, 'z, 't) rest_lib \<Rightarrow> url \<Rightarrow> string list \<Rightarrow> GroupVersion option \<Rightarrow> string \<Rightarrow> 's \<Rightarrow> rat \<Rightarrow> int \<Rightarrow>
     rate_limiter option \<Rightarrow> 't http_client option \<Rightarrow> (nat, ('z, 't) RESTClient) io" where
  "NewRESTClient lib baseURL path gvp contentType ser maxQPS maxBurst rateLimiter client =
     (let base = baseURL\<lparr>url_Path := (if url_Path baseURL \<noteq> [] \<and> last (url_Path baseURL) = CHR ''/''
                                      then url_Path baseURL else url_Path baseURL @ ''/''),
                         url_RawQuery := [], url_Fragment := []\<rparr>;
          gv = (case gvp of Some gv \<Rightarrow> gv | None \<Rightarrow> \<lparr>gvGroup = [], gvVersion = []\<rparr>);
          ct = (if length contentType = 0 then ''application/json'' else contentType)
      in bind_io (of_result (createSerializers lib ct gv ser))
           (\<lambda>serializers. bind_io
              (if maxQPS > 0 \<and> rateLimiter = None
               then bind_io (NewTokenBucketRateLimiter maxQPS maxBurst) (\<lambda>l. return_io (Some l))
               else return_io rateLimiter)
              (\<lambda>throttle. return_io
                 \<lparr>base = base, versionedAPIPath = path, rc_GroupVersion = gv, rc_ContentType = ct,
                  rc_serializers = serializers, Throttle = throttle, rc_Client = client\<rparr>)))"

text \<open>The timeout of an \<open>http.Client\<close> is zero unless it is set.\<close>

definition http_client_for :: "('s, 'm, 'z, 't) rest_lib \<Rightarrow> int \<Rightarrow> 't \<Rightarrow> 't http_client option" where
  "http_client_for lib timeout t =
     (if \<not> is_DefaultTransport lib t
      then Some \<lparr>hc_Transport = t, hc_Timeout = (if timeout > 0 then timeout else 0)\<rparr> else None)"

definition RESTClientFor ::
    "('s, 'm, 'z, 't) rest_lib \<Rightarrow> ('s, 'm) rest_config \<Rightarrow> (nat, ('z, 't) RESTClient) io" where
  "RESTClientFor lib c =
     (case cfg_GroupVersion c of
        None \<Rightarrow> raise_io (Errorf ''GroupVersion is required when initializing a RESTClient'')
      | Some gv \<Rightarrow>
          (case NegotiatedSerializer c of
             None \<Rightarrow> raise_io (Errorf ''NegotiatedSerializer is required when initializing a RESTClient'')
           | Some ser \<Rightarrow>
               let qps = (if QPS c = 0 then DefaultQPS else QPS c);
                   burst = (if Burst c = 0 then DefaultBurst else Burst c)
               in bind_io (of_result (defaultServerUrlFor (url_Parse lib) c))
                    (\<lambda>(baseURL, path). bind_io (of_result (TransportFor lib c))
                      (\<lambda>t. NewRESTClient lib baseURL path (Some gv) (ContentType c) ser qps burst (RateLimiter c)
                             (http_client_for lib (cfg_Timeout c) t)))))"

definition UnversionedRESTClientFor ::
    "('s, 'm, 'z, 't) rest_lib \<Rightarrow> ('s, 'm) rest_config \<Rightarrow> (nat, ('z, 't) RESTClient) io" where
  "UnversionedRESTClientFor lib c =
     (case NegotiatedSerializer c of
        None \<Rightarrow> raise_io (Errorf ''NegotiatedSerializer is required when initializing a RESTClient'')
      | Some ser \<Rightarrow>
          bind_io (of_result (defaultServerUrlFor (url_Parse lib) c))
            (\<lambda>(baseURL, path). bind_io (of_result (TransportFor lib c))
              (\<lambda>t. let gv = (case cfg_GroupVersion c of None \<Rightarrow> Some \<lparr>gvGroup = ''meta.k8s.io'', gvVersion = ''v1''\<rparr> | gv \<Rightarrow> gv)
                   in NewRESTClient lib baseURL path gv (ContentType c) ser (QPS c) (Burst c) (RateLimiter c)
                        (http_client_for lib (cfg_Timeout c) t))))"

section \<open>The clients of the operator\<close>

text \<open>\<open>OperatorV1alpha1Client\<close>, and the clientset with the discovery client it embeds.\<close>

record 'c OperatorV1alpha1Client =
  restClient :: 'c

record 'c DiscoveryClient =
  dc_restClient :: 'c
  LegacyPrefix :: string

record 'c Clientset =
  cs_DiscoveryClient :: "'c DiscoveryClient"
  operatorV1alpha1 :: "'c OperatorV1alpha1Client"

definition setConfigDefaults :: "('s, 'm, 'z, 't) rest_lib \<Rightarrow> ('s, 'm) rest_config \<Rightarrow> ('s, 'm) rest_config" where
  "setConfigDefaults lib c =
     (let c' = c\<lparr>cfg_GroupVersion := Some SchemeGroupVersion, APIPath := ''/apis'', NegotiatedSerializer := Some (Codecs lib)\<rparr>
      in if UserAgent c' = [] then c'\<lparr>UserAgent := DefaultKubernetesUserAgent lib\<rparr> else c')"

definition typed_NewForConfig ::
    "('s, 'm, 'z, 't) rest_lib \<Rightarrow> ('s, 'm) rest_config \<Rightarrow> (nat, ('z, 't) RESTClient OperatorV1alpha1Client) io" where
  "typed_NewForConfig lib c =
     bind_io (RESTClientFor lib (setConfigDefaults lib c)) (\<lambda>client. return_io \<lparr>restClient = client\<rparr>)"

text \<open>\<open>panic(err)\<close>.\<close>

definition or_die :: "('s, 'a) io \<Rightarrow> ('s, 'a) io" where
  "or_die m = bind_io (attempt m) (\<lambda>r. of_result (case r of Err e \<Rightarrow> Panic (error_text e) | _ \<Rightarrow> r))"

definition typed_NewForConfigOrDie ::
    "('s, 'm, 'z, 't) rest_lib \<Rightarrow> ('s, 'm) rest_config \<Rightarrow> (nat, ('z, 't) RESTClient OperatorV1alpha1Client) io" where
  "typed_NewForConfigOrDie lib c = or_die (typed_NewForConfig lib c)"

definition typed_New :: "'c \<Rightarrow> 'c OperatorV1alpha1Client" where
  "typed_New c = \<lparr>restClient = c\<rparr>"

text \<open>Both accessors are called on pointers, which may be nil.\<close>

definition client_RESTClient :: "'c OperatorV1alpha1Client option \<Rightarrow> 'c option" where
  "client_RESTClient c = (case c of None \<Rightarrow> None | Some c \<Rightarrow> Some (restClient c))"

definition Discovery :: "'c Clientset option \<Rightarrow> 'c DiscoveryClient option" where
  "Discovery c = (case c of None \<Rightarrow> None | Some c \<Rightarrow> Some (cs_DiscoveryClient c))"

definition setDiscoveryDefaults :: "('s, 'm, 'z, 't) rest_lib \<Rightarrow> ('s, 'm) rest_config \<Rightarrow> ('s, 'm) rest_config" where
  "setDiscoveryDefaults lib c =
     (let c1 = c\<lparr>APIPath := [], cfg_GroupVersion := None\<rparr>;
          c2 = (if cfg_Timeout c1 = 0 then c1\<lparr>cfg_Timeout := 32 * 10 ^ 9\<rparr> else c1);
          c3 = c2\<lparr>NegotiatedSerializer := Some (discovery_codec lib)\<rparr>
      in if length (UserAgent c3) = 0 then c3\<lparr>UserAgent := DefaultKubernetesUserAgent lib\<rparr> else c3)"

definition NewDiscoveryClient :: "'c \<Rightarrow> 'c DiscoveryClient" where
  "NewDiscoveryClient c = \<lparr>dc_restClient = c, LegacyPrefix = ''/api''\<rparr>"

definition NewDiscoveryClientForConfig ::
    "('s, 'm, 'z, 't) rest_lib \<Rightarrow> ('s, 'm) rest_config \<Rightarrow> (nat, ('z, 't) RESTClient DiscoveryClient) io" where
  "NewDiscoveryClientForConfig lib c =
     bind_io (UnversionedRESTClientFor lib (setDiscoveryDefaults lib c))
       (\<lambda>client. return_io \<lparr>dc_restClient = client, LegacyPrefix = ''/api''\<rparr>)"

definition NewDiscoveryClientForConfigOrDie ::
    "('s, 'm, 'z, 't) rest_lib \<Rightarrow> ('s, 'm) rest_config \<Rightarrow> (nat, ('z, 't) RESTClient DiscoveryClient) io" where
  "NewDiscoveryClientForConfigOrDie lib c = or_die (NewDiscoveryClientForConfig lib c)"

definition NewForConfig ::
    "('s, 'm, 'z, 't) rest_lib \<Rightarrow> ('s, 'm) rest_config \<Rightarrow> (nat, ('z, 't) RESTClient Clientset) io" where
  "NewForConfig lib c =
     bind_io
       (if RateLimiter c = None \<and> QPS c > 0 then
          if Burst c \<le> 0 then
            raise_io (Errorf (''Burst is required to be greater than 0 when RateLimiter is not set and '' @
                              ''QPS is set to greater than 0''))
          else bind_io (NewTokenBucketRateLimiter (QPS c) (Burst c)) (\<lambda>l. return_io (c\<lparr>RateLimiter := Some l\<rparr>))
        else return_io c)
       (\<lambda>copy. bind_io (typed_NewForConfig lib copy)
         (\<lambda>typed. bind_io (NewDiscoveryClientForConfig lib copy)
           (\<lambda>disco. return_io \<lparr>cs_DiscoveryClient = disco, operatorV1alpha1 = typed\<rparr>)))"

definition NewForConfigOrDie ::
    "('s, 'm, 'z, 't) rest_lib \<Rightarrow> ('s, 'm) rest_config \<Rightarrow> (nat, ('z, 't) RESTClient Clientset) io" where
  "NewForConfigOrDie lib c =
     bind_io (typed_NewForConfigOrDie lib c)
       (\<lambda>typed. bind_io (NewDiscoveryClientForConfigOrDie lib c)
         (\<lambda>disco. return_io \<lparr>cs_DiscoveryClient = disco, operatorV1alpha1 = typed\<rparr>))"

definition New_clientset :: "'c \<Rightarrow> 'c Clientset" where
  "New_clientset c = \<lparr>cs_DiscoveryClient = NewDiscoveryClient c, operatorV1alpha1 = typed_New c\<rparr>"

section \<open>Limits and paths\<close>

text \<open>What a new REST client limits its requests with, and where it sends them.\<close>

definition throttle_of :: "rate_limiter option \<Rightarrow> rat \<Rightarrow> int \<Rightarrow> nat \<Rightarrow> rate_limiter option \<times> nat" where
  "throttle_of l qps burst n =
     (if l \<noteq> None then (l, n) else if qps > 0 then (Some (TokenBucket n qps burst), n + 1) else (None, n))"

lemma NewRESTClient_Ok:
  assumes "NewRESTClient lib u path gvp ct ser qps burst l client n = (Ok r, n')"
  shows "(Throttle r, n') = throttle_of l qps burst n" and "versionedAPIPath r = path"
  using assms
  by (auto simp: NewRESTClient_def Let_def bind_io_Ok_iff throttle_of_def NewTokenBucketRateLimiter_def split: if_splits)

lemma DefaultServerURL_path:
  "DefaultServerURL parse host apiPath gv tls = Ok (u, path) \<Longrightarrow> path = DefaultVersionedAPIPath apiPath gv"
  by (auto simp: DefaultServerURL_def split: if_splits)

lemma RESTClientFor_Ok:
  assumes "RESTClientFor lib c n = (Ok r, n')" and "cfg_GroupVersion c = Some gv"
  shows "(Throttle r, n') = throttle_of (RateLimiter c) (if QPS c = 0 then 5 else QPS c) (if Burst c = 0 then 10 else Burst c) n"
    and "versionedAPIPath r = DefaultVersionedAPIPath (APIPath c) gv"
proof -
  from assms obtain ser u path t where u: "defaultServerUrlFor (url_Parse lib) c = Ok (u, path)"
    and r: "NewRESTClient lib u path (Some gv) (ContentType c) ser (if QPS c = 0 then DefaultQPS else QPS c)
      (if Burst c = 0 then DefaultBurst else Burst c) (RateLimiter c) (http_client_for lib (cfg_Timeout c) t) n = (Ok r, n')"
    by (auto simp: RESTClientFor_def Let_def bind_io_Ok_iff simp del: bind_result_Ok_iff split: option.splits)
  show "(Throttle r, n') = throttle_of (RateLimiter c) (if QPS c = 0 then 5 else QPS c) (if Burst c = 0 then 10 else Burst c) n"
    using NewRESTClient_Ok(1) [OF r] by (simp add: DefaultQPS_def DefaultBurst_def)
  show "versionedAPIPath r = DefaultVersionedAPIPath (APIPath c) gv"
    using NewRESTClient_Ok(2) [OF r] DefaultServerURL_path u assms(2) by (auto simp: defaultServerUrlFor_def Let_def)
qed

lemma UnversionedRESTClientFor_Ok:
  assumes "UnversionedRESTClientFor lib c n = (Ok r, n')" and "cfg_GroupVersion c = None"
  shows "(Throttle r, n') = throttle_of (RateLimiter c) (QPS c) (Burst c) n"
    and "versionedAPIPath r = DefaultVersionedAPIPath (APIPath c) \<lparr>gvGroup = [], gvVersion = []\<rparr>"
proof -
  from assms obtain ser u path t gv where u: "defaultServerUrlFor (url_Parse lib) c = Ok (u, path)"
    and r: "NewRESTClient lib u path gv (ContentType c) ser (QPS c) (Burst c) (RateLimiter c)
      (http_client_for lib (cfg_Timeout c) t) n = (Ok r, n')"
    by (auto simp: UnversionedRESTClientFor_def Let_def bind_io_Ok_iff simp del: bind_result_Ok_iff split: option.splits)
  show "(Throttle r, n') = throttle_of (RateLimiter c) (QPS c) (Burst c) n" by (rule NewRESTClient_Ok(1) [OF r])
  show "versionedAPIPath r = DefaultVersionedAPIPath (APIPath c) \<lparr>gvGroup = [], gvVersion = []\<rparr>"
    using NewRESTClient_Ok(2) [OF r] DefaultServerURL_path u assms(2) by (auto simp: defaultServerUrlFor_def Let_def)
qed

lemma typed_prefix: "DefaultVersionedAPIPath ''/apis'' SchemeGroupVersion = client_prefix"
  and discovery_prefix: "DefaultVersionedAPIPath [] \<lparr>gvGroup = [], gvVersion = []\<rparr> = []"
  by code_simp+

lemma typed_NewForConfig_Ok:
  assumes "typed_NewForConfig lib c n = (Ok cl, n')"
  shows "(Throttle (restClient cl), n') =
      throttle_of (RateLimiter c) (if QPS c = 0 then 5 else QPS c) (if Burst c = 0 then 10 else Burst c) n"
    and "versionedAPIPath (restClient cl) = client_prefix"
proof -
  let ?c = "setConfigDefaults lib c"
  have f: "cfg_GroupVersion ?c = Some SchemeGroupVersion" "APIPath ?c = ''/apis''" "QPS ?c = QPS c"
      "Burst ?c = Burst c" "RateLimiter ?c = RateLimiter c"
    by (simp_all add: setConfigDefaults_def Let_def)
  from assms have r: "RESTClientFor lib ?c n = (Ok (restClient cl), n')"
    by (auto simp: typed_NewForConfig_def bind_io_Ok_iff)
  show "(Throttle (restClient cl), n') =
      throttle_of (RateLimiter c) (if QPS c = 0 then 5 else QPS c) (if Burst c = 0 then 10 else Burst c) n"
    using RESTClientFor_Ok(1) [OF r f(1)] by (simp add: f)
  show "versionedAPIPath (restClient cl) = client_prefix"
    using RESTClientFor_Ok(2) [OF r f(1)] by (simp add: f typed_prefix)
qed

lemma NewDiscoveryClientForConfig_Ok:
  assumes "NewDiscoveryClientForConfig lib c n = (Ok cl, n')"
  shows "(Throttle (dc_restClient cl), n') = throttle_of (RateLimiter c) (QPS c) (Burst c) n"
    and "versionedAPIPath (dc_restClient cl) = []"
proof -
  let ?c = "setDiscoveryDefaults lib c"
  have f: "cfg_GroupVersion ?c = None" "APIPath ?c = []" "QPS ?c = QPS c" "Burst ?c = Burst c" "RateLimiter ?c = RateLimiter c"
    by (simp_all add: setDiscoveryDefaults_def Let_def)
  from assms have r: "UnversionedRESTClientFor lib ?c n = (Ok (dc_restClient cl), n')"
    by (auto simp: NewDiscoveryClientForConfig_def bind_io_Ok_iff)
  show "(Throttle (dc_restClient cl), n') = throttle_of (RateLimiter c) (QPS c) (Burst c) n"
    using UnversionedRESTClientFor_Ok(1) [OF r f(1)] by (simp add: f)
  show "versionedAPIPath (dc_restClient cl) = []"
    using UnversionedRESTClientFor_Ok(2) [OF r f(1)] by (simp add: f discovery_prefix)
qed

lemma or_die_Ok_iff: "or_die m s = (Ok x, s') \<longleftrightarrow> m s = (Ok x, s')"
  by (auto simp: or_die_def bind_io_def attempt_def split: prod.splits result.splits)

lemma clientset_limits:
  assumes "NewForConfig lib c n = (Ok cs, n')"
  shows "(Throttle (restClient (operatorV1alpha1 cs)), Throttle (dc_restClient (cs_DiscoveryClient cs))) =
      (if RateLimiter c \<noteq> None then (RateLimiter c, RateLimiter c)
       else if QPS c > 0 then (Some (TokenBucket n (QPS c) (Burst c)), Some (TokenBucket n (QPS c) (Burst c)))
       else if QPS c = 0 then (Some (TokenBucket n 5 (if Burst c = 0 then 10 else Burst c)), None)
       else (None, None))"
    and "RateLimiter c = None \<Longrightarrow> QPS c > 0 \<Longrightarrow> Burst c > 0"
    and "versionedAPIPath (restClient (operatorV1alpha1 cs)) = client_prefix"
    and "versionedAPIPath (dc_restClient (cs_DiscoveryClient cs)) = []"
proof -
  let ?l = "if RateLimiter c = None \<and> QPS c > 0 then Some (TokenBucket n (QPS c) (Burst c)) else RateLimiter c"
  from assms obtain n1 n2 where t: "typed_NewForConfig lib (c\<lparr>RateLimiter := ?l\<rparr>) n1 = (Ok (operatorV1alpha1 cs), n2)"
    and d: "NewDiscoveryClientForConfig lib (c\<lparr>RateLimiter := ?l\<rparr>) n2 = (Ok (cs_DiscoveryClient cs), n')"
    and n1: "?l = None \<Longrightarrow> n1 = n"
    and burst: "RateLimiter c = None \<Longrightarrow> QPS c > 0 \<Longrightarrow> Burst c > 0"
    by (force simp: NewForConfig_def bind_io_Ok_iff NewTokenBucketRateLimiter_def split: if_splits)
  show "versionedAPIPath (restClient (operatorV1alpha1 cs)) = client_prefix"
    by (rule typed_NewForConfig_Ok(2) [OF t])
  show "versionedAPIPath (dc_restClient (cs_DiscoveryClient cs)) = []"
    by (rule NewDiscoveryClientForConfig_Ok(2) [OF d])
  show "RateLimiter c = None \<Longrightarrow> QPS c > 0 \<Longrightarrow> Burst c > 0" by (rule burst)
  show "(Throttle (restClient (operatorV1alpha1 cs)), Throttle (dc_restClient (cs_DiscoveryClient cs))) =
      (if RateLimiter c \<noteq> None then (RateLimiter c, RateLimiter c)
       else if QPS c > 0 then (Some (TokenBucket n (QPS c) (Burst c)), Some (TokenBucket n (QPS c) (Burst c)))
       else if QPS c = 0 then (Some (TokenBucket n 5 (if Burst c = 0 then 10 else Burst c)), None)
       else (None, None))"
    using typed_NewForConfig_Ok(1) [OF t] NewDiscoveryClientForConfig_Ok(1) [OF d] n1
    by (auto simp: throttle_of_def split: if_splits)
qed

lemma clientset_or_die_limits:
  assumes "NewForConfigOrDie lib c n = (Ok cs, n')" and "RateLimiter c = None" and "QPS c > 0"
  shows "Throttle (restClient (operatorV1alpha1 cs)) = Some (TokenBucket n (QPS c) (if Burst c = 0 then 10 else Burst c))"
    and "Throttle (dc_restClient (cs_DiscoveryClient cs)) = Some (TokenBucket (n + 1) (QPS c) (Burst c))"
proof -
  from assms(1) obtain n1 where t: "typed_NewForConfig lib c n = (Ok (operatorV1alpha1 cs), n1)"
    and d: "NewDiscoveryClientForConfig lib c n1 = (Ok (cs_DiscoveryClient cs), n')"
    by (auto simp: NewForConfigOrDie_def bind_io_Ok_iff typed_NewForConfigOrDie_def NewDiscoveryClientForConfigOrDie_def
        or_die_Ok_iff)
  show "Throttle (restClient (operatorV1alpha1 cs)) = Some (TokenBucket n (QPS c) (if Burst c = 0 then 10 else Burst c))"
    and "Throttle (dc_restClient (cs_DiscoveryClient cs)) = Some (TokenBucket (n + 1) (QPS c) (Burst c))"
    using typed_NewForConfig_Ok(1) [OF t] NewDiscoveryClientForConfig_Ok(1) [OF d] assms(2,3)
    by (auto simp: throttle_of_def)
qed

end
