(* ===== verification/Injection.thy ===== *)
theory Injection
  imports Clientset Informers Controller Work_Queue Generated_Reconciler
begin

text \<open>
  How the process is put together: the injectors that put clients, informer factories and informers
  into a context (\<open>pkg/client/injection\<close> over \<open>knative.dev/pkg/injection\<close>), and the constructors of the
  controller (\<open>pkg/reconciler/knativeserving/controller.go\<close> and the generated \<open>NewImpl\<close> and
  \<open>NewReconciler\<close>). The state of the process holds the informer factories, which are shared by
  reference, and the handlers registered with informers. The clients of Kubernetes itself and the
  informer of Deployments are parameters. Ending the process is a panic; logging is left out.
\<close>

section \<open>The process\<close>

datatype registered = ServingHandler "KnativeServing event \<Rightarrow> queue \<Rightarrow> queue" | DeploymentHandler "obj event \<Rightarrow> queue \<Rightarrow> queue"

record process =
  limiters :: nat
  factories :: "sharedInformerFactory list"
  handlers :: "registered list"

definition on_limiters :: "(nat, 'a) io \<Rightarrow> (process, 'a) io" where
  "on_limiters m s = (case m (limiters s) of (r, n) \<Rightarrow> (r, s\<lparr>limiters := n\<rparr>))"

text \<open>A reference to a factory is its position. An \<open>Interface\<close> of a group, a version, or an informer.\<close>

record group =
  g_factory :: nat
  g_namespace :: string
  g_tweakListOptions :: tweak

definition New_group :: "nat \<Rightarrow> string \<Rightarrow> tweak \<Rightarrow> group" where
  "New_group f namespace tweakListOptions =
     \<lparr>g_factory = f, g_namespace = namespace, g_tweakListOptions = tweakListOptions\<rparr>"

record version =
  v_factory :: nat
  v_namespace :: string
  v_tweakListOptions :: tweak

definition New_version :: "nat \<Rightarrow> string \<Rightarrow> tweak \<Rightarrow> version" where
  "New_version f namespace tweakListOptions =
     \<lparr>v_factory = f, v_namespace = namespace, v_tweakListOptions = tweakListOptions\<rparr>"

definition group_V1alpha1 :: "group \<Rightarrow> version" where
  "group_V1alpha1 g = New_version (g_factory g) (g_namespace g) (g_tweakListOptions g)"

record knativeServingInformer =
  i_factory :: nat
  i_tweakListOptions :: tweak
  i_namespace :: string

definition version_KnativeServings :: "version \<Rightarrow> knativeServingInformer" where
  "version_KnativeServings v =
     \<lparr>i_factory = v_factory v, i_tweakListOptions = v_tweakListOptions v, i_namespace = v_namespace v\<rparr>"

definition factory_Operator :: "nat \<Rightarrow> process \<Rightarrow> group" where
  "factory_Operator f s =
     New_group f (f_namespace (factories s ! f)) (f_tweakListOptions (factories s ! f))"

text \<open>\<open>Informer\<close>, and the informer behind \<open>Lister\<close>.\<close>

definition serving_Informer :: "knativeServingInformer \<Rightarrow> (process, informer) io" where
  "serving_Informer g s =
     (case InformerFor serving_type
             (\<lambda>resync. NewFilteredKnativeServingInformer (i_namespace g) resync (i_tweakListOptions g))
             (factories s ! i_factory g) of
        (i, f) \<Rightarrow> (Ok i, s\<lparr>factories := (factories s)[i_factory g := f]\<rparr>))"

definition serving_Lister :: "knativeServingInformer \<Rightarrow> (process, informer) io" where
  "serving_Lister g = serving_Informer g"

section \<open>Values in a context\<close>

datatype ('c, 'k, 'd, 'r) injected =
    ClientV "'c Clientset"
  | FactoryV nat
  | InformerV knativeServingInformer
  | KubeV 'k
  | DeploymentsV 'd
  | NamespaceV string
  | ResyncV "64 word"
  | RecorderV 'r

type_synonym ('c, 'k, 'd, 'r) ctx = "('k, ('c, 'k, 'd, 'r) injected) go_context"

definition WithValue :: "string \<Rightarrow> 'v \<Rightarrow> ('k, 'v) go_context \<Rightarrow> ('k, 'v) go_context" where
  "WithValue key v ctx = (OtherKey key, OtherValue v) # ctx"

definition Value_of :: "string \<Rightarrow> ('k, 'v) go_context \<Rightarrow> ('k, 'v) context_value option" where
  "Value_of key ctx = map_of ctx (OtherKey key)"

definition client_key :: string where "client_key = ''client.Key''"
definition factory_key :: string where "factory_key = ''factory.Key''"
definition informer_key :: string where "informer_key = ''knativeserving.Key''"
definition kubeclient_key :: string where "kubeclient_key = ''kube/client.Key''"
definition deployment_key :: string where "deployment_key = ''deployment.Key''"
definition nsKey :: string where "nsKey = ''injection.nsKey''"
definition resyncPeriodKey :: string where "resyncPeriodKey = ''controller.resyncPeriodKey''"
definition erKey :: string where "erKey = ''controller.erKey''"

lemmas key_defs = client_key_def factory_key_def informer_key_def kubeclient_key_def deployment_key_def nsKey_def
  resyncPeriodKey_def erKey_def

text \<open>The \<open>Get\<close> functions: no value is a panic of the logger, a value of another type one of the language.\<close>

definition unable :: "string \<Rightarrow> string" where
  "unable what = ''Unable to fetch '' @ what @ '' from context.''"

definition client_Get :: "('c, 'k, 'd, 'r) ctx \<Rightarrow> 'c Clientset result" where
  "client_Get ctx =
     (case Value_of client_key ctx of
        None \<Rightarrow> Panic (unable ''knative.dev/serving-operator/pkg/client/clientset/versioned.Interface'')
      | Some (OtherValue (ClientV c)) \<Rightarrow> Ok c
      | Some _ \<Rightarrow> Panic ''interface conversion'')"

definition factory_Get :: "('c, 'k, 'd, 'r) ctx \<Rightarrow> nat result" where
  "factory_Get ctx =
     (case Value_of factory_key ctx of
        None \<Rightarrow> Panic (unable (''knative.dev/serving-operator/pkg/client/informers/externalversions'' @ ''.SharedInformerFactory''))
      | Some (OtherValue (FactoryV f)) \<Rightarrow> Ok f
      | Some _ \<Rightarrow> Panic ''interface conversion'')"

definition informer_Get :: "('c, 'k, 'd, 'r) ctx \<Rightarrow> knativeServingInformer result" where
  "informer_Get ctx =
     (case Value_of informer_key ctx of
        None \<Rightarrow> Panic (unable (''knative.dev/serving-operator/pkg/client/informers/externalversions'' @
                            ''/serving/v1alpha1.KnativeServingInformer''))
      | Some (OtherValue (InformerV g)) \<Rightarrow> Ok g
      | Some _ \<Rightarrow> Panic ''interface conversion'')"

definition kubeclient_Get :: "('c, 'k, 'd, 'r) ctx \<Rightarrow> 'k result" where
  "kubeclient_Get ctx =
     (case Value_of kubeclient_key ctx of
        None \<Rightarrow> Panic (unable ''k8s.io/client-go/kubernetes.Interface'')
      | Some (OtherValue (KubeV k)) \<Rightarrow> Ok k
      | Some _ \<Rightarrow> Panic ''interface conversion'')"

definition deployment_Get :: "('c, 'k, 'd, 'r) ctx \<Rightarrow> 'd result" where
  "deployment_Get ctx =
     (case Value_of deployment_key ctx of
        None \<Rightarrow> Panic (unable ''k8s.io/client-go/informers/apps/v1.DeploymentInformer'')
      | Some (OtherValue (DeploymentsV d)) \<Rightarrow> Ok d
      | Some _ \<Rightarrow> Panic ''interface conversion'')"

definition WithNamespaceScope :: "string \<Rightarrow> ('c, 'k, 'd, 'r) ctx \<Rightarrow> ('c, 'k, 'd, 'r) ctx" where
  "WithNamespaceScope namespace = WithValue nsKey (NamespaceV namespace)"

definition GetNamespaceScope :: "('c, 'k, 'd, 'r) ctx \<Rightarrow> string result" where
  "GetNamespaceScope ctx =
     (case Value_of nsKey ctx of
        None \<Rightarrow> Ok []
      | Some (OtherValue (NamespaceV ns)) \<Rightarrow> Ok ns
      | Some _ \<Rightarrow> Panic ''interface conversion'')"

definition HasNamespaceScope :: "('c, 'k, 'd, 'r) ctx \<Rightarrow> bool result" where
  "HasNamespaceScope ctx = bind_result (GetNamespaceScope ctx) (\<lambda>ns. Ok (ns \<noteq> []))"

text \<open>Ten hours, in nanoseconds.\<close>

definition DefaultResyncPeriod :: "64 word" where
  "DefaultResyncPeriod = 36000000000000"

definition GetResyncPeriod :: "('c, 'k, 'd, 'r) ctx \<Rightarrow> (64 word) result" where
  "GetResyncPeriod ctx =
     (case Value_of resyncPeriodKey ctx of
        None \<Rightarrow> Ok DefaultResyncPeriod
      | Some (OtherValue (ResyncV p)) \<Rightarrow> Ok p
      | Some _ \<Rightarrow> Panic ''interface conversion'')"

definition GetEventRecorder :: "('c, 'k, 'd, 'r) ctx \<Rightarrow> 'r option result" where
  "GetEventRecorder ctx =
     (case Value_of erKey ctx of
        None \<Rightarrow> Ok None
      | Some (OtherValue (RecorderV r)) \<Rightarrow> Ok (Some r)
      | Some _ \<Rightarrow> Panic ''interface conversion'')"

section \<open>Injectors\<close>

definition withClient ::
    "('s, 'm, 'z, 't) rest_lib \<Rightarrow> ('s, 'm) rest_config \<Rightarrow> (('z, 't) RESTClient, 'k, 'd, 'r) ctx \<Rightarrow>
     (process, (('z, 't) RESTClient, 'k, 'd, 'r) ctx) io" where
  "withClient lib cfg ctx =
     bind_io (on_limiters (NewForConfigOrDie lib cfg)) (\<lambda>c. return_io (WithValue client_key (ClientV c) ctx))"

definition with_kubeclient ::
    "('g \<Rightarrow> 'k result) \<Rightarrow> 'g \<Rightarrow> ('c, 'k, 'd, 'r) ctx \<Rightarrow> (process, ('c, 'k, 'd, 'r) ctx) io" where
  "with_kubeclient new cfg ctx = bind_io (of_result (new cfg)) (\<lambda>k. return_io (WithValue kubeclient_key (KubeV k) ctx))"

text \<open>A new factory is one more of the process.\<close>

definition new_factory :: "64 word \<Rightarrow> SharedInformerOption list \<Rightarrow> (process, nat) io" where
  "new_factory resync opts s =
     (Ok (length (factories s)), s\<lparr>factories := factories s @ [NewSharedInformerFactoryWithOptions resync opts]\<rparr>)"

definition withInformerFactory :: "('c, 'k, 'd, 'r) ctx \<Rightarrow> (process, ('c, 'k, 'd, 'r) ctx) io" where
  "withInformerFactory ctx =
     bind_io (of_result (client_Get ctx)) (\<lambda>c.
       bind_io (of_result (HasNamespaceScope ctx)) (\<lambda>scoped.
         bind_io (of_result (GetNamespaceScope ctx)) (\<lambda>ns.
           bind_io (of_result (GetResyncPeriod ctx)) (\<lambda>resync.
             bind_io (new_factory resync (if scoped then [WithNamespace ns] else []))
               (\<lambda>f. return_io (WithValue factory_key (FactoryV f) ctx))))))"

definition withInformer :: "('c, 'k, 'd, 'r) ctx \<Rightarrow> (process, ('c, 'k, 'd, 'r) ctx \<times> informer) io" where
  "withInformer ctx =
     bind_io (of_result (factory_Get ctx)) (\<lambda>f.
       bind_io get_io (\<lambda>s.
         let inf = version_KnativeServings (group_V1alpha1 (factory_Operator f s))
         in bind_io (serving_Informer inf) (\<lambda>i. return_io (WithValue informer_key (InformerV inf) ctx, i))))"

text \<open>\<open>impl\<close> of \<open>knative.dev/pkg/injection\<close>: what was registered, in order. Nothing registers ducks.\<close>

record ('g, 'x, 'i) injection =
  clients :: "('g \<Rightarrow> 'x \<Rightarrow> (process, 'x) io) list"
  informer_factories :: "('x \<Rightarrow> (process, 'x) io) list"
  informers :: "('x \<Rightarrow> (process, 'x \<times> 'i) io) list"

definition RegisterClient :: "('g \<Rightarrow> 'x \<Rightarrow> (process, 'x) io) \<Rightarrow> ('g, 'x, 'i) injection \<Rightarrow> ('g, 'x, 'i) injection" where
  "RegisterClient ci i = i\<lparr>clients := clients i @ [ci]\<rparr>"

definition RegisterInformerFactory :: "('x \<Rightarrow> (process, 'x) io) \<Rightarrow> ('g, 'x, 'i) injection \<Rightarrow> ('g, 'x, 'i) injection" where
  "RegisterInformerFactory f i = i\<lparr>informer_factories := informer_factories i @ [f]\<rparr>"

definition RegisterInformer ::
    "('x \<Rightarrow> (process, 'x \<times> 'i) io) \<Rightarrow> ('g, 'x, 'i) injection \<Rightarrow> ('g, 'x, 'i) injection" where
  "RegisterInformer f i = i\<lparr>informers := informers i @ [f]\<rparr>"

fun inject_each :: "('x \<Rightarrow> ('s, 'x) io) list \<Rightarrow> 'x \<Rightarrow> ('s, 'x) io" where
  "inject_each [] ctx = return_io ctx"
| "inject_each (f # fs) ctx = bind_io (f ctx) (inject_each fs)"

fun inject_informers :: "('x \<Rightarrow> ('s, 'x \<times> 'i) io) list \<Rightarrow> 'x \<Rightarrow> 'i list \<Rightarrow> ('s, 'x \<times> 'i list) io" where
  "inject_informers [] ctx acc = return_io (ctx, acc)"
| "inject_informers (f # fs) ctx acc =
     bind_io (f ctx) (\<lambda>(ctx', inf). inject_informers fs ctx' (acc @ [inf]))"

definition SetupInformers :: "('g, 'x, 'i) injection \<Rightarrow> 'x \<Rightarrow> 'g \<Rightarrow> (process, 'x \<times> 'i list) io" where
  "SetupInformers i ctx cfg =
     bind_io (inject_each (map (\<lambda>ci. ci cfg) (clients i)) ctx) (\<lambda>ctx1.
       bind_io (inject_each (informer_factories i) ctx1) (\<lambda>ctx2.
         inject_informers (informers i) ctx2 []))"

text \<open>\<open>sharedmain.MainWithConfig\<close> up to there: the limits grow with the number of controllers.\<close>

definition main_config :: "nat \<Rightarrow> ('s, 'm) rest_config \<Rightarrow> ('s, 'm) rest_config" where
  "main_config ctors cfg = cfg\<lparr>QPS := of_nat ctors * DefaultQPS, Burst := int ctors * DefaultBurst\<rparr>"

section \<open>Constructors\<close>

datatype 'r recorder = GivenRecorder 'r | NewRecorder string

record ('c, 'r, 'cs, 'k) reconciler_object =
  ro_Client :: "'c Clientset"
  ro_Lister :: informer
  ro_Recorder :: "'r recorder"
  ro_configStore :: "'cs option"
  ro_reconciler :: 'k

text \<open>\<open>controller.Options\<close>; the loop keeps the last store that is set.\<close>

record 'cs Options =
  ConfigStore :: "'cs option"

definition set_configStore :: "'cs Options \<Rightarrow> ('c, 'r, 'cs, 'k) reconciler_object \<Rightarrow> ('c, 'r, 'cs, 'k) reconciler_object" where
  "set_configStore opts rec =
     (case ConfigStore opts of None \<Rightarrow> rec | Some store \<Rightarrow> rec\<lparr>ro_configStore := Some store\<rparr>)"

definition NewReconciler ::
    "'c Clientset \<Rightarrow> informer \<Rightarrow> 'r recorder \<Rightarrow> 'k \<Rightarrow> 'cs Options list \<Rightarrow> ('c, 'r, 'cs, 'k) reconciler_object result" where
  "NewReconciler client lister recorder r options =
     (if length options > 1 then Panic ''up to one options struct is supported''
      else Ok (fold set_configStore options
        \<lparr>ro_Client = client, ro_Lister = lister, ro_Recorder = recorder, ro_configStore = None, ro_reconciler = r\<rparr>))"

text \<open>\<open>controller.Impl\<close>.\<close>

record 'o Impl =
  impl_Reconciler :: 'o
  WorkQueue :: "(string \<times> string) limited_queue"
  queue_name :: string

definition controller_NewImpl :: "'o \<Rightarrow> string \<Rightarrow> 'o Impl" where
  "controller_NewImpl r workQueueName =
     \<lparr>impl_Reconciler = r, WorkQueue = NewNamedRateLimitingQueue DefaultControllerRateLimiter, queue_name = workQueueName\<rparr>"

definition defaultControllerAgentName :: string where "defaultControllerAgentName = ''knativeserving-controller''"
definition defaultQueueName :: string where "defaultQueueName = ''knativeservings''"

type_synonym ('c, 'r, 'cs, 'k) serving_impl = "('c, 'r, 'cs, 'k) reconciler_object Impl"

definition NewImpl ::
    "('c, 'k, 'd, 'r) ctx \<Rightarrow> 'o \<Rightarrow> (('c, 'r, 'cs, 'o) serving_impl \<Rightarrow> 'cs Options) list \<Rightarrow>
     (process, ('c, 'r, 'cs, 'o) serving_impl) io" where
  "NewImpl ctx r optionsFns =
     (if length optionsFns > 1 then of_result (Panic ''up to one options function is supported'')
      else bind_io (of_result (informer_Get ctx)) (\<lambda>knativeservingInformer.
        bind_io (of_result (GetEventRecorder ctx)) (\<lambda>given.
          bind_io (of_result
              (case given of None \<Rightarrow> bind_result (kubeclient_Get ctx) (\<lambda>_. Ok (NewRecorder defaultControllerAgentName))
               | Some rec \<Rightarrow> Ok (GivenRecorder rec))) (\<lambda>recorder.
            bind_io (of_result (client_Get ctx)) (\<lambda>client.
              bind_io (serving_Lister knativeservingInformer) (\<lambda>lister.
                let rec = \<lparr>ro_Client = client, ro_Lister = lister, ro_Recorder = recorder, ro_configStore = None, ro_reconciler = r\<rparr>;
                    impl = controller_NewImpl rec defaultQueueName
                in return_io (impl\<lparr>impl_Reconciler := fold (\<lambda>fn. set_configStore (fn impl)) optionsFns rec\<rparr>)))))))"

text \<open>\<open>filepath.Join\<close> of two elements, with \<open>filepath.Clean\<close>.\<close>

definition clean_path :: "string \<Rightarrow> string" where
  "clean_path p =
     (if p = [] then ''.''
      else let rooted = hd p = CHR ''/'';
               segs = foldl (\<lambda>segs s. if s = [] \<or> s = ''.'' then segs
                                     else if s = ''..'' then
                                       if segs \<noteq> [] \<and> last segs \<noteq> ''..'' then butlast segs
                                       else if rooted then segs else segs @ [s]
                                     else segs @ [s]) [] (Split (CHR ''/'') p)
           in if rooted then CHR ''/'' # slashed segs else if segs = [] then ''.'' else slashed segs)"

definition filepath_Join :: "string \<Rightarrow> string \<Rightarrow> string" where
  "filepath_Join a b =
     (if a = [] \<and> b = [] then [] else if a = [] then clean_path b else if b = [] then clean_path a
      else clean_path (a @ ''/'' @ b))"

text \<open>The operator's \<open>Reconciler\<close>.\<close>

record ('c, 'k) operator_reconciler =
  or_kubeClientSet :: 'k
  or_knativeServingClientSet :: "'c Clientset"
  or_statsReporter :: reporter
  or_knativeServingLister :: informer
  or_config :: manifest
  or_servings :: "64 word gomap"
  or_platform :: "'k platforms"

definition controllerAgentName :: string where "controllerAgentName = ''knativeserving-controller''"

definition AddEventHandler :: "registered \<Rightarrow> (process, unit) io" where
  "AddEventHandler h = modify_io (\<lambda>s. s\<lparr>handlers := handlers s @ [h]\<rparr>)"

text \<open>\<open>NewManifest\<close> reads the files below a path; \<open>Fatal\<close> and \<open>os.Exit\<close> end the process.\<close>

definition fatal :: "'a result \<Rightarrow> 'a result" where
  "fatal r = (case r of Err e \<Rightarrow> Panic (error_text e) | _ \<Rightarrow> r)"

definition NewControllerWithConfig ::
    "(string \<Rightarrow> string) \<Rightarrow> (string \<Rightarrow> 'g \<Rightarrow> manifest result) \<Rightarrow> 'g \<Rightarrow> ('c, 'k, 'd, 'r) ctx \<Rightarrow>
     (process, ('c, 'r, 'cs, ('c, 'k) operator_reconciler) serving_impl) io" where
  "NewControllerWithConfig getenv NewManifest cfg ctx =
     bind_io (of_result (informer_Get ctx)) (\<lambda>knativeServingInformer.
     bind_io (of_result (deployment_Get ctx)) (\<lambda>deploymentInformer.
     bind_io (of_result (fatal (NewStatsReporter controllerAgentName))) (\<lambda>statsReporter.
     bind_io (of_result (kubeclient_Get ctx)) (\<lambda>kube.
     bind_io (of_result (client_Get ctx)) (\<lambda>client.
     bind_io (serving_Lister knativeServingInformer) (\<lambda>lister.
     bind_io (of_result (GetPlatforms ctx)) (\<lambda>platforms.
     bind_io (of_result (fatal (NewManifest (filepath_Join (getenv ''KO_DATA_PATH'') ''knative-serving/'') cfg))) (\<lambda>config.
     let c = \<lparr>or_kubeClientSet = kube, or_knativeServingClientSet = client, or_statsReporter = statsReporter,
              or_knativeServingLister = lister, or_config = config, or_servings = [], or_platform = platforms\<rparr>
     in bind_io (NewImpl ctx c []) (\<lambda>impl.
        bind_io (serving_Informer knativeServingInformer) (\<lambda>_.
        then_io (AddEventHandler (ServingHandler on_serving_event))
          (then_io (AddEventHandler (DeploymentHandler on_deployment_event)) (return_io impl))))))))))))"

section \<open>The operator's set-up\<close>

text \<open>What the linked packages register. The injector of the Deployment informer puts it into the context.\<close>

definition with_deployments :: "'d \<Rightarrow> ('c, 'k, 'd, 'r) ctx \<Rightarrow> (process, ('c, 'k, 'd, 'r) ctx \<times> (informer + 'd)) io" where
  "with_deployments d ctx = return_io (WithValue deployment_key (DeploymentsV d) ctx, Inr d)"

text \<open>The \<open>init\<close> functions of the three packages.\<close>

definition init_client ::
    "('s, 'm, 'z, 't) rest_lib \<Rightarrow> (('s, 'm) rest_config, (('z, 't) RESTClient, 'k, 'd, 'r) ctx, 'i) injection \<Rightarrow>
     (('s, 'm) rest_config, (('z, 't) RESTClient, 'k, 'd, 'r) ctx, 'i) injection" where
  "init_client lib = RegisterClient (withClient lib)"

definition init_factory :: "('g, ('c, 'k, 'd, 'r) ctx, 'i) injection \<Rightarrow> ('g, ('c, 'k, 'd, 'r) ctx, 'i) injection" where
  "init_factory = RegisterInformerFactory withInformerFactory"

definition init_informer ::
    "('g, ('c, 'k, 'd, 'r) ctx, informer + 'd) injection \<Rightarrow> ('g, ('c, 'k, 'd, 'r) ctx, informer + 'd) injection" where
  "init_informer = RegisterInformer (\<lambda>ctx. bind_io (withInformer ctx) (\<lambda>(ctx', i). return_io (ctx', Inl i)))"

lemmas register_defs = init_client_def init_factory_def init_informer_def RegisterInformer_def
  RegisterInformerFactory_def RegisterClient_def

definition operator_injection ::
    "('s, 'm, 'z, 't) rest_lib \<Rightarrow> (('s, 'm) rest_config \<Rightarrow> 'k result) \<Rightarrow> 'd \<Rightarrow>
     (('s, 'm) rest_config, (('z, 't) RESTClient, 'k, 'd, 'r) ctx, informer + 'd) injection" where
  "operator_injection lib new_kube d =
     init_informer
       (RegisterInformer (with_deployments d)
         (init_factory
           (init_client lib
             (RegisterClient (with_kubeclient new_kube) \<lparr>clients = [], informer_factories = [], informers = []\<rparr>))))"

lemma Value_of_WithValue [simp]: "Value_of k (WithValue k' v ctx) = (if k = k' then Some (OtherValue v) else Value_of k ctx)"
  by (simp add: Value_of_def WithValue_def)

lemma Value_of_WithPlatforms [simp]: "Value_of k (WithPlatforms ctx ps) = Value_of k ctx" "Value_of k [] = None"
  by (simp_all add: Value_of_def WithPlatforms_def)

lemma GetPlatforms_WithValue [simp]: "GetPlatforms (WithValue k v ctx) = GetPlatforms ctx"
  by (simp add: GetPlatforms_def WithValue_def)

lemma keys_distinct [simp]:
  "distinct [client_key, factory_key, informer_key, kubeclient_key, deployment_key, nsKey, resyncPeriodKey, erKey]"
  by code_simp

lemma keys_differ [simp]:
  "client_key \<noteq> factory_key" "client_key \<noteq> informer_key" "client_key \<noteq> kubeclient_key" "client_key \<noteq> deployment_key"
  "client_key \<noteq> nsKey" "factory_key \<noteq> informer_key" "factory_key \<noteq> kubeclient_key" "factory_key \<noteq> deployment_key"
  "kubeclient_key \<noteq> informer_key" "kubeclient_key \<noteq> deployment_key" "informer_key \<noteq> deployment_key"
  "nsKey \<noteq> client_key" "nsKey \<noteq> kubeclient_key" "nsKey \<noteq> factory_key" "nsKey \<noteq> informer_key" "nsKey \<noteq> deployment_key"
  "resyncPeriodKey \<noteq> client_key" "resyncPeriodKey \<noteq> kubeclient_key" "resyncPeriodKey \<noteq> nsKey"
  "erKey \<noteq> client_key" "erKey \<noteq> factory_key" "erKey \<noteq> informer_key" "erKey \<noteq> kubeclient_key"
  "erKey \<noteq> deployment_key" "erKey \<noteq> nsKey" "kubeclient_key \<noteq> client_key"
  "kubeclient_key \<noteq> factory_key" "deployment_key \<noteq> informer_key" "deployment_key \<noteq> client_key" "deployment_key \<noteq> factory_key"
  "informer_key \<noteq> client_key" "informer_key \<noteq> factory_key" "informer_key \<noteq> kubeclient_key"
  by code_simp+

text \<open>The first call of \<open>Informer\<close> makes the informer, the others find it.\<close>

lemma serving_Informer_first:
  assumes "f_informers (factories s ! i_factory g) = []" and "f_customResync (factories s ! i_factory g) = []"
    and "i = NewFilteredKnativeServingInformer (i_namespace g) (f_defaultResync (factories s ! i_factory g)) (i_tweakListOptions g)"
  shows "serving_Informer g s =
    (Ok i, s\<lparr>factories := (factories s)[i_factory g := (factories s ! i_factory g)\<lparr>f_informers := [(serving_type, i)]\<rparr>]\<rparr>)"
  using assms by (simp add: serving_Informer_def InformerFor_def Let_def)

lemma serving_Informer_again:
  assumes "f_informers (factories s ! i_factory g) = [(serving_type, i)]"
  shows "serving_Informer g s = (Ok i, s)"
  using assms by (simp add: serving_Informer_def InformerFor_def)

text \<open>After the informers are set up.\<close>

definition scoped_factory :: "string \<Rightarrow> sharedInformerFactory" where
  "scoped_factory ns =
     NewSharedInformerFactoryWithOptions DefaultResyncPeriod (if ns \<noteq> [] then [WithNamespace ns] else [])"

lemma scoped_factory_fields [simp]:
  "f_namespace (scoped_factory ns) = ns" "f_informers (scoped_factory ns) = []" "f_customResync (scoped_factory ns) = []"
  "f_defaultResync (scoped_factory ns) = DefaultResyncPeriod" "f_tweakListOptions (scoped_factory ns) = None"
  by (simp_all add: scoped_factory_def NewSharedInformerFactoryWithOptions_def WithNamespace_def)

definition operator_informer :: "string \<Rightarrow> informer" where
  "operator_informer ns = \<lparr>inf_namespace = ns, inf_resync = DefaultResyncPeriod, inf_tweak = None\<rparr>"

definition operator_context ::
    "string \<Rightarrow> 'k platforms \<Rightarrow> 'k \<Rightarrow> 'c Clientset \<Rightarrow> 'd \<Rightarrow> nat \<Rightarrow> ('c, 'k, 'd, 'r) ctx" where
  "operator_context ns ps k c d f =
     WithValue informer_key (InformerV \<lparr>i_factory = f, i_tweakListOptions = None, i_namespace = ns\<rparr>)
       (WithValue deployment_key (DeploymentsV d) (WithValue factory_key (FactoryV f)
         (WithValue client_key (ClientV c) (WithValue kubeclient_key (KubeV k) (WithNamespaceScope ns (WithPlatforms [] ps))))))"

lemma SetupInformers_operator:
  fixes lib :: "('s, 'm, 'z, 't) rest_lib" and d :: 'd and k :: 'k
  assumes "NewForConfigOrDie lib cfg (limiters s) = (Ok c, n)" and "new_kube cfg = Ok k"
  shows "SetupInformers (operator_injection lib new_kube d) (WithNamespaceScope ns (WithPlatforms [] ps)) cfg s =
    (Ok (operator_context ns ps k c d (length (factories s)) :: (('z, 't) RESTClient, 'k, 'd, 'r) ctx, [Inr d, Inl (operator_informer ns)]),
     s\<lparr>limiters := n, factories := factories s @ [(scoped_factory ns)\<lparr>f_informers := [(serving_type, operator_informer ns)]\<rparr>]\<rparr>)"
proof -
  let ?f = "length (factories s)" and ?ctx = "WithNamespaceScope ns (WithPlatforms [] ps) :: (('z, 't) RESTClient, 'k, 'd, 'r) ctx"
  let ?ctx1 = "WithValue client_key (ClientV c) (WithValue kubeclient_key (KubeV k) ?ctx)"
  let ?s1 = "s\<lparr>limiters := n\<rparr>" and ?s2 = "s\<lparr>limiters := n, factories := factories s @ [scoped_factory ns]\<rparr>"
  have 1: "inject_each (map (\<lambda>ci. ci cfg) (clients (operator_injection lib new_kube d))) ?ctx s = (Ok ?ctx1, ?s1)"
    using assms by (simp add: operator_injection_def register_defs
        with_kubeclient_def withClient_def on_limiters_def bind_io_def)
  let ?ctx2 = "WithValue factory_key (FactoryV ?f) ?ctx1"
  have 2: "inject_each (informer_factories (operator_injection lib new_kube d)) ?ctx1 ?s1 = (Ok ?ctx2, ?s2)"
    by (simp add: operator_injection_def register_defs bind_io_def
        withInformerFactory_def client_Get_def HasNamespaceScope_def GetNamespaceScope_def GetResyncPeriod_def
        WithNamespaceScope_def new_factory_def scoped_factory_def)
  show ?thesis
    by (simp only: SetupInformers_def bind_io_def 1 2 prod.case result.case)
      (simp add: operator_injection_def register_defs
        with_deployments_def withInformer_def factory_Get_def factory_Operator_def New_group_def New_version_def group_V1alpha1_def
        version_KnativeServings_def bind_io_def serving_Informer_first NewFilteredKnativeServingInformer_def
        operator_context_def operator_informer_def Let_def)
qed

text \<open>
  A controller made from that context: the clients and the platforms are the injected ones, the lister
  of the operator and the lister of the generated reconciler read from the informer that is started.
\<close>

definition operator_controller ::
    "string \<Rightarrow> 'k platforms \<Rightarrow> 'k \<Rightarrow> 'c Clientset \<Rightarrow> manifest \<Rightarrow>
     ('c, 'r, 'cs, ('c, 'k) operator_reconciler) serving_impl" where
  "operator_controller ns ps k c m =
     controller_NewImpl
       \<lparr>ro_Client = c, ro_Lister = operator_informer ns, ro_Recorder = NewRecorder defaultControllerAgentName,
        ro_configStore = None,
        ro_reconciler = \<lparr>or_kubeClientSet = k, or_knativeServingClientSet = c,
          or_statsReporter = \<lparr>reconcilerName = controllerAgentName, ctx_tags = [(reconcilerNameTagKey, controllerAgentName)]\<rparr>,
          or_knativeServingLister = operator_informer ns, or_config = m, or_servings = [], or_platform = ps\<rparr>\<rparr>
       defaultQueueName"

lemma NewStatsReporter_agent:
  "NewStatsReporter controllerAgentName =
   Ok \<lparr>reconcilerName = controllerAgentName, ctx_tags = [(reconcilerNameTagKey, controllerAgentName)]\<rparr>"
proof -
  have "checkValue controllerAgentName" by code_simp
  then show ?thesis by (simp add: NewStatsReporter_ok)
qed

lemma NewControllerWithConfig_operator:
  assumes "f_informers (factories s ! f) = [(serving_type, operator_informer ns)]"
    and "NewManifest (filepath_Join (getenv ''KO_DATA_PATH'') ''knative-serving/'') cfg = Ok m"
  shows "NewControllerWithConfig getenv NewManifest cfg (operator_context ns ps k c d f) s =
    (Ok (operator_controller ns ps k c m),
     s\<lparr>handlers := handlers s @ [ServingHandler on_serving_event, DeploymentHandler on_deployment_event]\<rparr>)"
  using assms
  by (simp add: NewControllerWithConfig_def operator_context_def informer_Get_def deployment_Get_def NewStatsReporter_agent
      fatal_def kubeclient_Get_def client_Get_def serving_Lister_def serving_Informer_again GetPlatforms_WithPlatforms
      WithNamespaceScope_def NewImpl_def GetEventRecorder_def operator_controller_def controller_NewImpl_def AddEventHandler_def bind_io_def then_io_def
      Let_def)

text \<open>Without the clients there is no factory, without the informer no controller.\<close>

lemma not_injected:
  "withInformerFactory (WithPlatforms [] ps) s = (Panic (unable ''knative.dev/serving-operator/pkg/client/clientset/versioned.Interface''), s)"
  "\<exists>p. NewControllerWithConfig getenv NewManifest cfg (WithPlatforms [] ps) s = (Panic p, s)"
  by (simp_all add: withInformerFactory_def client_Get_def NewControllerWithConfig_def informer_Get_def bind_io_def)

end
