(* ===== verification/OpenApi.thy ===== *)
theory OpenApi
  imports Serving_Types
begin

text \<open>
  The OpenAPI definitions of the API types (\<open>pkg/apis/serving/v1alpha1/zz_generated.openapi.go\<close>) as data:
  a schema gives each property a type and a format or refers to another definition. Descriptions are left
  out. The names of the referred types are given by the caller, \<open>ref\<close>.
\<close>

datatype 'r property = Typed "string list" string | Ref 'r

record 'r OpenAPIDefinition =
  Properties :: "(string \<times> 'r property) list"
  Dependencies :: "string list"

definition api_package :: string where
  "api_package = ''knative.dev/serving-operator/pkg/apis/serving/v1alpha1.''"

definition object_meta_type :: string where
  "object_meta_type = ''k8s.io/apimachinery/pkg/apis/meta/v1.ObjectMeta''"

definition schema_KnativeServing :: "(string \<Rightarrow> 'r) \<Rightarrow> 'r OpenAPIDefinition" where
  "schema_KnativeServing ref =
     \<lparr>Properties =
        [(''kind'', Typed [''string''] []),
         (''apiVersion'', Typed [''string''] []),
         (''metadata'', Ref (ref object_meta_type)),
         (''spec'', Ref (ref (api_package @ ''KnativeServingSpec''))),
         (''status'', Ref (ref (api_package @ ''KnativeServingStatus'')))],
      Dependencies = [api_package @ ''KnativeServingSpec'', api_package @ ''KnativeServingStatus'', object_meta_type]\<rparr>"

definition schema_KnativeServingSpec :: "(string \<Rightarrow> 'r) \<Rightarrow> 'r OpenAPIDefinition" where
  "schema_KnativeServingSpec ref = \<lparr>Properties = [], Dependencies = []\<rparr>"

definition schema_KnativeServingStatus :: "(string \<Rightarrow> 'r) \<Rightarrow> 'r OpenAPIDefinition" where
  "schema_KnativeServingStatus ref = \<lparr>Properties = [], Dependencies = []\<rparr>"

definition GetOpenAPIDefinitions :: "(string \<Rightarrow> 'r) \<Rightarrow> (string \<times> 'r OpenAPIDefinition) list" where
  "GetOpenAPIDefinitions ref =
     [(api_package @ ''KnativeServing'', schema_KnativeServing ref),
      (api_package @ ''KnativeServingSpec'', schema_KnativeServingSpec ref),
      (api_package @ ''KnativeServingStatus'', schema_KnativeServingStatus ref)]"

text \<open>
  Every type a definition refers to is among its dependencies and the other way round, and has a
  definition here unless it is \<open>ObjectMeta\<close>.
\<close>

fun property_refs :: "'r property \<Rightarrow> 'r list" where
  "property_refs (Typed t f) = []"
| "property_refs (Ref r) = [r]"

definition schema_refs :: "string OpenAPIDefinition \<Rightarrow> string list" where
  "schema_refs d = concat (map (\<lambda>(_, p). property_refs p) (Properties d))"

lemma refs_closed:
  "list_all (\<lambda>(name, d). set (schema_refs d) = set (Dependencies d) \<and>
     set (schema_refs d) \<subseteq> insert object_meta_type (set (map fst (GetOpenAPIDefinitions (\<lambda>x. x)))))
   (GetOpenAPIDefinitions (\<lambda>x. x))"
  by code_simp

end
