(* ===== verification/Registration.thy ===== *)
theory Registration
  imports Serving_Types
begin

text \<open>
  Registration of Go types with a scheme (\<open>vendor/k8s.io/apimachinery/pkg/runtime/scheme.go\<close>,
  \<open>scheme_builder.go\<close>, \<open>apis/meta/v1/register.go\<close>) and what the operator registers
  (\<open>pkg/apis/serving/v1alpha1/register.go\<close>, \<open>pkg/client/clientset/versioned/scheme/register.go\<close>, the \<open>init\<close> of
  \<open>pkg/reconciler/knativeserving/common/images.go\<close>). The maps of the scheme are association lists.
  Conversion and defaulting functions are left out: registering them changes none of these maps.
\<close>

section \<open>The scheme\<close>

text \<open>\<open>reflect.Type\<close>: the package path and the name of a struct type, another named type, or a pointer.\<close>

datatype go_type = StructType (PkgPath: string) (type_name: string) | OtherType string string | PtrTo go_type

fun Name_of :: "go_type \<Rightarrow> string" where
  "Name_of (StructType p n) = n"
| "Name_of (OtherType p n) = n"
| "Name_of (PtrTo t) = []"

record registry =
  rg_gvkToType :: "(GroupVersionKind \<times> go_type) list"
  rg_typeToGVK :: "(go_type \<times> GroupVersionKind list) list"
  unversionedTypes :: "(go_type \<times> GroupVersionKind) list"
  unversionedKinds :: "(string \<times> go_type) list"
  observedVersions :: "GroupVersion list"

definition NewScheme :: registry where
  "NewScheme =
     \<lparr>rg_gvkToType = [], rg_typeToGVK = [], unversionedTypes = [], unversionedKinds = [], observedVersions = []\<rparr>"

definition APIVersionInternal :: string where "APIVersionInternal = ''__internal''"

definition addObservedVersion :: "GroupVersion \<Rightarrow> registry \<Rightarrow> registry" where
  "addObservedVersion gv s =
     (if length (gvVersion gv) = 0 \<or> gvVersion gv = APIVersionInternal then s
      else if gv \<in> set (observedVersions s) then s
      else s\<lparr>observedVersions := observedVersions s @ [gv]\<rparr>)"

definition gvks_of :: "registry \<Rightarrow> go_type \<Rightarrow> GroupVersionKind list" where
  "gvks_of s t = (case map_of (rg_typeToGVK s) t of Some gvks \<Rightarrow> gvks | None \<Rightarrow> [])"

definition GroupVersion_of :: "GroupVersionKind \<Rightarrow> GroupVersion" where
  "GroupVersion_of gvk = \<lparr>gvGroup = gvkGroup gvk, gvVersion = gvkVersion gvk\<rparr>"

text \<open>The second argument is the type of the object.\<close>

definition AddKnownTypeWithName :: "GroupVersionKind \<Rightarrow> go_type \<Rightarrow> registry \<Rightarrow> registry result" where
  "AddKnownTypeWithName gvk obj s0 =
     (let s = addObservedVersion (GroupVersion_of gvk) s0
      in if length (gvkVersion gvk) = 0 then Panic ''version is required on all types''
         else case obj of
                PtrTo (StructType p n) \<Rightarrow>
                  let t = StructType p n
                  in if (case map_of (rg_gvkToType s) gvk of Some oldT \<Rightarrow> oldT \<noteq> t | None \<Rightarrow> False)
                     then Panic ''Double registration of different types''
                     else let s' = s\<lparr>rg_gvkToType := AList.update gvk t (rg_gvkToType s)\<rparr>
                          in Ok (if gvk \<in> set (gvks_of s' t) then s'
                                 else s'\<lparr>rg_typeToGVK := AList.update t (gvks_of s' t @ [gvk]) (rg_typeToGVK s')\<rparr>)
              | _ \<Rightarrow> Panic ''All types must be pointers to structs.'')"

definition AddKnownTypes :: "GroupVersion \<Rightarrow> go_type list \<Rightarrow> registry \<Rightarrow> registry result" where
  "AddKnownTypes gv types s =
     fold_result
       (\<lambda>obj s. case obj of
           PtrTo t \<Rightarrow> AddKnownTypeWithName (WithKind gv (Name_of t)) obj s
         | _ \<Rightarrow> Panic ''All types must be pointers to structs.'')
       types (addObservedVersion gv s)"

definition add_unversioned :: "GroupVersion \<Rightarrow> go_type \<Rightarrow> registry \<Rightarrow> registry result" where
  "add_unversioned version obj s =
     (case obj of
        PtrTo t \<Rightarrow>
          let gvk = WithKind version (Name_of t);
              s1 = s\<lparr>unversionedTypes := AList.update t gvk (unversionedTypes s)\<rparr>
          in (case map_of (unversionedKinds s1) (gvkKind gvk) of
                Some old \<Rightarrow>
                  if t \<noteq> old then Panic ''has already been registered as unversioned kind''
                  else Ok (s1\<lparr>unversionedKinds := AList.update (gvkKind gvk) t (unversionedKinds s1)\<rparr>)
              | None \<Rightarrow> Ok (s1\<lparr>unversionedKinds := AList.update (gvkKind gvk) t (unversionedKinds s1)\<rparr>))
      | _ \<Rightarrow> Panic ''reflect: Elem of invalid type'')"

definition AddUnversionedTypes :: "GroupVersion \<Rightarrow> go_type list \<Rightarrow> registry \<Rightarrow> registry result" where
  "AddUnversionedTypes version types s =
     bind_result (AddKnownTypes version types (addObservedVersion version s))
       (fold_result (add_unversioned version) types)"

text \<open>\<open>ObjectKinds\<close> of a typed object, by its type; \<open>EnforcePtr\<close> refuses what is not a pointer.\<close>

definition typed_ObjectKinds :: "registry \<Rightarrow> go_type \<Rightarrow> (GroupVersionKind list \<times> bool) result" where
  "typed_ObjectKinds s obj =
     (case obj of
        PtrTo t \<Rightarrow>
          (case map_of (rg_typeToGVK s) t of
             None \<Rightarrow> Err (Errorf (''no kind is registered for the type '' @ Name_of t))
           | Some gvks \<Rightarrow> Ok (gvks, map_of (unversionedTypes s) t \<noteq> None))
      | _ \<Rightarrow> Err (Errorf ''expected pointer''))"

definition Recognizes :: "registry \<Rightarrow> GroupVersionKind \<Rightarrow> bool" where
  "Recognizes s gvk \<longleftrightarrow> map_of (rg_gvkToType s) gvk \<noteq> None"

definition scheme_New :: "registry \<Rightarrow> GroupVersionKind \<Rightarrow> go_type result" where
  "scheme_New s gvk =
     (case map_of (rg_gvkToType s) gvk of
        Some t \<Rightarrow> Ok (PtrTo t)
      | None \<Rightarrow>
          (case map_of (unversionedKinds s) (gvkKind gvk) of
             Some t \<Rightarrow> Ok (PtrTo t)
           | None \<Rightarrow> Err (Errorf (''no kind '' @ [CHR 0x22] @ gvkKind gvk @ [CHR 0x22] @ '' is registered''))))"

text \<open>\<open>SchemeBuilder\<close>.\<close>

type_synonym scheme_builder = "(registry \<Rightarrow> registry result) list"

definition builder_Register :: "scheme_builder \<Rightarrow> (registry \<Rightarrow> registry result) list \<Rightarrow> scheme_builder" where
  "builder_Register sb funcs = sb @ funcs"

definition NewSchemeBuilder :: "(registry \<Rightarrow> registry result) list \<Rightarrow> scheme_builder" where
  "NewSchemeBuilder funcs = builder_Register [] funcs"

definition builder_AddToScheme :: "scheme_builder \<Rightarrow> registry \<Rightarrow> registry result" where
  "builder_AddToScheme sb = fold_result (\<lambda>f. f) sb"

section \<open>What is registered\<close>

definition meta_type :: "string \<Rightarrow> go_type" where
  "meta_type n = PtrTo (StructType ''k8s.io/apimachinery/pkg/apis/meta/v1'' n)"

definition Unversioned :: GroupVersion where
  "Unversioned = \<lparr>gvGroup = [], gvVersion = ''v1''\<rparr>"

definition AddToGroupVersion :: "GroupVersion \<Rightarrow> registry \<Rightarrow> registry result" where
  "AddToGroupVersion gv s =
     fold_result (\<lambda>f. f)
       [AddKnownTypeWithName (WithKind gv ''WatchEvent'') (meta_type ''WatchEvent''),
        AddKnownTypeWithName (WithKind \<lparr>gvGroup = gvGroup gv, gvVersion = APIVersionInternal\<rparr> ''WatchEvent'')
          (meta_type ''InternalEvent''),
        AddKnownTypes gv
          (map meta_type [''ListOptions'', ''ExportOptions'', ''GetOptions'', ''DeleteOptions'', ''CreateOptions'',
             ''UpdateOptions'', ''PatchOptions'']),
        AddUnversionedTypes Unversioned
          (map meta_type [''Status'', ''APIVersions'', ''APIGroupList'', ''APIGroup'', ''APIResourceList''])] s"

definition serving_package :: string where
  "serving_package = ''knative.dev/serving-operator/pkg/apis/serving/v1alpha1''"

definition serving_go_type :: "string \<Rightarrow> go_type" where
  "serving_go_type n = PtrTo (StructType serving_package n)"

definition addKnownTypes :: "registry \<Rightarrow> registry result" where
  "addKnownTypes s =
     bind_result (AddKnownTypes SchemeGroupVersion [serving_go_type ''KnativeServing'', serving_go_type ''KnativeServingList''] s)
       (AddToGroupVersion SchemeGroupVersion)"

definition serving_SchemeBuilder :: scheme_builder where
  "serving_SchemeBuilder = NewSchemeBuilder [addKnownTypes]"

definition serving_AddToScheme :: "registry \<Rightarrow> registry result" where
  "serving_AddToScheme = builder_AddToScheme serving_SchemeBuilder"

text \<open>The clientset's own scheme; \<open>utilruntime.Must\<close> panics on an error.\<close>

definition localSchemeBuilder :: scheme_builder where
  "localSchemeBuilder = [serving_AddToScheme]"

definition clientset_AddToScheme :: "registry \<Rightarrow> registry result" where
  "clientset_AddToScheme = builder_AddToScheme localSchemeBuilder"

definition clientset_init :: "registry \<Rightarrow> registry result" where
  "clientset_init s =
     bind_result (AddToGroupVersion \<lparr>gvGroup = [], gvVersion = ''v1''\<rparr> s)
       (\<lambda>s. case clientset_AddToScheme s of Err e \<Rightarrow> Panic (error_text e) | r \<Rightarrow> r)"

definition clientset_Scheme :: "registry result" where
  "clientset_Scheme = clientset_init NewScheme"

text \<open>\<open>knative.dev/caching\<close>, and the \<open>init\<close> of \<open>images.go\<close>, which drops the error.\<close>

definition caching_GroupVersion :: GroupVersion where
  "caching_GroupVersion = \<lparr>gvGroup = ''caching.internal.knative.dev'', gvVersion = ''v1alpha1''\<rparr>"

definition caching_addKnownTypes :: "registry \<Rightarrow> registry result" where
  "caching_addKnownTypes s =
     bind_result
       (AddKnownTypes caching_GroupVersion
         (map (\<lambda>n. PtrTo (StructType ''knative.dev/caching/pkg/apis/caching/v1alpha1'' n)) [''Image'', ''ImageList'']) s)
       (AddToGroupVersion caching_GroupVersion)"

definition images_init :: "registry \<Rightarrow> registry result" where
  "images_init s =
     (case builder_AddToScheme (NewSchemeBuilder [caching_addKnownTypes]) s of Err e \<Rightarrow> Ok s | r \<Rightarrow> r)"

text \<open>\<open>k8s.io/api/apps/v1\<close>, one of the groups of the client-go scheme.\<close>

definition apps_GroupVersion :: GroupVersion where
  "apps_GroupVersion = \<lparr>gvGroup = ''apps'', gvVersion = ''v1''\<rparr>"

definition apps_addKnownTypes :: "registry \<Rightarrow> registry result" where
  "apps_addKnownTypes s =
     bind_result
       (AddKnownTypes apps_GroupVersion
         (map (\<lambda>n. PtrTo (StructType ''k8s.io/api/apps/v1'' n))
           [''Deployment'', ''DeploymentList'', ''StatefulSet'', ''StatefulSetList'', ''DaemonSet'', ''DaemonSetList'',
            ''ReplicaSet'', ''ReplicaSetList'', ''ControllerRevision'', ''ControllerRevisionList'']) s)
       (AddToGroupVersion apps_GroupVersion)"

section \<open>The two maps agree\<close>

definition registry_inv :: "registry \<Rightarrow> bool" where
  "registry_inv s \<longleftrightarrow>
     (\<forall>gvk t. map_of (rg_gvkToType s) gvk = Some t \<longleftrightarrow> gvk \<in> set (gvks_of s t)) \<and>
     (\<forall>t gvks. map_of (rg_typeToGVK s) t = Some gvks \<longrightarrow> distinct gvks \<and> gvks \<noteq> [])"

lemma NewScheme_inv [simp]: "registry_inv NewScheme"
  by (simp add: registry_inv_def NewScheme_def gvks_of_def)

lemma registry_inv_observed [simp]: "registry_inv (addObservedVersion gv s) = registry_inv s"
  by (simp add: registry_inv_def addObservedVersion_def gvks_of_def)

lemma registry_inv_unversioned [simp]:
  "registry_inv (s\<lparr>unversionedTypes := m\<rparr>) = registry_inv s" "registry_inv (s\<lparr>unversionedKinds := k\<rparr>) = registry_inv s"
  by (simp_all add: registry_inv_def gvks_of_def)

text \<open>A successful registration is that of a free kind, or of the type the kind has already.\<close>

lemma AddKnownTypeWithName_Ok:
  assumes "AddKnownTypeWithName gvk obj s = Ok s'"
  obtains p n where "obj = PtrTo (StructType p n)"
    and "map_of (rg_gvkToType s) gvk \<in> {None, Some (StructType p n)}"
    and "s' = (addObservedVersion (GroupVersion_of gvk) s)
      \<lparr>rg_gvkToType := AList.update gvk (StructType p n) (rg_gvkToType s),
       rg_typeToGVK := (if gvk \<in> set (gvks_of s (StructType p n)) then rg_typeToGVK s
                        else AList.update (StructType p n) (gvks_of s (StructType p n) @ [gvk]) (rg_typeToGVK s))\<rparr>"
proof -
  have f: "rg_gvkToType (addObservedVersion gv s) = rg_gvkToType s" "rg_typeToGVK (addObservedVersion gv s) = rg_typeToGVK s"
    "gvks_of (addObservedVersion gv s) t = gvks_of s t" for gv t
    by (simp_all add: addObservedVersion_def gvks_of_def)
  from assms obtain p n where "obj = PtrTo (StructType p n)"
    by (auto simp: AddKnownTypeWithName_def Let_def split: if_splits go_type.splits)
  note o = this
  let ?t = "StructType p n" and ?s1 = "addObservedVersion (GroupVersion_of gvk) s"
  have r: "?s1\<lparr>rg_gvkToType := m, rg_typeToGVK := rg_typeToGVK s\<rparr> = ?s1\<lparr>rg_gvkToType := m\<rparr>" for m
    by (cases s) (simp add: addObservedVersion_def)
  have g: "gvks_of (r\<lparr>rg_gvkToType := m\<rparr>) t = gvks_of r t" for r m t by (simp add: gvks_of_def)
  from assms have "map_of (rg_gvkToType s) gvk \<in> {None, Some ?t}"
    by (auto simp: AddKnownTypeWithName_def o Let_def f split: if_splits option.splits)
  moreover have "s' = ?s1
      \<lparr>rg_gvkToType := AList.update gvk ?t (rg_gvkToType s),
       rg_typeToGVK := (if gvk \<in> set (gvks_of s ?t) then rg_typeToGVK s
                        else AList.update ?t (gvks_of s ?t @ [gvk]) (rg_typeToGVK s))\<rparr>"
    using assms by (auto simp: AddKnownTypeWithName_def o Let_def f g r split: if_splits)
  ultimately show thesis using that o by blast
qed

lemma AddKnownTypeWithName_inv:
  assumes "AddKnownTypeWithName gvk obj s = Ok s'" and "registry_inv s"
  shows "registry_inv s'"
proof -
  from assms(1) obtain p n where t: "map_of (rg_gvkToType s) gvk \<in> {None, Some (StructType p n)}"
    and s': "s' = (addObservedVersion (GroupVersion_of gvk) s)
      \<lparr>rg_gvkToType := AList.update gvk (StructType p n) (rg_gvkToType s),
       rg_typeToGVK := (if gvk \<in> set (gvks_of s (StructType p n)) then rg_typeToGVK s
                        else AList.update (StructType p n) (gvks_of s (StructType p n) @ [gvk]) (rg_typeToGVK s))\<rparr>"
    by (rule AddKnownTypeWithName_Ok)
  let ?t = "StructType p n"
  have g: "gvks_of s' u = (if u = ?t \<and> gvk \<notin> set (gvks_of s ?t) then gvks_of s ?t @ [gvk] else gvks_of s u)" for u
    by (simp add: gvks_of_def s' update_conv')
  have inv: "map_of (rg_gvkToType s) k = Some u \<longleftrightarrow> k \<in> set (gvks_of s u)" for k u
    using assms(2) by (simp add: registry_inv_def)
  have m: "map_of (rg_gvkToType s') k = (if k = gvk then Some ?t else map_of (rg_gvkToType s) k)" for k
    by (simp add: s' update_conv')
  have "map_of (rg_gvkToType s') k = Some u \<longleftrightarrow> k \<in> set (gvks_of s' u)" for k u
    using t inv [of k u] inv [of gvk u] inv [of gvk ?t] unfolding m g by auto
  moreover have "distinct gvks \<and> gvks \<noteq> []" if "map_of (rg_typeToGVK s') u = Some gvks" for u gvks
    using that assms(2) by (auto simp: s' update_conv' registry_inv_def gvks_of_def split: if_splits option.splits)
  ultimately show ?thesis by (simp add: registry_inv_def)
qed

text \<open>Registering again changes nothing.\<close>

lemma update_same: "map_of m k = Some v \<Longrightarrow> AList.update k v m = m"
  by (induction m) auto

lemma AddKnownTypeWithName_again:
  assumes "AddKnownTypeWithName gvk obj s = Ok s'" and "registry_inv s"
  shows "AddKnownTypeWithName gvk obj s' = Ok s'"
proof -
  have i: "registry_inv s'" by (rule AddKnownTypeWithName_inv [OF assms])
  from assms(1) obtain p n where o: "obj = PtrTo (StructType p n)"
    and s': "s' = (addObservedVersion (GroupVersion_of gvk) s)
      \<lparr>rg_gvkToType := AList.update gvk (StructType p n) (rg_gvkToType s),
       rg_typeToGVK := (if gvk \<in> set (gvks_of s (StructType p n)) then rg_typeToGVK s
                        else AList.update (StructType p n) (gvks_of s (StructType p n) @ [gvk]) (rg_typeToGVK s))\<rparr>"
    by (rule AddKnownTypeWithName_Ok)
  have v: "gvkVersion gvk \<noteq> []" using assms(1) by (auto simp: AddKnownTypeWithName_def Let_def)
  have m: "map_of (rg_gvkToType s') gvk = Some (StructType p n)" by (simp add: s' update_conv')
  then have "gvk \<in> set (gvks_of s' (StructType p n))" using i by (simp add: registry_inv_def)
  moreover have "addObservedVersion (GroupVersion_of gvk) s' = s'" by (auto simp: s' addObservedVersion_def)
  moreover have "s'\<lparr>rg_gvkToType := rg_gvkToType s'\<rparr> = s'" by simp
  ultimately show ?thesis using v m
    by (simp add: AddKnownTypeWithName_def o Let_def update_same)
qed

section \<open>Everything that can be built\<close>

inductive built :: "registry \<Rightarrow> bool" where
  new: "built NewScheme"
| known: "built s \<Longrightarrow> AddKnownTypeWithName gvk obj s = Ok s' \<Longrightarrow> built s'"
| known_types: "built s \<Longrightarrow> AddKnownTypes gv types s = Ok s' \<Longrightarrow> built s'"
| unversioned: "built s \<Longrightarrow> AddUnversionedTypes gv types s = Ok s' \<Longrightarrow> built s'"

lemma fold_result_inv:
  assumes "fold_result f xs s = Ok s'" and "P s" and "\<And>x s s'. f x s = Ok s' \<Longrightarrow> P s \<Longrightarrow> P s'"
  shows "P s'"
  using assms(1,2) by (induction xs arbitrary: s) (auto intro: assms(3))

lemma AddKnownTypes_inv:
  assumes "AddKnownTypes gv types s = Ok s'" and "registry_inv s"
  shows "registry_inv s'"
proof (rule fold_result_inv [OF assms(1) [unfolded AddKnownTypes_def], where P = registry_inv])
  fix obj and s1 s2 :: registry
  assume "(case obj of PtrTo t \<Rightarrow> AddKnownTypeWithName (WithKind gv (Name_of t)) obj s1
      | _ \<Rightarrow> Panic ''All types must be pointers to structs.'') = Ok s2" and "registry_inv s1"
  then show "registry_inv s2" by (auto split: go_type.splits dest: AddKnownTypeWithName_inv)
qed (use assms(2) in simp)

lemma add_unversioned_inv: "add_unversioned gv obj s = Ok s' \<Longrightarrow> registry_inv s \<Longrightarrow> registry_inv s'"
  by (auto simp: add_unversioned_def Let_def split: go_type.splits option.splits if_splits)

lemma built_inv: "built s \<Longrightarrow> registry_inv s"
proof (induction rule: built.induct)
  case (unversioned s gv types s')
  then obtain s1 where k: "AddKnownTypes gv types (addObservedVersion gv s) = Ok s1"
    and u: "fold_result (add_unversioned gv) types s1 = Ok s'" by (auto simp: AddUnversionedTypes_def)
  have "registry_inv s1" using AddKnownTypes_inv [OF k] unversioned.IH by simp
  then show ?case by (rule fold_result_inv [OF u]) (rule add_unversioned_inv)
qed (auto intro: AddKnownTypeWithName_inv AddKnownTypes_inv)

lemma built_fold: "(\<And>f s s'. f \<in> set fs \<Longrightarrow> f s = Ok s' \<Longrightarrow> built s \<Longrightarrow> built s') \<Longrightarrow> fold_result (\<lambda>f. f) fs s = Ok s' \<Longrightarrow> built s \<Longrightarrow> built s'"
  by (induction fs arbitrary: s) (simp, fastforce)

lemma AddToGroupVersion_built: "AddToGroupVersion gv s = Ok s' \<Longrightarrow> built s \<Longrightarrow> built s'"
  unfolding AddToGroupVersion_def by (erule built_fold [rotated]) (auto intro: built.intros)

lemma addKnownTypes_built:
  "addKnownTypes s = Ok s' \<Longrightarrow> built s \<Longrightarrow> built s'"
  "caching_addKnownTypes s = Ok s' \<Longrightarrow> built s \<Longrightarrow> built s'"
  "apps_addKnownTypes s = Ok s' \<Longrightarrow> built s \<Longrightarrow> built s'"
  by (auto simp: addKnownTypes_def caching_addKnownTypes_def apps_addKnownTypes_def
      intro: AddToGroupVersion_built built.known_types)

lemma AddToScheme_Ok_iff:
  "serving_AddToScheme s = Ok s' \<longleftrightarrow> addKnownTypes s = Ok s'" "clientset_AddToScheme s = Ok s' \<longleftrightarrow> addKnownTypes s = Ok s'"
  by (simp_all add: clientset_AddToScheme_def localSchemeBuilder_def serving_AddToScheme_def serving_SchemeBuilder_def
      NewSchemeBuilder_def builder_Register_def builder_AddToScheme_def)

lemma clientset_Scheme_built:
  assumes "clientset_Scheme = Ok s"
  shows "built s"
proof -
  from assms obtain s1 where m: "AddToGroupVersion \<lparr>gvGroup = [], gvVersion = ''v1''\<rparr> NewScheme = Ok s1"
    and c: "(case clientset_AddToScheme s1 of Err e \<Rightarrow> Panic (error_text e) | r \<Rightarrow> r) = Ok s"
    by (auto simp: clientset_Scheme_def clientset_init_def)
  from c have "addKnownTypes s1 = Ok s" by (cases "clientset_AddToScheme s1") (auto simp: AddToScheme_Ok_iff)
  then show ?thesis using AddToGroupVersion_built [OF m] addKnownTypes_built(1) built.new by blast
qed

lemma typed_ObjectKinds_gvks:
  "registry_inv s \<Longrightarrow> typed_ObjectKinds s (PtrTo t) = Ok (ks, u) \<Longrightarrow> ks = gvks_of s t \<and> ks \<noteq> [] \<and> distinct ks"
  by (auto simp: typed_ObjectKinds_def gvks_of_def registry_inv_def split: option.splits)

section \<open>Registrations that cannot clash\<close>

text \<open>
  A scheme in which every kind has the type of its name, from the package of its group and version or from
  \<open>meta/v1\<close>. \<open>pkgs\<close> gives the packages.
\<close>

definition meta_kinds :: "string list" where
  "meta_kinds =
     [''ListOptions'', ''ExportOptions'', ''GetOptions'', ''DeleteOptions'', ''CreateOptions'', ''UpdateOptions'', ''PatchOptions'',
      ''Status'', ''APIVersions'', ''APIGroupList'', ''APIGroup'', ''APIResourceList'']"

definition go_type_of :: "(GroupVersion \<Rightarrow> string) \<Rightarrow> GroupVersionKind \<Rightarrow> go_type" where
  "go_type_of pkgs gvk =
     (if gvkKind gvk = ''WatchEvent'' then
        StructType ''k8s.io/apimachinery/pkg/apis/meta/v1''
          (if gvkVersion gvk = APIVersionInternal then ''InternalEvent'' else ''WatchEvent'')
      else if gvkKind gvk \<in> set meta_kinds then StructType ''k8s.io/apimachinery/pkg/apis/meta/v1'' (gvkKind gvk)
      else StructType (pkgs (GroupVersion_of gvk)) (gvkKind gvk))"

definition by_name :: "(GroupVersion \<Rightarrow> string) \<Rightarrow> registry \<Rightarrow> bool" where
  "by_name pkgs s \<longleftrightarrow>
     (\<forall>gvk t. map_of (rg_gvkToType s) gvk = Some t \<longrightarrow> t = go_type_of pkgs gvk) \<and>
     (\<forall>k t. map_of (unversionedKinds s) k = Some t \<longrightarrow> t = StructType ''k8s.io/apimachinery/pkg/apis/meta/v1'' k)"

lemma by_name_new [simp]: "by_name pkgs NewScheme"
  by (simp add: by_name_def NewScheme_def)

lemma observed_fields [simp]:
  "rg_gvkToType (addObservedVersion gv s) = rg_gvkToType s" "unversionedKinds (addObservedVersion gv s) = unversionedKinds s"
  "by_name pkgs (addObservedVersion gv s) = by_name pkgs s"
  by (simp_all add: addObservedVersion_def by_name_def)

text \<open>What is registered under its name succeeds, and what was recognised still is.\<close>

definition grows :: "registry \<Rightarrow> registry \<Rightarrow> bool" where
  "grows s s' \<longleftrightarrow> (\<forall>gvk. Recognizes s gvk \<longrightarrow> Recognizes s' gvk)"

lemma grows_refl [simp]: "grows s s" and grows_trans: "grows s s' \<Longrightarrow> grows s' s'' \<Longrightarrow> grows s s''"
  by (simp_all add: grows_def)

lemma register_by_name:
  assumes "by_name pkgs s" and "gvkVersion gvk \<noteq> []" and "go_type_of pkgs gvk = t" and "t = StructType p n"
  shows "\<exists>s'. AddKnownTypeWithName gvk (PtrTo t) s = Ok s' \<and> by_name pkgs s' \<and> grows s s' \<and> Recognizes s' gvk"
proof -
  have "map_of (rg_gvkToType s) gvk \<in> {None, Some t}"
    using assms(1,3) by (cases "map_of (rg_gvkToType s) gvk") (auto simp: by_name_def)
  then have "\<exists>s'. AddKnownTypeWithName gvk (PtrTo t) s = Ok s'"
    using assms(2) by (auto simp: AddKnownTypeWithName_def Let_def assms(4))
  then obtain s' where s': "AddKnownTypeWithName gvk (PtrTo t) s = Ok s'" ..
  then have m: "map_of (rg_gvkToType s') = (map_of (rg_gvkToType s))(gvk \<mapsto> t)"
    and u: "unversionedKinds s' = unversionedKinds s"
    by (erule_tac AddKnownTypeWithName_Ok, simp add: update_conv)+
  have "by_name pkgs s'" using assms(1,3) by (auto simp: by_name_def m u)
  with s' m show ?thesis by (auto simp: grows_def Recognizes_def)
qed

lemma register_types_by_name:
  assumes "by_name pkgs s" and "gvVersion gv \<noteq> []"
    and "\<forall>obj \<in> set types. \<exists>p n. obj = PtrTo (StructType p n) \<and> go_type_of pkgs (WithKind gv n) = StructType p n"
  shows "\<exists>s'. AddKnownTypes gv types s = Ok s' \<and> by_name pkgs s' \<and> grows s s' \<and>
    (\<forall>p n. PtrTo (StructType p n) \<in> set types \<longrightarrow> Recognizes s' (WithKind gv n))"
proof -
  let ?f = "\<lambda>obj s. case obj of PtrTo t \<Rightarrow> AddKnownTypeWithName (WithKind gv (Name_of t)) obj s
         | _ \<Rightarrow> Panic ''All types must be pointers to structs.''"
  have "\<exists>s'. fold_result ?f types s = Ok s' \<and> by_name pkgs s' \<and> grows s s' \<and>
    (\<forall>p n. PtrTo (StructType p n) \<in> set types \<longrightarrow> Recognizes s' (WithKind gv n))" if "by_name pkgs s" for s
    using assms(3) that
  proof (induction types arbitrary: s)
    case (Cons obj types)
    then obtain p n where o: "obj = PtrTo (StructType p n)" "go_type_of pkgs (WithKind gv n) = StructType p n" by auto
    have v: "gvkVersion (WithKind gv n) \<noteq> []" using assms(2) by (simp add: WithKind_def)
    from register_by_name [OF Cons.prems(2) v o(2) refl]
    obtain s1 where s1: "AddKnownTypeWithName (WithKind gv n) obj s = Ok s1" "by_name pkgs s1" "grows s s1"
      "Recognizes s1 (WithKind gv n)" by (auto simp: o(1))
    have "\<forall>obj \<in> set types. \<exists>p n. obj = PtrTo (StructType p n) \<and> go_type_of pkgs (WithKind gv n) = StructType p n"
      using Cons.prems(1) by simp
    from Cons.IH [OF this s1(2)] obtain s2 where s2: "fold_result ?f types s1 = Ok s2" "by_name pkgs s2" "grows s1 s2"
      "\<forall>p n. PtrTo (StructType p n) \<in> set types \<longrightarrow> Recognizes s2 (WithKind gv n)" by blast
    have "Recognizes s2 (WithKind gv n)" using s1(4) s2(3) by (simp add: grows_def)
    moreover have "fold_result ?f (obj # types) s = Ok s2" using s1(1) s2(1) by (simp add: o(1))
    moreover note grows_trans [OF s1(3) s2(3)]
    ultimately show ?case using s2(2,4) by (intro exI [where x = s2]) (simp add: o(1))
  qed simp
  from this [of "addObservedVersion gv s"] assms(1) show ?thesis
    by (simp add: AddKnownTypes_def grows_def Recognizes_def)
qed

lemma add_unversioned_by_name:
  assumes "by_name pkgs s"
  shows "\<exists>s'. fold_result (add_unversioned gv) (map meta_type ns) s = Ok s' \<and> by_name pkgs s' \<and> grows s s'"
  using assms
proof (induction ns arbitrary: s)
  case (Cons n ns)
  let ?t = "StructType ''k8s.io/apimachinery/pkg/apis/meta/v1'' n"
  have "map_of (unversionedKinds s) n \<in> {None, Some ?t}"
    using Cons.prems by (cases "map_of (unversionedKinds s) n") (auto simp: by_name_def)
  moreover define s1 where "s1 = s\<lparr>unversionedTypes := AList.update ?t (WithKind gv n) (unversionedTypes s),
    unversionedKinds := AList.update n ?t (unversionedKinds s)\<rparr>"
  ultimately have a: "add_unversioned gv (meta_type n) s = Ok s1"
    by (auto simp: add_unversioned_def meta_type_def Let_def WithKind_def)
  have "by_name pkgs s1" using Cons.prems by (simp add: s1_def by_name_def update_conv')
  from Cons.IH [OF this] obtain s2 where s2: "fold_result (add_unversioned gv) (map meta_type ns) s1 = Ok s2"
    "by_name pkgs s2" "grows s1 s2" by blast
  have "grows s s2" using s2(3) by (simp add: grows_def Recognizes_def s1_def)
  with a s2(1,2) show ?case by simp
qed simp

text \<open>The groups: a package for each of the three, and \<open>meta/v1\<close> with each of them.\<close>

lemma register_meta:
  assumes "by_name pkgs s" and "gvkVersion gvk \<noteq> []"
    and "go_type_of pkgs gvk = StructType ''k8s.io/apimachinery/pkg/apis/meta/v1'' n"
  shows "\<exists>s'. AddKnownTypeWithName gvk (meta_type n) s = Ok s' \<and> by_name pkgs s' \<and> grows s s'"
  using register_by_name [OF assms refl] unfolding meta_type_def by blast

lemma AddToGroupVersion_by_name:
  assumes "by_name pkgs s" and "gvVersion gv \<noteq> []" and "gvVersion gv \<noteq> APIVersionInternal"
  shows "\<exists>s'. AddToGroupVersion gv s = Ok s' \<and> by_name pkgs s' \<and> grows s s'"
proof -
  let ?m = "''k8s.io/apimachinery/pkg/apis/meta/v1''"
  have t: "go_type_of pkgs (WithKind v n) = StructType ?m n" if "n \<in> set meta_kinds" for v n
    using that by (auto simp: go_type_of_def WithKind_def meta_kinds_def)
  have "go_type_of pkgs (WithKind gv ''WatchEvent'') = StructType ?m ''WatchEvent''"
    using assms(3) by (simp add: go_type_of_def WithKind_def)
  moreover have "gvkVersion (WithKind gv ''WatchEvent'') \<noteq> []" using assms(2) by (simp add: WithKind_def)
  ultimately obtain s1 where 1: "AddKnownTypeWithName (WithKind gv ''WatchEvent'') (meta_type ''WatchEvent'') s = Ok s1"
      "by_name pkgs s1" "grows s s1" using register_meta [OF assms(1)] by blast
  let ?i = "WithKind \<lparr>gvGroup = gvGroup gv, gvVersion = APIVersionInternal\<rparr> ''WatchEvent''"
  have "go_type_of pkgs ?i = StructType ?m ''InternalEvent''" "gvkVersion ?i \<noteq> []"
    by (simp_all add: go_type_of_def WithKind_def APIVersionInternal_def)
  then obtain s2 where 2: "AddKnownTypeWithName ?i (meta_type ''InternalEvent'') s1 = Ok s2" "by_name pkgs s2" "grows s1 s2"
    using register_meta [OF 1(2)] by blast
  let ?o = "[''ListOptions'', ''ExportOptions'', ''GetOptions'', ''DeleteOptions'', ''CreateOptions'', ''UpdateOptions'', ''PatchOptions'']"
  have "\<forall>obj \<in> set (map meta_type ?o). \<exists>p n. obj = PtrTo (StructType p n) \<and> go_type_of pkgs (WithKind gv n) = StructType p n"
    by (simp add: meta_type_def t meta_kinds_def)
  from register_types_by_name [OF 2(2) assms(2) this]
  obtain s3 where 3: "AddKnownTypes gv (map meta_type ?o) s2 = Ok s3" "by_name pkgs s3" "grows s2 s3" by blast
  let ?u = "[''Status'', ''APIVersions'', ''APIGroupList'', ''APIGroup'', ''APIResourceList'']"
  have "\<forall>obj \<in> set (map meta_type ?u). \<exists>p n. obj = PtrTo (StructType p n) \<and> go_type_of pkgs (WithKind Unversioned n) = StructType p n"
    by (simp add: meta_type_def t meta_kinds_def)
  moreover have "gvVersion Unversioned \<noteq> []" by (simp add: Unversioned_def)
  moreover have "by_name pkgs (addObservedVersion Unversioned s3)" using 3(2) by simp
  ultimately obtain s4 where 4: "AddKnownTypes Unversioned (map meta_type ?u) (addObservedVersion Unversioned s3) = Ok s4"
      "by_name pkgs s4" "grows (addObservedVersion Unversioned s3) s4" using register_types_by_name by blast
  from add_unversioned_by_name [OF 4(2)]
  obtain s5 where 5: "fold_result (add_unversioned Unversioned) (map meta_type ?u) s4 = Ok s5" "by_name pkgs s5" "grows s4 s5"
    by blast
  have "AddUnversionedTypes Unversioned (map meta_type ?u) s3 = Ok s5" using 4(1) 5(1) by (simp add: AddUnversionedTypes_def)
  then have "AddToGroupVersion gv s = Ok s5" using 1(1) 2(1) 3(1) by (simp add: AddToGroupVersion_def)
  moreover have "grows s s5" using 1(3) 2(3) 3(3) 4(3) 5(3) by (simp add: grows_def Recognizes_def)
  ultimately show ?thesis using 5(2) by blast
qed

datatype group_registration = Serving | Caching | Apps | Core

fun register_group :: "group_registration \<Rightarrow> registry \<Rightarrow> registry result" where
  "register_group Serving = serving_AddToScheme"
| "register_group Caching = images_init"
| "register_group Apps = apps_addKnownTypes"
| "register_group Core = AddToGroupVersion \<lparr>gvGroup = [], gvVersion = ''v1''\<rparr>"

definition packages_ok :: "(GroupVersion \<Rightarrow> string) \<Rightarrow> bool" where
  "packages_ok pkgs \<longleftrightarrow>
     pkgs SchemeGroupVersion = serving_package \<and>
     pkgs caching_GroupVersion = ''knative.dev/caching/pkg/apis/caching/v1alpha1'' \<and>
     pkgs apps_GroupVersion = ''k8s.io/api/apps/v1''"

lemma register_package:
  assumes "by_name pkgs s" and "gvVersion gv \<noteq> []" and "gvVersion gv \<noteq> APIVersionInternal"
    and "\<forall>n \<in> set ns. n \<notin> set (''WatchEvent'' # meta_kinds)"
  shows "\<exists>s'. bind_result (AddKnownTypes gv (map (\<lambda>n. PtrTo (StructType (pkgs gv) n)) ns) s) (AddToGroupVersion gv) = Ok s' \<and>
    by_name pkgs s' \<and> grows s s' \<and> (\<forall>n \<in> set ns. Recognizes s' (WithKind gv n))"
proof -
  have gv: "GroupVersion_of (WithKind gv n) = gv" for n by (simp add: GroupVersion_of_def WithKind_def)
  have "go_type_of pkgs (WithKind gv n) = StructType (pkgs gv) n" if "n \<in> set ns" for n
    using assms(4) that gv [of n] by (auto simp: go_type_of_def) (auto simp: WithKind_def)
  then have "\<forall>obj \<in> set (map (\<lambda>n. PtrTo (StructType (pkgs gv) n)) ns).
      \<exists>p n. obj = PtrTo (StructType p n) \<and> go_type_of pkgs (WithKind gv n) = StructType p n" by simp
  from register_types_by_name [OF assms(1,2) this]
  obtain s1 where 1: "AddKnownTypes gv (map (\<lambda>n. PtrTo (StructType (pkgs gv) n)) ns) s = Ok s1" "by_name pkgs s1" "grows s s1"
      and r: "\<forall>p n. PtrTo (StructType p n) \<in> set (map (\<lambda>n. PtrTo (StructType (pkgs gv) n)) ns) \<longrightarrow> Recognizes s1 (WithKind gv n)"
    by blast
  have "Recognizes s1 (WithKind gv n)" if "n \<in> set ns" for n using r that by (simp add: image_iff)
  from AddToGroupVersion_by_name [OF 1(2) assms(2,3)]
  obtain s2 where "AddToGroupVersion gv s1 = Ok s2" "by_name pkgs s2" "grows s1 s2" by blast
  moreover have "grows s s2" using 1(3) \<open>grows s1 s2\<close> by (rule grows_trans)
  ultimately show ?thesis using 1(1) \<open>\<And>n. n \<in> set ns \<Longrightarrow> Recognizes s1 (WithKind gv n)\<close>
    by (intro exI [where x = s2]) (simp add: grows_def)
qed

fun kinds_of :: "group_registration \<Rightarrow> GroupVersionKind list" where
  "kinds_of Serving = [ks_GroupVersionKind]"
| "kinds_of Caching = [WithKind caching_GroupVersion ''Image'']"
| "kinds_of Apps = [WithKind apps_GroupVersion ''Deployment'', WithKind apps_GroupVersion ''DaemonSet'']"
| "kinds_of Core = []"

lemma group_versions [simp]:
  "gvVersion SchemeGroupVersion \<noteq> []" "gvVersion SchemeGroupVersion \<noteq> APIVersionInternal"
  "gvVersion caching_GroupVersion \<noteq> []" "gvVersion caching_GroupVersion \<noteq> APIVersionInternal"
  "gvVersion apps_GroupVersion \<noteq> []" "gvVersion apps_GroupVersion \<noteq> APIVersionInternal"
  by (simp_all add: SchemeGroupVersion_def SchemaVersion_def caching_GroupVersion_def apps_GroupVersion_def APIVersionInternal_def)

lemma register_group_by_name:
  assumes "packages_ok pkgs" and "by_name pkgs s"
  shows "\<exists>s'. register_group g s = Ok s' \<and> by_name pkgs s' \<and> grows s s' \<and> (\<forall>gvk \<in> set (kinds_of g). Recognizes s' gvk)"
proof (cases g)
  case Serving
  have "\<forall>n \<in> set [''KnativeServing'', ''KnativeServingList'']. n \<notin> set (''WatchEvent'' # meta_kinds)" by (simp add: meta_kinds_def)
  from register_package [OF assms(2) group_versions(1,2) this]
  obtain s' where "addKnownTypes s = Ok s'" "by_name pkgs s'" "grows s s'" "Recognizes s' ks_GroupVersionKind"
    using assms(1) by (auto simp: addKnownTypes_def serving_go_type_def packages_ok_def ks_GroupVersionKind_def Kind_def)
  then show ?thesis by (simp add: Serving AddToScheme_Ok_iff)
next
  case Caching
  have "\<forall>n \<in> set [''Image'', ''ImageList'']. n \<notin> set (''WatchEvent'' # meta_kinds)" by (simp add: meta_kinds_def)
  from register_package [OF assms(2) group_versions(3,4) this]
  obtain s' where "caching_addKnownTypes s = Ok s'" "by_name pkgs s'" "grows s s'"
      "Recognizes s' (WithKind caching_GroupVersion ''Image'')"
    using assms(1) by (auto simp: caching_addKnownTypes_def packages_ok_def)
  then show ?thesis
    by (simp add: Caching images_init_def NewSchemeBuilder_def builder_Register_def builder_AddToScheme_def)
next
  case Apps
  let ?ns = "[''Deployment'', ''DeploymentList'', ''StatefulSet'', ''StatefulSetList'', ''DaemonSet'', ''DaemonSetList'',
    ''ReplicaSet'', ''ReplicaSetList'', ''ControllerRevision'', ''ControllerRevisionList'']"
  have "\<forall>n \<in> set ?ns. n \<notin> set (''WatchEvent'' # meta_kinds)" by (simp add: meta_kinds_def)
  from register_package [OF assms(2) group_versions(5,6) this]
  obtain s' where s': "bind_result (AddKnownTypes apps_GroupVersion (map (\<lambda>n. PtrTo (StructType (pkgs apps_GroupVersion) n)) ?ns) s)
        (AddToGroupVersion apps_GroupVersion) = Ok s'" "by_name pkgs s'" "grows s s'"
      "\<forall>n \<in> set ?ns. Recognizes s' (WithKind apps_GroupVersion n)"
    by blast
  have "apps_addKnownTypes s = Ok s'" using s'(1) assms(1) unfolding apps_addKnownTypes_def packages_ok_def by simp
  then show ?thesis using s'(2-4) by (simp add: Apps)
next
  case Core
  then show ?thesis using AddToGroupVersion_by_name [OF assms(2), of "\<lparr>gvGroup = [], gvVersion = ''v1''\<rparr>"]
    by (simp add: APIVersionInternal_def)
qed

lemma register_groups_by_name:
  assumes "packages_ok pkgs" and "by_name pkgs s"
  shows "\<exists>s'. fold_result register_group gs s = Ok s' \<and> by_name pkgs s' \<and> grows s s' \<and>
    (\<forall>g \<in> set gs. \<forall>gvk \<in> set (kinds_of g). Recognizes s' gvk)"
  using assms(2)
proof (induction gs arbitrary: s)
  case (Cons g gs)
  from register_group_by_name [OF assms(1) Cons.prems]
  obtain s1 where 1: "register_group g s = Ok s1" "by_name pkgs s1" "grows s s1" "\<forall>gvk \<in> set (kinds_of g). Recognizes s1 gvk"
    by blast
  from Cons.IH [OF 1(2)] obtain s2 where 2: "fold_result register_group gs s1 = Ok s2" "by_name pkgs s2" "grows s1 s2"
    "\<forall>g \<in> set gs. \<forall>gvk \<in> set (kinds_of g). Recognizes s2 gvk" by blast
  have "\<forall>gvk \<in> set (kinds_of g). Recognizes s2 gvk" using 1(4) 2(3) by (simp add: grows_def)
  with 1(1) 2 grows_trans [OF 1(3) 2(3)] show ?case by (intro exI [where x = s2]) simp
qed simp

text \<open>What is recognised is made.\<close>

lemma by_name_New:
  "by_name pkgs s \<Longrightarrow> Recognizes s gvk \<Longrightarrow> scheme_New s gvk = Ok (PtrTo (go_type_of pkgs gvk))"
  by (auto simp: by_name_def Recognizes_def scheme_New_def)

lemma GroupVersion_of_WithKind: "GroupVersion_of (WithKind gv n) = gv" "gvkKind (WithKind gv n) = n"
  by (simp_all add: GroupVersion_of_def WithKind_def)

lemma operator_go_types:
  assumes "packages_ok pkgs"
  shows "go_type_of pkgs ks_GroupVersionKind = StructType serving_package ''KnativeServing''"
    and "go_type_of pkgs (WithKind caching_GroupVersion ''Image'') = StructType ''knative.dev/caching/pkg/apis/caching/v1alpha1'' ''Image''"
    and "go_type_of pkgs (WithKind apps_GroupVersion ''Deployment'') = StructType ''k8s.io/api/apps/v1'' ''Deployment''"
    and "go_type_of pkgs (WithKind apps_GroupVersion ''DaemonSet'') = StructType ''k8s.io/api/apps/v1'' ''DaemonSet''"
  using assms
  by (simp_all add: go_type_of_def ks_GroupVersionKind_def Kind_def meta_kinds_def GroupVersion_of_WithKind packages_ok_def)

end
