(* ===== verification/Strategic_Patch.thy ===== *)
theory Strategic_Patch
  imports Json_Patches
begin

text \<open>
  Strategic merge patches: \<open>vendor/k8s.io/apimachinery/pkg/util/strategicpatch/patch.go\<close>, as far as
  \<open>CreateThreeWayMergePatch\<close> (always with \<open>overwrite\<close>) and \<open>StrategicMergePatchUsingLookupPatchMeta\<close> go.
  What the code asks of a type is the interface \<open>LookupPatchMeta\<close>.

  The code changes maps and slices in place. The documents are decoded afresh for each call, so a changed
  value is returned; where a caller goes on to read a slice that a callee has changed, the callee returns
  its contents too. \<open>sort.Sort\<close> and \<open>sort.SliceStable\<close> are the insertion sort that Go uses for short
  slices; for longer ones this fixes an order of equal elements that Go leaves open.
\<close>

section \<open>Schemas, options, errors\<close>

record PatchMeta =
  patchStrategies :: "string list"
  patchMergeKey :: string

text \<open>The interface, and the text \<open>fmt\<close> gives for a float, a list or a map.\<close>

record 's schemas =
  LookupPatchMetadataForStruct :: "'s \<Rightarrow> string \<Rightarrow> ('s \<times> PatchMeta) result"
  LookupPatchMetadataForSlice :: "'s \<Rightarrow> string \<Rightarrow> ('s \<times> PatchMeta) result"
  schema_Name :: "'s \<Rightarrow> string"
  other_text :: "json \<Rightarrow> string"

record DiffOptions =
  SetElementOrder :: bool
  IgnoreChangesAndAdditions :: bool
  IgnoreDeletions :: bool
  BuildRetainKeysDirective :: bool

record MergeOptions =
  MergeParallelList :: bool
  IgnoreUnmatchedNulls :: bool

definition directiveMarker :: string where "directiveMarker = ''$patch''"
definition deleteDirective :: string where "deleteDirective = ''delete''"
definition replaceDirective :: string where "replaceDirective = ''replace''"
definition mergeDirective :: string where "mergeDirective = ''merge''"
definition retainKeysStrategy :: string where "retainKeysStrategy = ''retainKeys''"
definition deleteFromPrimitiveListDirectivePrefix :: string where
  "deleteFromPrimitiveListDirectivePrefix = ''$deleteFromPrimitiveList''"
definition retainKeysDirective :: string where "retainKeysDirective = ''$'' @ retainKeysStrategy"
definition setElementOrderDirectivePrefix :: string where "setElementOrderDirectivePrefix = ''$setElementOrder''"

lemmas directive_defs = directiveMarker_def deleteDirective_def replaceDirective_def mergeDirective_def
  retainKeysStrategy_def deleteFromPrimitiveListDirectivePrefix_def retainKeysDirective_def
  setElementOrderDirectivePrefix_def

text \<open>The errors of \<open>mergepatch\<close>; the values they print are left out.\<close>

definition ErrBadJSONDoc :: error where "ErrBadJSONDoc = Errorf ''invalid JSON document''"
definition ErrNoListOfLists :: error where "ErrNoListOfLists = Errorf ''lists of lists are not supported''"
definition ErrBadPatchFormatForPrimitiveList :: error where
  "ErrBadPatchFormatForPrimitiveList = Errorf ''invalid patch format of primitive list''"
definition ErrBadPatchFormatForRetainKeys :: error where
  "ErrBadPatchFormatForRetainKeys = Errorf ''invalid patch format of retainKeys''"
definition ErrBadPatchFormatForSetElementOrderList :: error where
  "ErrBadPatchFormatForSetElementOrderList = Errorf ''invalid patch format of setElementOrder list''"
definition ErrNoMergeKey :: "string \<Rightarrow> error" where
  "ErrNoMergeKey k = Errorf (''map does not contain declared merge key: '' @ k)"
definition ErrBadArgType :: "string \<Rightarrow> json \<Rightarrow> error" where
  "ErrBadArgType expected actual = Errorf (''expected a '' @ expected @ '', but received a '' @ go_type actual)"
definition ErrBadPatchType :: error where "ErrBadPatchType = Errorf ''unknown patch type''"

section \<open>Values of interfaces\<close>

definition map_kind :: string where "map_kind = go_type (JObj [])"

fun as_map :: "json \<Rightarrow> obj result" where
  "as_map (JObj m) = Ok m"
| "as_map v = Err (ErrBadArgType map_kind v)"

fun as_slice :: "json \<Rightarrow> json list result" where
  "as_slice (JArr xs) = Ok xs"
| "as_slice v = Err (ErrBadArgType (go_type (JArr [])) v)"

text \<open>\<open>==\<close> on interfaces panics on two maps or two slices.\<close>

fun iface_eq :: "json \<Rightarrow> json \<Rightarrow> bool result" where
  "iface_eq (JArr xs) (JArr ys) = Panic ''runtime error: comparing uncomparable type []interface {}''"
| "iface_eq (JObj a) (JObj b) = Panic ''runtime error: comparing uncomparable type map[string]interface {}''"
| "iface_eq a b = Ok (a = b)"

text \<open>\<open>reflect.DeepEqual\<close>: maps are compared in no order.\<close>

fun DeepEqual :: "json \<Rightarrow> json \<Rightarrow> bool"
and equal_entries :: "obj \<Rightarrow> obj \<Rightarrow> bool"
and equal_lists :: "json list \<Rightarrow> json list \<Rightarrow> bool" where
  "DeepEqual (JObj a) v = (case v of JObj b \<Rightarrow> length a = length b \<and> equal_entries a b | _ \<Rightarrow> False)"
| "DeepEqual (JArr xs) v = (case v of JArr ys \<Rightarrow> length xs = length ys \<and> equal_lists xs ys | _ \<Rightarrow> False)"
| "DeepEqual u v = (u = v)"
| "equal_entries [] b = True"
| "equal_entries ((k, u) # a) b =
     ((case map_of b k of None \<Rightarrow> False | Some v \<Rightarrow> DeepEqual u v) \<and> equal_entries a b)"
| "equal_lists [] ys = True"
| "equal_lists (x # xs) ys = (case ys of [] \<Rightarrow> False | y # ys' \<Rightarrow> DeepEqual x y \<and> equal_lists xs ys')"

text \<open>\<open>fmt.Sprintf("%v", v)\<close>.\<close>

fun Sprintf_v :: "'s schemas \<Rightarrow> json \<Rightarrow> string" where
  "Sprintf_v L (JStr s) = s"
| "Sprintf_v L (JInt i) = decimal_int (sint i)"
| "Sprintf_v L (JBool b) = (if b then ''true'' else ''false'')"
| "Sprintf_v L JNull = ''<nil>''"
| "Sprintf_v L v = other_text L v"

text \<open>The common type of the elements. The type of nil is nil, and asking it for its kind panics.\<close>

fun element_type :: "string option \<Rightarrow> json list \<Rightarrow> string option result" where
  "element_type prevType [] = Ok prevType"
| "element_type None (v # vs) =
     (case v of
        JNull \<Rightarrow> Panic ''runtime error: invalid memory address or nil pointer dereference''
      | JArr xs \<Rightarrow> Err ErrNoListOfLists
      | _ \<Rightarrow> element_type (Some (go_type v)) vs)"
| "element_type (Some t) (v # vs) =
     (if go_type v \<noteq> t then Err (Errorf ''list element types are not identical'') else element_type (Some t) vs)"

definition sliceElementType :: "json list list \<Rightarrow> string result" where
  "sliceElementType slices =
     bind_result (element_type None (concat slices))
       (\<lambda>t. case t of None \<Rightarrow> Err (Errorf ''no elements in any of the given slices'') | Some t \<Rightarrow> Ok t)"

section \<open>Sorting\<close>

text \<open>An element moves left, past the ones it is less than; the sorted part is kept in reverse.\<close>

fun sift :: "('a \<Rightarrow> 'a \<Rightarrow> bool result) \<Rightarrow> 'a \<Rightarrow> 'a list \<Rightarrow> 'a list result" where
  "sift lt x [] = Ok [x]"
| "sift lt x (p # ps) =
     bind_result (lt x p) (\<lambda>b. if b then bind_result (sift lt x ps) (\<lambda>r. Ok (p # r)) else Ok (x # p # ps))"

definition SliceStable :: "('a \<Rightarrow> 'a \<Rightarrow> bool result) \<Rightarrow> 'a list \<Rightarrow> 'a list result" where
  "SliceStable lt xs = bind_result (fold_result (sift lt) xs []) (\<lambda>r. Ok (rev r))"

text \<open>\<open>Less\<close> holds of equal texts too, so an element goes before those equal to it.\<close>

definition sortScalars :: "'s schemas \<Rightarrow> json list \<Rightarrow> json list" where
  "sortScalars L s = sort_key (Sprintf_v L) (rev s)"

fun field_of :: "string \<Rightarrow> json \<Rightarrow> json" where
  "field_of k (JObj m) = lookup_or JNull m k"
| "field_of k v = JNull"

definition sortMapsBasedOnField :: "'s schemas \<Rightarrow> string \<Rightarrow> json list \<Rightarrow> json list" where
  "sortMapsBasedOnField L fieldName m = sort_key (\<lambda>v. Sprintf_v L (field_of fieldName v)) (rev m)"

text \<open>Of equal scalars the first stays; the last element of the slice takes the place of another.\<close>

function dedup_scan :: "json \<Rightarrow> json list \<Rightarrow> json list" where
  "dedup_scan x [] = []"
| "dedup_scan x (y # ys) =
     (if x = y then (if ys = [] then [] else dedup_scan x (last ys # butlast ys)) else y # dedup_scan x ys)"
  by pat_completeness auto
termination by (relation "measure (length \<circ> snd)") auto

lemma length_dedup_scan: "length (dedup_scan x ys) \<le> length ys"
proof (induction x ys rule: dedup_scan.induct)
  case (2 x y ys)
  show ?case
  proof (cases "x = y \<and> ys \<noteq> []")
    case True
    with 2(1) have "length (dedup_scan x (last ys # butlast ys)) \<le> length (last ys # butlast ys)" by blast
    with True show ?thesis by simp
  qed (use 2(2) in auto)
qed simp

function deduplicateScalars :: "json list \<Rightarrow> json list" where
  "deduplicateScalars [] = []"
| "deduplicateScalars (x # xs) = x # deduplicateScalars (dedup_scan x xs)"
  by pat_completeness auto
termination by (relation "measure length") (auto simp: length_dedup_scan less_Suc_eq_le)

section \<open>Lists in an order\<close>

fun validateMergeKeyInLists :: "string \<Rightarrow> json list \<Rightarrow> unit result" where
  "validateMergeKeyInLists mergeKey [] = Ok ()"
| "validateMergeKeyInLists mergeKey (item # list) =
     bind_result (as_map item)
       (\<lambda>m. if has_key mergeKey m then validateMergeKeyInLists mergeKey list else Err (ErrNoMergeKey mergeKey))"

text \<open>\<open>index\<close>; an item is known by its merge key if the items are maps.\<close>

definition item_value :: "bool \<Rightarrow> string \<Rightarrow> json \<Rightarrow> json" where
  "item_value maps mergeKey item = (if maps then field_of mergeKey item else item)"

fun index_of :: "bool \<Rightarrow> string \<Rightarrow> json list \<Rightarrow> json \<Rightarrow> nat option result" where
  "index_of maps mergeKey [] valToLookUp = Ok None"
| "index_of maps mergeKey (v # l) valToLookUp =
     bind_result (iface_eq (item_value maps mergeKey valToLookUp) (item_value maps mergeKey v))
       (\<lambda>b. if b then Ok (Some 0)
            else bind_result (index_of maps mergeKey l valToLookUp) (\<lambda>i. Ok (map_option Suc i)))"

fun extractToDeleteItems :: "json list \<Rightarrow> (json list \<times> json list) result" where
  "extractToDeleteItems [] = Ok ([], [])"
| "extractToDeleteItems (v # l) =
     bind_result (as_map v) (\<lambda>m.
       bind_result (extractToDeleteItems l) (\<lambda>(nonDelete, toDelete).
         Ok (if map_of m directiveMarker = Some (JStr deleteDirective) then (nonDelete, v # toDelete)
             else (v # nonDelete, toDelete))))"

definition less_in :: "bool \<Rightarrow> string \<Rightarrow> json list \<Rightarrow> json \<Rightarrow> json \<Rightarrow> bool result" where
  "less_in maps mergeKey order x y =
     bind_result (index_of maps mergeKey order x) (\<lambda>ii.
       case ii of
         None \<Rightarrow> Ok True
       | Some i \<Rightarrow>
           bind_result (index_of maps mergeKey order y)
             (\<lambda>ij. Ok (case ij of None \<Rightarrow> True | Some j \<Rightarrow> i < j)))"

definition normalizeSliceOrder :: "json list \<Rightarrow> json list \<Rightarrow> string \<Rightarrow> bool \<Rightarrow> json list result" where
  "normalizeSliceOrder toSort order mergeKey maps =
     bind_result
       (if maps then bind_result (validateMergeKeyInLists mergeKey (toSort @ order)) (\<lambda>_. extractToDeleteItems toSort)
        else Ok (toSort, []))
       (\<lambda>(toSort, toDelete).
          bind_result (SliceStable (less_in maps mergeKey order) toSort) (\<lambda>sorted. Ok (sorted @ toDelete)))"

text \<open>An item of \<open>left\<close> goes before one of \<open>right\<close> when the server has both, in this order.\<close>

fun mergeSortedSlice :: "json list \<Rightarrow> json list \<Rightarrow> json list \<Rightarrow> string \<Rightarrow> bool \<Rightarrow> json list result" where
  "mergeSortedSlice [] right serverOrder mergeKey maps = Ok right"
| "mergeSortedSlice left [] serverOrder mergeKey maps = Ok left"
| "mergeSortedSlice (l # left) (r # right) serverOrder mergeKey maps =
     bind_result (index_of maps mergeKey serverOrder l) (\<lambda>li.
       bind_result (index_of maps mergeKey serverOrder r) (\<lambda>ri.
         if (case (li, ri) of (Some i, Some j) \<Rightarrow> i < j | _ \<Rightarrow> False)
         then bind_result (mergeSortedSlice left (r # right) serverOrder mergeKey maps) (\<lambda>s. Ok (l # s))
         else bind_result (mergeSortedSlice (l # left) right serverOrder mergeKey maps) (\<lambda>s. Ok (r # s))))"

definition normalizeElementOrder ::
    "json list \<Rightarrow> json list \<Rightarrow> json list \<Rightarrow> json list \<Rightarrow> string \<Rightarrow> bool \<Rightarrow> json list result" where
  "normalizeElementOrder patch serverOnly patchOrder serverOrder mergeKey maps =
     bind_result (normalizeSliceOrder patch patchOrder mergeKey maps) (\<lambda>patch.
       bind_result (normalizeSliceOrder serverOnly serverOrder mergeKey maps) (\<lambda>serverOnly.
         mergeSortedSlice serverOnly patch serverOrder mergeKey maps))"

definition mergeKeyValueEqual :: "json \<Rightarrow> json \<Rightarrow> string \<Rightarrow> bool result" where
  "mergeKeyValueEqual left right mergeKey =
     (if length mergeKey = 0 then iface_eq left right
      else bind_result (as_map left) (\<lambda>typedLeft. bind_result (as_map right) (\<lambda>typedRight.
             case (map_of typedLeft mergeKey, map_of typedRight mergeKey) of
               (Some mergeKeyLeft, Some mergeKeyRight) \<Rightarrow> iface_eq mergeKeyLeft mergeKeyRight
             | _ \<Rightarrow> Err (ErrNoMergeKey mergeKey))))"

text \<open>The lists of \<open>isOrderSame\<close> have the same length when the loop starts.\<close>

fun same_keys :: "string \<Rightarrow> json list \<Rightarrow> json list \<Rightarrow> bool result" where
  "same_keys mergeKey (o' # original) (m # modified) =
     bind_result (mergeKeyValueEqual o' m mergeKey)
       (\<lambda>equal. if equal then same_keys mergeKey original modified else Ok False)"
| "same_keys mergeKey _ _ = Ok True"

definition isOrderSame :: "json list \<Rightarrow> json list \<Rightarrow> string \<Rightarrow> bool result" where
  "isOrderSame original modified mergeKey =
     (if length original \<noteq> length modified then Ok False else same_keys mergeKey original modified)"

text \<open>The first map of the slice with the value at the key, and its place.\<close>

fun findMapInSliceBasedOnKeyValue :: "json list \<Rightarrow> string \<Rightarrow> json \<Rightarrow> (obj \<times> nat) option result" where
  "findMapInSliceBasedOnKeyValue [] key v = Ok None"
| "findMapInSliceBasedOnKeyValue (x # m) key v =
     (case x of
        JObj typedV \<Rightarrow>
          bind_result (case map_of typedV key of None \<Rightarrow> Ok False | Some valueToMatch \<Rightarrow> iface_eq valueToMatch v)
            (\<lambda>b. if b then Ok (Some (typedV, 0))
                 else bind_result (findMapInSliceBasedOnKeyValue m key v)
                        (\<lambda>found. Ok (map_option (\<lambda>(t, i). (t, Suc i)) found)))
      | _ \<Rightarrow> Err (Errorf ''value for key is not a map''))"

end
