(* ===== verification/Strategic_Diff.thy ===== *)
theory Strategic_Diff
  imports Strategic_Patch
begin

text \<open>
  The difference of two documents as a strategic merge patch (\<open>diffMaps\<close> and below in
  \<open>strategicpatch/patch.go\<close>). The functions that call \<open>diffMaps\<close> back for a part of the documents take
  what the call gives as an argument.
\<close>

section \<open>The size of a document\<close>

fun json_size :: "json \<Rightarrow> nat" and obj_size :: "obj \<Rightarrow> nat" and list_size :: "json list \<Rightarrow> nat" where
  "json_size (JObj m) = Suc (obj_size m)"
| "json_size (JArr xs) = Suc (list_size xs)"
| "json_size v = 1"
| "obj_size [] = 0"
| "obj_size ((k, v) # m) = Suc (json_size v + obj_size m)"
| "list_size [] = 0"
| "list_size (v # xs) = Suc (json_size v + list_size xs)"

lemma list_size_sum: "list_size xs = sum_list (map (Suc \<circ> json_size) xs)"
  by (induction xs) auto

lemma list_size_sort [simp]: "list_size (sortMapsBasedOnField L k xs) = list_size xs"
proof -
  have "mset (sortMapsBasedOnField L k xs) = mset xs" by (simp add: sortMapsBasedOnField_def)
  then have "mset (map (Suc \<circ> json_size) (sortMapsBasedOnField L k xs)) = mset (map (Suc \<circ> json_size) xs)"
    by (simp only: mset_map)
  then show ?thesis unfolding list_size_sum by (metis sum_mset_sum_list)
qed

lemma map_of_size: "map_of m k = Some v \<Longrightarrow> json_size v < obj_size m"
  by (induction m) (auto split: if_splits)

lemma obj_size_delete: "obj_size (AList.delete k m) \<le> obj_size m"
  by (induction m) auto

section \<open>Strategies\<close>

definition extractRetainKeysPatchStrategy :: "string list \<Rightarrow> (bool \<times> string) result" where
  "extractRetainKeysPatchStrategy strategies =
     (case strategies of
        [] \<Rightarrow> Ok (False, [])
      | [singleStrategy] \<Rightarrow>
          if singleStrategy = retainKeysStrategy then Ok (True, []) else Ok (False, singleStrategy)
      | [a, b] \<Rightarrow>
          if a = retainKeysStrategy then Ok (True, b)
          else if b = retainKeysStrategy then Ok (True, a)
          else Err (Errorf ''unexpected patch strategy'')
      | _ \<Rightarrow> Err (Errorf ''unexpected patch strategy''))"

section \<open>One field\<close>

definition handleDirectiveMarker :: "json \<Rightarrow> json \<Rightarrow> obj \<Rightarrow> obj result" where
  "handleDirectiveMarker originalValue modifiedValue patch =
     (case (originalValue, modifiedValue) of
        (JStr originalString, JStr modifiedString) \<Rightarrow>
          Ok (if modifiedString \<noteq> originalString then AList.update directiveMarker modifiedValue patch else patch)
      | _ \<Rightarrow> Err (Errorf (''invalid value for special key: '' @ directiveMarker)))"

definition replacePatchFieldIfNotEqual :: "string \<Rightarrow> json \<Rightarrow> json \<Rightarrow> obj \<Rightarrow> DiffOptions \<Rightarrow> obj" where
  "replacePatchFieldIfNotEqual key original modified patch diffOptions =
     (if IgnoreChangesAndAdditions diffOptions then patch
      else if DeepEqual original modified then patch
      else AList.update key modified patch)"

definition handleMapDiff ::
    "'s schemas \<Rightarrow> string \<Rightarrow> obj \<Rightarrow> obj \<Rightarrow> obj \<Rightarrow> 's \<Rightarrow> DiffOptions \<Rightarrow> ('s \<Rightarrow> DiffOptions \<Rightarrow> obj result) \<Rightarrow> obj result" where
  "handleMapDiff L key originalValue modifiedValue patch schema diffOptions map_diff =
     (case LookupPatchMetadataForStruct L schema key of
        Ok (subschema, patchMeta) \<Rightarrow>
          bind_result (extractRetainKeysPatchStrategy (patchStrategies patchMeta)) (\<lambda>(retainKeys, patchStrategy).
            if patchStrategy = replaceDirective
            then Ok (if IgnoreChangesAndAdditions diffOptions then patch else AList.update key (JObj modifiedValue) patch)
            else bind_result (map_diff subschema (diffOptions\<lparr>BuildRetainKeysDirective := retainKeys\<rparr>)) (\<lambda>patchValue.
                   Ok (if length patchValue > 0 then AList.update key (JObj patchValue) patch else patch)))
      | Err e \<Rightarrow> if DeepEqual (JObj originalValue) (JObj modifiedValue) then Ok patch else Err e
      | Panic p \<Rightarrow> Panic p)"

definition updatePatchIfMissing :: "obj \<Rightarrow> obj \<Rightarrow> obj \<Rightarrow> DiffOptions \<Rightarrow> obj" where
  "updatePatchIfMissing original modified patch diffOptions =
     (if IgnoreDeletions diffOptions then patch
      else fold (\<lambda>(key, _). AList.update key JNull) (filter (\<lambda>(key, _). \<not> has_key key modified) original) patch)"

definition hasAdditionalNewField :: "obj \<Rightarrow> obj \<Rightarrow> bool" where
  "hasAdditionalNewField original modified \<longleftrightarrow> (\<exists>(k, v) \<in> set original. v \<noteq> JNull \<and> \<not> has_key k modified)"

section \<open>Lists\<close>

text \<open>Two sorted lists of scalars: what was added and what was deleted.\<close>

fun scalar_diff :: "'s schemas \<Rightarrow> DiffOptions \<Rightarrow> json list \<Rightarrow> json list \<Rightarrow> json list \<times> json list" where
  "scalar_diff L opts [] [] = ([], [])"
| "scalar_diff L opts [] (m # ms) =
     (case scalar_diff L opts [] ms of (add, del) \<Rightarrow> (if IgnoreChangesAndAdditions opts then add else m # add, del))"
| "scalar_diff L opts (o' # os) [] =
     (case scalar_diff L opts os [] of (add, del) \<Rightarrow> (add, if IgnoreDeletions opts then del else o' # del))"
| "scalar_diff L opts (o' # os) (m # ms) =
     (if Sprintf_v L o' = Sprintf_v L m then scalar_diff L opts os ms
      else if Sprintf_v L o' > Sprintf_v L m then
        (case scalar_diff L opts (o' # os) ms of (add, del) \<Rightarrow> (if IgnoreChangesAndAdditions opts then add else m # add, del))
      else (case scalar_diff L opts os (m # ms) of (add, del) \<Rightarrow> (add, if IgnoreDeletions opts then del else o' # del)))"

text \<open>The third result is \<open>original\<close>, which the function leaves sorted.\<close>

definition diffListsOfScalars ::
    "'s schemas \<Rightarrow> json list \<Rightarrow> json list \<Rightarrow> DiffOptions \<Rightarrow> json list \<times> json list \<times> json list" where
  "diffListsOfScalars L original modified diffOptions =
     (case scalar_diff L diffOptions (sortScalars L original) (sortScalars L modified) of
        (addList, deletionList) \<Rightarrow> (addList, deduplicateScalars deletionList, sortScalars L original))"

definition getMapAndMergeKeyValue :: "string \<Rightarrow> json \<Rightarrow> (obj \<times> json) result" where
  "getMapAndMergeKeyValue mergeKey item =
     bind_result (as_map item) (\<lambda>m. case map_of m mergeKey of None \<Rightarrow> Err (ErrNoMergeKey mergeKey) | Some v \<Rightarrow> Ok (m, v))"

definition CreateDeleteDirective :: "string \<Rightarrow> json \<Rightarrow> json" where
  "CreateDeleteDirective mergeKey mergeKeyValue =
     JObj (AList.update directiveMarker (JStr deleteDirective) [(mergeKey, mergeKeyValue)])"

text \<open>
  \<open>diffLists\<close>; the differences of two lists of maps are an argument. A scalar list is compared with what
  \<open>diffListsOfScalars\<close> has left of \<open>original\<close>.
\<close>

definition diffLists ::
    "'s schemas \<Rightarrow> json list \<Rightarrow> json list \<Rightarrow> string \<Rightarrow> DiffOptions \<Rightarrow> (json list \<times> json list) result \<Rightarrow>
     (json list \<times> json list \<times> json list) result" where
  "diffLists L original modified mergeKey diffOptions maps_diff =
     (if length original = 0 then
        (if length modified = 0 \<or> IgnoreChangesAndAdditions diffOptions then Ok ([], [], []) else Ok (modified, [], []))
      else bind_result (sliceElementType [original, modified]) (\<lambda>elementType.
        if elementType = map_kind then
          bind_result maps_diff (\<lambda>(patchList, deleteList).
          bind_result (normalizeSliceOrder patchList modified mergeKey True) (\<lambda>patchList.
          bind_result (isOrderSame original modified mergeKey) (\<lambda>orderSame.
            let patchList = patchList @ deleteList
            in Ok (patchList, [],
                   if SetElementOrder diffOptions \<and>
                      (\<not> IgnoreChangesAndAdditions diffOptions \<and> (length patchList > 0 \<or> \<not> orderSame) \<or>
                       \<not> IgnoreDeletions diffOptions \<and> length patchList > 0)
                   then map (\<lambda>v. JObj [(mergeKey, field_of mergeKey v)]) modified else []))))
        else
          (case diffListsOfScalars L original modified diffOptions of (patchList, deleteList, original') \<Rightarrow>
             bind_result (normalizeSliceOrder patchList modified mergeKey False) (\<lambda>patchList.
               Ok (patchList, deleteList,
                   if SetElementOrder diffOptions \<and>
                      (\<not> IgnoreDeletions diffOptions \<and> length deleteList > 0 \<or>
                       \<not> IgnoreChangesAndAdditions diffOptions \<and> \<not> DeepEqual (JArr original') (JArr modified))
                   then modified else [])))))"

definition parallel_key :: "string \<Rightarrow> string \<Rightarrow> string" where
  "parallel_key prefix key = prefix @ ''/'' @ key"

definition put_list :: "string \<Rightarrow> json list \<Rightarrow> obj \<Rightarrow> obj" where
  "put_list key l patch = (if length l > 0 then AList.update key (JArr l) patch else patch)"

definition handleSliceDiff ::
    "'s schemas \<Rightarrow> string \<Rightarrow> json list \<Rightarrow> json list \<Rightarrow> obj \<Rightarrow> 's \<Rightarrow> DiffOptions \<Rightarrow>
     ('s \<Rightarrow> DiffOptions \<Rightarrow> string \<Rightarrow> (json list \<times> json list) result) \<Rightarrow> obj result" where
  "handleSliceDiff L key originalValue modifiedValue patch schema diffOptions maps_diff =
     (case LookupPatchMetadataForSlice L schema key of
        Ok (subschema, patchMeta) \<Rightarrow>
          bind_result (extractRetainKeysPatchStrategy (patchStrategies patchMeta)) (\<lambda>(retainKeys, patchStrategy).
            if patchStrategy = mergeDirective then
              (let mergeKey = patchMergeKey patchMeta;
                   diffOptions' = diffOptions\<lparr>BuildRetainKeysDirective := retainKeys\<rparr>
               in bind_result
                    (diffLists L originalValue modifiedValue mergeKey diffOptions' (maps_diff subschema diffOptions' mergeKey))
                    (\<lambda>(addList, deletionList, setOrderList).
                       Ok (put_list (parallel_key setElementOrderDirectivePrefix key) setOrderList
                             (put_list (parallel_key deleteFromPrimitiveListDirectivePrefix key) deletionList
                               (put_list key addList patch)))))
            else Ok (replacePatchFieldIfNotEqual key (JArr originalValue) (JArr modifiedValue) patch diffOptions))
      | Err e \<Rightarrow> if DeepEqual (JArr originalValue) (JArr modifiedValue) then Ok patch else Err e
      | Panic p \<Rightarrow> Panic p)"

section \<open>Documents\<close>

text \<open>
  The keys for the directive are those of \<open>modified\<close> with a value. \<open>diff_fields\<close> is the loop over
  \<open>modified\<close>, \<open>diff_sorted\<close> the loop of \<open>diffListsOfMaps\<close> over the two sorted lists.
\<close>

definition retained :: "DiffOptions \<Rightarrow> obj \<Rightarrow> json list" where
  "retained diffOptions modified =
     (if BuildRetainKeysDirective diffOptions then map (\<lambda>(key, _). JStr key) (filter (\<lambda>(_, v). v \<noteq> JNull) modified) else [])"

definition with_retainKeys :: "'s schemas \<Rightarrow> json list \<Rightarrow> obj \<Rightarrow> obj \<Rightarrow> obj \<Rightarrow> obj" where
  "with_retainKeys L retainKeysList original modified patch =
     (if length retainKeysList > 0 \<and> (length patch > 0 \<or> hasAdditionalNewField original modified)
      then AList.update retainKeysDirective (JArr (sortScalars L retainKeysList)) patch else patch)"

lemma getMap_JObj: "getMapAndMergeKeyValue k v = Ok (m, x) \<Longrightarrow> v = JObj m \<and> map_of m k = Some x"
  by (cases v) (auto simp: getMapAndMergeKeyValue_def split: option.splits)

function (sequential) diffMaps :: "'s schemas \<Rightarrow> DiffOptions \<Rightarrow> 's \<Rightarrow> obj \<Rightarrow> obj \<Rightarrow> obj result"
and diff_fields :: "'s schemas \<Rightarrow> DiffOptions \<Rightarrow> 's \<Rightarrow> obj \<Rightarrow> obj \<Rightarrow> obj \<Rightarrow> obj result"
and diff_sorted :: "'s schemas \<Rightarrow> DiffOptions \<Rightarrow> 's \<Rightarrow> string \<Rightarrow> json list \<Rightarrow> json list \<Rightarrow> (json list \<times> json list) result"
where
  "diffMaps L opts schema original modified =
     bind_result (diff_fields L opts schema original modified [])
       (\<lambda>patch. Ok (with_retainKeys L (retained opts modified) original modified
                      (updatePatchIfMissing original modified patch opts)))"
| "diff_fields L opts schema original [] patch = Ok patch"
| "diff_fields L opts schema original ((key, modifiedValue) # modified) patch =
     bind_result
       (case map_of original key of
          None \<Rightarrow> Ok (if IgnoreChangesAndAdditions opts then patch else AList.update key modifiedValue patch)
        | Some originalValue \<Rightarrow>
            if key = directiveMarker then handleDirectiveMarker originalValue modifiedValue patch
            else if go_type originalValue \<noteq> go_type modifiedValue
            then Ok (if IgnoreChangesAndAdditions opts then patch else AList.update key modifiedValue patch)
            else (case (originalValue, modifiedValue) of
                    (JObj om, JObj mm) \<Rightarrow>
                      handleMapDiff L key om mm patch schema opts (\<lambda>subschema opts'. diffMaps L opts' subschema om mm)
                  | (JArr ol, JArr ml) \<Rightarrow>
                      handleSliceDiff L key ol ml patch schema opts
                        (\<lambda>subschema opts' mergeKey.
                           diff_sorted L opts' subschema mergeKey
                             (sortMapsBasedOnField L mergeKey ol) (sortMapsBasedOnField L mergeKey ml))
                  | _ \<Rightarrow> Ok (replacePatchFieldIfNotEqual key originalValue modifiedValue patch opts)))
       (\<lambda>patch'. diff_fields L opts schema original modified patch')"
| "diff_sorted L opts schema mergeKey [] [] = Ok ([], [])"
| "diff_sorted L opts schema mergeKey [] (m # ms) =
     bind_result (getMapAndMergeKeyValue mergeKey m) (\<lambda>_.
       bind_result (diff_sorted L opts schema mergeKey [] ms) (\<lambda>(patch, deletionList).
         Ok (if IgnoreChangesAndAdditions opts then patch else m # patch, deletionList)))"
| "diff_sorted L opts schema mergeKey (o' # os) [] =
     bind_result (getMapAndMergeKeyValue mergeKey o') (\<lambda>(_, originalKey).
       bind_result (diff_sorted L opts schema mergeKey os []) (\<lambda>(patch, deletionList).
         Ok (patch, if IgnoreDeletions opts then deletionList else CreateDeleteDirective mergeKey originalKey # deletionList)))"
| "diff_sorted L opts schema mergeKey (o' # os) (m # ms) =
     bind_result (getMapAndMergeKeyValue mergeKey o') (\<lambda>(om, originalKey).
       bind_result (getMapAndMergeKeyValue mergeKey m) (\<lambda>(mm, modifiedKey).
         if Sprintf_v L originalKey = Sprintf_v L modifiedKey then
           bind_result (diffMaps L opts schema om mm) (\<lambda>patchValue.
             bind_result (diff_sorted L opts schema mergeKey os ms) (\<lambda>(patch, deletionList).
               Ok (if length patchValue > 0 then JObj (AList.update mergeKey modifiedKey patchValue) # patch else patch, deletionList)))
         else if Sprintf_v L originalKey > Sprintf_v L modifiedKey then
           bind_result (diff_sorted L opts schema mergeKey (o' # os) ms) (\<lambda>(patch, deletionList).
             Ok (if IgnoreChangesAndAdditions opts then patch else m # patch, deletionList))
         else
           bind_result (diff_sorted L opts schema mergeKey os (m # ms)) (\<lambda>(patch, deletionList).
             Ok (patch, if IgnoreDeletions opts then deletionList else CreateDeleteDirective mergeKey originalKey # deletionList))))"
  by pat_completeness auto

termination
  by (relation "measure (\<lambda>x. case x of
        Inl (L, opts, schema, original, modified) \<Rightarrow> 2 * (obj_size original + obj_size modified) + 1
      | Inr (Inl (L, opts, schema, original, modified, patch)) \<Rightarrow> 2 * (obj_size original + obj_size modified)
      | Inr (Inr (L, opts, schema, mergeKey, original, modified)) \<Rightarrow> 2 * (list_size original + list_size modified))")
    (auto dest!: getMap_JObj map_of_size)

end
