(* ===== verification/Strategic_Merge.thy ===== *)
theory Strategic_Merge
  imports Strategic_Diff
begin

text \<open>
  Merging a strategic patch into a document (\<open>mergeMap\<close> and below in \<open>strategicpatch/patch.go\<close>), and the
  two entry points: \<open>CreateThreeWayMergePatch\<close> and \<open>StrategicMergePatchUsingLookupPatchMeta\<close>. The functions
  that call \<open>mergeMap\<close> back for a part of the patch take what the call gives as an argument.
\<close>

section \<open>Directives\<close>

definition handleDirectiveInMergeMap :: "json \<Rightarrow> obj \<Rightarrow> obj result" where
  "handleDirectiveInMergeMap directive patch =
     (if directive = JStr replaceDirective then Ok (AList.delete directiveMarker patch)
      else if directive = JStr deleteDirective then Ok []
      else Err ErrBadPatchType)"

fun containsDirectiveMarker :: "json \<Rightarrow> bool" where
  "containsDirectiveMarker (JObj m) = has_key directiveMarker m"
| "containsDirectiveMarker v = False"

text \<open>\<open>strings.SplitN(s, "/", 2)\<close>.\<close>

definition extractKey :: "string \<Rightarrow> string \<Rightarrow> string result" where
  "extractKey s prefix =
     (let (front, rest) = (takeWhile (\<lambda>c. c \<noteq> CHR ''/'') s, dropWhile (\<lambda>c. c \<noteq> CHR ''/'') s)
      in if rest = [] \<or> front \<noteq> prefix
         then Err (if prefix = deleteFromPrimitiveListDirectivePrefix then ErrBadPatchFormatForPrimitiveList
                   else if prefix = setElementOrderDirectivePrefix then ErrBadPatchFormatForSetElementOrderList
                   else Errorf (''fail to find unknown prefix ''))
         else Ok (tl rest))"

text \<open>The loop ends with an error when an item of the patch list is left.\<close>

fun items_in_order :: "string \<Rightarrow> json list \<Rightarrow> json list \<Rightarrow> unit result" where
  "items_in_order mergeKey [] setOrderList = Ok ()"
| "items_in_order mergeKey (p # patchList) [] = Err (Errorf (''The order in patch list doesn't match ''))"
| "items_in_order mergeKey (p # patchList) (s # setOrderList) =
     (if containsDirectiveMarker p then items_in_order mergeKey patchList (s # setOrderList)
      else bind_result (mergeKeyValueEqual p s mergeKey) (\<lambda>mergeKeyEqual.
             items_in_order mergeKey (if mergeKeyEqual then patchList else p # patchList) setOrderList))"

definition validatePatchWithSetOrderList :: "json list \<Rightarrow> json list \<Rightarrow> string \<Rightarrow> unit result" where
  "validatePatchWithSetOrderList patchList setOrderList mergeKey =
     (if length setOrderList = 0 \<or> length patchList = 0 then Ok ()
      else bind_result (if length mergeKey > 0 then extractToDeleteItems patchList else Ok (patchList, []))
             (\<lambda>(nonDeleteList, _). items_in_order mergeKey nonDeleteList setOrderList))"

text \<open>A map keyed by interfaces cannot have a map or a slice for a key.\<close>

fun hashable :: "json \<Rightarrow> bool" where
  "hashable (JArr xs) = False"
| "hashable (JObj m) = False"
| "hashable v = True"

definition unhashable :: "'a result" where
  "unhashable = Panic ''runtime error: hash of unhashable type''"

definition excused :: "string \<Rightarrow> json \<Rightarrow> bool" where
  "excused k v \<longleftrightarrow> v = JNull \<or> has_prefix k deleteFromPrimitiveListDirectivePrefix \<or> has_prefix k setElementOrderDirectivePrefix"

text \<open>The directive is taken out of \<open>patch\<close>, the second result; \<open>original\<close> is the first.\<close>

definition applyRetainKeysDirective :: "obj \<Rightarrow> obj \<Rightarrow> MergeOptions \<Rightarrow> obj result" where
  "applyRetainKeysDirective original patch options =
     (case map_of patch retainKeysDirective of
        None \<Rightarrow> Ok original
      | Some retainKeysInPatch \<Rightarrow>
          if \<not> MergeParallelList options then
            (case map_of original retainKeysDirective of
               Some retainKeysInOriginal \<Rightarrow>
                 if \<not> DeepEqual retainKeysInOriginal retainKeysInPatch then Err (Errorf ''retainKeys are not deep equal'')
                 else Ok original
             | None \<Rightarrow> Ok (AList.update retainKeysDirective retainKeysInPatch original))
          else (case retainKeysInPatch of
                  JArr retainKeysList \<Rightarrow>
                    if \<not> list_all hashable retainKeysList then unhashable
                    else if \<exists>(k, v) \<in> set (AList.delete retainKeysDirective patch). \<not> excused k v \<and> JStr k \<notin> set retainKeysList
                    then Err ErrBadPatchFormatForRetainKeys
                    else Ok (filter (\<lambda>(k, _). JStr k \<in> set retainKeysList) original)
                | _ \<Rightarrow> Err ErrBadPatchFormatForRetainKeys))"

section \<open>Lists\<close>

definition partitionPrimitivesByPresentInList :: "json list \<Rightarrow> json list \<Rightarrow> (json list \<times> json list) result" where
  "partitionPrimitivesByPresentInList original partitionBy =
     (if list_all hashable original \<and> list_all hashable partitionBy
      then Ok (partition (\<lambda>v. v \<in> set partitionBy) original) else unhashable)"

fun partitionMapsByPresentInList :: "json list \<Rightarrow> json list \<Rightarrow> string \<Rightarrow> (json list \<times> json list) result" where
  "partitionMapsByPresentInList [] partitionBy mergeKey = Ok ([], [])"
| "partitionMapsByPresentInList (v # original) partitionBy mergeKey =
     bind_result (getMapAndMergeKeyValue mergeKey v) (\<lambda>(_, mergeKeyValue).
       bind_result (findMapInSliceBasedOnKeyValue partitionBy mergeKey mergeKeyValue) (\<lambda>found.
         bind_result (partitionMapsByPresentInList original partitionBy mergeKey) (\<lambda>(patch, serverOnly).
           Ok (if found = None then (patch, v # serverOnly) else (v # patch, serverOnly)))))"

definition partition_by :: "json list \<Rightarrow> json list \<Rightarrow> string \<Rightarrow> (json list \<times> json list) result" where
  "partition_by mergedList order mergeKey =
     (if length mergeKey = 0 then partitionPrimitivesByPresentInList mergedList order
      else partitionMapsByPresentInList mergedList order mergeKey)"

definition deleteFromSlice :: "json list \<Rightarrow> json list \<Rightarrow> json list" where
  "deleteFromSlice current toDelete = filter (\<lambda>v. v \<notin> set toDelete) current"

text \<open>
  Deleting shifts the elements in the array of the slice. The second component is the array, as long as
  the slice was at first.
\<close>

lemma findMap_bound: "findMapInSliceBasedOnKeyValue m key v = Ok (Some (t, i)) \<Longrightarrow> i < length m \<and> m ! i = JObj t"
proof (induction m arbitrary: i)
  case (Cons x m)
  then show ?case by (cases x) (auto split: if_splits option.splits)
qed simp

function deleteMatchingEntries :: "json list \<Rightarrow> json list \<Rightarrow> string \<Rightarrow> json \<Rightarrow> (json list \<times> json list) result" where
  "deleteMatchingEntries original array mergeKey mergeValue =
     bind_result (findMapInSliceBasedOnKeyValue original mergeKey mergeValue) (\<lambda>found.
       case found of
         None \<Rightarrow> Ok (original, array)
       | Some (_, originalKey) \<Rightarrow>
           (let shifted = take originalKey original @ drop (Suc originalKey) original
            in deleteMatchingEntries shifted (shifted @ drop (length original - 1) array) mergeKey mergeValue))"
  by pat_completeness auto
termination by (relation "measure (length \<circ> fst)") (auto dest: findMap_bound)

declare deleteMatchingEntries.simps [simp del]

definition special :: "json \<Rightarrow> bool" where
  "special v \<longleftrightarrow> containsDirectiveMarker v"

definition ordinary :: "json list \<Rightarrow> json list" where
  "ordinary patch = filter (\<lambda>v. \<not> special v) patch"

text \<open>The loop over the special elements: what is left of \<open>original\<close> and its array, and whether to replace.\<close>

fun special_elements :: "string \<Rightarrow> json list \<Rightarrow> json list \<times> json list \<times> bool \<Rightarrow> (json list \<times> json list \<times> bool) result" where
  "special_elements mergeKey [] state = Ok state"
| "special_elements mergeKey (v # patch) (original, array, replace) =
     bind_result (as_map v) (\<lambda>typedV.
       case map_of typedV directiveMarker of
         None \<Rightarrow> special_elements mergeKey patch (original, array, replace)
       | Some patchType \<Rightarrow>
           if patchType = JStr deleteDirective then
             (case map_of typedV mergeKey of
                None \<Rightarrow> Err (ErrNoMergeKey mergeKey)
              | Some mergeValue \<Rightarrow>
                  bind_result (deleteMatchingEntries original array mergeKey mergeValue)
                    (\<lambda>(original', array'). special_elements mergeKey patch (original', array', replace)))
           else if patchType = JStr replaceDirective then special_elements mergeKey patch (original, array, True)
           else if patchType = JStr mergeDirective then Err (Errorf ''merging lists cannot yet be specified in the patch'')
           else Err ErrBadPatchType)"

text \<open>
  \<open>mergeSlice\<close> returns the merged list and what the array of \<open>original\<close> then holds. The maps merged and
  appended are in that array as long as they fit.
\<close>

definition mergeSlice ::
    "'s schemas \<Rightarrow> json list \<Rightarrow> json list \<Rightarrow> 's \<Rightarrow> string \<Rightarrow> MergeOptions \<Rightarrow> bool \<Rightarrow> (json list \<Rightarrow> json list result) \<Rightarrow>
     (json list \<times> json list) result" where
  "mergeSlice L original patch schema mergeKey mergeOptions isDeleteList merge_ordinary =
     (if length original = 0 \<and> length patch = 0 then Ok (original, original)
      else bind_result (sliceElementType [original, patch]) (\<lambda>t.
        if t \<noteq> map_kind then
          if MergeParallelList mergeOptions \<and> isDeleteList then Ok (deleteFromSlice original patch, original)
          else let mergedList = deduplicateScalars (original @ patch)
               in bind_result (partition_by mergedList patch mergeKey) (\<lambda>(patchItems, serverOnlyItems).
                  bind_result (normalizeElementOrder patchItems serverOnlyItems patch original mergeKey False)
                    (\<lambda>all. Ok (all, original)))
        else if mergeKey = [] then Err (Errorf (''cannot merge lists without merge key for '' @ schema_Name L schema))
        else
          bind_result (special_elements mergeKey patch (original, original, False)) (\<lambda>(original', array, replace).
          bind_result (if replace then Ok (ordinary patch) else merge_ordinary original') (\<lambda>mergedList.
            let patch' = if replace then [] else ordinary patch;
                order = if replace then mergedList else take (length original') mergedList
            in bind_result (partition_by mergedList patch' mergeKey) (\<lambda>(patchItems, serverOnlyItems).
               bind_result (normalizeElementOrder patchItems serverOnlyItems patch' order mergeKey True)
                 (\<lambda>all. Ok (all, if replace then array
                                 else take (length original) (mergedList @ drop (length mergedList) array))))))))"

definition mergeSliceHandler ::
    "'s schemas \<Rightarrow> json list \<Rightarrow> json list \<Rightarrow> 's \<Rightarrow> string \<Rightarrow> string \<Rightarrow> bool \<Rightarrow> MergeOptions \<Rightarrow> (json list \<Rightarrow> json list result) \<Rightarrow>
     (json list \<times> json list) result" where
  "mergeSliceHandler L original patch schema fieldPatchStrategy fieldPatchMergeKey isDeleteList mergeOptions merge_ordinary =
     (if fieldPatchStrategy = mergeDirective
      then mergeSlice L original patch schema fieldPatchMergeKey mergeOptions isDeleteList merge_ordinary
      else Ok (patch, original))"

section \<open>The order of lists\<close>

definition patch_list :: "obj \<Rightarrow> string \<Rightarrow> json list" where
  "patch_list patch k = (case map_of patch k of Some (JArr l) \<Rightarrow> l | _ \<Rightarrow> [])"

text \<open>The key of a directive without its prefix; the code has checked the prefix where this is used.\<close>

definition order_key :: "string \<Rightarrow> string" where
  "order_key key = (case extractKey key setElementOrderDirectivePrefix of Ok k \<Rightarrow> k | _ \<Rightarrow> [])"

text \<open>
  One round of the loop of \<open>mergePatchIntoOriginal\<close> for the directive \<open>key\<close>. What the code deletes from
  \<open>patch\<close> is collected in \<open>gone\<close>.
\<close>

fun slice_or_nil :: "json option \<Rightarrow> json list result" where
  "slice_or_nil None = Ok []"
| "slice_or_nil (Some v) = as_slice v"

definition keep_directive :: "string \<Rightarrow> json \<Rightarrow> obj \<Rightarrow> MergeOptions \<Rightarrow> obj result" where
  "keep_directive key setElementOrderInPatch original mergeOptions =
     (if MergeParallelList mergeOptions then Ok original
      else case map_of original key of
             Some setElementOrderListInOriginal \<Rightarrow>
               if \<not> DeepEqual setElementOrderListInOriginal setElementOrderInPatch
               then Err ErrBadPatchFormatForSetElementOrderList else Ok original
           | None \<Rightarrow> Ok (AList.update key setElementOrderInPatch original))"

definition merge_order ::
    "'s schemas \<Rightarrow> string \<Rightarrow> json \<Rightarrow> obj \<Rightarrow> obj \<Rightarrow> string list \<Rightarrow> 's \<Rightarrow> MergeOptions \<Rightarrow>
     ('s \<Rightarrow> string \<Rightarrow> json list \<Rightarrow> json list result) \<Rightarrow> (obj \<times> string list) result" where
  "merge_order L key setElementOrderInPatch original0 patch gone schema mergeOptions merge_ordinary =
     bind_result (keep_directive key setElementOrderInPatch original0 mergeOptions) (\<lambda>original.
     bind_result (as_slice setElementOrderInPatch) (\<lambda>typedSetElementOrderList.
     bind_result (extractKey key setElementOrderDirectivePrefix) (\<lambda>originalKey.
       let originalList = map_of original originalKey;
           patchList = (if originalKey \<in> set (key # gone) then None else map_of patch originalKey)
       in
     bind_result (slice_or_nil originalList) (\<lambda>originalFieldValue.
     bind_result (slice_or_nil patchList) (\<lambda>patchFieldValue.
     bind_result (LookupPatchMetadataForSlice L schema originalKey) (\<lambda>(subschema, patchMeta).
     bind_result (extractRetainKeysPatchStrategy (patchStrategies patchMeta)) (\<lambda>(_, patchStrategy).
       let mergeKey = patchMergeKey patchMeta in
     bind_result (validatePatchWithSetOrderList patchFieldValue typedSetElementOrderList mergeKey) (\<lambda>_.
       if originalList = None \<and> patchList = None then Ok (original, key # gone)
       else
     bind_result
       (if patchList = None then Ok (originalFieldValue, originalFieldValue)
        else if originalList = None then Ok (patchFieldValue, originalFieldValue)
        else mergeSliceHandler L originalFieldValue patchFieldValue subschema patchStrategy mergeKey False mergeOptions
               (merge_ordinary subschema mergeKey))
       (\<lambda>(mergedList, originalFieldValue').
     bind_result (partition_by mergedList typedSetElementOrderList mergeKey) (\<lambda>(patchItems, serverOnlyItems).
     bind_result (sliceElementType [originalFieldValue', patchFieldValue]) (\<lambda>elementType.
     bind_result
       (normalizeElementOrder patchItems serverOnlyItems typedSetElementOrderList originalFieldValue' mergeKey
         (elementType = map_kind))
       (\<lambda>both. Ok (AList.update originalKey (JArr both) original, originalKey # key # gone)))))))))))))"

section \<open>Documents\<close>

text \<open>One round of the loop of \<open>mergeMap\<close>: the key without the prefix of a deletion list, and the value.\<close>

definition merge_value ::
    "'s schemas \<Rightarrow> string \<Rightarrow> json \<Rightarrow> bool \<Rightarrow> obj \<Rightarrow> 's \<Rightarrow> MergeOptions \<Rightarrow> ('s \<Rightarrow> obj \<Rightarrow> obj result) \<Rightarrow>
     ('s \<Rightarrow> string \<Rightarrow> json list \<Rightarrow> json list result) \<Rightarrow> obj result" where
  "merge_value L k patchV isDeleteList original0 schema mergeOptions merge_map merge_ordinary =
     (let original = (if patchV = JNull then AList.delete k original0 else original0) in
      if patchV = JNull \<and> IgnoreUnmatchedNulls mergeOptions then Ok original
      else case map_of original k of
             None \<Rightarrow> Ok (AList.update k patchV original)
           | Some originalV \<Rightarrow>
               if go_type originalV \<noteq> go_type patchV then Ok (AList.update k patchV original)
               else (case (originalV, patchV) of
                       (JObj om, JObj pm) \<Rightarrow>
                         bind_result (LookupPatchMetadataForStruct L schema k) (\<lambda>(subschema, patchMeta).
                         bind_result (extractRetainKeysPatchStrategy (patchStrategies patchMeta)) (\<lambda>(_, patchStrategy).
                         bind_result (if patchStrategy \<noteq> replaceDirective then merge_map subschema om else Ok pm)
                           (\<lambda>m. Ok (AList.update k (JObj m) original))))
                     | (JArr ol, JArr pl) \<Rightarrow>
                         bind_result (LookupPatchMetadataForSlice L schema k) (\<lambda>(subschema, patchMeta).
                         bind_result (extractRetainKeysPatchStrategy (patchStrategies patchMeta)) (\<lambda>(_, patchStrategy).
                         bind_result
                           (mergeSliceHandler L ol pl subschema patchStrategy (patchMergeKey patchMeta) isDeleteList mergeOptions
                             (merge_ordinary subschema (patchMergeKey patchMeta)))
                           (\<lambda>(l, _). Ok (AList.update k (JArr l) original))))
                     | _ \<Rightarrow> Ok (AList.update k patchV original)))"

definition merge_field ::
    "'s schemas \<Rightarrow> string \<Rightarrow> json \<Rightarrow> obj \<Rightarrow> 's \<Rightarrow> MergeOptions \<Rightarrow> ('s \<Rightarrow> obj \<Rightarrow> obj result) \<Rightarrow>
     ('s \<Rightarrow> string \<Rightarrow> json list \<Rightarrow> json list result) \<Rightarrow> obj result" where
  "merge_field L k patchV original schema mergeOptions merge_map merge_ordinary =
     (if has_prefix k deleteFromPrimitiveListDirectivePrefix then
        if \<not> MergeParallelList mergeOptions then Ok (AList.update k patchV original)
        else bind_result (extractKey k deleteFromPrimitiveListDirectivePrefix) (\<lambda>noPrefixKey.
               merge_value L (if length noPrefixKey > 0 then noPrefixKey else k) patchV True original schema mergeOptions
                 merge_map merge_ordinary)
      else merge_value L k patchV False original schema mergeOptions merge_map merge_ordinary)"

text \<open>
  \<open>merge_orders\<close> is the loop of \<open>mergePatchIntoOriginal\<close>, \<open>merge_fields\<close> that of \<open>mergeMap\<close>, and
  \<open>merge_elements\<close> is \<open>mergeSliceWithoutSpecialElements\<close>.
\<close>

lemma list_size_ordinary: "list_size (ordinary l) \<le> list_size l"
  by (induction l) (auto simp: ordinary_def)

lemma patch_list_size: "list_size (patch_list m k) \<le> obj_size m"
  by (auto simp: patch_list_def dest!: map_of_size split: option.split json.split)

lemma ordinary_patch_list_size: "list_size (ordinary (patch_list m k)) \<le> obj_size m"
  by (rule order.trans [OF list_size_ordinary patch_list_size])

function (sequential) mergeMap :: "'s schemas \<Rightarrow> MergeOptions \<Rightarrow> 's \<Rightarrow> obj \<Rightarrow> obj \<Rightarrow> obj result"
and merge_orders :: "'s schemas \<Rightarrow> MergeOptions \<Rightarrow> 's \<Rightarrow> obj \<Rightarrow> obj \<Rightarrow> obj \<times> string list \<Rightarrow> (obj \<times> string list) result"
and merge_fields :: "'s schemas \<Rightarrow> MergeOptions \<Rightarrow> 's \<Rightarrow> string list \<Rightarrow> obj \<Rightarrow> obj \<Rightarrow> obj result"
and merge_elements :: "'s schemas \<Rightarrow> MergeOptions \<Rightarrow> 's \<Rightarrow> string \<Rightarrow> json list \<Rightarrow> json list \<Rightarrow> json list result"
where
  "mergeMap L opts schema original patch =
     (case map_of patch directiveMarker of
        Some v \<Rightarrow> handleDirectiveInMergeMap v patch
      | None \<Rightarrow>
          bind_result (applyRetainKeysDirective original patch opts) (\<lambda>original'.
            let patch' = AList.delete retainKeysDirective patch
            in bind_result (merge_orders L opts schema patch' patch' (original', [])) (\<lambda>(original'', gone).
                 merge_fields L opts schema gone patch' original'')))"
| "merge_orders L opts schema patch [] state = Ok state"
| "merge_orders L opts schema patch ((key, patchV) # entries) (original, gone) =
     bind_result
       (if \<not> has_prefix key setElementOrderDirectivePrefix \<or> key \<in> set gone then Ok (original, gone)
        else merge_order L key patchV original patch gone schema opts
               (\<lambda>subschema mergeKey ol. merge_elements L opts subschema mergeKey (ordinary (patch_list patch (order_key key))) ol))
       (\<lambda>state. merge_orders L opts schema patch entries state)"
| "merge_fields L opts schema gone [] original = Ok original"
| "merge_fields L opts schema gone ((k, patchV) # entries) original =
     bind_result
       (if k \<in> set gone then Ok original
        else merge_field L k patchV original schema opts
               (\<lambda>subschema om. case patchV of JObj pm \<Rightarrow> mergeMap L opts subschema om pm | _ \<Rightarrow> Ok om)
               (\<lambda>subschema mergeKey ol.
                  case patchV of JArr pl \<Rightarrow> merge_elements L opts subschema mergeKey (ordinary pl) ol | _ \<Rightarrow> Ok ol))
       (\<lambda>original'. merge_fields L opts schema gone entries original')"
| "merge_elements L opts schema mergeKey [] original = Ok original"
| "merge_elements L opts schema mergeKey (v # patch) original =
     bind_result (getMapAndMergeKeyValue mergeKey v) (\<lambda>(typedV, mergeValue).
     bind_result (findMapInSliceBasedOnKeyValue original mergeKey mergeValue) (\<lambda>found.
     case found of
       Some (originalMap, originalKey) \<Rightarrow>
         bind_result (mergeMap L opts schema originalMap typedV) (\<lambda>mergedMaps.
           merge_elements L opts schema mergeKey patch (original[originalKey := JObj mergedMaps]))
     | None \<Rightarrow> merge_elements L opts schema mergeKey patch (original @ [v])))"
  by pat_completeness auto

termination
  by (relation "inv_image (less_than <*lex*> less_than <*lex*> less_than) (\<lambda>x. case x of
        Inl (Inl (L, opts, schema, original, patch)) \<Rightarrow> (obj_size patch, 2, 0)
      | Inl (Inr (L, opts, schema, patch, entries, state)) \<Rightarrow> (obj_size patch, 1, length entries)
      | Inr (Inl (L, opts, schema, gone, entries, original)) \<Rightarrow> (obj_size entries, 1, 0)
      | Inr (Inr (L, opts, schema, mergeKey, patch, original)) \<Rightarrow> (list_size patch, 0, 0))")
    (auto simp: le_imp_less_or_eq obj_size_delete dest!: getMap_JObj
      intro: le_less_trans [OF list_size_ordinary] le_neq_implies_less ordinary_patch_list_size)

declare mergeMap.simps [simp del]

section \<open>Entry points\<close>

definition unmarshal_or_empty :: "doc_text \<Rightarrow> obj result" where
  "unmarshal_or_empty t =
     (if t = Empty_text then Ok []
      else case unmarshal_map t of None \<Rightarrow> Err ErrBadJSONDoc | Some m \<Rightarrow> Ok (convertMapNumbers m))"

definition deltaMapDiffOptions :: DiffOptions where
  "deltaMapDiffOptions =
     \<lparr>SetElementOrder = True, IgnoreChangesAndAdditions = False, IgnoreDeletions = True, BuildRetainKeysDirective = False\<rparr>"

definition deletionsMapDiffOptions :: DiffOptions where
  "deletionsMapDiffOptions =
     \<lparr>SetElementOrder = True, IgnoreChangesAndAdditions = True, IgnoreDeletions = False, BuildRetainKeysDirective = False\<rparr>"

definition CreateThreeWayMergePatch :: "'s schemas \<Rightarrow> doc_text \<Rightarrow> doc_text \<Rightarrow> doc_text \<Rightarrow> 's \<Rightarrow> json result" where
  "CreateThreeWayMergePatch L original modified current schema =
     bind_result (unmarshal_or_empty original) (\<lambda>originalMap.
     bind_result (unmarshal_or_empty modified) (\<lambda>modifiedMap.
     bind_result (unmarshal_or_empty current) (\<lambda>currentMap.
     bind_result (diffMaps L deltaMapDiffOptions schema currentMap modifiedMap) (\<lambda>deltaMap.
     bind_result (diffMaps L deletionsMapDiffOptions schema originalMap modifiedMap) (\<lambda>deletionsMap.
     bind_result (mergeMap L \<lparr>MergeParallelList = False, IgnoreUnmatchedNulls = False\<rparr> schema deletionsMap deltaMap)
       (\<lambda>patchMap. Ok (JObj patchMap)))))))"

definition handleUnmarshal :: "doc_text \<Rightarrow> obj result" where
  "handleUnmarshal j =
     (case unmarshal_map j of None \<Rightarrow> Err ErrBadJSONDoc | Some m \<Rightarrow> Ok (convertMapNumbers m))"

definition StrategicMergePatchUsingLookupPatchMeta :: "'s schemas \<Rightarrow> doc_text \<Rightarrow> doc_text \<Rightarrow> 's \<Rightarrow> json result" where
  "StrategicMergePatchUsingLookupPatchMeta L original patch schema =
     bind_result (handleUnmarshal original) (\<lambda>originalMap.
     bind_result (handleUnmarshal patch) (\<lambda>patchMap.
     bind_result (mergeMap L \<lparr>MergeParallelList = True, IgnoreUnmatchedNulls = True\<rparr> schema originalMap patchMap)
       (\<lambda>result. Ok (JObj result))))"

end
