(* ===== verification/Strategic_Merge_Laws.thy ===== *)
theory Strategic_Merge_Laws
  imports Strategic_Merge
begin

text \<open>
  What merging a strategic patch changes: of a document only the fields the patch names, of a merged list
  only the items with a key in the patch. Sorting and splitting lists loses and invents nothing.
\<close>

lemma iface_eq_hashable: "hashable x \<Longrightarrow> iface_eq x y = Ok (x = y)"
  by (cases x; cases y) auto

section \<open>Fields that stay\<close>

lemma merge_order_frame:
  assumes "merge_order L key v original patch gone s opts merge_ordinary = Ok (original', gone')"
    and "k \<noteq> key" and "extractKey key setElementOrderDirectivePrefix \<noteq> Ok k"
  shows "map_of original' k = map_of original k"
proof -
  have "\<exists>o1. keep_directive key v original opts = Ok o1 \<and>
      (original' = o1 \<or> (\<exists>x l. extractKey key setElementOrderDirectivePrefix = Ok x \<and> original' = AList.update x (JArr l) o1))"
    using assms(1) unfolding merge_order_def Let_def split_beta by (auto split: if_splits)
  moreover have "map_of o1 k = map_of original k" if "keep_directive key v original opts = Ok o1" for o1
    using that assms(2) by (auto simp: keep_directive_def split: option.splits if_splits)
  ultimately show ?thesis using assms(3) by fastforce
qed

lemma merge_value_frame:
  assumes "merge_value L key v d original s opts f g = Ok original'" and "k \<noteq> key"
  shows "map_of original' k = map_of original k"
  using assms
  by (auto simp: merge_value_def Let_def split: option.splits if_splits prod.splits json.splits)

lemma merge_field_frame:
  assumes "merge_field L key v original s opts f g = Ok original'"
    and "k \<noteq> key" and "extractKey key deleteFromPrimitiveListDirectivePrefix \<noteq> Ok k"
  shows "map_of original' k = map_of original k"
  using assms by (auto simp: merge_field_def split: if_splits dest!: merge_value_frame [where k = k])

lemma element_type_Some: "element_type (Some t) xs = Ok q \<longleftrightarrow> q = Some t \<and> (\<forall>v \<in> set xs. go_type v = t)"
  by (induction xs) auto

lemma sliceElementType_Ok:
  "sliceElementType ls = Ok t \<longleftrightarrow>
     concat ls \<noteq> [] \<and> (\<forall>v \<in> set (concat ls). go_type v = t) \<and> t \<noteq> go_type JNull \<and> t \<noteq> go_type (JArr [])"
proof (cases "concat ls")
  case (Cons v vs)
  then show ?thesis by (cases v) (auto simp: sliceElementType_def element_type_Some split: option.splits)
next
  case Nil
  show ?thesis unfolding sliceElementType_def Nil by simp
qed

section \<open>Sorting and splitting\<close>

lemma sift_mset: "sift lt x ps = Ok r \<Longrightarrow> mset r = add_mset x (mset ps)"
  by (induction ps arbitrary: r) (auto split: if_splits)

lemma SliceStable_mset: "SliceStable lt xs = Ok r \<Longrightarrow> mset r = mset xs"
proof -
  have "fold_result (sift lt) xs acc = Ok s \<Longrightarrow> mset s = mset xs + mset acc" for acc s
    by (induction xs arbitrary: acc) (auto dest!: sift_mset)
  then show "SliceStable lt xs = Ok r \<Longrightarrow> mset r = mset xs" by (auto simp: SliceStable_def)
qed

lemma extract_mset: "extractToDeleteItems xs = Ok (keep, del) \<Longrightarrow> mset keep + mset del = mset xs"
  by (induction xs arbitrary: keep del) (auto split: if_splits)

lemma normalizeSliceOrder_mset: "normalizeSliceOrder xs order k maps = Ok r \<Longrightarrow> mset r = mset xs"
  by (auto simp: normalizeSliceOrder_def split: if_splits prod.splits dest!: SliceStable_mset extract_mset)

lemma mergeSortedSlice_mset: "mergeSortedSlice left right order k maps = Ok r \<Longrightarrow> mset r = mset left + mset right"
  by (induction left right order k maps arbitrary: r rule: mergeSortedSlice.induct) (auto split: if_splits option.splits)

lemma normalizeElementOrder_mset:
  "normalizeElementOrder xs ys po so k maps = Ok r \<Longrightarrow> mset r = mset xs + mset ys"
  by (auto simp: normalizeElementOrder_def dest!: normalizeSliceOrder_mset mergeSortedSlice_mset)

lemma partition_by_mset: "partition_by xs order k = Ok (ys, zs) \<Longrightarrow> mset ys + mset zs = mset xs"
proof -
  have "partitionMapsByPresentInList xs order k = Ok (ys, zs) \<Longrightarrow> mset ys + mset zs = mset xs"
    by (induction xs arbitrary: ys zs) (auto split: if_splits)
  moreover have "mset (filter P xs) + mset (filter (\<lambda>x. \<not> P x) xs) = mset xs" for P
    by (induction xs) auto
  ultimately show "partition_by xs order k = Ok (ys, zs) \<Longrightarrow> ?thesis"
    by (auto simp: partition_by_def partitionPrimitivesByPresentInList_def unhashable_def comp_def split: if_splits)
qed

section \<open>Fields that are merged\<close>

lemma extractKey_iff:
  assumes "CHR ''/'' \<notin> set prefix"
  shows "extractKey key prefix = Ok k \<longleftrightarrow> key = parallel_key prefix k"
proof
  assume "extractKey key prefix = Ok k"
  then have "takeWhile (\<lambda>c. c \<noteq> CHR ''/'') key = prefix" "dropWhile (\<lambda>c. c \<noteq> CHR ''/'') key \<noteq> []"
      "tl (dropWhile (\<lambda>c. c \<noteq> CHR ''/'') key) = k"
    by (auto simp: extractKey_def Let_def split: if_splits)
  moreover have "hd (dropWhile (\<lambda>c. c \<noteq> CHR ''/'') key) = CHR ''/''"
    using hd_dropWhile [OF calculation(2)] by simp
  ultimately show "key = parallel_key prefix k"
    unfolding parallel_key_def by (metis append_Cons append_Nil list.collapse takeWhile_dropWhile_id)
next
  assume "key = parallel_key prefix k"
  moreover have "takeWhile (\<lambda>c. c \<noteq> CHR ''/'') (prefix @ ''/'' @ k) = prefix"
    "dropWhile (\<lambda>c. c \<noteq> CHR ''/'') (prefix @ ''/'' @ k) = ''/'' @ k"
    using assms by (auto simp: takeWhile_append takeWhile_eq_all_conv dropWhile_append)
  ultimately show "extractKey key prefix = Ok k" by (simp add: extractKey_def parallel_key_def)
qed

lemma slash_free: "CHR ''/'' \<notin> set setElementOrderDirectivePrefix" "CHR ''/'' \<notin> set deleteFromPrimitiveListDirectivePrefix"
  by (simp_all add: directive_defs)

lemmas extractKey_iffs = extractKey_iff [OF slash_free(1)] extractKey_iff [OF slash_free(2)]

text \<open>A field that no directive of the patch is about.\<close>

definition undirected :: "obj \<Rightarrow> string \<Rightarrow> bool" where
  "undirected patch k \<longleftrightarrow>
     \<not> has_prefix k ''$'' \<and> parallel_key setElementOrderDirectivePrefix k \<notin> set (keys patch) \<and>
     parallel_key deleteFromPrimitiveListDirectivePrefix k \<notin> set (keys patch)"

lemma undirected_prefixes:
  assumes "undirected patch k"
  shows "\<not> has_prefix k setElementOrderDirectivePrefix" "\<not> has_prefix k deleteFromPrimitiveListDirectivePrefix"
    "k \<noteq> retainKeysDirective"
  using assms by (cases k; simp add: undirected_def has_prefix_def directive_defs)+

lemma merge_order_gone:
  assumes "merge_order L key v original patch gone s opts merge_ordinary = Ok (original', gone')"
    and "k \<in> set gone'"
  shows "k \<in> set gone \<or> k = key \<or> extractKey key setElementOrderDirectivePrefix = Ok k"
  using assms unfolding merge_order_def Let_def split_beta by (auto split: if_splits)

lemma merge_orders_undirected:
  assumes "merge_orders L opts s patch entries (original, gone) = Ok (original', gone')"
    and "undirected entries k" and "k \<notin> set gone"
  shows "map_of original' k = map_of original k \<and> k \<notin> set gone'"
  using assms
proof (induction entries arbitrary: original gone)
  case (Cons e entries)
  obtain key v where e: "e = (key, v)" by force
  with Cons.prems(2) have k: "undirected entries k" "extractKey key setElementOrderDirectivePrefix \<noteq> Ok k"
    by (auto simp: undirected_def extractKey_iffs)
  from Cons.prems(1) obtain o1 g1 where step: "(if \<not> has_prefix key setElementOrderDirectivePrefix \<or> key \<in> set gone then Ok (original, gone)
      else merge_order L key v original patch gone s opts
        (\<lambda>subschema mergeKey ol. merge_elements L opts subschema mergeKey (ordinary (patch_list patch (order_key key))) ol)) = Ok (o1, g1)"
    and rest: "merge_orders L opts s patch entries (o1, g1) = Ok (original', gone')"
    unfolding e merge_orders.simps by (auto simp del: merge_orders.simps)
  have "map_of o1 k = map_of original k \<and> k \<notin> set g1"
  proof (cases "\<not> has_prefix key setElementOrderDirectivePrefix \<or> key \<in> set gone")
    case False
    with undirected_prefixes(1) [OF k(1)] have "k \<noteq> key" by blast
    with False step k(2) Cons.prems(3) merge_order_gone [of L key v original patch gone s opts _ o1 g1 k]
      merge_order_frame [of L key v original patch gone s opts _ o1 g1 k]
    show ?thesis by auto
  qed (use step Cons.prems(3) in auto)
  with Cons.IH [OF rest k(1)] show ?case by simp
qed simp

definition merged_field ::
    "'s schemas \<Rightarrow> MergeOptions \<Rightarrow> 's \<Rightarrow> string \<Rightarrow> json option \<Rightarrow> json \<Rightarrow> json option \<Rightarrow> bool" where
  "merged_field L opts s k old v new \<longleftrightarrow>
     (case v of
        JNull \<Rightarrow> new = None
      | JObj pm \<Rightarrow>
          (case old of
             Some (JObj om) \<Rightarrow>
               (\<exists>sub meta retain strategy. LookupPatchMetadataForStruct L s k = Ok (sub, meta) \<and>
                  extractRetainKeysPatchStrategy (patchStrategies meta) = Ok (retain, strategy) \<and>
                  (strategy = replaceDirective \<and> new = Some v \<or>
                   strategy \<noteq> replaceDirective \<and> (\<exists>m. mergeMap L opts sub om pm = Ok m \<and> new = Some (JObj m))))
           | _ \<Rightarrow> new = Some v)
      | JArr pl \<Rightarrow>
          (case old of
             Some (JArr ol) \<Rightarrow>
               (\<exists>sub meta retain strategy l a. LookupPatchMetadataForSlice L s k = Ok (sub, meta) \<and>
                  extractRetainKeysPatchStrategy (patchStrategies meta) = Ok (retain, strategy) \<and>
                  mergeSliceHandler L ol pl sub strategy (patchMergeKey meta) False opts
                    (merge_elements L opts sub (patchMergeKey meta) (ordinary pl)) = Ok (l, a) \<and>
                  new = Some (JArr l))
           | _ \<Rightarrow> new = Some v)
      | _ \<Rightarrow> new = Some v)"

lemma merge_value_at:
  assumes "merge_value L k v False original s opts
      (\<lambda>sub om. case v of JObj pm \<Rightarrow> mergeMap L opts sub om pm | _ \<Rightarrow> Ok om)
      (\<lambda>sub mk ol. case v of JArr pl \<Rightarrow> merge_elements L opts sub mk (ordinary pl) ol | _ \<Rightarrow> Ok ol) = Ok r"
    and "IgnoreUnmatchedNulls opts"
  shows "merged_field L opts s k (map_of original k) v (map_of r k)"
proof (cases v)
  case (JObj pm)
  show ?thesis
  proof (cases "\<exists>om. map_of original k = Some (JObj om)")
    case True
    then obtain om where om: "map_of original k = Some (JObj om)" by blast
    with assms JObj obtain sub meta retain strategy where
      "LookupPatchMetadataForStruct L s k = Ok (sub, meta)"
      "extractRetainKeysPatchStrategy (patchStrategies meta) = Ok (retain, strategy)"
      "\<exists>m. (if strategy \<noteq> replaceDirective then mergeMap L opts sub om pm else Ok pm) = Ok m \<and>
        r = AList.update k (JObj m) original"
      by (auto simp: merge_value_def)
    then show ?thesis using JObj om by (cases "strategy = replaceDirective") (auto simp: merged_field_def)
  next
    case False
    with assms JObj show ?thesis by (auto simp: merge_value_def merged_field_def split: option.splits json.splits if_splits)
  qed
next
  case (JArr pl)
  with assms show ?thesis
    by (cases "map_of original k"; cases "the (map_of original k)")
      (auto simp: merge_value_def merged_field_def split: if_splits prod.splits)
qed (use assms in \<open>auto simp: merge_value_def merged_field_def split: option.splits json.splits if_splits\<close>)

lemma merge_fields_at:
  assumes "merge_fields L opts s gone entries original = Ok r" and "distinct (keys entries)" and "IgnoreUnmatchedNulls opts"
    and "undirected entries k" and "k \<notin> set gone"
  shows "case map_of entries k of
      None \<Rightarrow> map_of r k = map_of original k
    | Some v \<Rightarrow> merged_field L opts s k (map_of original k) v (map_of r k)"
  using assms
proof (induction entries arbitrary: original)
  case (Cons e entries)
  obtain key v where e: "e = (key, v)" by force
  with Cons.prems(4) have k: "undirected entries k" "extractKey key deleteFromPrimitiveListDirectivePrefix \<noteq> Ok k"
    by (auto simp: undirected_def extractKey_iffs)
  let ?f = "\<lambda>subschema om. case v of JObj pm \<Rightarrow> mergeMap L opts subschema om pm | _ \<Rightarrow> Ok om"
  let ?g = "\<lambda>subschema mergeKey ol. case v of JArr pl \<Rightarrow> merge_elements L opts subschema mergeKey (ordinary pl) ol | _ \<Rightarrow> Ok ol"
  from Cons.prems(1) obtain o1 where step: "(if key \<in> set gone then Ok original
      else merge_field L key v original s opts ?f ?g) = Ok o1"
    and rest: "merge_fields L opts s gone entries o1 = Ok r"
    unfolding e by auto
  note ih = Cons.IH [OF rest _ Cons.prems(3) k(1) Cons.prems(5)]
  show ?case
  proof (cases "k = key")
    case True
    with step Cons.prems(5) undirected_prefixes(2) [OF k(1)] have "merge_value L k v False original s opts ?f ?g = Ok o1"
      by (simp add: merge_field_def)
    moreover have "map_of entries k = None" using True Cons.prems(2) by (simp add: e map_of_eq_None_iff)
    ultimately show ?thesis using merge_value_at [OF _ Cons.prems(3)] True ih Cons.prems(2) by (simp add: e)
  next
    case False
    then have "map_of o1 k = map_of original k" using step k(2) by (auto split: if_splits dest: merge_field_frame)
    with False ih Cons.prems(2) show ?thesis by (cases "map_of entries k") (simp_all add: e)
  qed
qed simp

text \<open>The two kinds of fields together. \<open>retained_field\<close> is what the directive \<open>$retainKeys\<close> leaves of a field.\<close>

definition retained_field :: "obj \<Rightarrow> obj \<Rightarrow> string \<Rightarrow> json option" where
  "retained_field patch original k =
     (case map_of patch retainKeysDirective of
        Some (JArr ks) \<Rightarrow> if JStr k \<in> set ks then map_of original k else None
      | _ \<Rightarrow> map_of original k)"

lemma applyRetainKeys_at:
  assumes "applyRetainKeysDirective original patch opts = Ok o1" and "MergeParallelList opts"
  shows "map_of o1 k = retained_field patch original k"
proof -
  have "map_of (filter (\<lambda>(k, _). P k) m) k = (if P k then map_of m k else None)" for P and m :: obj
    by (induction m) auto
  then show ?thesis using assms
    by (auto simp: retained_field_def applyRetainKeysDirective_def unhashable_def split: option.splits json.splits if_splits)
qed

lemma undirected_delete: "undirected patch k \<Longrightarrow> undirected (AList.delete x patch) k"
  by (auto simp: undirected_def AList.delete_eq)

lemma mergeMap_at:
  assumes "mergeMap L opts s original patch = Ok r" and "map_of patch directiveMarker = None" and "distinct (keys patch)"
    and "MergeParallelList opts" "IgnoreUnmatchedNulls opts" and "undirected patch k"
  shows "case map_of patch k of
      None \<Rightarrow> map_of r k = retained_field patch original k
    | Some v \<Rightarrow> merged_field L opts s k (retained_field patch original k) v (map_of r k)"
proof -
  let ?p = "AList.delete retainKeysDirective patch"
  from assms(1,2) obtain o1 o2 gone where steps: "applyRetainKeysDirective original patch opts = Ok o1"
      "merge_orders L opts s ?p ?p (o1, []) = Ok (o2, gone)" "merge_fields L opts s gone ?p o2 = Ok r"
    by (auto simp: mergeMap.simps Let_def)
  have k: "undirected ?p k" by (rule undirected_delete [OF assms(6)])
  from merge_orders_undirected [OF steps(2) k] have "map_of o2 k = map_of o1 k" "k \<notin> set gone" by simp_all
  with merge_fields_at [OF steps(3) _ assms(5) k] assms(3) undirected_prefixes(3) [OF assms(6)]
    applyRetainKeys_at [OF steps(1) assms(4), of k]
  show ?thesis by (cases "map_of patch k") simp_all
qed

section \<open>Merged lists\<close>

text \<open>The items of a list by the values of their merge key.\<close>

definition keyed_items :: "string \<Rightarrow> json list \<Rightarrow> bool" where
  "keyed_items mk xs \<longleftrightarrow>
     (\<forall>v \<in> set xs. \<exists>m x. v = JObj m \<and> map_of m mk = Some x \<and> hashable x \<and> x \<noteq> JNull) \<and> distinct (map (field_of mk) xs)"

definition item_at :: "string \<Rightarrow> json list \<Rightarrow> json \<Rightarrow> json option" where
  "item_at mk xs x = find (\<lambda>v. field_of mk v = x) xs"

lemma item_at_iff:
  "keyed_items mk xs \<Longrightarrow> item_at mk xs x = Some v \<longleftrightarrow> v \<in> set xs \<and> field_of mk v = x"
  unfolding item_at_def keyed_items_def
proof (induction xs)
  case (Cons y ys)
  then show ?case by (auto simp: image_iff)
qed simp

lemma item_at_None: "item_at mk xs x = None \<longleftrightarrow> x \<notin> field_of mk ` set xs"
  by (auto simp: item_at_def find_None_iff)

lemma item_at_mset:
  assumes "keyed_items mk xs" and "mset ys = mset xs"
  shows "item_at mk ys = item_at mk xs" and "keyed_items mk ys"
proof -
  have set: "set ys = set xs" using assms(2) by (metis set_mset_mset)
  have "mset (map (field_of mk) ys) = mset (map (field_of mk) xs)" using assms(2) by (simp only: mset_map)
  then show keyed: "keyed_items mk ys"
    using assms(1) set unfolding keyed_items_def by (metis mset_eq_imp_distinct_iff)
  show "item_at mk ys = item_at mk xs"
  proof
    fix x
    show "item_at mk ys x = item_at mk xs x"
      using item_at_iff [OF keyed, of x] item_at_iff [OF assms(1), of x] set
      by (cases "item_at mk ys x"; cases "item_at mk xs x") auto
  qed
qed

lemma findMap_keyed:
  assumes "keyed_items mk xs" and "hashable x"
  shows "case item_at mk xs x of
      None \<Rightarrow> findMapInSliceBasedOnKeyValue xs mk x = Ok None
    | Some v \<Rightarrow> \<exists>m i. v = JObj m \<and> findMapInSliceBasedOnKeyValue xs mk x = Ok (Some (m, i)) \<and> i < length xs \<and> xs ! i = v"
  using assms(1)
proof (induction xs)
  case (Cons v xs)
  then obtain m y where v: "v = JObj m" "map_of m mk = Some y" "hashable y" by (auto simp: keyed_items_def)
  have keyed: "keyed_items mk xs" using Cons.prems by (auto simp: keyed_items_def)
  have y: "field_of mk v = y" using v by (simp add: lookup_or_def)
  show ?case
  proof (cases "x = y")
    case True
    then show ?thesis using v y by (auto simp: item_at_def iface_eq_hashable)
  next
    case False
    then have "item_at mk (v # xs) x = item_at mk xs x" using y by (simp add: item_at_def)
    with Cons.IH [OF keyed] v False show ?thesis
      by (cases "item_at mk xs x") (auto simp: iface_eq_hashable)
  qed
qed (simp add: item_at_def)

text \<open>Merging the ordinary items: an item of the patch is merged into the one with its key, or it is added.\<close>

definition plain_item :: "string \<Rightarrow> json \<Rightarrow> bool" where
  "plain_item mk p \<longleftrightarrow>
     (case p of JObj pm \<Rightarrow> distinct (keys pm) \<and> map_of pm directiveMarker = None \<and> undirected pm mk | _ \<Rightarrow> False)"

definition merged_item ::
    "'s schemas \<Rightarrow> MergeOptions \<Rightarrow> 's \<Rightarrow> json option \<Rightarrow> json option \<Rightarrow> json option \<Rightarrow> bool" where
  "merged_item L opts s old p new \<longleftrightarrow>
     (case (old, p) of
        (_, None) \<Rightarrow> new = old
      | (Some (JObj om), Some (JObj pm)) \<Rightarrow> \<exists>m. mergeMap L opts s om pm = Ok m \<and> new = Some (JObj m)
      | _ \<Rightarrow> new = p)"

lemma merged_key:
  assumes "mergeMap L opts s om pm = Ok m" and "plain_item mk (JObj pm)" and "MergeParallelList opts" "IgnoreUnmatchedNulls opts"
    and "map_of pm mk = Some x" "hashable x" "x \<noteq> JNull"
  shows "map_of m mk = Some x"
  using mergeMap_at [OF assms(1), of mk] assms(2-7)
  by (cases x) (auto simp: plain_item_def merged_field_def)

lemma keyed_distinct: "keyed_items mk xs \<Longrightarrow> distinct xs"
  by (simp add: keyed_items_def distinct_map)

lemma keyed_update:
  assumes "keyed_items mk xs" and "i < length xs" and "field_of mk (xs ! i) = x" "map_of m mk = Some x" "hashable x" "x \<noteq> JNull"
  shows "keyed_items mk (xs[i := JObj m])"
    and "item_at mk (xs[i := JObj m]) y = (if y = x then Some (JObj m) else item_at mk xs y)"
proof -
  have m: "field_of mk (JObj m) = x" using assms(4) by (simp add: lookup_or_def)
  have "map (field_of mk) (xs[i := JObj m]) = (map (field_of mk) xs)[i := (map (field_of mk) xs) ! i]"
    using assms(2,3) m by (simp add: map_update)
  then have fields: "map (field_of mk) (xs[i := JObj m]) = map (field_of mk) xs" by simp
  have set: "set (xs[i := JObj m]) = insert (JObj m) (set xs - {xs ! i})"
    by (rule set_update_distinct [OF keyed_distinct [OF assms(1)] assms(2)])
  show keyed: "keyed_items mk (xs[i := JObj m])"
    using assms(1,4-6) unfolding keyed_items_def fields by (auto simp: set)
  have inj: "inj_on (field_of mk) (set xs)" using assms(1) by (simp add: keyed_items_def distinct_map)
  then have "v = xs ! i" if "v \<in> set xs" "field_of mk v = x" for v
    using that assms(2,3) by (auto simp: inj_on_def)
  then have "item_at mk (xs[i := JObj m]) y = Some v \<longleftrightarrow> (if y = x then v = JObj m else item_at mk xs y = Some v)" for v
    using assms(3) m by (auto simp: item_at_iff [OF keyed] item_at_iff [OF assms(1)] set)
  then show "item_at mk (xs[i := JObj m]) y = (if y = x then Some (JObj m) else item_at mk xs y)"
    by (metis not_Some_eq)
qed

lemma keyed_append:
  assumes "keyed_items mk xs" and "item_at mk xs x = None" and "map_of m mk = Some x" "hashable x" "x \<noteq> JNull"
  shows "keyed_items mk (xs @ [JObj m])"
    and "item_at mk (xs @ [JObj m]) y = (if y = x then Some (JObj m) else item_at mk xs y)"
proof -
  have m: "field_of mk (JObj m) = x" using assms(3) by (simp add: lookup_or_def)
  show "keyed_items mk (xs @ [JObj m])"
    using assms m by (auto simp: keyed_items_def item_at_None)
  show "item_at mk (xs @ [JObj m]) y = (if y = x then Some (JObj m) else item_at mk xs y)"
    using assms(2) m by (auto simp: item_at_def find_append split: option.split)
qed

lemma merged_item_new: "merged_item L opts s None p r \<longleftrightarrow> r = p"
  by (auto simp: merged_item_def split: option.split json.split)

lemma merged_item_kept: "merged_item L opts s v None r \<longleftrightarrow> r = v"
  by (auto simp: merged_item_def split: option.split json.split)

lemma merge_elements_keyed:
  assumes "merge_elements L opts s mk patch original = Ok r" and "keyed_items mk original" "keyed_items mk patch"
    and "list_all (plain_item mk) patch" and "MergeParallelList opts" "IgnoreUnmatchedNulls opts"
  shows "keyed_items mk r \<and> (\<forall>x. merged_item L opts s (item_at mk original x) (item_at mk patch x) (item_at mk r x))"
  using assms
proof (induction patch arbitrary: original)
  case (Cons p ps)
  from Cons.prems(3) obtain pm x where p: "p = JObj pm" "map_of pm mk = Some x" "hashable x" "x \<noteq> JNull"
    by (auto simp: keyed_items_def)
  have fp: "field_of mk p = x" using p by (simp add: lookup_or_def)
  have ps: "keyed_items mk ps" "item_at mk ps x = None"
    using Cons.prems(3) fp by (auto simp: keyed_items_def item_at_None)
  have plain: "plain_item mk (JObj pm)" "list_all (plain_item mk) ps" using Cons.prems(4) p by simp_all
  have get: "getMapAndMergeKeyValue mk p = Ok (pm, x)" using p by (simp add: getMapAndMergeKeyValue_def)
  have at: "item_at mk (p # ps) y = (if y = x then Some p else item_at mk ps y)" for y using fp by (auto simp: item_at_def)
  show ?case
  proof (cases "item_at mk original x")
    case None
    with findMap_keyed [OF Cons.prems(2) p(3)] have rest: "merge_elements L opts s mk ps (original @ [p]) = Ok r"
      using Cons.prems(1) get by simp
    note app = keyed_append [OF Cons.prems(2) None p(2-4), folded p(1)]
    from Cons.IH [OF rest app(1) ps(1) plain(2) Cons.prems(5,6)]
    have ih: "keyed_items mk r" "merged_item L opts s (item_at mk (original @ [p]) y) (item_at mk ps y) (item_at mk r y)" for y
      by simp_all
    have "merged_item L opts s (item_at mk original y) (item_at mk (p # ps) y) (item_at mk r y)" for y
      using ih(2) [of y] None ps(2) by (cases "y = x") (simp_all add: at app(2) merged_item_new merged_item_kept)
    with ih(1) show ?thesis by blast
  next
    case (Some v)
    with findMap_keyed [OF Cons.prems(2) p(3)] obtain om i where v: "v = JObj om"
      "findMapInSliceBasedOnKeyValue original mk x = Ok (Some (om, i))" "i < length original" "original ! i = v" by auto
    with Cons.prems(1) get obtain m where m: "mergeMap L opts s om pm = Ok m"
      "merge_elements L opts s mk ps (original[i := JObj m]) = Ok r" by auto
    have "field_of mk (original ! i) = x" using Some v item_at_iff [OF Cons.prems(2)] by auto
    note upd = keyed_update [OF Cons.prems(2) v(3) this merged_key [OF m(1) plain(1) Cons.prems(5,6) p(2-4)] p(3,4)]
    from Cons.IH [OF m(2) upd(1) ps(1) plain(2) Cons.prems(5,6)]
    have ih: "keyed_items mk r" "merged_item L opts s (item_at mk (original[i := JObj m]) y) (item_at mk ps y) (item_at mk r y)" for y
      by simp_all
    have "merged_item L opts s (item_at mk original y) (item_at mk (p # ps) y) (item_at mk r y)" for y
    proof (cases "y = x")
      case True
      then have "item_at mk original y = Some (JObj om)" "item_at mk (p # ps) y = Some (JObj pm)" using Some v(1) p(1) at by simp_all
      moreover have "item_at mk r y = Some (JObj m)" using ih(2) [of y] True ps(2) by (simp add: upd(2) merged_item_def)
      ultimately show ?thesis using m(1) by (simp add: merged_item_def)
    qed (use ih(2) [of y] in \<open>simp add: at upd(2)\<close>)
    with ih(1) show ?thesis by blast
  qed
qed (simp add: merged_item_kept item_at_def)

text \<open>The items that delete: the item of the object with their key is gone before the others are merged.\<close>

definition deleting_item :: "string \<Rightarrow> json \<Rightarrow> bool" where
  "deleting_item mk p \<longleftrightarrow>
     (case p of JObj pm \<Rightarrow> map_of pm directiveMarker = Some (JStr deleteDirective) \<and> hashable (field_of mk p) \<and> map_of pm mk \<noteq> None
      | _ \<Rightarrow> False)"

definition dropped_keys :: "string \<Rightarrow> json list \<Rightarrow> json set" where
  "dropped_keys mk patch = field_of mk ` set (filter (deleting_item mk) patch)"

lemma keyed_filter: "keyed_items mk xs \<Longrightarrow> keyed_items mk (filter P xs)"
  by (auto simp: keyed_items_def distinct_map intro: inj_on_subset)

lemma item_at_filter: "item_at mk (filter (\<lambda>v. field_of mk v \<notin> A) xs) x = (if x \<in> A then None else item_at mk xs x)"
  by (induction xs) (auto simp: item_at_def)

lemma deleteMatchingEntries_keyed:
  "keyed_items mk original \<Longrightarrow> hashable x \<Longrightarrow>
   \<exists>array'. deleteMatchingEntries original array mk x = Ok (filter (\<lambda>v. field_of mk v \<noteq> x) original, array')"
proof (induction original array mk x rule: deleteMatchingEntries.induct)
  case (1 original array mk x)
  show ?case
  proof (cases "item_at mk original x")
    case None
    with findMap_keyed [OF "1.prems"] have "findMapInSliceBasedOnKeyValue original mk x = Ok None" by simp
    moreover have "filter (\<lambda>v. field_of mk v \<noteq> x) original = original"
      using None by (auto simp: item_at_None filter_id_conv)
    ultimately show ?thesis by (subst deleteMatchingEntries.simps) simp
  next
    case (Some v)
    with findMap_keyed [OF "1.prems"] obtain m i where i:
      "findMapInSliceBasedOnKeyValue original mk x = Ok (Some (m, i))" "i < length original" "original ! i = v" by auto
    define shifted where "shifted = take i original @ drop (Suc i) original"
    have split: "original = take i original @ v # drop (Suc i) original"
      using i(2,3) by (metis id_take_nth_drop)
    have key: "field_of mk v = x" using Some item_at_iff [OF "1.prems"(1)] by blast
    have same: "filter (\<lambda>v. field_of mk v \<noteq> x) shifted = filter (\<lambda>v. field_of mk v \<noteq> x) original"
      unfolding shifted_def by (subst (3) split) (simp add: key)
    have "keyed_items mk (take i original @ v # drop (Suc i) original)" using "1.prems"(1) split by simp
    then have "keyed_items mk shifted" by (auto simp: keyed_items_def shifted_def)
    from "1.IH" [OF i(1) refl refl shifted_def this "1.prems"(2)] same
    show ?thesis by (subst deleteMatchingEntries.simps) (simp add: i(1) shifted_def)
  qed
qed

lemma special_elements_keyed:
  assumes "special_elements mk patch (original, array, False) = Ok (original', array', replace)"
    and "keyed_items mk original" and "list_all (\<lambda>p. plain_item mk p \<or> deleting_item mk p) patch"
  shows "\<not> replace \<and> original' = filter (\<lambda>v. field_of mk v \<notin> dropped_keys mk patch) original"
  using assms
proof (induction patch arbitrary: original array)
  case (Cons p ps)
  then obtain pm where p: "p = JObj pm" by (auto simp: plain_item_def deleting_item_def split: json.splits)
  show ?case
  proof (cases "deleting_item mk p")
    case True
    then obtain x where x: "map_of pm mk = Some x" "hashable x" "map_of pm directiveMarker = Some (JStr deleteDirective)"
      by (auto simp: p deleting_item_def lookup_or_def)
    obtain a where del: "deleteMatchingEntries original array mk x = Ok (filter (\<lambda>v. field_of mk v \<noteq> x) original, a)"
      using deleteMatchingEntries_keyed [OF Cons.prems(2) x(2)] by blast
    have "special_elements mk ps (filter (\<lambda>v. field_of mk v \<noteq> x) original, a, False) = Ok (original', array', replace)"
      using Cons.prems(1) x del by (simp add: p)
    from Cons.IH [OF this keyed_filter [OF Cons.prems(2)]] Cons.prems(3)
    have "\<not> replace" "original' = filter (\<lambda>v. field_of mk v \<notin> dropped_keys mk ps) (filter (\<lambda>v. field_of mk v \<noteq> x) original)"
      by simp_all
    moreover have "dropped_keys mk (p # ps) = insert x (dropped_keys mk ps)"
      using True x(1) by (simp add: dropped_keys_def p lookup_or_def)
    ultimately show ?thesis by (auto simp: conj_commute intro!: filter_cong)
  next
    case False
    with Cons.prems(3) p have "map_of pm directiveMarker = None" by (simp add: plain_item_def)
    then have "special_elements mk ps (original, array, False) = Ok (original', array', replace)"
      using Cons.prems(1) by (simp add: p)
    from Cons.IH [OF this Cons.prems(2)] Cons.prems(3) False show ?thesis by (simp add: dropped_keys_def)
  qed
qed (simp add: dropped_keys_def)

text \<open>
  A list merged by its key, item by item: an item the patch deletes is gone, an ordinary item of the patch is
  merged into the item with its key or added, and the other items of the object stay.
\<close>

definition patch_items :: "string \<Rightarrow> json list \<Rightarrow> bool" where
  "patch_items mk patch \<longleftrightarrow>
     list_all (\<lambda>p. plain_item mk p \<or> deleting_item mk p) patch \<and> keyed_items mk (ordinary patch)"

lemma plain_item_D: "plain_item mk p \<Longrightarrow> \<exists>pm. p = JObj pm \<and> map_of pm directiveMarker = None"
  by (cases p) (simp_all add: plain_item_def)

lemma deleting_item_D: "deleting_item mk p \<Longrightarrow> \<exists>pm. p = JObj pm \<and> map_of pm directiveMarker = Some (JStr deleteDirective)"
  by (cases p) (simp_all add: deleting_item_def)

lemma ordinary_plain: "patch_items mk patch \<Longrightarrow> list_all (plain_item mk) (ordinary patch)"
  by (auto simp: patch_items_def ordinary_def special_def list_all_iff has_key_def domIff dest!: deleting_item_D)

lemma patch_items_maps: "patch_items mk patch \<Longrightarrow> v \<in> set patch \<Longrightarrow> go_type v = map_kind"
  by (auto simp: patch_items_def list_all_iff map_kind_def dest!: bspec plain_item_D deleting_item_D)

lemma keyed_maps: "keyed_items mk xs \<Longrightarrow> v \<in> set xs \<Longrightarrow> go_type v = map_kind"
  by (auto simp: keyed_items_def map_kind_def dest!: bspec)

lemma mergeSlice_keyed:
  assumes "mergeSlice L original patch s mk opts False (merge_elements L opts s mk (ordinary patch)) = Ok (l, a)"
    and "keyed_items mk original" "patch_items mk patch" "mk \<noteq> []" "MergeParallelList opts" "IgnoreUnmatchedNulls opts"
  shows "keyed_items mk l \<and>
     (\<forall>x. merged_item L opts s (if x \<in> dropped_keys mk patch then None else item_at mk original x)
            (item_at mk (ordinary patch) x) (item_at mk l x))"
proof (cases "original = [] \<and> patch = []")
  case True
  with assms(1) show ?thesis
    by (auto simp: mergeSlice_def item_at_def ordinary_def merged_item_kept keyed_items_def)
next
  case False
  then have "sliceElementType [original, patch] = Ok map_kind"
    using keyed_maps [OF assms(2)] patch_items_maps [OF assms(3)] by (auto simp: sliceElementType_Ok map_kind_def)
  with assms(1,4) False obtain original' array replace m where steps:
      "special_elements mk patch (original, original, False) = Ok (original', array, replace)"
      "(if replace then Ok (ordinary patch) else merge_elements L opts s mk (ordinary patch) original') = Ok m"
      "mset l = mset m"
    by (auto simp: mergeSlice_def Let_def split: if_splits prod.splits
        dest!: partition_by_mset normalizeElementOrder_mset)
  have "list_all (\<lambda>p. plain_item mk p \<or> deleting_item mk p) patch" using assms(3) by (simp add: patch_items_def)
  from special_elements_keyed [OF steps(1) assms(2) this]
  have left: "\<not> replace" "original' = filter (\<lambda>v. field_of mk v \<notin> dropped_keys mk patch) original" by simp_all
  have "keyed_items mk (ordinary patch)" using assms(3) by (simp add: patch_items_def)
  with merge_elements_keyed [of L opts s mk "ordinary patch" original' m] steps(2) left assms ordinary_plain [OF assms(3)]
  have "keyed_items mk m" "merged_item L opts s (item_at mk original' x) (item_at mk (ordinary patch) x) (item_at mk m x)" for x
    by (simp_all add: keyed_filter)
  with item_at_mset [OF this(1) steps(3)] show ?thesis by (simp add: left(2) item_at_filter)
qed

end
