(* ===== verification/Struct_Schema.thy ===== *)
theory Struct_Schema
  imports Strategic_Merge Api_Types
begin

text \<open>
  \<open>PatchMetaFromStruct\<close> (\<open>vendor/k8s.io/apimachinery/pkg/util/strategicpatch/meta.go\<close>): the interface of
  strategic patches on Go types, over the lookup of a field by its JSON name in
  \<open>vendor/k8s.io/apimachinery/third_party/forked/golang/json/fields.go\<close>. A Go type is its description of
  \<open>Go_Converter\<close>; the tags of its fields that are about patches are in a table. No two fields of the
  types have the same name, so none hides another. Custom types count as no structs.
\<close>

section \<open>Tags\<close>

text \<open>The strategy and the merge key of a field, by the struct that has the field.\<close>

type_synonym field_tags = "(string \<times> string \<times> string) list"

definition tags_ObjectMeta :: field_tags where
  "tags_ObjectMeta =
     [(''ownerReferences'', ''merge'', ''uid''), (''finalizers'', ''merge'', '''')]"

definition tags_LabelSelectorRequirement :: field_tags where
  "tags_LabelSelectorRequirement =
     [(''key'', ''merge'', ''key'')]"

definition tags_Container :: field_tags where
  "tags_Container =
     [(''ports'', ''merge'', ''containerPort''), (''env'', ''merge'', ''name''),
      (''volumeMounts'', ''merge'', ''mountPath''), (''volumeDevices'', ''merge'', ''devicePath'')]"

definition tags_EphemeralContainerCommon :: field_tags where
  "tags_EphemeralContainerCommon =
     [(''env'', ''merge'', ''name''), (''volumeMounts'', ''merge'', ''mountPath''),
      (''volumeDevices'', ''merge'', ''devicePath'')]"

definition tags_PodSpec :: field_tags where
  "tags_PodSpec =
     [(''volumes'', ''merge,retainKeys'', ''name''), (''initContainers'', ''merge'', ''name''),
      (''containers'', ''merge'', ''name''), (''ephemeralContainers'', ''merge'', ''name''),
      (''imagePullSecrets'', ''merge'', ''name''), (''hostAliases'', ''merge'', ''ip''),
      (''topologySpreadConstraints'', ''merge'', ''topologyKey'')]"

definition tags_DeploymentSpec :: field_tags where
  "tags_DeploymentSpec =
     [(''strategy'', ''retainKeys'', '''')]"

definition tags_DeploymentStatus :: field_tags where
  "tags_DeploymentStatus =
     [(''conditions'', ''merge'', ''type'')]"

definition tags_DaemonSetStatus :: field_tags where
  "tags_DaemonSetStatus =
     [(''conditions'', ''merge'', ''type'')]"

lemmas tags_defs = tags_ObjectMeta_def tags_LabelSelectorRequirement_def tags_Container_def tags_EphemeralContainerCommon_def tags_PodSpec_def
  tags_DeploymentSpec_def tags_DeploymentStatus_def tags_DaemonSetStatus_def

definition patch_tags :: "gofield list \<Rightarrow> field_tags" where
  "patch_tags fs =
     (if fs = fs_ObjectMeta then tags_ObjectMeta
      else if fs = fs_LabelSelectorRequirement then tags_LabelSelectorRequirement
      else if fs = fs_Container then tags_Container
      else if fs = fs_EphemeralContainerCommon then tags_EphemeralContainerCommon
      else if fs = fs_PodSpec then tags_PodSpec
      else if fs = fs_DeploymentSpec then tags_DeploymentSpec
      else if fs = fs_DeploymentStatus then tags_DeploymentStatus
      else if fs = fs_DaemonSetStatus then tags_DaemonSetStatus
      else [])"

fun split_on :: "char \<Rightarrow> string \<Rightarrow> string list" where
  "split_on sep [] = [[]]"
| "split_on sep (c # s) =
     (if c = sep then [] # split_on sep s
      else case split_on sep s of [] \<Rightarrow> [[c]] | w # ws \<Rightarrow> (c # w) # ws)"

section \<open>Fields\<close>

text \<open>\<open>typeFields\<close>: the fields in order, those of an inlined struct in its place, each with its struct.\<close>

fun typeFields :: "gofield list \<Rightarrow> gofield list \<Rightarrow> (gofield list \<times> gofield) list" where
  "typeFields owner [] = []"
| "typeFields owner (Field g j oe t # fs) =
     (case t of
        TStruct inl \<Rightarrow> if j = [] then typeFields inl inl else [(owner, Field g j oe t)]
      | _ \<Rightarrow> [(owner, Field g j oe t)]) @ typeFields owner fs"

text \<open>\<open>bytes.EqualFold\<close> on ASCII.\<close>

definition lower :: "char \<Rightarrow> char" where
  "lower c = (let n = of_char c :: nat in if 65 \<le> n \<and> n \<le> 90 then char_of (n + 32) else c)"

definition equalFold :: "string \<Rightarrow> string \<Rightarrow> bool" where
  "equalFold s t \<longleftrightarrow> map lower s = map lower t"

definition find_field :: "gofield list \<Rightarrow> string \<Rightarrow> (gofield list \<times> gofield) option" where
  "find_field fs jsonField =
     (let fields = typeFields fs fs in
      case find (\<lambda>(owner, f). json_name f = jsonField) fields of
        Some f \<Rightarrow> Some f
      | None \<Rightarrow> find (\<lambda>(owner, f). equalFold (json_name f) jsonField) fields)"

section \<open>The interface\<close>

fun elem_type :: "gotype \<Rightarrow> gotype" where
  "elem_type (TPtr t) = t"
| "elem_type t = t"

definition struct_metadata :: "gotype \<Rightarrow> string \<Rightarrow> (gotype \<times> PatchMeta) result" where
  "struct_metadata t key =
     (case elem_type t of
        TStruct fs \<Rightarrow>
          (case find_field fs key of
             Some (owner, f) \<Rightarrow>
               (let (patchStrategy, mergeKey) = lookup_or ('''', '''') (patch_tags owner) (json_name f)
                in Ok (field_type f, \<lparr>patchStrategies = split_on CHR '','' patchStrategy, patchMergeKey = mergeKey\<rparr>))
           | None \<Rightarrow> Err (Errorf (''unable to find api field in struct for the json field '' @ key)))
      | u \<Rightarrow> Err (Errorf (''merging an object in json but data type is not struct, instead is: '' @ kind_name u)))"

definition slice_metadata :: "gotype \<Rightarrow> string \<Rightarrow> (gotype \<times> PatchMeta) result" where
  "slice_metadata t0 key =
     bind_result (struct_metadata t0 key) (\<lambda>(t, patchMeta).
       case t of
         TSlice elemType \<Rightarrow>
           (case elemType of
              TSlice u \<Rightarrow> Err (Errorf ''unexpected slice of slice'')
            | _ \<Rightarrow> Ok (elemType, patchMeta))
       | TPtr u \<Rightarrow> Ok (case u of TSlice elemType \<Rightarrow> elemType | _ \<Rightarrow> u, patchMeta)
       | _ \<Rightarrow> Err (Errorf (''expected slice or array type, but got: '' @ kind_name t0)))"

definition struct_schemas :: "(json \<Rightarrow> string) \<Rightarrow> gotype schemas" where
  "struct_schemas texts =
     \<lparr>LookupPatchMetadataForStruct = struct_metadata, LookupPatchMetadataForSlice = slice_metadata,
      schema_Name = kind_name, other_text = texts\<rparr>"

definition NewPatchMetaFromStruct :: "gotype \<Rightarrow> gotype result" where
  "NewPatchMetaFromStruct dataStruct =
     (case elem_type dataStruct of
        TStruct fs \<Rightarrow> Ok (TStruct fs)
      | u \<Rightarrow> Err (Errorf (''expected a struct, but received a '' @ kind_name dataStruct)))"

section \<open>The fields of the workloads\<close>

text \<open>No two fields of a struct have the same name, so none hides another.\<close>

definition distinct_names :: "gofield list \<Rightarrow> bool" where
  "distinct_names fs \<longleftrightarrow> distinct (map (\<lambda>(owner, f). json_name f) (typeFields fs fs))"

lemma workload_names_distinct:
  "distinct_names fs_Deployment" "distinct_names fs_DeploymentSpec" "distinct_names fs_PodSpec" "distinct_names fs_Container"
  "distinct_names fs_ObjectMeta" "distinct_names fs_Volume"
  by (simp_all add: distinct_names_def fs_Deployment_def fs_TypeMeta_def) (simp_all add: fs_DeploymentSpec_def fs_PodSpec_def fs_Container_def
    fs_ObjectMeta_def fs_Volume_def fs_VolumeSource_def)

end
