(* ===== verification/Strategic_Laws.thy ===== *)
theory Strategic_Laws
  imports Strategic_Merge_Laws Struct_Schema
begin

text \<open>
  What strategic patches do. A live object that has all a configuration says, its merged lists with the
  same items in the same order, gives no patch; a list of scalars that is not sorted always gives one.
\<close>

declare diffMaps.simps [simp del]

section \<open>Lists in step\<close>

lemma insort_key_all2:
  assumes "R x y" "f x = g y" and "list_all2 (\<lambda>a b. R a b \<and> f a = g b) xs ys"
  shows "list_all2 (\<lambda>a b. R a b \<and> f a = g b) (insort_key f x xs) (insort_key g y ys)"
  using assms(3) by (induction rule: list_all2_induct) (use assms(1,2) in auto)

lemma sort_key_all2:
  "list_all2 (\<lambda>a b. R a b \<and> f a = g b) xs ys \<Longrightarrow> list_all2 (\<lambda>a b. R a b \<and> f a = g b) (sort_key f xs) (sort_key g ys)"
  by (induction rule: list_all2_induct) (auto intro: insort_key_all2)

lemma sort_key_rev_all2:
  "list_all2 (\<lambda>a b. R a b \<and> f a = g b) xs ys \<Longrightarrow>
   list_all2 (\<lambda>a b. R a b \<and> f a = g b) (sort_key f (rev xs)) (sort_key g (rev ys))"
  by (rule sort_key_all2) simp

lemma DeepEqual_wf:
  "wf_json v \<Longrightarrow> DeepEqual v v"
  "wf_obj m \<Longrightarrow> (\<forall>(k, v) \<in> set m. map_of b k = Some v) \<Longrightarrow> equal_entries m b"
  "wf_list xs \<Longrightarrow> equal_lists xs xs"
  by (induction v and m and xs arbitrary: and b and rule: wf_json_wf_obj_wf_list.induct) auto

section \<open>A live object that has what a configuration says\<close>

definition same_key :: "string \<Rightarrow> json \<Rightarrow> json \<Rightarrow> bool" where
  "same_key mergeKey a b \<longleftrightarrow> hashable (field_of mergeKey a) \<and> field_of mergeKey a = field_of mergeKey b"

fun has_item_key :: "string \<Rightarrow> json \<Rightarrow> bool" where
  "has_item_key mergeKey (JObj m) = has_key mergeKey m"
| "has_item_key mergeKey v = False"

definition scalar_lists :: "json list \<Rightarrow> json list \<Rightarrow> bool" where
  "scalar_lists cs ms \<longleftrightarrow> (case sliceElementType [cs, ms] of Ok t \<Rightarrow> t \<noteq> map_kind | _ \<Rightarrow> False)"

lemma scalar_lists_iff [simp]: "scalar_lists cs ms \<longleftrightarrow> (\<exists>t. sliceElementType [cs, ms] = Ok t \<and> t \<noteq> map_kind)"
  by (simp add: scalar_lists_def split: result.split)

text \<open>By recursion on the configuration, the last argument.\<close>

fun settled_value :: "'s schemas \<Rightarrow> 's \<Rightarrow> string \<Rightarrow> json \<Rightarrow> json \<Rightarrow> bool"
and settled_fields :: "'s schemas \<Rightarrow> 's \<Rightarrow> obj \<Rightarrow> obj \<Rightarrow> bool"
and settled_item :: "'s schemas \<Rightarrow> 's \<Rightarrow> bool \<Rightarrow> json \<Rightarrow> json \<Rightarrow> bool"
and settled_items :: "'s schemas \<Rightarrow> 's \<Rightarrow> bool \<Rightarrow> string \<Rightarrow> json list \<Rightarrow> json list \<Rightarrow> bool"
where
  "settled_value L s k (JObj c) (JObj m) =
     (case LookupPatchMetadataForStruct L s k of
        Ok (sub, meta) \<Rightarrow>
          (case extractRetainKeysPatchStrategy (patchStrategies meta) of
             Ok (retain, strategy) \<Rightarrow>
               strategy \<noteq> replaceDirective \<and> (retain \<longrightarrow> \<not> hasAdditionalNewField c m) \<and> settled_fields L sub c m
           | _ \<Rightarrow> False)
      | Err e \<Rightarrow> DeepEqual (JObj c) (JObj m)
      | Panic p \<Rightarrow> False)"
| "settled_value L s k (JArr cs) (JArr ms) =
     (case LookupPatchMetadataForSlice L s k of
        Ok (sub, meta) \<Rightarrow>
          (case extractRetainKeysPatchStrategy (patchStrategies meta) of
             Ok (retain, strategy) \<Rightarrow>
               if strategy = mergeDirective then
                 (cs = [] \<and> ms = []) \<or>
                 (ms \<noteq> [] \<and> patchMergeKey meta \<noteq> [] \<and> settled_items L sub retain (patchMergeKey meta) cs ms) \<or>
                 (ms \<noteq> [] \<and> scalar_lists cs ms \<and> sortScalars L cs = ms)
               else DeepEqual (JArr cs) (JArr ms)
           | _ \<Rightarrow> False)
      | Err e \<Rightarrow> DeepEqual (JArr cs) (JArr ms)
      | Panic p \<Rightarrow> False)"
| "settled_value L s k c m = (c = m)"
| "settled_fields L s c [] = True"
| "settled_fields L s c ((k, v) # m) =
     (k \<noteq> directiveMarker \<and> (case map_of c k of None \<Rightarrow> False | Some u \<Rightarrow> settled_value L s k u v) \<and> settled_fields L s c m)"
| "settled_item L s retain (JObj c) (JObj m) = ((retain \<longrightarrow> \<not> hasAdditionalNewField c m) \<and> settled_fields L s c m)"
| "settled_item L s retain c m = False"
| "settled_items L s retain mergeKey [] ms = (ms = [])"
| "settled_items L s retain mergeKey (c # cs) ms =
     (case ms of
        [] \<Rightarrow> False
      | m # ms' \<Rightarrow>
          has_item_key mergeKey c \<and> has_item_key mergeKey m \<and> same_key mergeKey c m \<and> settled_item L s retain c m \<and>
          settled_items L s retain mergeKey cs ms')"

section \<open>No difference\<close>

definition field_diff :: "'s schemas \<Rightarrow> DiffOptions \<Rightarrow> 's \<Rightarrow> string \<Rightarrow> json \<Rightarrow> json \<Rightarrow> obj \<Rightarrow> obj result" where
  "field_diff L opts schema key u v patch =
     (if go_type u \<noteq> go_type v
      then Ok (if IgnoreChangesAndAdditions opts then patch else AList.update key v patch)
      else (case (u, v) of
              (JObj om, JObj mm) \<Rightarrow>
                handleMapDiff L key om mm patch schema opts (\<lambda>subschema opts'. diffMaps L opts' subschema om mm)
            | (JArr ol, JArr ml) \<Rightarrow>
                handleSliceDiff L key ol ml patch schema opts
                  (\<lambda>subschema opts' mergeKey.
                     diff_sorted L opts' subschema mergeKey
                       (sortMapsBasedOnField L mergeKey ol) (sortMapsBasedOnField L mergeKey ml))
            | _ \<Rightarrow> Ok (replacePatchFieldIfNotEqual key u v patch opts)))"

lemma diff_fields_Cons:
  "key \<noteq> directiveMarker \<Longrightarrow> map_of original key = Some u \<Longrightarrow>
   diff_fields L opts schema original ((key, v) # modified) patch =
     bind_result (field_diff L opts schema key u v patch) (diff_fields L opts schema original modified)"
  by (simp add: field_diff_def)

text \<open>Two items that belong together and do not differ, and an item that does not differ from itself.\<close>

definition unchanged :: "'s schemas \<Rightarrow> 's \<Rightarrow> bool \<Rightarrow> json \<Rightarrow> json \<Rightarrow> bool" where
  "unchanged L s retain c m \<longleftrightarrow>
     (\<exists>cm mm. c = JObj cm \<and> m = JObj mm \<and>
       (\<forall>opts. IgnoreDeletions opts \<and> BuildRetainKeysDirective opts = retain \<longrightarrow> diffMaps L opts s cm mm = Ok []) \<and>
       (\<forall>opts. IgnoreChangesAndAdditions opts \<longrightarrow> diffMaps L opts s mm mm = Ok []))"

definition item_unchanged :: "'s schemas \<Rightarrow> 's \<Rightarrow> bool \<Rightarrow> string \<Rightarrow> json \<Rightarrow> json \<Rightarrow> bool" where
  "item_unchanged L s retain mergeKey c m \<longleftrightarrow>
     has_item_key mergeKey c \<and> has_item_key mergeKey m \<and> same_key mergeKey c m \<and> unchanged L s retain c m"

lemma getMap_has: "has_item_key k v \<Longrightarrow> getMapAndMergeKeyValue k v = Ok (case v of JObj m \<Rightarrow> m | _ \<Rightarrow> [], field_of k v)"
  by (cases v) (auto simp: getMapAndMergeKeyValue_def has_key_def lookup_or_def)

lemma diff_sorted_none:
  assumes "list_all2 (\<lambda>a b. has_item_key k a \<and> has_item_key k b \<and> field_of k a = field_of k b \<and>
      (\<exists>am bm. a = JObj am \<and> b = JObj bm \<and> diffMaps L opts s am bm = Ok [])) xs ys"
  shows "diff_sorted L opts s k xs ys = Ok ([], [])"
  using assms by (induction rule: list_all2_induct) (auto simp: getMap_has)

lemma validate_has: "list_all (has_item_key k) xs \<Longrightarrow> validateMergeKeyInLists k xs = Ok ()"
proof (induction xs)
  case (Cons v xs)
  then show ?case by (cases v) simp_all
qed simp

lemma same_keys_Ok:
  assumes "list_all2 (\<lambda>a b. has_item_key k a \<and> has_item_key k b \<and> same_key k a b) xs ys" and "k \<noteq> []"
  shows "same_keys k xs ys = Ok True"
  using assms(1)
proof (induction rule: list_all2_induct)
  case (Cons a xs b ys)
  then have "mergeKeyValueEqual a b k = Ok True"
    by (cases a; cases b) (auto simp: mergeKeyValueEqual_def assms(2) has_key_def same_key_def lookup_or_def iface_eq_hashable)
  with Cons show ?case by simp
qed simp

lemma map_element_type:
  "list_all (\<lambda>v. \<exists>m. v = JObj m) xs \<Longrightarrow> t = None \<or> t = Some map_kind \<Longrightarrow>
   element_type t xs = Ok (if xs = [] then t else Some map_kind)"
  by (induction xs arbitrary: t) (auto simp: map_kind_def)

lemma diffLists_maps:
  assumes items: "list_all2 (\<lambda>a b. has_item_key k a \<and> has_item_key k b \<and> same_key k a b \<and>
      (\<exists>am bm. a = JObj am \<and> b = JObj bm \<and> diffMaps L opts s am bm = Ok [])) cs ms"
    and "ms \<noteq> []" and "k \<noteq> []"
  shows "diffLists L cs ms k opts (diff_sorted L opts s k (sortMapsBasedOnField L k cs) (sortMapsBasedOnField L k ms)) = Ok ([], [], [])"
proof -
  let ?R = "\<lambda>a b. has_item_key k a \<and> has_item_key k b \<and> same_key k a b \<and>
      (\<exists>am bm. a = JObj am \<and> b = JObj bm \<and> diffMaps L opts s am bm = Ok [])"
  have "list_all2 (\<lambda>a b. ?R a b \<and> Sprintf_v L (field_of k a) = Sprintf_v L (field_of k b)) cs ms"
    using items by (rule list_all2_mono) (metis same_key_def)
  from sort_key_rev_all2 [OF this]
  have "list_all2 ?R (sortMapsBasedOnField L k cs) (sortMapsBasedOnField L k ms)"
    unfolding sortMapsBasedOnField_def by (rule list_all2_mono) simp
  then have sorted: "diff_sorted L opts s k (sortMapsBasedOnField L k cs) (sortMapsBasedOnField L k ms) = Ok ([], [])"
    by (intro diff_sorted_none) (erule list_all2_mono, metis same_key_def)
  have maps: "list_all (\<lambda>v. \<exists>m. v = JObj m) (cs @ ms)" and keyed: "list_all (has_item_key k) ms"
    using items by (induction rule: list_all2_induct) auto
  have "sliceElementType [cs, ms] = Ok map_kind"
    using map_element_type [OF maps, of None] assms(2) by (simp add: sliceElementType_def)
  moreover have "isOrderSame cs ms k = Ok True"
  proof -
    have "list_all2 (\<lambda>a b. has_item_key k a \<and> has_item_key k b \<and> same_key k a b) cs ms"
      using items by (rule list_all2_mono) blast
    from same_keys_Ok [OF this assms(3)] list_all2_lengthD [OF this] show ?thesis by (simp add: isOrderSame_def)
  qed
  moreover have "cs \<noteq> []" using items assms(2) by auto
  ultimately show ?thesis
    by (simp add: diffLists_def sorted normalizeSliceOrder_def SliceStable_def validate_has [OF keyed])
qed

lemma scalar_diff_none:
  "map (Sprintf_v L) xs = map (Sprintf_v L) ys \<Longrightarrow> scalar_diff L opts xs ys = ([], [])"
  by (induction L opts xs ys rule: scalar_diff.induct) auto

lemma sort_key_map_same: "map f xs = map f ys \<Longrightarrow> map f (sort_key f (rev xs)) = map f (sort_key f (rev ys))"
proof -
  assume "map f xs = map f ys"
  then have "list_all2 (\<lambda>a b. True \<and> f a = f b) xs ys" by (simp add: list_all2_conv_all_nth list_eq_iff_nth_eq)
  from sort_key_rev_all2 [OF this] show ?thesis by (auto simp: list_all2_conv_all_nth list_eq_iff_nth_eq)
qed

lemma sortScalars_texts: "map (Sprintf_v L) (sortScalars L xs) = sort (map (Sprintf_v L) xs)"
proof (rule properties_for_sort [symmetric])
  show "mset (map (Sprintf_v L) (sortScalars L xs)) = mset (map (Sprintf_v L) xs)"
    unfolding sortScalars_def mset_map by simp
  show "sorted (map (Sprintf_v L) (sortScalars L xs))" by (simp add: sortScalars_def)
qed

lemma diffLists_scalars:
  assumes "sliceElementType [cs, ms] = Ok t" "t \<noteq> map_kind" and "cs \<noteq> []"
    and "mset (map (Sprintf_v L) cs) = mset (map (Sprintf_v L) ms)"
  shows "diffLists L cs ms k opts r =
    Ok ([], [], if SetElementOrder opts \<and> \<not> IgnoreChangesAndAdditions opts \<and> \<not> DeepEqual (JArr (sortScalars L cs)) (JArr ms) then ms else [])"
proof -
  have "map (Sprintf_v L) (sortScalars L cs) = map (Sprintf_v L) (sortScalars L ms)"
    unfolding sortScalars_texts using assms(4) by (metis sorted_list_of_multiset_mset)
  from scalar_diff_none [OF this] show ?thesis
    using assms(1-3) by (simp add: diffLists_def diffListsOfScalars_def normalizeSliceOrder_def SliceStable_def)
qed

lemma diffMaps_none:
  assumes "diff_fields L opts s c m [] = Ok []"
    and "IgnoreDeletions opts \<or> (\<forall>k \<in> set (keys c). has_key k m)"
    and "BuildRetainKeysDirective opts \<longrightarrow> \<not> hasAdditionalNewField c m"
  shows "diffMaps L opts s c m = Ok []"
proof -
  have "updatePatchIfMissing c m [] opts = []"
  proof (cases "IgnoreDeletions opts")
    case False
    then have none: "filter (\<lambda>(key, _). \<not> has_key key m) c = []"
      using assms(2) by (auto simp: filter_empty_conv)
    then show ?thesis by (simp add: updatePatchIfMissing_def)
  qed (simp add: updatePatchIfMissing_def)
  then show ?thesis using assms(1,3) by (auto simp: diffMaps.simps with_retainKeys_def retained_def)
qed

lemma no_additional_self: "\<not> hasAdditionalNewField m m"
  by (force simp: hasAdditionalNewField_def has_key_iff)

lemma field_diff_scalar: "hashable v \<Longrightarrow> field_diff L opts s k v v patch = Ok patch"
  by (cases v) (simp_all add: field_diff_def replacePatchFieldIfNotEqual_def)

lemma map_diff_none:
  assumes "LookupPatchMetadataForStruct L s k = Ok (sub, meta)"
    and "extractRetainKeysPatchStrategy (patchStrategies meta) = Ok (retain, strategy)" and "strategy \<noteq> replaceDirective"
    and "diffMaps L (opts\<lparr>BuildRetainKeysDirective := retain\<rparr>) sub c m = Ok []"
  shows "field_diff L opts s k (JObj c) (JObj m) patch = Ok patch"
  using assms by (simp add: field_diff_def handleMapDiff_def)

lemma list_diff_none:
  assumes "LookupPatchMetadataForSlice L s k = Ok (sub, meta)"
    and "extractRetainKeysPatchStrategy (patchStrategies meta) = Ok (retain, mergeDirective)"
    and "\<And>r. diffLists L cs ms (patchMergeKey meta) (opts\<lparr>BuildRetainKeysDirective := retain\<rparr>)
      (diff_sorted L (opts\<lparr>BuildRetainKeysDirective := retain\<rparr>) sub (patchMergeKey meta)
        (sortMapsBasedOnField L (patchMergeKey meta) cs) (sortMapsBasedOnField L (patchMergeKey meta) ms)) = Ok ([], [], [])"
  shows "field_diff L opts s k (JArr cs) (JArr ms) patch = Ok patch"
  using assms by (simp add: field_diff_def handleSliceDiff_def put_list_def)

lemma items_diff_none:
  assumes "list_all2 (item_unchanged L sub retain mk) cs ms" and "ms \<noteq> []" "mk \<noteq> []" and "BuildRetainKeysDirective opts = retain"
  shows "IgnoreDeletions opts \<Longrightarrow>
      diffLists L cs ms mk opts (diff_sorted L opts sub mk (sortMapsBasedOnField L mk cs) (sortMapsBasedOnField L mk ms)) = Ok ([], [], [])"
    and "IgnoreChangesAndAdditions opts \<Longrightarrow>
      diffLists L ms ms mk opts (diff_sorted L opts sub mk (sortMapsBasedOnField L mk ms) (sortMapsBasedOnField L mk ms)) = Ok ([], [], [])"
proof -
  assume "IgnoreDeletions opts"
  with assms(1,4) show "diffLists L cs ms mk opts (diff_sorted L opts sub mk (sortMapsBasedOnField L mk cs) (sortMapsBasedOnField L mk ms)) = Ok ([], [], [])"
    by (intro diffLists_maps [OF _ assms(2,3)]) (erule list_all2_mono, auto simp: item_unchanged_def unchanged_def)
next
  assume ignore: "IgnoreChangesAndAdditions opts"
  have "list_all2 (\<lambda>a b. has_item_key mk a \<and> has_item_key mk b \<and> same_key mk a b \<and>
      (\<exists>am bm. a = JObj am \<and> b = JObj bm \<and> diffMaps L opts sub am bm = Ok [])) ms ms"
    using assms(1)
  proof (induction rule: list_all2_induct)
    case (Cons c cs m ms)
    then show ?case using ignore by (auto simp: item_unchanged_def unchanged_def same_key_def)
  qed simp
  then show "diffLists L ms ms mk opts (diff_sorted L opts sub mk (sortMapsBasedOnField L mk ms) (sortMapsBasedOnField L mk ms)) = Ok ([], [], [])"
    by (rule diffLists_maps [OF _ assms(2,3)])
qed

lemma settled_none:
  "settled_value L s k c m \<Longrightarrow> wf_json m \<Longrightarrow>
     (\<forall>opts patch. IgnoreDeletions opts \<longrightarrow> field_diff L opts s k c m patch = Ok patch) \<and>
     (\<forall>opts patch. IgnoreChangesAndAdditions opts \<longrightarrow> field_diff L opts s k m m patch = Ok patch)"
  "settled_fields L s co mo \<Longrightarrow> wf_obj mo \<Longrightarrow>
     (\<forall>opts patch. IgnoreDeletions opts \<longrightarrow> diff_fields L opts s co mo patch = Ok patch) \<and>
     (\<forall>opts patch m0. IgnoreChangesAndAdditions opts \<and> (\<forall>(k, v) \<in> set mo. map_of m0 k = Some v) \<longrightarrow>
        diff_fields L opts s m0 mo patch = Ok patch)"
  "settled_item L s retain c m \<Longrightarrow> wf_json m \<Longrightarrow> unchanged L s retain c m"
  "settled_items L s retain mk cs ms \<Longrightarrow> wf_list ms \<Longrightarrow> list_all2 (item_unchanged L s retain mk) cs ms"
proof (induction L s k c m and L s co mo and L s retain c m and L s retain mk cs ms
    rule: settled_value_settled_fields_settled_item_settled_items.induct)
  case (1 L s k c m)
  show ?case
  proof (cases "LookupPatchMetadataForStruct L s k")
    case (Ok x)
    obtain sub meta where x: "x = (sub, meta)" by force
    with 1(2) Ok obtain retain strategy where meta: "extractRetainKeysPatchStrategy (patchStrategies meta) = Ok (retain, strategy)"
      and s: "strategy \<noteq> replaceDirective" "retain \<longrightarrow> \<not> hasAdditionalNewField c m" "settled_fields L sub c m"
      by (auto split: result.splits)
    have m: "wf_obj m" "distinct (keys m)" using 1(3) by simp_all
    note ih = 1(1) [OF Ok x [symmetric] meta refl s(3) m(1)]
    have "diffMaps L (opts\<lparr>BuildRetainKeysDirective := retain\<rparr>) sub c m = Ok []" if "IgnoreDeletions opts" for opts
      using that ih s(2) by (intro diffMaps_none) simp_all
    moreover have "diffMaps L (opts\<lparr>BuildRetainKeysDirective := retain\<rparr>) sub m m = Ok []" if "IgnoreChangesAndAdditions opts" for opts
      using that ih m(2) by (intro diffMaps_none) (auto simp: has_key_iff no_additional_self)
    ultimately show ?thesis using map_diff_none [OF Ok [unfolded x] meta s(1)] by blast
  next
    case (Err e)
    then show ?thesis using 1(2,3) DeepEqual_wf(1) [OF 1(3)] by (auto simp: field_diff_def handleMapDiff_def)
  next
    case (Panic p)
    then show ?thesis using 1(2) by simp
  qed
next
  case (2 L s k cs ms)
  have self: "DeepEqual (JArr ms) (JArr ms)" by (rule DeepEqual_wf(1) [OF 2(3)])
  show ?case
  proof (cases "LookupPatchMetadataForSlice L s k")
    case (Ok x)
    obtain sub meta where x: "x = (sub, meta)" by force
    with 2(2) Ok obtain retain strategy where meta: "extractRetainKeysPatchStrategy (patchStrategies meta) = Ok (retain, strategy)"
      by (auto split: result.splits)
    show ?thesis
    proof (cases "strategy = mergeDirective")
      case merge: True
      note none = list_diff_none [OF Ok [unfolded x] meta [unfolded merge]]
      consider (empty) "cs = []" "ms = []"
        | (items) "ms \<noteq> []" "patchMergeKey meta \<noteq> []" "settled_items L sub retain (patchMergeKey meta) cs ms"
        | (scalars) t where "ms \<noteq> []" "sliceElementType [cs, ms] = Ok t" "t \<noteq> map_kind" "sortScalars L cs = ms"
        using 2(2) merge by (auto simp: Ok x meta)
      then show ?thesis
      proof cases
        case empty
        then show ?thesis by (intro conjI allI impI none) (simp_all add: diffLists_def)
      next
        case items
        have "list_all2 (item_unchanged L sub retain (patchMergeKey meta)) cs ms"
          using 2(1) [OF Ok x [symmetric] meta refl merge items(3)] 2(3) by simp
        from items_diff_none [OF this items(1,2)] show ?thesis by (intro conjI allI impI none) simp_all
      next
        case scalars
        have types: "sliceElementType [ms, ms] = Ok t" "cs \<noteq> []"
          using scalars by (auto simp: sliceElementType_Ok sortScalars_def)
        have "mset (map (Sprintf_v L) cs) = mset (map (Sprintf_v L) ms)"
          unfolding scalars(4) [symmetric] sortScalars_texts by simp
        from diffLists_scalars [OF scalars(2,3) types(2) this] diffLists_scalars [where L = L, OF types(1) scalars(3,1) HOL.refl] self
        show ?thesis by (intro conjI allI impI none) (simp_all add: scalars(4))
      qed
    next
      case False
      then show ?thesis using 2(2) self
        by (auto simp: Ok x meta field_diff_def handleSliceDiff_def replacePatchFieldIfNotEqual_def)
    qed
  next
    case (Err e)
    then show ?thesis using 2(2) self by (auto simp: field_diff_def handleSliceDiff_def)
  next
    case (Panic p)
    then show ?thesis using 2(2) by simp
  qed
next
  case (5 L s c k v m)
  then obtain u where u: "map_of c k = Some u" "settled_value L s k u v" and k: "k \<noteq> directiveMarker"
    by (auto split: option.splits)
  have "wf_json v" "wf_obj m" "settled_fields L s c m" using 5(3,4) by simp_all
  then show ?case
    using 5(1) [OF u] 5(2) u(1) k by (simp add: diff_fields_Cons del: diff_fields.simps(2)) 
next
  case (6 L s retain c m)
  then have m: "settled_fields L s c m" "retain \<longrightarrow> \<not> hasAdditionalNewField c m" "wf_obj m" "distinct (keys m)" by simp_all
  note ih = 6(1) [OF m(1,3)]
  have "diffMaps L opts s c m = Ok []" if "IgnoreDeletions opts" "BuildRetainKeysDirective opts = retain" for opts
    using that ih m(2) by (intro diffMaps_none) simp_all
  moreover have "diffMaps L opts s m m = Ok []" if "IgnoreChangesAndAdditions opts" for opts
    using that ih m(4) by (intro diffMaps_none) (auto simp: has_key_iff no_additional_self)
  ultimately show ?case by (simp add: unchanged_def)
next
  case (9 L s retain mk c cs ms)
  then show ?case by (cases ms) (auto simp: item_unchanged_def)
qed (auto simp: field_diff_scalar)

end
