(* ===== verification/Strategic_Apply.thy ===== *)
theory Strategic_Apply
  imports Strategic_Laws Scheme
begin

text \<open>
  The strategic half of \<open>manifestival/patch/patch.go\<close>: \<open>createStrategicMergePatch\<close> and \<open>Merge\<close> for the kinds
  the scheme knows, as the instance of \<open>patching\<close> that \<open>Json_Patches\<close> leaves open; and what it means for
  applying a resource.
\<close>

section \<open>The instance\<close>

definition createStrategicMergePatch ::
    "(json \<Rightarrow> string) \<Rightarrow> doc_text \<Rightarrow> doc_text \<Rightarrow> doc_text \<Rightarrow> gotype \<Rightarrow> (json \<times> gotype) option result" where
  "createStrategicMergePatch texts original modified current dataStruct =
     bind_result (NewPatchMetaFromStruct dataStruct) (\<lambda>schema.
     bind_result (CreateThreeWayMergePatch (struct_schemas texts) original modified current schema) (\<lambda>patch.
       Ok (map_option (\<lambda>p. (p, schema)) (create patch))))"

definition strategic_Merge :: "(json \<Rightarrow> string) \<Rightarrow> json \<times> gotype \<Rightarrow> obj \<Rightarrow> obj result" where
  "strategic_Merge texts p u =
     (case p of (patch, schema) \<Rightarrow>
        bind_result (StrategicMergePatchUsingLookupPatchMeta (struct_schemas texts) (Text (JObj u)) (Text patch) schema)
          UnmarshalJSON)"

text \<open>\<open>types\<close> is what \<open>scheme.Scheme.New\<close> makes for a kind, if it is registered.\<close>

definition strategic_New ::
    "(json \<Rightarrow> string) \<Rightarrow> (string \<Rightarrow> doc_text) \<Rightarrow> (GroupVersionKind \<Rightarrow> gotype option) \<Rightarrow> obj \<Rightarrow> obj \<Rightarrow> (json \<times> gotype) option result" where
  "strategic_New texts parse types current modif =
     (case types (GroupVersionKind_of modif) of
        None \<Rightarrow> Err (Errorf ''no kind is registered'')
      | Some dataStruct \<Rightarrow>
          createStrategicMergePatch texts (getLastAppliedConfig parse current) (Text (JObj modif)) (Text (JObj current)) dataStruct)"

definition strategic_patching ::
    "(obj \<Rightarrow> string) \<Rightarrow> (json \<Rightarrow> string) \<Rightarrow> (string \<Rightarrow> doc_text) \<Rightarrow> (GroupVersionKind \<Rightarrow> gotype option) \<Rightarrow> (json \<times> gotype) patching" where
  "strategic_patching marshal texts parse types =
     \<lparr>MarshalJSON = marshal, patch_New = strategic_New texts parse types, patch_Merge = strategic_Merge texts\<rparr>"

text \<open>Both halves: every patch the manifest library makes.\<close>

definition library_patching ::
    "(obj \<Rightarrow> string) \<Rightarrow> (json \<Rightarrow> string) \<Rightarrow> (string \<Rightarrow> doc_text) \<Rightarrow> (GroupVersionKind \<Rightarrow> gotype option) \<Rightarrow>
     (json + json \<times> gotype) patching" where
  "library_patching marshal texts parse types =
     merge_patching parse (\<lambda>gvk. types gvk \<noteq> None) (strategic_patching marshal texts parse types)"

definition workload_types :: "GroupVersionKind \<Rightarrow> gotype option" where
  "workload_types gvk =
     (if gvk = gvk_Deployment then Some (TPtr (TStruct fs_Deployment))
      else if gvk = gvk_DaemonSet then Some (TPtr (TStruct fs_DaemonSet))
      else None)"

section \<open>A settled resource\<close>

lemma convert_invs:
  "wf_json v \<Longrightarrow> wf_json (convertNumbers v)"
  "wf_obj m \<Longrightarrow> wf_obj (convertMapNumbers m) \<and> keys (convertMapNumbers m) = keys m"
  "wf_list xs \<Longrightarrow> wf_list (convertSliceNumbers xs)"
  by (induction v and m and xs rule: convertNumbers_convertMapNumbers_convertSliceNumbers.induct)
    (auto simp: convertNumber_def)

lemma mergeMap_empty [simp]: "mergeMap L opts s [] [] = Ok []"
  by (simp add: mergeMap.simps applyRetainKeysDirective_def)

lemma three_way_settled:
  assumes "settled_fields L s (convertMapNumbers c) (convertMapNumbers m)" and "wf_obj m" "distinct (keys m)"
  shows "CreateThreeWayMergePatch L (Text (JObj m)) (Text (JObj m)) (Text (JObj c)) s = Ok (JObj [])"
proof -
  let ?c = "convertMapNumbers c" and ?m = "convertMapNumbers m"
  have wf: "wf_obj ?m" "distinct (keys ?m)" using convert_invs(2) [OF assms(2)] assms(3) by simp_all
  note none = settled_none(2) [OF assms(1) wf(1)]
  have "diffMaps L deltaMapDiffOptions s ?c ?m = Ok []"
    using none by (intro diffMaps_none) (simp_all add: deltaMapDiffOptions_def)
  moreover have "diffMaps L deletionsMapDiffOptions s ?m ?m = Ok []"
    using none wf(2) by (intro diffMaps_none) (auto simp: deletionsMapDiffOptions_def has_key_iff)
  ultimately show ?thesis by (simp add: CreateThreeWayMergePatch_def unmarshal_or_empty_def)
qed

lemma library_settled:
  assumes "types (GroupVersionKind_of m) = Some (TPtr (TStruct fs))"
    and "settled_fields (struct_schemas texts) (TStruct fs) (convertMapNumbers c) (convertMapNumbers m)"
    and "wf_obj m" "distinct (keys m)" and "getLastAppliedConfig parse c = Text (JObj m)"
  shows "patch_New (library_patching marshal texts parse types) c m = Ok None"
  using three_way_settled [OF assms(2-4)] assms(1,5)
  by (simp add: library_patching_def merge_patching_def New_patch_def strategic_patching_def strategic_New_def
      createStrategicMergePatch_def NewPatchMetaFromStruct_def create_def)

section \<open>Finalizers that are not sorted\<close>

lemma SliceStable_sorted:
  assumes "\<And>i j. i < j \<Longrightarrow> j < length xs \<Longrightarrow> lt (xs ! j) (xs ! i) = Ok False"
  shows "SliceStable lt xs = Ok xs"
proof -
  have "fold_result (sift lt) xs [] = Ok (rev xs)"
    using assms
  proof (induction xs rule: rev_induct)
    case (snoc x xs)
    have "fold_result (sift lt) xs [] = Ok (rev xs)"
    proof (rule snoc.IH)
      show "lt (xs ! j) (xs ! i) = Ok False" if "i < j" "j < length xs" for i j
        using snoc.prems [of i j] that by (simp add: nth_append)
    qed
    moreover have "sift lt x (rev xs) = Ok (x # rev xs)"
    proof (cases xs rule: rev_cases)
      case (snoc ys y)
      then show ?thesis using snoc.prems [of "length ys" "length xs"] by (simp add: nth_append)
    qed simp
    ultimately show ?case by (simp add: fold_result_append)
  qed simp
  then show ?thesis by (simp add: SliceStable_def)
qed

text \<open>The place of an element in a list of different values.\<close>

lemma index_of_nth:
  assumes "distinct xs" and "list_all hashable xs" and "i < length xs"
  shows "index_of False k xs (xs ! i) = Ok (Some i)"
  using assms
proof (induction xs arbitrary: i)
  case (Cons x xs)
  then show ?case
    by (cases i) (auto simp: item_value_def iface_eq_hashable list_all_iff)
qed simp

lemma normalize_same:
  assumes "distinct xs" and "list_all hashable xs"
  shows "normalizeSliceOrder xs xs k False = Ok xs"
proof -
  have "SliceStable (less_in False k xs) xs = Ok xs"
    using assms by (intro SliceStable_sorted) (simp add: less_in_def index_of_nth)
  then show ?thesis by (simp add: normalizeSliceOrder_def)
qed

lemma order_same:
  assumes "distinct xs" and "list_all hashable xs"
  shows "normalizeElementOrder xs [] xs xs k False = Ok xs"
  by (simp add: normalizeElementOrder_def normalize_same [OF assms]) (simp add: normalizeSliceOrder_def SliceStable_def)

text \<open>The look-ups of fields, over the tags of the structs that have them.\<close>

lemma workload_tags:
  "patch_tags fs_ObjectMeta = tags_ObjectMeta"
  "patch_tags fs_PodSpec = tags_PodSpec"
  "patch_tags fs_DeploymentSpec = tags_DeploymentSpec"
  "patch_tags fs_Deployment = []"
  "patch_tags fs_PodTemplateSpec = []"
  by (simp_all add: patch_tags_def fs_PodSpec_def fs_ObjectMeta_def fs_LabelSelectorRequirement_def fs_Container_def
      fs_EphemeralContainerCommon_def fs_DeploymentSpec_def fs_Deployment_def fs_PodTemplateSpec_def fs_TypeMeta_def
      fs_DeploymentStatus_def fs_DaemonSetStatus_def)

lemma workload_fields:
  "find_field fs_Deployment ''metadata'' = Some (fs_Deployment, Field ''ObjectMeta'' ''metadata'' True (TStruct fs_ObjectMeta))"
  "find_field fs_Deployment ''spec'' = Some (fs_Deployment, Field ''Spec'' ''spec'' True (TStruct fs_DeploymentSpec))"
  "find_field fs_DeploymentSpec ''template'' =
     Some (fs_DeploymentSpec, Field ''Template'' ''template'' False (TStruct fs_PodTemplateSpec))"
  "find_field fs_PodTemplateSpec ''spec'' = Some (fs_PodTemplateSpec, Field ''Spec'' ''spec'' True (TStruct fs_PodSpec))"
  "find_field fs_PodSpec ''containers'' =
     Some (fs_PodSpec, Field ''Containers'' ''containers'' False (TSlice (TStruct fs_Container)))"
  "find_field fs_ObjectMeta ''finalizers'' = Some (fs_ObjectMeta, Field ''Finalizers'' ''finalizers'' True (TSlice TString))"
  by (simp_all add: find_field_def) (simp_all add: fs_Deployment_def fs_TypeMeta_def fs_DeploymentSpec_def fs_PodTemplateSpec_def
      fs_PodSpec_def fs_ObjectMeta_def)

lemma metadata_schema:
  "struct_metadata (TStruct fs_Deployment) ''metadata'' = Ok (TStruct fs_ObjectMeta, \<lparr>patchStrategies = [''''], patchMergeKey = ''''\<rparr>)"
  "slice_metadata (TStruct fs_ObjectMeta) ''finalizers'' = Ok (TString, \<lparr>patchStrategies = [''merge''], patchMergeKey = ''''\<rparr>)"
  by (simp_all add: slice_metadata_def struct_metadata_def workload_fields workload_tags tags_defs lookup_or_def)

lemma pod_schema:
  "struct_metadata (TStruct fs_Deployment) ''spec'' =
     Ok (TStruct fs_DeploymentSpec, \<lparr>patchStrategies = [''''], patchMergeKey = ''''\<rparr>)"
  "struct_metadata (TStruct fs_DeploymentSpec) ''template'' =
     Ok (TStruct fs_PodTemplateSpec, \<lparr>patchStrategies = [''''], patchMergeKey = ''''\<rparr>)"
  "struct_metadata (TStruct fs_PodTemplateSpec) ''spec'' =
     Ok (TStruct fs_PodSpec, \<lparr>patchStrategies = [''''], patchMergeKey = ''''\<rparr>)"
  "slice_metadata (TStruct fs_PodSpec) ''containers'' =
     Ok (TStruct fs_Container, \<lparr>patchStrategies = [''merge''], patchMergeKey = ''name''\<rparr>)"
  by (simp_all add: slice_metadata_def struct_metadata_def workload_fields workload_tags tags_defs lookup_or_def)

lemma strings_equal: "length xs = length ys \<Longrightarrow> equal_lists (map JStr xs) (map JStr ys) \<longleftrightarrow> xs = ys"
  by (induction xs ys rule: list_induct2) auto

lemma strings_sorted: "sortScalars L (map JStr fs) = map JStr (sort fs)"
proof -
  have "map (\<lambda>v. JStr (Sprintf_v L v)) (sortScalars L (map JStr fs)) = sortScalars L (map JStr fs)"
    by (rule map_idI) (auto simp: sortScalars_def)
  then have "sortScalars L (map JStr fs) = map JStr (map (Sprintf_v L) (sortScalars L (map JStr fs)))"
    by (simp add: comp_def)
  also have "\<dots> = map JStr (sort fs)" unfolding sortScalars_texts by (simp add: comp_def)
  finally show ?thesis .
qed

lemma strings_converted: "convertSliceNumbers (map JStr fs) = map JStr fs"
  by (induction fs) auto

lemma strings_type: "fs \<noteq> [] \<Longrightarrow> sliceElementType [map JStr fs, map JStr fs] = Ok (go_type (JStr []))"
  by (cases fs) (auto simp: sliceElementType_Ok)

definition finalized_object :: "string \<Rightarrow> string \<Rightarrow> string \<Rightarrow> string list \<Rightarrow> obj" where
  "finalized_object v k n fs =
     [(''apiVersion'', JStr v), (''kind'', JStr k), (''metadata'', JObj [(''name'', JStr n), (''finalizers'', JArr (map JStr fs))])]"

lemma finalized_converted: "convertMapNumbers (finalized_object v k n fs) = finalized_object v k n fs"
  by (simp add: finalized_object_def strings_converted)

lemma finalizers_diff:
  assumes "fs \<noteq> []" and "\<not> BuildRetainKeysDirective opts"
  shows "diffMaps (struct_schemas texts) opts (TStruct fs_Deployment) (finalized_object v k n fs) (finalized_object v k n fs) =
    Ok (if SetElementOrder opts \<and> \<not> IgnoreChangesAndAdditions opts \<and> sort fs \<noteq> fs
        then [(''metadata'', JObj [(''$setElementOrder/finalizers'', JArr (map JStr fs))])] else [])"
proof -
  let ?L = "struct_schemas texts" and ?o = "opts\<lparr>BuildRetainKeysDirective := False\<rparr>"
  let ?md = "[(''name'', JStr n), (''finalizers'', JArr (map JStr fs))]"
  let ?set = "SetElementOrder opts \<and> \<not> IgnoreChangesAndAdditions opts \<and> sort fs \<noteq> fs"
  have "diffLists ?L (map JStr fs) (map JStr fs) [] ?o r = Ok ([], [], if ?set then map JStr fs else [])" for r
    using diffLists_scalars [where L = ?L, OF strings_type [OF assms(1)] _ _ HOL.refl, of "[]" ?o r] assms(1)
    by (simp add: map_kind_def strings_sorted strings_equal)
  then have "diffMaps ?L ?o (TStruct fs_ObjectMeta) ?md ?md =
      Ok (if ?set then [(''$setElementOrder/finalizers'', JArr (map JStr fs))] else [])"
    using assms(1) by (simp add: diffMaps.simps struct_schemas_def metadata_schema handleSliceDiff_def extractRetainKeysPatchStrategy_def
        replacePatchFieldIfNotEqual_def put_list_def parallel_key_def directive_defs updatePatchIfMissing_def has_key_def
        with_retainKeys_def retained_def)
  then show ?thesis
    using assms(2) by (simp add: finalized_object_def diffMaps.simps [where original = "(''apiVersion'', x) # y" for x y] struct_schemas_def metadata_schema handleMapDiff_def
        extractRetainKeysPatchStrategy_def replacePatchFieldIfNotEqual_def directive_defs updatePatchIfMissing_def has_key_def
        with_retainKeys_def retained_def)
qed

definition order_patch :: "string list \<Rightarrow> json" where
  "order_patch fs = JObj [(''metadata'', JObj [(''$setElementOrder/finalizers'', JArr (map JStr fs))])]"

lemma finalizers_patch:
  assumes "sort fs \<noteq> fs"
  shows "CreateThreeWayMergePatch (struct_schemas texts) (Text (JObj (finalized_object v k n fs)))
      (Text (JObj (finalized_object v k n fs))) (Text (JObj (finalized_object v k n fs))) (TStruct fs_Deployment) = Ok (order_patch fs)"
proof -
  have fs: "fs \<noteq> []" using assms by auto
  note diff = finalizers_diff [OF fs]
  have "mergeMap L opts s [] [(''metadata'', x)] = Ok [(''metadata'', x)]" if "x \<noteq> JNull" for L opts and s :: gotype and x
    using that by (simp add: mergeMap.simps applyRetainKeysDirective_def directive_defs has_prefix_def merge_field_def merge_value_def)
  with assms show ?thesis
    by (simp add: CreateThreeWayMergePatch_def unmarshal_or_empty_def finalized_converted diff deltaMapDiffOptions_def
        deletionsMapDiffOptions_def order_patch_def)
qed

lemma strings_hashable: "list_all hashable (map JStr fs)"
  by (simp add: list_all_iff)

lemma finalizers_merge:
  assumes "distinct fs" and "fs \<noteq> []"
  shows "StrategicMergePatchUsingLookupPatchMeta (struct_schemas texts) (Text (JObj (finalized_object v k n fs)))
      (Text (order_patch fs)) (TStruct fs_Deployment) = Ok (JObj (finalized_object v k n fs))"
proof -
  let ?L = "struct_schemas texts" and ?o = "\<lparr>MergeParallelList = True, IgnoreUnmatchedNulls = True\<rparr>"
  let ?md = "[(''name'', JStr n), (''finalizers'', JArr (map JStr fs))]"
  have "partition (\<lambda>v. v \<in> set (map JStr fs)) (map JStr fs) = (map JStr fs, [])" by (simp add: comp_def)
  then have "partition_by (map JStr fs) (map JStr fs) [] = Ok (map JStr fs, [])"
    by (simp add: partition_by_def partitionPrimitivesByPresentInList_def strings_hashable)
  moreover have "distinct (map JStr fs)" using assms(1) by (simp add: distinct_map inj_on_def)
  note order_same [OF this strings_hashable, of "[]"]
  moreover have "sliceElementType [map JStr fs, []] = Ok (go_type (JStr []))"
    using strings_type [OF assms(2)] assms(2) by (simp add: sliceElementType_Ok)
  ultimately have "mergeMap ?L ?o (TStruct fs_ObjectMeta) ?md [(''$setElementOrder/finalizers'', JArr (map JStr fs))] = Ok ?md"
    by (simp add: mergeMap.simps applyRetainKeysDirective_def directive_defs has_prefix_def merge_order_def keep_directive_def
        extractKey_def struct_schemas_def metadata_schema extractRetainKeysPatchStrategy_def validatePatchWithSetOrderList_def map_kind_def)
  moreover have "mergeMap ?L ?o (TStruct fs_Deployment) (finalized_object v k n fs) [(''metadata'', JObj p)] =
      bind_result (mergeMap ?L ?o (TStruct fs_ObjectMeta) ?md p)
        (\<lambda>m. Ok (AList.update ''metadata'' (JObj m) (finalized_object v k n fs)))" for p
    by (simp add: mergeMap.simps [where patch = "(''metadata'', x) # y" for x y] applyRetainKeysDirective_def directive_defs has_prefix_def
        merge_field_def merge_value_def finalized_object_def struct_schemas_def metadata_schema extractRetainKeysPatchStrategy_def bind_result_assoc)
  ultimately show ?thesis
    by (simp add: StrategicMergePatchUsingLookupPatchMeta_def handleUnmarshal_def finalized_converted order_patch_def strings_converted)
       (simp add: finalized_object_def)
qed

end
