(* ===== verification/Stub.thy ===== *)
theory Stub
  imports Injection Registration Finalization
begin

text \<open>
  What the code generators made beside the operator: the stub of a reconciler and of its controller
  (\<open>pkg/client/injection/reconciler/serving/v1alpha1/knativeserving/stub\<close>), the scheme of the fake clientset
  (\<open>pkg/client/clientset/versioned/fake/register.go\<close>) and the defaulters
  (\<open>pkg/apis/serving/v1alpha1/zz_generated.defaults.go\<close>). The stub is a second instance of the interface
  the generated reconciler calls: one without finalization.
\<close>

section \<open>The stub\<close>

definition newReconciledNormal :: "string \<Rightarrow> string \<Rightarrow> error" where
  "newReconciledNormal namespace name =
     ReconcilerEvent EventTypeNormal ''KnativeServingReconciled''
       (''KnativeServing reconciled: '' @ [CHR 0x22] @ namespace @ ''/'' @ name @ [CHR 0x22])"

definition stub_ReconcileKind :: "('w rstate, unit) io" where
  "stub_ReconcileKind = bind_io get_io (\<lambda>s. raise_io (newReconciledNormal (ksNamespace (inst s)) (ksName (inst s))))"

definition stub_reconciler :: "'w kind_reconciler" where
  "stub_reconciler = \<lparr>kr_ReconcileKind = stub_ReconcileKind, kr_FinalizeKind = None\<rparr>"

definition stub_NewController :: "('c, 'k, 'd, 'r) ctx \<Rightarrow> (process, ('c, 'r, 'cs, 'w kind_reconciler) serving_impl) io" where
  "stub_NewController ctx =
     bind_io (of_result (informer_Get ctx)) (\<lambda>knativeservingInformer.
     bind_io (NewImpl ctx stub_reconciler []) (\<lambda>impl.
     bind_io (serving_Informer knativeservingInformer) (\<lambda>_.
       then_io (AddEventHandler (ServingHandler on_serving_event)) (return_io impl))))"

text \<open>
  A reconciler without finalization leaves the cluster and the cache alone: of a serving that is not being
  deleted it only records the event, and of one that is, nothing.
\<close>

lemma stub_reconciles:
  assumes "SplitMetaNamespaceKey key = Ok (ns, name)" and "map_of (indexer s) (ns @ ''/'' @ name) = Some ks"
  shows "Reconcile \<lparr>Client = c, reconciler = stub_reconciler\<rparr> key s =
    (Ok (), if being_deleted ks then s\<lparr>inst := ks\<rparr>
            else s\<lparr>inst := ks, recorded := recorded s @
                     [\<lparr>ev_type = EventTypeNormal, ev_reason = ''KnativeServingReconciled'',
                       ev_text = EventText (newReconciledNormal (ksNamespace ks) (ksName ks))\<rparr>]\<rparr>)"
  using assms
  by (simp add: Reconcile_def lister_Get_def run_kind_def stub_reconciler_def stub_ReconcileKind_def newReconciledNormal_def
      setFinalizerIfFinalizer_def ignored_def as_event_def sync_status_def behind_original_def report_event_def Eventf_def
      attempt_def bind_io_def then_io_def get_io_def modify_io_def return_io_def raise_io_def)

lemma stub_unknown:
  assumes "SplitMetaNamespaceKey key = Ok (ns, name)" and "map_of (indexer s) (ns @ ''/'' @ name) = None"
  shows "Reconcile \<lparr>Client = c, reconciler = stub_reconciler\<rparr> key s = (Ok (), s)"
  using assms
  by (simp add: Reconcile_def lister_Get_def attempt_def bind_io_def return_io_def NewNotFound_def IsNotFound_def)

section \<open>The scheme of the fake clientset\<close>

definition fake_localSchemeBuilder :: scheme_builder where
  "fake_localSchemeBuilder = [serving_AddToScheme]"

definition fake_AddToScheme :: "registry \<Rightarrow> registry result" where
  "fake_AddToScheme = builder_AddToScheme fake_localSchemeBuilder"

definition fake_init :: "registry \<Rightarrow> registry result" where
  "fake_init s =
     bind_result (AddToGroupVersion \<lparr>gvGroup = [], gvVersion = ''v1''\<rparr> s)
       (\<lambda>s. case fake_AddToScheme s of Err e \<Rightarrow> Panic (error_text e) | r \<Rightarrow> r)"

definition fake_scheme :: "registry result" where
  "fake_scheme = fake_init NewScheme"

definition RegisterDefaults :: "registry \<Rightarrow> registry result" where
  "RegisterDefaults scheme = Ok scheme"

text \<open>The fake clientset knows the types the clientset knows.\<close>

lemma fake_scheme_same: "fake_scheme = clientset_Scheme"
  by (simp add: fake_scheme_def clientset_Scheme_def fake_init_def clientset_init_def fake_AddToScheme_def
      clientset_AddToScheme_def fake_localSchemeBuilder_def localSchemeBuilder_def)

end
