(* ===== verification/Spec2Isabelle.thy ===== *)
theory Spec2Isabelle
  imports Lifecycle Condition_Refinement Extensions Tracker Availability Uninstall Finalization Informers Controller
    Deep_Copy_Laws Json_Patches Operator_Loop Injection OpenApi Registration Strategic_Apply Stub
begin

text \<open>
  The Knative Serving operator (\<open>github.com/knative/serving-operator\<close>): a Kubernetes operator that
  installs Knative Serving from a manifest and keeps it as its custom resource, a \<open>KnativeServing\<close>,
  says.

  \<^bold>\<open>How the program works.\<close> An informer keeps a cache of the custom resources; an event of one of
  them, or of a deployment that one owns, puts a key into a work queue. For each key the generated
  reconciler reads the resource from the cache, sets or clears a finalizer of its own, hands a deep copy
  to the operator's reconciler, and writes the status back when it changed, with retries after a
  conflict. The operator's reconciler keeps the generations of the resources it knows; it transforms
  the manifest (owner, namespace, images, certificates, config maps, gateways, replicas, resource
  limits), applies the roles, the bindings and then everything through the manifest library, checks that
  the deployments are available, deletes what earlier versions left, and records the outcome in the
  conditions of the status. When a resource is deleted and no other is known, it deletes the manifest.

  \<^bold>\<open>Theories and sources.\<close> Paths are under \<open>src/\<close>; \<open>vendor\<close> stands for \<open>src/vendor\<close>. The libraries
  under \<open>vendor\<close> are modelled as far as the operator goes through them.
  \<^item> \<open>Prelude\<close>: results, Go errors and panics (\<open>vendor/k8s.io/apimachinery/pkg/api/errors\<close>), Go maps as
    association lists, the hint collections; \<open>Effects\<close>: fallible steps over an explicit state.
  \<^item> \<open>Group_Version\<close>, \<open>Unstructured\<close>, \<open>Nested_Laws\<close>, \<open>Object_Meta\<close>: JSON objects, reading and writing at
    a path, metadata (\<open>vendor/k8s.io/apimachinery/pkg/apis/meta/v1/unstructured\<close>, \<open>runtime/schema\<close>).
  \<^item> \<open>Go_Converter\<close>, \<open>Converter_Roundtrip\<close>, \<open>Api_Types\<close>, \<open>Typed_Objects\<close>, \<open>Scheme\<close>: conversion to Go structs
    and back (\<open>runtime/converter.go\<close>, \<open>runtime/scheme.go\<close>); the structs of \<open>k8s.io/api\<close> as descriptors.
  \<^item> \<open>Conditions\<close>, \<open>Condition_Refinement\<close>: the condition manager (\<open>vendor/knative.dev/pkg/apis\<close>) and the
    abstract specification it refines.
  \<^item> \<open>Serving_Types\<close>, \<open>Lifecycle\<close>: \<open>pkg/apis/serving/v1alpha1\<close>, the type and the life of its status.
  \<^item> \<open>Deep_Copy\<close>, \<open>Deep_Copy_Laws\<close>: \<open>zz_generated.deepcopy.go\<close> of the same package, on a heap.
  \<^item> \<open>Manifest_Filter\<close>, \<open>Manifest_Transform\<close>, \<open>Overlay\<close>, \<open>Manifest_Apply\<close>: the manifest library
    (\<open>vendor/github.com/manifestival/manifestival\<close>) over its client interface.
  \<^item> \<open>Tracker\<close>: a client for it, of \<open>client-go-client\<close> over the object tracker of client-go.
  \<^item> \<open>Config_Maps\<close>, \<open>Gateways\<close>, \<open>Images\<close>, \<open>Certs\<close>, \<open>High_Availability\<close>, \<open>Resource_Requirements\<close>, \<open>Extensions\<close>:
    \<open>pkg/reconciler/knativeserving/common\<close>, the transformers and their list.
  \<^item> \<open>Object_Keys\<close>, \<open>Rest_Client\<close>, \<open>Serving_Client\<close>, \<open>Serving_Store\<close>, \<open>Fake_Client\<close>: queue keys, requests
    (\<open>vendor/k8s.io/client-go/rest/request.go\<close>), the typed client and its fake
    (\<open>pkg/client/clientset/versioned\<close>), and the contract the reconcilers use them under.
  \<^item> \<open>Reconciler\<close>, \<open>Reconciler_Laws\<close>, \<open>Reconciler_Status\<close>, \<open>Availability\<close>, \<open>Uninstall\<close>: the operator's
    reconciler, \<open>pkg/reconciler/knativeserving/knativeserving.go\<close>.
  \<^item> \<open>Retries\<close>, \<open>Generated_Reconciler\<close>, \<open>Finalization\<close>, \<open>Cache_Frame\<close>: retries after conflicts, the
    reconciler of \<open>pkg/client/injection/reconciler\<close>, the two reconcilers together, and what they leave of the cache.
  \<^item> \<open>Informers\<close>: listers and the informer factory (\<open>pkg/client/listers\<close>,
    \<open>pkg/client/informers/externalversions\<close>). \<open>Controller\<close>: the metrics reporter
    (\<open>pkg/reconciler/stats_reporter.go\<close>), platforms in a context, the handlers of events
    (\<open>pkg/reconciler/knativeserving/controller.go\<close>).
  \<^item> \<open>Merge_Patch\<close>, \<open>Merge_Patch_Laws\<close>, \<open>Three_Way_Patch\<close>, \<open>Json_Patches\<close>: JSON merge patches, made and applied
    (\<open>vendor/github.com/evanphx/json-patch\<close>, \<open>apimachinery/pkg/util/jsonmergepatch\<close>, \<open>manifestival/patch\<close>).
  \<^item> \<open>Strategic_Patch\<close>, \<open>Strategic_Diff\<close>, \<open>Strategic_Merge\<close>, \<open>Struct_Schema\<close>: strategic merge patches
    (\<open>apimachinery/pkg/util/strategicpatch\<close>): lists and their order, making a patch, applying it, and what it asks
    of a Go type. \<open>Strategic_Merge_Laws\<close>, \<open>Strategic_Laws\<close>: what merging makes of each field and each item, and
    when there is nothing to patch. \<open>Strategic_Apply\<close>: the manifest library's use of both kinds of patches.
  \<^item> \<open>Work_Queue\<close>, \<open>Operator_Loop\<close>: the work queue with its delays and limits
    (\<open>vendor/k8s.io/client-go/util/workqueue\<close>), and the running operator, a step relation whose steps are the
    informers' notices, the two workers (\<open>vendor/knative.dev/pkg/controller\<close>), the clock and the shutdown.
  \<^item> \<open>Clientset\<close>, \<open>Injection\<close>: how clients are made from a configuration (\<open>clientset.go\<close>,
    \<open>serving_client.go\<close>, \<open>vendor/k8s.io/client-go/rest\<close>), and how the process is put together
    (\<open>pkg/client/injection\<close>, the constructors of the controller). \<open>OpenApi\<close>: the schemas, as data.
  \<^item> \<open>Registration\<close>: schemes and what is registered with them (\<open>runtime/scheme.go\<close>, \<open>scheme_builder.go\<close>,
    \<open>pkg/client/clientset/versioned/scheme\<close>, \<open>register.go\<close>, the \<open>init\<close> of \<open>images.go\<close>). \<open>Stub\<close>: the generated stub of a
    reconciler and its controller, the scheme of the fake clientset.

  \<^bold>\<open>State.\<close> The record \<open>rstate\<close> is what the reconcilers read and write: the cluster \<open>world\<close> (a
  parameter), the informer's cache \<open>indexer\<close>, the generations \<open>servings\<close>, the \<open>reported\<close> metrics, the
  clock \<open>now\<close> as the stream of its readings, the \<open>recorded\<close> events and the serving \<open>inst\<close> behind the
  pointer in hand. A stage is a function from it to a result and the state afterwards, so that what a
  failing stage has changed is there. What the reconciler was made with is \<open>env\<close>. A generation is a 64-bit
  word. Elsewhere values are not shared; where the code counts on a copy, \<open>Deep_Copy\<close> has the heap.
  Iteration over a Go map, which is in no order, is in the order of the association list.

  \<^bold>\<open>Interfaces.\<close> Locales with the instances the code provides:
  \<^item> \<open>object_store\<close>, what the manifest library relies on in a client, by the object tracker (\<open>tracked\<close>);
  \<^item> \<open>transformer_chain\<close> and \<open>object_chain\<close>, what every transformer keeps, by the operator's list;
  \<^item> \<open>api_object\<close> and \<open>workload\<close>, the typed resources, by \<open>Deployment\<close>, \<open>DaemonSet\<close> and the caching \<open>Image\<close>;
  \<^item> \<open>serving_store\<close>, what a typed client promises, by the fake client through \<open>serving_patcher\<close>;
  \<^item> \<open>deep_copy\<close>, what a copier promises, by every copier of the API types;
  \<^item> \<open>exclusive_queue\<close>, what workers rely on in a queue, by the work queue (\<open>wq\<close>).

  \<^bold>\<open>What the lemmas show.\<close>
  \<^item> Reading after writing at a path, owner references, versions, keys of the queue and converted Go
    values come back as they were (\<open>Nested_Laws\<close>, \<open>Object_Meta\<close>, \<open>Group_Version\<close>, \<open>Object_Keys\<close>,
    \<open>Converter_Roundtrip\<close>).
  \<^item> The condition manager refines an abstract status, and ready means all conditions are true in every
    status that the operations reach (\<open>Condition_Refinement\<close>, \<open>Lifecycle\<close>).
  \<^item> Each transformer does what the spec asks, on the resources it is for and on no other; the list keeps
    kind, name and number of the resources (\<open>Extensions\<close> and the theories it imports).
  \<^item> Applying and deleting a manifest changes the addresses of its resources only and has its effect
    there (\<open>Manifest_Apply\<close>, \<open>Tracker\<close>, \<open>Uninstall\<close>).
  \<^item> The stages keep the bookkeeping (\<open>frame\<close> and the books of \<open>Reconciler_Laws\<close>), the invariant of the
    status (\<open>Reconciler_Status\<close>), and say in the status what happened (\<open>Availability\<close>).
  \<^item> The retries end (\<open>Retries\<close>), a status gets through (\<open>Serving_Store\<close>), a deleted serving is released in
    two rounds (\<open>Finalization\<close>), copies share nothing (\<open>Deep_Copy_Laws\<close>), informers are shared and started
    once (\<open>Informers\<close>).
  \<^item> A merge patch does what its specification says, and applying a configuration again changes nothing
    (\<open>Three_Way_Patch\<close>, \<open>Json_Patches\<close>). A strategic merge patch changes the fields it names and the items whose
    key it names (\<open>Strategic_Merge_Laws\<close>), and there is none for an object that has what the resource says
    (\<open>Strategic_Laws\<close>), unless a list of scalars that merges is not sorted: then there always is one
    (\<open>Strategic_Apply\<close>).
  \<^item> In every interleaving each key has one worker at most and no change is lost (\<open>Operator_Loop\<close>); the queue
    is fair and the delays are bounded (\<open>Work_Queue\<close>); what the constructors build fits together (\<open>Injection\<close>), and
    registrations do not clash (\<open>Registration\<close>).

  \<^bold>\<open>Bounds.\<close> No definition uses fuel: the recursions are structural, and \<open>ExponentialBackoff\<close> ends by
  the signed value of its \<open>Steps\<close>, a 64-bit word. The retries of the status are \<open>DefaultRetry\<close>, five
  attempts. Replica counts are signed words of 64 bits, tags of metrics have 255 characters at most. A delay
  of the queue is a natural number of nanoseconds, and stays below the largest duration.

  \<^bold>\<open>Parameters and what is relied on.\<close> The codecs of quantities and times (\<open>codec\<close>), the REST mapper, the
  environment variables, the platform's transformers, the manifest, the REST transport, URL parsing, the
  clock and the token bucket are arguments. How a resource is patched is \<open>patching\<close>, with the instance
  \<open>library_patching\<close>: strategic merge patches for the kinds that a table of Go types has (\<open>workload_types\<close> has
  Deployments and DaemonSets), JSON merge patches for all others. The JSON syntax and the text of a float, a list or a
  map remain arguments, and \<open>sort.Sort\<close> is the insertion sort that Go uses for short slices; applying a
  patch to a serving is the fake client's \<open>patcher\<close>. Properties of the reconcilers that need a server to
  answer, state it as a premise: that it returns the status it was sent (\<open>echoes_status\<close>, shown of the fake
  client), that reading deployments changes nothing, or \<open>serving_store\<close>. In \<open>Operator_Loop\<close> one call of
  \<open>Reconcile\<close> is one step.

  \<^bold>\<open>Not modelled.\<close> Logging, sleeping and the configuration store, which do not change what is computed;
  watches, and the goroutines of the shared informers; reading manifests from files, the flags of
  \<open>cmd/manager\<close>, leader election and profiling; transports and serializers; the tests of \<open>src/test\<close>. What is left of the
  first-party code are Go interfaces without operations, the injectors of fakes for tests, which repeat the ones
  modelled, and calls into packages that are not part of the repository's own logic. What is left of strategic
  merge patches, two-way patches and the check for conflicts, the operator does not call.
\<close>

section \<open>Sample inputs\<close>

text \<open>Inputs of the witnesses: a codec that copies, a custom resource and a small resource.\<close>

definition demo_codec :: codec where
  "demo_codec = \<lparr>unmarshal = (\<lambda>n j. Ok j), zero_custom = (\<lambda>n. JNull)\<rparr>"

definition demo_ks :: KnativeServing where
  "demo_ks =
     \<lparr>ksName = ''knative-serving'', ksNamespace = ''serving'', ksUID = ''u1'', ResourceVersion = ''7'',
      Generation = 1, DeletionTimestamp = None, Finalizers = [], Spec = empty_spec, Status = empty_status\<rparr>"

definition demo_account :: obj where
  "demo_account =
     [(''apiVersion'', JStr ''v1''), (''kind'', JStr ''ServiceAccount''),
      (''metadata'', JObj [(''name'', JStr ''controller''), (''namespace'', JStr ''x'')])]"

definition demo_registry_ks :: KnativeServing where
  "demo_registry_ks =
     demo_ks\<lparr>Spec := empty_spec\<lparr>Registry :=
       \<lparr>Default = ''docker.io/${NAME}:v1'', Override = [], ImagePullSecrets = []\<rparr>\<rparr>\<rparr>"

definition demo_container :: json where
  "demo_container = JObj [(''name'', JStr ''controller''), (''image'', JStr ''old'')]"

definition demo_deployment :: obj where
  "demo_deployment =
     [(''apiVersion'', JStr ''apps/v1''), (''kind'', JStr ''Deployment''),
      (''metadata'', JObj [(''name'', JStr ''controller'')]),
      (''spec'', JObj [(''template'', JObj [(''spec'', JObj [(''containers'', JArr [demo_container])])])])]"

lemma demo_deployment_decodes:
  "\<exists>v. fromUnstructured demo_codec (TStruct fs_Deployment) (JObj demo_deployment) = Ok v"
  by (simp add: demo_deployment_def demo_container_def fs_Deployment_def fs_TypeMeta_def fs_ObjectMeta_def fs_DeploymentSpec_def
    fs_PodTemplateSpec_def fs_PodSpec_def fs_Container_def)

lemma demo_updateDeployment:
  "\<exists>u'. updateDeployment (operator_scheme demo_codec) demo_registry_ks demo_deployment = Ok u'"
proof -
  have "GroupVersionKind_of demo_deployment = gvk_Deployment" by code_simp
  with demo_deployment_decodes show ?thesis
    by (auto simp: updateDeployment_def convert_to_typed_def unstructuredToTyped_def ObjectKinds_def New_def
        operator_scheme_def gvk_Deployment_def)
qed

lemma demo_run: "\<exists>m'. Transform (own_transformers (\<lambda>_. []) (operator_scheme demo_codec) demo_ks) [demo_account] = Ok m'"
proof -
  have "is_ok (Transform (own_transformers (\<lambda>_. []) (operator_scheme demo_codec) demo_ks) [demo_account])"
    by code_simp
  then show ?thesis by (simp add: is_ok_iff)
qed

text \<open>A cluster with one kind of resource, and patches that never find a difference.\<close>

definition demo_gvr :: GroupVersionResource where
  "demo_gvr = \<lparr>gvrGroup = [], gvrVersion = ''v1'', gvrResource = ''serviceaccounts''\<rparr>"

definition demo_mapper :: rest_mapper where
  "demo_mapper = \<lparr>RESTMapping = (\<lambda>gvk. Ok demo_gvr), RootScoped = (\<lambda>gvr. False)\<rparr>"

definition demo_patching :: "unit patching" where
  "demo_patching = \<lparr>MarshalJSON = (\<lambda>u. []), patch_New = (\<lambda>cur u. Ok None), patch_Merge = (\<lambda>p cur. Ok cur)\<rparr>"

lemma demo_account_key: "object_key (resource_for demo_mapper) demo_account = (Some demo_gvr, ''x'', ''controller'')"
  by code_simp

lemma demo_account_valid:
  "store_valid demo_mapper (object_key (resource_for demo_mapper) demo_account) \<and> wf_obj demo_account \<and>
   distinct (keys demo_account)"
  unfolding demo_account_key by (simp add: store_valid_def demo_mapper_def demo_account_def)

lemma demo_account_ok: "okToDelete demo_account" and demo_account_place: "place demo_account = (''x'', ''controller'')"
  by code_simp+

lemma demo_store_inv: "store_inv demo_mapper ((\<lambda>_. [])(demo_gvr := [demo_account]))"
proof -
  have "resource_for demo_mapper (GetAPIVersion demo_account) (GetKind demo_account) = Some demo_gvr"
    using demo_account_key by (simp add: object_key_def)
  moreover have "GetNamespace demo_account = ''x''" by code_simp
  ultimately show ?thesis by (simp add: store_inv_def demo_mapper_def)
qed

text \<open>An operator with an empty manifest and a client of the cluster that accepts every request.\<close>

definition demo_client :: "'w mf_client" where
  "demo_client =
     \<lparr>c_Create = (\<lambda>u o'. return_io ()), c_Update = (\<lambda>u o'. return_io ()), c_Delete = (\<lambda>u o'. return_io ()),
      c_Get = (\<lambda>u. raise_io (Errorf ''unreachable''))\<rparr>"

definition demo_env :: "manifest \<Rightarrow> 'w mf_client \<Rightarrow> 'w serving_api \<Rightarrow> ('w, unit, unit) env" where
  "demo_env m client api =
     \<lparr>env_getenv = (\<lambda>x. []), env_scheme = operator_scheme demo_codec, config = m, mclient = client,
      patches = demo_patching, platform = [], kubeClientSet = (),
      deployments_Get = (\<lambda>ns name. raise_io (NewNotFound demo_gvr name)), servingClient = api\<rparr>"

abbreviation demo_api :: "fake_world serving_api" where
  "demo_api \<equiv> fake_api metadata_patcher"

definition demo_key :: string where "demo_key = ''serving/knative-serving''"

text \<open>A serving in the store and in the cache, on which the reconcilers are called.\<close>

definition demo_state :: "'w \<Rightarrow> KnativeServing \<Rightarrow> 'w rstate" where
  "demo_state w ks =
     \<lparr>world = w, indexer = [(demo_key, ks)], servings = [], reported = [], now = sconst 0, recorded = [], inst = ks\<rparr>"

definition demo_store :: "KnativeServing \<Rightarrow> fake_world" where
  "demo_store ks = \<lparr>fk_actions = [], fk_objects = [ks]\<rparr>"

text \<open>The serving with initial conditions, and the serving that is being deleted.\<close>

definition demo_started :: KnativeServing where
  "demo_started =
     demo_ks\<lparr>Finalizers := [finalizerName], Status := fst (ks_InitializeConditions (empty_status, sconst 0))\<rparr>"

definition demo_deleted :: KnativeServing where
  "demo_deleted = demo_ks\<lparr>DeletionTimestamp := Some 1, Finalizers := [defaultFinalizerName, finalizerName]\<rparr>"

lemma empty_status_inv: "lifecycle_inv empty_status"
  by (simp add: lifecycle_inv_empty empty_status_def)

lemma demo_started_inv: "lifecycle_inv (Status demo_started)" and demo_started_conditions: "Conditions (Status demo_started) \<noteq> []"
  using ks_InitializeConditions_facts [of "(empty_status, sconst 0)"] empty_status_inv by (simp_all add: demo_started_def)

lemma demo_cached:
  assumes "ksNamespace ks = ksNamespace demo_ks" and "ksName ks = ksName demo_ks"
  shows "cached (demo_state w ks) ''serving'' ''knative-serving'' ks"
  using assms by (simp add: cached_def plain_def named_def demo_ks_def demo_state_def demo_key_def)

lemma demo_store_good:
  assumes "ksNamespace ks = ksNamespace demo_ks" and "ksName ks = ksName demo_ks"
  shows "fake_good (demo_store ks)" and "fake_stored (demo_store ks) ''serving'' ''knative-serving'' = Some ks"
  using assms by (simp_all add: fake_good_def fake_stored_def demo_store_def serving_place_def demo_ks_def)

lemma demo_echoes: "echoes_status (servingClient (demo_env m c demo_api))"
  using fake_echoes by (simp add: demo_env_def)

lemma demo_apply_unreachable:
  "fst (Apply demo_client P [] (install_order [demo_account]) w) = Err (Errorf ''unreachable'')"
proof -
  have k: "GetKind demo_account = ''ServiceAccount''" by code_simp
  have "install_order [demo_account] = [demo_account]"
    by (simp add: install_order_def Filter_eq role_def rolebinding_def ByKind_def k)
  then show ?thesis
    by (simp add: Apply_def then_io_def bind_io_def mf_apply_def mf_get_def demo_client_def attempt_def raise_io_def
        IsNotFound_def return_io_def)
qed

text \<open>With an empty manifest every stage of the reconciler succeeds.\<close>

lemma demo_reconcile: "\<exists>s'. reconcile (demo_env [] demo_client api) (demo_state w demo_started) = (Ok (), s')"
proof -
  have a: "apply_or_fail (demo_env [] demo_client api) [] s = (Ok (), s)" for s :: "'a rstate"
    by (simp add: apply_or_fail_def Apply_def attempt_def bind_io_def on_world_def return_io_def)
  have i: "install (demo_env [] demo_client api) [] s = (Ok (), installed s)" for s :: "'a rstate"
    by (simp add: install_unfold Filter_eq then_io_def bind_io_def a)
  have d: "deleteObsoleteResources (demo_env [] demo_client api) [] s = (Ok (), s)" for s :: "'a rstate"
    by (simp add: deleteObsoleteResources_def obsolete_resources_def Let_def demo_env_def demo_client_def on_world_def
        then_io_def bind_io_def return_io_def)
  have c: "checkDeployments (demo_env [] demo_client api) [] s = (Ok (), snd (mark MarkDeploymentsAvailable s))" for s :: "'a rstate"
    using mark_Ok by (simp add: checkDeployments_def Filter_eq)
  have t: "rec_transform (demo_env [] demo_client api) ks = Ok []" for ks
    by (simp add: rec_transform_def demo_env_def Transformers_no_platforms Transform_def)
  have "inst (demo_state w demo_started) = demo_started" "Finalizers demo_started = [finalizerName]"
    by (simp_all add: demo_state_def demo_started_def)
  then have "ensureFinalizer (demo_env [] demo_client api) [] (demo_state w demo_started) = (Ok (), demo_state w demo_started)"
    "initStatus (demo_env [] demo_client api) [] (demo_state w demo_started) = (Ok (), demo_state w demo_started)"
    using demo_started_conditions
    by (simp_all add: ensureFinalizer_def initStatus_def bind_io_def return_io_def)
  then show ?thesis
    by (simp add: reconcile_def t stages_def bind_io_def then_io_def i c d return_io_def)
qed

text \<open>A server that refuses everything, and a heap with one serving in it.\<close>

definition demo_transports :: "'w transports" where
  "demo_transports =
     \<lparr>send = (\<lambda>r. raise_io (Errorf ''refused'')), send_list = (\<lambda>r. raise_io (Errorf ''refused'')),
      send_unit = (\<lambda>r. raise_io (Errorf ''refused'')), send_watch = (\<lambda>r. raise_io (Errorf ''refused'')),
      encode_get = Ok [], encode_list = (\<lambda>o'. Ok [])\<rparr>"

definition demo_heap :: heap where
  "demo_heap =
     \<lparr>next_addr = 2,
      cells = [0 \<mapsto> StringsCell [''a''],
               1 \<mapsto> ServingCell
                 \<lparr>p_Name = ''n'', p_Namespace = ''s'', p_UID = [], p_ResourceVersion = [], p_Generation = 1,
                  p_DeletionTimestamp = None, p_Finalizers = Some 0,
                  p_Spec = \<lparr>p_Config = None, p_Registry = \<lparr>p_Default = [], p_Override = None, p_ImagePullSecrets = None\<rparr>,
                    p_KnativeIngressGateway = \<lparr>p_Selector = None\<rparr>, p_ClusterLocalGateway = \<lparr>p_Selector = None\<rparr>,
                    p_ControllerCustomCerts = \<lparr>certs_Type = [], certs_Name = []\<rparr>, p_HighAvailability = None,
                    p_Resources = None\<rparr>,
                  p_Status = \<lparr>p_ObservedGeneration = 0, p_Conditions = None, p_Version = []\<rparr>\<rparr>]\<rparr>"

lemma demo_heap_valid: "pointer_valid demo_heap (Some 1)"
  by (simp add: pointer_valid_def cell_valid_def demo_heap_def serving_in_def serving_valid_def flat_valid_def strings_in_def
      spec_valid_def config_valid_def registry_valid_def gateway_valid_def resources_valid_def status_valid_def)

section \<open>Properties\<close>

text \<open>A library that makes every client, and a configuration that sets nothing but the server.\<close>

definition demo_rest_lib :: "(unit, unit, unit, unit) rest_lib" where
  "demo_rest_lib =
     \<lparr>DefaultKubernetesUserAgent = ''manager'', Codecs = (), discovery_codec = (),
      url_Parse = (\<lambda>h. Ok \<lparr>url_Scheme = ''https'', url_Host = h, url_Path = [], url_RawQuery = [], url_Fragment = []\<rparr>),
      TransportFor = (\<lambda>_. Ok ()), is_DefaultTransport = (\<lambda>_. True), createSerializers = (\<lambda>_ _ _. Ok ())\<rparr>"

definition demo_rest_config :: "(unit, unit) rest_config" where
  "demo_rest_config =
     \<lparr>Host = ''10.0.0.1'', APIPath = [], cfg_GroupVersion = None, ContentType = [], NegotiatedSerializer = None,
      UserAgent = [], QPS = 0, Burst = 0, RateLimiter = None, cfg_Timeout = 0, CAFile = [], CAData = [], CertFile = [],
      CertData = [], Insecure = False, cfg_more = ()\<rparr>"

lemmas demo_client_simps =
  demo_rest_lib_def demo_rest_config_def NewForConfig_def NewForConfigOrDie_def typed_NewForConfigOrDie_def
  NewDiscoveryClientForConfigOrDie_def or_die_def attempt_def bind_io_def typed_NewForConfig_def setConfigDefaults_def
  RESTClientFor_def NewDiscoveryClientForConfig_def setDiscoveryDefaults_def UnversionedRESTClientFor_def
  NewRESTClient_def defaultServerUrlFor_def DefaultServerURL_def NewTokenBucketRateLimiter_def Let_def

lemma demo_clientset: "\<exists>c n. NewForConfigOrDie demo_rest_lib (main_config 1 demo_rest_config) 0 = (Ok c, n)"
  by (simp add: demo_client_simps main_config_def DefaultQPS_def DefaultBurst_def)

text \<open>A Deployment as the manifest has it, and as the server keeps it after the operator applied it.\<close>

definition demo_controller :: obj where
  "demo_controller =
     [(''apiVersion'', JStr ''apps/v1''), (''kind'', JStr ''Deployment''),
      (''metadata'', JObj [(''name'', JStr ''controller''), (''namespace'', JStr ''x'')]),
      (''spec'', JObj [(''template'', JObj [(''spec'', JObj [(''containers'',
         JArr [JObj [(''name'', JStr ''a''), (''image'', JStr ''i'')]])])])])]"

definition demo_live :: obj where
  "demo_live = annotate LastAppliedConfigAnnotation ''text''
     [(''apiVersion'', JStr ''apps/v1''), (''kind'', JStr ''Deployment''),
      (''metadata'', JObj [(''name'', JStr ''controller''), (''namespace'', JStr ''x''), (''uid'', JStr ''1'')]),
      (''spec'', JObj [(''replicas'', JInt 1), (''template'', JObj [(''spec'', JObj [(''containers'',
         JArr [JObj [(''name'', JStr ''a''), (''image'', JStr ''i''), (''imagePullPolicy'', JStr ''Always'')]])])])]),
      (''status'', JObj [(''replicas'', JInt 1)])]"

definition server_options :: MergeOptions where
  "server_options = \<lparr>MergeParallelList = True, IgnoreUnmatchedNulls = True\<rparr>"

lemma demo_live_settled:
  "settled_fields (struct_schemas texts) (TStruct fs_Deployment) (convertMapNumbers demo_live) (convertMapNumbers demo_controller)"
proof -
  have live: "demo_live =
     [(''apiVersion'', JStr ''apps/v1''), (''kind'', JStr ''Deployment''),
      (''metadata'', JObj [(''name'', JStr ''controller''), (''namespace'', JStr ''x''), (''uid'', JStr ''1''),
         (''annotations'', JObj [(LastAppliedConfigAnnotation, JStr ''text'')])]),
      (''spec'', JObj [(''replicas'', JInt 1), (''template'', JObj [(''spec'', JObj [(''containers'',
         JArr [JObj [(''name'', JStr ''a''), (''image'', JStr ''i''), (''imagePullPolicy'', JStr ''Always'')]])])])]),
      (''status'', JObj [(''replicas'', JInt 1)])]"
    by code_simp
  show ?thesis unfolding live
    by (simp add: demo_controller_def struct_schemas_def metadata_schema pod_schema extractRetainKeysPatchStrategy_def
        directive_defs same_key_def lookup_or_def has_key_def)
qed

section \<open>Properties of single components\<close>

text \<open>
  Selecting resources by kind commutes with the operator's transformers: the stages that filter the
  transformed manifest see exactly what transforming the filtered manifest would give.
\<close>

lemma transformed_kinds_commute:
  "Transform (own_transformers getenv (operator_scheme c) ks) m = Ok m' \<Longrightarrow>
   Transform (own_transformers getenv (operator_scheme c) ks) (Filter [ByKind k] m) = Ok (Filter [ByKind k] m')"
  by (rule own.Transform_ByKind)

lemma transformed_kinds_commute_witness:
  "\<exists>m'. Transform (own_transformers (\<lambda>_. []) (operator_scheme demo_codec) demo_ks)
     (Filter [ByKind ''ServiceAccount''] [demo_account]) = Ok (Filter [ByKind ''ServiceAccount''] m')"
  using demo_run transformed_kinds_commute by blast

text \<open>
  Setting a condition replaces the condition of its type and leaves the others as they are; the time
  of the last transition is renewed exactly when something other than the time differs from what was
  recorded, and otherwise nothing is written at all; one condition per type, sorted by type, is
  kept.
\<close>

lemma SetCondition_transition_time:
  assumes "wf_conds (conds a)"
  shows "GetCondition t (SetCondition new a) =
      (if t \<noteq> CType new then GetCondition t a
       else case GetCondition t a of
              None \<Rightarrow> Some (new\<lparr>LastTransitionTime := shd (clock a)\<rparr>)
            | Some c \<Rightarrow> if c = new\<lparr>LastTransitionTime := LastTransitionTime c\<rparr> then Some c
                        else Some (new\<lparr>LastTransitionTime := shd (clock a)\<rparr>)) \<and>
    wf_conds (conds (SetCondition new a))"
  by (auto simp: GetCondition_SetCondition [OF assms] settled_iff wf_SetCondition [OF assms] split: option.splits)

lemma SetCondition_transition_time_witness:
  "let c = (condition_of ''A'' ''True'' '''' '''' '''')\<lparr>LastTransitionTime := 3\<rparr>;
       a = \<lparr>conds = [c], clock = sconst 5\<rparr> in
   GetCondition ''A'' (SetCondition (condition_of ''A'' ''True'' '''' '''' '''') a) = Some c \<and>
   GetCondition ''A'' (SetCondition (condition_of ''A'' ''False'' '''' '''' '''') a) =
     Some ((condition_of ''A'' ''False'' '''' '''' '''')\<lparr>LastTransitionTime := 5\<rparr>)"
proof -
  let ?c = "(condition_of ''A'' ''True'' '''' '''' '''')\<lparr>LastTransitionTime := 3\<rparr>"
  have wf: "wf_conds (conds \<lparr>conds = [?c], clock = sconst 5\<rparr>)" by (simp add: wf_conds_def)
  from SetCondition_transition_time [OF wf] show ?thesis
    by (simp add: Let_def GetCondition_def condition_of_def)
qed

text \<open>
  Initializing the conditions keeps every recorded status and makes exactly the missing terminal
  conditions unknown, and the happy condition then agrees with the dependents.
\<close>

lemma InitializeConditions_statuses:
  assumes "wf_set r" "wf_accessor r a" "happy_agrees r a" "dependents r \<noteq> []"
  shows "status_of (InitializeConditions r a) =
      (\<lambda>t. if isTerminal r t \<and> status_of a t = None then Some ConditionUnknown else status_of a t) \<and>
    wf_accessor r (InitializeConditions r a) \<and> happy_agrees r (InitializeConditions r a)"
  using InitializeConditions_refines [OF assms(1,2,3)] InitializeConditions_agrees [OF assms] by blast

lemma InitializeConditions_statuses_witness:
  "status_of (InitializeConditions conditions \<lparr>conds = [], clock = sconst 5\<rparr>) InstallSucceeded = Some ConditionUnknown"
proof -
  have "wf_accessor conditions \<lparr>conds = [], clock = sconst 5\<rparr>" "happy_agrees conditions \<lparr>conds = [], clock = sconst 5\<rparr>"
    by (simp_all add: wf_accessor_def wf_conds_def happy_agrees_def)
  from InitializeConditions_statuses [OF wf_conditions this] show ?thesis
    by (simp add: isTerminal_iff status_of_nil)
qed

text \<open>
  Whatever list of dependents a caller passes, with duplicates or with the happy condition in it,
  the condition set that is built has each of them once and never the happy condition.
\<close>

lemma newConditionSet_wf:
  "distinct (dependents (newConditionSet h ds)) \<and> set (dependents (newConditionSet h ds)) = set ds - {h}"
  using wf_newConditionSet [of h ds] set_newConditionSet [of h ds] by (simp add: wf_set_def)

text \<open>
  The Go structs of deployments, daemon sets and caching images, with everything they contain, are
  well formed: within one JSON object no two fields have the same name, inlined structs included, so
  the converter's round trip applies to them.
\<close>

lemma api_types_wf:
  "wf_type (TStruct fs_Deployment) \<and> wf_type (TStruct fs_DaemonSet) \<and> wf_type (TStruct fs_Image)"
  by (intro conjI wf_Deployment wf_DaemonSet wf_Image)

text \<open>
  In a container that an override names, every resource the override lists gets the override's
  quantity, in the limits and in the requests, every other resource keeps its quantity, and no other
  field of the container changes; a container no override names is left as it is.
\<close>

lemma resource_merge:
  assumes "has_type (TStruct fs_Container) container"
  shows "(find_override ks (as_gostring (sfield ''Name'' container)) = None \<longrightarrow> override_resources ks container = container) \<and>
    (\<forall>g. g \<noteq> ''Resources'' \<longrightarrow> sfield g (override_resources ks container) = sfield g container) \<and>
    (\<forall>ov. find_override ks (as_gostring (sfield ''Name'' container)) = Some ov \<and>
        distinct (keys (Limits ov)) \<and> distinct (keys (Requests ov)) \<longrightarrow>
      (\<forall>k. map_of (entries (sfield ''Limits'' (sfield ''Resources'' (override_resources ks container)))) k =
          (case map_of (Limits ov) k of Some q \<Rightarrow> Some (VCustom (JStr q))
           | None \<Rightarrow> map_of (entries (sfield ''Limits'' (sfield ''Resources'' container))) k)) \<and>
      (\<forall>k. map_of (entries (sfield ''Requests'' (sfield ''Resources'' (override_resources ks container)))) k =
          (case map_of (Requests ov) k of Some q \<Rightarrow> Some (VCustom (JStr q))
           | None \<Rightarrow> map_of (entries (sfield ''Requests'' (sfield ''Resources'' container))) k)))"
  using override_resources_laws [OF assms] by (simp add: merge_lookup)

lemma resource_merge_witness:
  "let ks = demo_ks\<lparr>Spec := empty_spec\<lparr>Resources :=
         [\<lparr>Container = ''activator'', Limits = [(''cpu'', ''1'')], Requests = []\<rparr>]\<rparr>\<rparr>;
       c = set_sfield ''Name'' (VString ''activator'') (zero demo_codec (TStruct fs_Container)) in
   map_of (entries (sfield ''Limits'' (sfield ''Resources'' (override_resources ks c)))) ''cpu'' = Some (VCustom (JStr ''1''))"
proof -
  let ?ks = "demo_ks\<lparr>Spec := empty_spec\<lparr>Resources :=
         [\<lparr>Container = ''activator'', Limits = [(''cpu'', ''1'')], Requests = []\<rparr>]\<rparr>\<rparr>"
  let ?c = "set_sfield ''Name'' (VString ''activator'') (zero demo_codec (TStruct fs_Container))"
  have t: "has_type (TStruct fs_Container) ?c"
    by (rule set_sfield_type [OF zero_has_type _ Container_fields(1)]) simp_all
  have "as_gostring (sfield ''Name'' ?c) = ''activator''" by code_simp
  then have "find_override ?ks (as_gostring (sfield ''Name'' ?c)) = Some \<lparr>Container = ''activator'', Limits = [(''cpu'', ''1'')], Requests = []\<rparr>"
    by (simp add: find_override_def)
  with resource_merge [OF t, of ?ks] show ?thesis by (simp add: Let_def)
qed

text \<open>
  After one object was copied over another, the result shows every value of the source: scalars are
  equal, objects are shown field by field, and lists have the length of the source with each element
  shown.
\<close>

lemma overlay_shows_source:
  "wf_obj src \<Longrightarrow> distinct (keys src) \<Longrightarrow> shows_obj src (Copy src tgt)"
  by (rule Copy_shows)

lemma overlay_shows_source_witness:
  "shows_obj [(''a'', JArr [JInt 1]), (''b'', JObj [(''c'', JBool True)])]
     (Copy [(''a'', JArr [JInt 1]), (''b'', JObj [(''c'', JBool True)])] [(''b'', JObj [(''d'', JNull)]), (''a'', JStr ''x'')])"
  by (rule overlay_shows_source) simp_all

text \<open>
  Filtering a manifest keeps exactly the resources that all predicates accept, in the order of the
  manifest; the predicate without custom resource definitions rejects exactly the resources of that
  kind.
\<close>

lemma filter_selects:
  "Filter preds m = filter (\<lambda>u. \<forall>p \<in> set preds. p u) m \<and>
   Filter [NoCRDs, None_of [Any_of (map ByKind ks)]] m =
     filter (\<lambda>u. GetKind u \<noteq> ''CustomResourceDefinition'' \<and> GetKind u \<notin> set ks) m"
  by (auto simp: Filter_eq NoCRDs_iff ByKind_def intro!: filter_cong)

lemma filter_selects_witness:
  "Filter [NoCRDs, None_of [Any_of (map ByKind [''Role''])]] [demo_account] = [demo_account]"
proof -
  have "GetKind demo_account = ''ServiceAccount''" by code_simp
  then show ?thesis using conjunct2 [OF filter_selects [of "[]" "[demo_account]" "[''Role'']"]] by simp
qed

text \<open>
  Each of the two Istio gateways gets the selector of its own override when that is not empty, with
  everything outside the spec left alone; any other resource, and a gateway whose override is empty,
  is left as it is.
\<close>

lemma gateway_selector:
  defines "is_gateway \<equiv> \<lambda>u. GetAPIVersion u = ''networking.istio.io/v1alpha3'' \<and> GetKind u = ''Gateway''"
  shows "(is_gateway u \<and> GetName u = ''knative-ingress-gateway'' \<longrightarrow>
       GatewayTransform ks u = Ok (updateKnativeIngressGateway (KnativeIngressGateway (Spec ks)) u)) \<and>
     (is_gateway u \<and> GetName u = ''cluster-local-gateway'' \<longrightarrow>
       GatewayTransform ks u = Ok (updateKnativeIngressGateway (ClusterLocalGateway (Spec ks)) u)) \<and>
     (\<not> is_gateway u \<or> GetName u \<notin> {''knative-ingress-gateway'', ''cluster-local-gateway''} \<longrightarrow>
       GatewayTransform ks u = Ok u) \<and>
     (Selector g = [] \<longrightarrow> updateKnativeIngressGateway g u = u) \<and>
     (Selector g \<noteq> [] \<and> level_ok u ''spec'' \<longrightarrow>
       NestedStringMap (updateKnativeIngressGateway g u) [''spec'', ''selector''] = Ok (Some (Selector g)) \<and>
       (\<forall>f fs. f \<noteq> ''spec'' \<longrightarrow>
          NestedFieldNoCopy (updateKnativeIngressGateway g u) (f # fs) = NestedFieldNoCopy u (f # fs)))"
  by (auto simp: is_gateway_def GatewayTransform_def updateKnativeIngressGateway_none
      updateKnativeIngressGateway_selector updateKnativeIngressGateway_other)

lemma gateway_selector_witness:
  "NestedStringMap (updateKnativeIngressGateway \<lparr>Selector = [(''istio'', ''custom'')]\<rparr> [(''spec'', JObj [])]) [''spec'', ''selector''] =
   Ok (Some [(''istio'', ''custom'')])"
  using gateway_selector [of "[(''spec'', JObj [])]" demo_ks "\<lparr>Selector = [(''istio'', ''custom'')]\<rparr>"] by (simp add: level_ok_def)

text \<open>
  Writing a nested field succeeds exactly when every level above it that exists is an object; then
  the field reads as it was written, and no path that parts from it is affected; removing it makes
  it read as missing, again without an effect on other paths.
\<close>

lemma nested_write_read:
  "((\<exists>m'. SetNestedField m v fs = Ok m') \<longleftrightarrow> settable m fs) \<and>
   (\<forall>m'. SetNestedField m v fs = Ok m' \<longrightarrow>
      NestedFieldNoCopy m' fs = Ok (Some v) \<and>
      (\<forall>gs. apart fs gs \<longrightarrow> NestedFieldNoCopy m' gs = NestedFieldNoCopy m gs)) \<and>
   (settable m fs \<longrightarrow> NestedFieldNoCopy (RemoveNestedField m fs) fs = Ok None) \<and>
   (\<forall>gs. apart fs gs \<longrightarrow> NestedFieldNoCopy (RemoveNestedField m fs) gs = NestedFieldNoCopy m gs)"
  using SetNestedField_Ok_iff [of m v fs] settable_short(1) [of m]
  by (cases "fs = []") (auto simp: object_simps)

lemma nested_write_read_witness:
  "\<exists>m'. SetNestedField [(''a'', JObj [])] (JInt 3) [''a'', ''b'', ''c''] = Ok m' \<and>
     NestedFieldNoCopy m' [''a'', ''b'', ''c''] = Ok (Some (JInt 3))"
proof -
  have "settable [(''a'', JObj [])] [''a'', ''b'', ''c'']" by code_simp
  then show ?thesis using nested_write_read [of "[(''a'', JObj [])]" "JInt 3" "[''a'', ''b'', ''c'']"] by blast
qed

text \<open>
  The owner references written into an object whose metadata can be written are the ones read back,
  optional flags included.
\<close>

lemma owner_references_roundtrip:
  "meta_ok u \<Longrightarrow> GetOwnerReferences (SetOwnerReferences (Some refs) u) = refs"
  by (rule GetOwnerReferences_SetOwnerReferences)

lemma owner_references_roundtrip_witness:
  "GetOwnerReferences (SetOwnerReferences (Some [owner_of demo_ks]) demo_account) = [owner_of demo_ks]"
  by (rule owner_references_roundtrip) (simp add: demo_account_def level_ok_def)

text \<open>
  Parsing the text of a group and a version that contain no slash, with a version that is not empty,
  gives the group and the version back.
\<close>

lemma group_version_roundtrip:
  assumes "CHR ''/'' \<notin> set (gvGroup gv)" "CHR ''/'' \<notin> set (gvVersion gv)" "gvVersion gv \<noteq> []"
  shows "ParseGroupVersion (gv_String gv) = Ok gv"
  by (rule ParseGroupVersion_gv_String [OF assms])

lemma group_version_roundtrip_witness:
  "ParseGroupVersion (gv_String \<lparr>gvGroup = ''apps'', gvVersion = ''v1''\<rparr>) = Ok \<lparr>gvGroup = ''apps'', gvVersion = ''v1''\<rparr>"
  by (rule group_version_roundtrip) simp_all

text \<open>
  The key of a serving whose namespace and name contain no slash splits back into them, so different
  servings have different keys; a key is refused exactly when it has more than one slash.
\<close>

lemma object_keys_roundtrip:
  "(plain (ksNamespace ks) \<and> plain (ksName ks) \<longrightarrow>
      bind_result (MetaNamespaceKeyFunc ks) SplitMetaNamespaceKey = Ok (ksNamespace ks, ksName ks)) \<and>
   ((\<exists>e. SplitMetaNamespaceKey key = Err e) \<longleftrightarrow> count_list key (CHR ''/'') > 1)"
proof -
  obtain k where "MetaNamespaceKeyFunc ks = Ok k" by (simp add: MetaNamespaceKeyFunc_def)
  then show ?thesis using SplitMetaNamespaceKey_key [of ks k] SplitMetaNamespaceKey_error [of key] by simp
qed

lemma object_keys_roundtrip_witness:
  "bind_result (MetaNamespaceKeyFunc demo_ks) SplitMetaNamespaceKey = Ok (''serving'', ''knative-serving'') \<and>
   (\<exists>e. SplitMetaNamespaceKey ''a/b/c'' = Err e)"
  using object_keys_roundtrip [of demo_ks "''a/b/c''"] by (simp add: plain_def demo_ks_def)

text \<open>
  A status is sent as a PUT to the subresource status of the serving's own path, with the serving as
  the body, if its namespace and name can be segments of a path and are not empty; otherwise nothing
  is sent, and the caller gets an empty serving with an error.
\<close>

lemma status_request:
  "(addressable ns (ksName ks) \<longrightarrow>
      (\<exists>r. serving_UpdateStatus c ns ks = Into (send c r) \<and> rq_verb r = ''PUT'' \<and>
           url_path r = serving_path ns (ksName ks) @ [''status''] \<and> rq_body r = Some (ServingBody ks))) \<and>
   (\<not> addressable ns (ksName ks) \<longrightarrow>
      (\<exists>e. serving_UpdateStatus c ns ks w = (Ok (Some empty_serving, Some e), w)))"
proof -
  let ?r = "Request_Body (Some (ServingBody ks)) (Request_SubResource [''status''] (Request_Name (ksName ks) (servings_request ''PUT'' ns)))"
  have "serving_UpdateStatus c ns ks = Into (Request_Do (send c) ?r)" by (simp add: serving_UpdateStatus_def)
  moreover have "rq_verb ?r = ''PUT''" by (simp add: servings_request_def NewRequest_def)
  ultimately show ?thesis
    using named_request(2,4) [where verb = "''PUT''" and body = "ServingBody ks" and name = "ksName ks" and ns = ns] unaddressable_update(2) [of ns ks c w]
    by (auto simp: Request_Do_sent intro!: exI [of _ ?r])
qed

lemma status_request_witness:
  "(\<exists>r. serving_UpdateStatus (demo_transports :: unit transports) ''serving'' demo_ks = Into (send (demo_transports :: unit transports) r) \<and>
     url_path r = [''apis'', ''operator.knative.dev'', ''v1alpha1'', ''namespaces'', ''serving'', ''knativeservings'',
                   ''knative-serving'', ''status'']) \<and>
   (\<exists>e. serving_UpdateStatus (demo_transports :: unit transports) [] empty_serving () = (Ok (Some empty_serving, Some e), ()))"
proof -
  have "addressable ''serving'' (ksName demo_ks)" by (simp add: addressable_def segment_iff demo_ks_def)
  moreover have "\<not> addressable [] (ksName empty_serving)" by (simp add: addressable_def)
  moreover have "serving_path ''serving'' (ksName demo_ks) @ [''status''] =
      [''apis'', ''operator.knative.dev'', ''v1alpha1'', ''namespaces'', ''serving'', ''knativeservings'', ''knative-serving'', ''status'']"
    by (simp add: serving_path_def demo_ks_def)
  moreover obtain r where "serving_UpdateStatus (demo_transports :: unit transports) ''serving'' demo_ks = Into (send (demo_transports :: unit transports) r)"
      "url_path r = serving_path ''serving'' (ksName demo_ks) @ [''status'']"
    using status_request [of "''serving''" demo_ks "demo_transports :: unit transports" "()"] calculation(1) by blast
  moreover obtain e where "serving_UpdateStatus (demo_transports :: unit transports) [] empty_serving () = (Ok (Some empty_serving, Some e), ())"
    using status_request [of "[]" empty_serving "demo_transports :: unit transports" "()"] calculation(2) by blast
  ultimately show ?thesis by (intro conjI exI [of _ r] exI [of _ e]) simp_all
qed

text \<open>
  Every event of a deployment that the operator made from its manifest leads back to the custom
  resource: the key that is queued is its name in the namespace the deployment was given, once for
  each event, also when only one side of an update is the operator's.
\<close>

lemma deployment_events:
  assumes "schemes_ok s" and "\<not> isClusterScoped (GetKind u)" and "meta_ok u"
    and "fold_result run_transformer (own_transformers getenv s ks) u = Ok u'"
  shows "on_deployment_event (Added u') q = q @ [(resolveEnv getenv (ksNamespace ks), ksName ks)] \<and>
    on_deployment_event (Updated old u') q = q @ [(resolveEnv getenv (ksNamespace ks), ksName ks)] \<and>
    on_deployment_event (Deleted u') q = q @ [(resolveEnv getenv (ksNamespace ks), ksName ks)]"
proof -
  note p = own_transformers_place [OF assms]
  note c = owned_controller [OF p(2)]
  show ?thesis
    using c p(1) by (simp add: on_deployment_event_def EnqueueControllerOf_def owner_of_def NewControllerRef_def)
qed

lemma deployment_events_witness:
  "\<exists>u'. fold_result run_transformer (own_transformers (\<lambda>_. []) (operator_scheme demo_codec) demo_ks) demo_account = Ok u' \<and>
     on_deployment_event (Added u') [] = [(''serving'', ''knative-serving'')]"
proof -
  obtain m' where "Transform (own_transformers (\<lambda>_. []) (operator_scheme demo_codec) demo_ks) [demo_account] = Ok m'"
    using demo_run by blast
  then obtain u' where u': "fold_result run_transformer (own_transformers (\<lambda>_. []) (operator_scheme demo_codec) demo_ks) demo_account = Ok u'"
    by (auto simp: Transform_def map_result_Ok_iff list_all2_Cons1)
  have "\<not> isClusterScoped (GetKind demo_account)" "meta_ok demo_account" by code_simp+
  from deployment_events [OF operator_scheme_ok this u'] u' show ?thesis
    by (simp add: demo_ks_def resolveEnv_def)
qed

text \<open>
  The clients of a new clientset send to \<open>/apis/operator.knative.dev/v1alpha1\<close> and to
  the root. They share the caller's rate limiter, or one bucket of the configured rate with a
  positive burst; without a rate the typed client has a bucket of 5 per second and the discovery
  client has no limit, and with a negative one neither has. A rate without a positive burst is
  refused.
\<close>

lemma clients_limited:
  assumes "NewForConfig lib c n = (Ok cs, n')"
  shows "(Throttle (restClient (operatorV1alpha1 cs)), Throttle (dc_restClient (cs_DiscoveryClient cs))) =
      (if RateLimiter c \<noteq> None then (RateLimiter c, RateLimiter c)
       else if QPS c > 0 then (Some (TokenBucket n (QPS c) (Burst c)), Some (TokenBucket n (QPS c) (Burst c)))
       else if QPS c = 0 then (Some (TokenBucket n 5 (if Burst c = 0 then 10 else Burst c)), None)
       else (None, None)) \<and>
    (RateLimiter c \<noteq> None \<or> QPS c \<le> 0 \<or> Burst c > 0) \<and>
    versionedAPIPath (restClient (operatorV1alpha1 cs)) = [''apis'', ''operator.knative.dev'', ''v1alpha1''] \<and>
    versionedAPIPath (dc_restClient (cs_DiscoveryClient cs)) = []"
proof -
  have "client_prefix = [''apis'', ''operator.knative.dev'', ''v1alpha1'']" by code_simp
  moreover have "RateLimiter c \<noteq> None \<or> QPS c \<le> 0 \<or> Burst c > 0"
    using clientset_limits(2) [OF assms] by (meson not_le)
  ultimately show ?thesis
    using clientset_limits(1,3,4) [OF assms] by (intro conjI) simp_all
qed

lemma clients_limited_witness:
  "\<exists>cs. fst (NewForConfig demo_rest_lib (demo_rest_config\<lparr>QPS := 20, Burst := 30\<rparr>) 7) = Ok cs \<and>
     Throttle (restClient (operatorV1alpha1 cs)) = Some (TokenBucket 7 20 30) \<and>
     Throttle (dc_restClient (cs_DiscoveryClient cs)) = Some (TokenBucket 7 20 30)"
proof -
  obtain cs n where "NewForConfig demo_rest_lib (demo_rest_config\<lparr>QPS := 20, Burst := 30\<rparr>) 7 = (Ok cs, n)"
    by (simp add: demo_client_simps)
  from clients_limited [OF this] this show ?thesis by (simp add: demo_rest_config_def)
qed

text \<open>
  In every scheme that registrations can build, the maps from kinds to types and from types to kinds
  are inverse to each other: a kind the scheme recognises gives a new object among whose kinds it
  is, and every kind of a registered type, each listed once, gives a new object of that type.
  Registering a type again under the same kind changes nothing.
\<close>

lemma types_registered:
  assumes "built s"
  shows "(\<forall>gvk. Recognizes s gvk \<longrightarrow>
      (\<exists>t ks u. scheme_New s gvk = Ok (PtrTo t) \<and> typed_ObjectKinds s (PtrTo t) = Ok (ks, u) \<and> gvk \<in> set ks)) \<and>
    (\<forall>t ks u. typed_ObjectKinds s (PtrTo t) = Ok (ks, u) \<longrightarrow>
      ks \<noteq> [] \<and> distinct ks \<and> (\<forall>gvk \<in> set ks. Recognizes s gvk \<and> scheme_New s gvk = Ok (PtrTo t))) \<and>
    (\<forall>gvk obj s'. AddKnownTypeWithName gvk obj s = Ok s' \<longrightarrow> AddKnownTypeWithName gvk obj s' = Ok s')"
proof (intro conjI allI impI)
  have inv: "registry_inv s" by (rule built_inv [OF assms])
  fix gvk
  assume "Recognizes s gvk"
  then obtain t where t: "map_of (rg_gvkToType s) gvk = Some t" by (auto simp: Recognizes_def)
  then have "gvk \<in> set (gvks_of s t)" using inv by (simp add: registry_inv_def)
  then obtain ks where "map_of (rg_typeToGVK s) t = Some ks" "gvk \<in> set ks"
    by (cases "map_of (rg_typeToGVK s) t") (simp_all add: gvks_of_def)
  with t show "\<exists>t ks u. scheme_New s gvk = Ok (PtrTo t) \<and> typed_ObjectKinds s (PtrTo t) = Ok (ks, u) \<and> gvk \<in> set ks"
    by (intro exI [where x = t]) (simp add: scheme_New_def typed_ObjectKinds_def)
next
  have inv: "registry_inv s" by (rule built_inv [OF assms])
  fix t ks u
  assume "typed_ObjectKinds s (PtrTo t) = Ok (ks, u)"
  note k = typed_ObjectKinds_gvks [OF inv this]
  from k show "ks \<noteq> []" and "distinct ks" by blast+
  have "map_of (rg_gvkToType s) gvk = Some t" if "gvk \<in> set ks" for gvk
    using that k inv by (simp add: registry_inv_def)
  then show "\<forall>gvk \<in> set ks. Recognizes s gvk \<and> scheme_New s gvk = Ok (PtrTo t)"
    by (simp add: scheme_New_def Recognizes_def)
next
  fix gvk obj s'
  assume "AddKnownTypeWithName gvk obj s = Ok s'"
  then show "AddKnownTypeWithName gvk obj s' = Ok s'" by (rule AddKnownTypeWithName_again) (rule built_inv [OF assms])
qed

lemma types_registered_witness:
  "\<exists>s t. clientset_Scheme = Ok s \<and> Recognizes s ks_GroupVersionKind \<and> scheme_New s ks_GroupVersionKind = Ok (PtrTo t)"
proof -
  have "(case clientset_Scheme of Ok s \<Rightarrow> Recognizes s ks_GroupVersionKind | _ \<Rightarrow> False)" by code_simp
  then obtain s where s: "clientset_Scheme = Ok s" "Recognizes s ks_GroupVersionKind"
    by (auto split: result.splits)
  with types_registered [OF clientset_Scheme_built [OF s(1)]] show ?thesis by blast
qed

section \<open>The properties\<close>

text \<open>
  C1.
  Running the operator's own transformers over a manifest keeps the resources in order and their
  kinds; every namespaced resource whose metadata can be written keeps its name, ends up in the
  namespace of the custom resource (an environment variable when it starts with a dollar sign), and
  is owned by the custom resource alone, although four of the transformers convert resources to Go
  structs and back.
\<close>

lemma transformed_place:
  assumes ok: "schemes_ok s" and run: "Transform (own_transformers getenv s ks) m = Ok m'"
  shows "list_all2
    (\<lambda>u u'. GetKind u' = GetKind u \<and>
       (\<not> isClusterScoped (GetKind u) \<and> meta_ok u \<longrightarrow>
          GetName u' = GetName u \<and> GetNamespace u' = resolveEnv getenv (ksNamespace ks) \<and>
          GetOwnerReferences u' = [owner_of ks])) m m'"
proof (rule list_all2_mono)
  show "list_all2 (\<lambda>u u'. fold_result run_transformer (own_transformers getenv s ks) u = Ok u') m m'"
    using run by (simp add: Transform_def map_result_Ok_iff)
next
  fix u u' assume u: "fold_result run_transformer (own_transformers getenv s ks) u = Ok u'"
  have "same_object u u'"
    by (rule transformer_chain.chain_keeps [OF object_chain.axioms(1) [OF own_chain [OF ok]] u])
  then show "GetKind u' = GetKind u \<and>
       (\<not> isClusterScoped (GetKind u) \<and> meta_ok u \<longrightarrow>
          GetName u' = GetName u \<and> GetNamespace u' = resolveEnv getenv (ksNamespace ks) \<and>
          GetOwnerReferences u' = [owner_of ks])"
    using own_transformers_place [OF ok _ _ u] by (auto simp: same_object_def owned_by_GetOwnerReferences)
qed

lemma transformed_place_witness:
  "\<exists>m'. Transform (own_transformers (\<lambda>_. []) (operator_scheme demo_codec) demo_ks) [demo_account] = Ok m' \<and>
     map GetNamespace m' = [''serving''] \<and> map GetOwnerReferences m' = [[owner_of demo_ks]]"
proof -
  obtain m' where m': "Transform (own_transformers (\<lambda>_. []) (operator_scheme demo_codec) demo_ks) [demo_account] = Ok m'"
    using demo_run by blast
  from transformed_place [OF operator_scheme_ok this] show ?thesis
    using m' by (auto simp: list_all2_Cons1 demo_account_def demo_ks_def resolveEnv_def isClusterScoped_def
        ToLower_def lower_char_def cluster_scoped_kinds_def GetKind_def getNestedString_def NestedString_def
        typed_field_def NestedFieldNoCopy_def level_ok_def)
qed







text \<open>
  C5.
  In every reachable state no serving is reconciled by two workers at once, and the queue holds
  exactly the keys that changed and are not being reconciled, each once.
\<close>

lemma one_worker_per_key:
  assumes "operator_reachable (operator_impl e) permanent s"
  shows "(\<forall>i j k. op_working s i = Some k \<longrightarrow> op_working s j = Some k \<longrightarrow> i = j) \<and>
    distinct (wq_queue (lq_queue (op_queue s))) \<and>
    set (wq_queue (lq_queue (op_queue s))) =
      wq_dirty (lq_queue (op_queue s)) - {k. \<exists>i. op_working s i = Some k}"
  using reachable_workers [OF assms] by (simp add: workers_inv_def assigned_def wq_inv_def)

lemma one_worker_per_key_witness:
  "\<exists>s :: fake_world operator. op_working s 0 = Some (''serving'', ''knative-serving'') \<and>
     (\<forall>j. j \<noteq> 0 \<longrightarrow> op_working s j \<noteq> Some (''serving'', ''knative-serving''))"
proof -
  have n: "serving_name demo_ks = (''serving'', ''knative-serving'')" "serving_name (demo_ks\<lparr>ksName := ''b''\<rparr>) = (''serving'', ''b'')"
    by (simp_all add: serving_name_def demo_ks_def)
  then have "serving_name demo_ks \<noteq> serving_name (demo_ks\<lparr>ksName := ''b''\<rparr>)" by simp
  from two_workers [OF this, of "operator_impl (demo_env [] demo_client demo_api)" "\<lambda>_. False"]
  obtain s where s: "operator_reachable (operator_impl (demo_env [] demo_client demo_api)) (\<lambda>_. False) s"
      "op_working s 0 = Some (serving_name demo_ks)" by blast
  show ?thesis using one_worker_per_key [OF s(1)] s(2) unfolding n by blast
qed

text \<open>
  C6.
  Applying a manifest through the client-go client to a cluster never touches an object that no
  resource of the manifest addresses and never removes an object, whether it succeeds or stops at an
  error; after a success every resource of the manifest exists in the cluster. What the patches are
  relied on for is that a merged object keeps version, kind, namespace and name.
\<close>

lemma cluster_apply:
  assumes "store_inv mapper t"
    and valid: "\<And>u. u \<in> set m \<Longrightarrow> store_valid mapper (object_key (resource_for mapper) u) \<and> wf_obj u \<and> distinct (keys u)"
    and patch: "\<And>u cur p x. u \<in> set m \<Longrightarrow> patch_New P cur u = Ok (Some p) \<Longrightarrow> patch_Merge P p cur = Ok x \<Longrightarrow>
      object_key (resource_for mapper) cur = object_key (resource_for mapper) u \<Longrightarrow>
      object_key (resource_for mapper) x = object_key (resource_for mapper) u"
    and run: "Apply (clientGoClient react mapper) P [] m t = (r, t')"
  shows "store_inv mapper t' \<and>
    (\<forall>k. k \<notin> object_key (resource_for mapper) ` set m \<longrightarrow> store_lookup t' k = store_lookup t k) \<and>
    (\<forall>k. store_lookup t k \<noteq> None \<longrightarrow> store_lookup t' k \<noteq> None) \<and>
    (r = Ok () \<longrightarrow> (\<forall>u \<in> set m. store_lookup t' (object_key (resource_for mapper) u) \<noteq> None))"
proof -
  have ok: "tracked.appliable mapper P u" if "u \<in> set m" for u
    using valid [OF that] patch [OF that] unfolding tracked.appliable_def by blast
  show ?thesis using tracked.Apply_effect [OF assms(1) ok run] by blast
qed

lemma cluster_apply_witness:
  "let (r, t') = Apply (clientGoClient react demo_mapper) demo_patching [] [demo_account] (\<lambda>_. []) in
   r = Ok () \<and> store_lookup t' (Some demo_gvr, ''x'', ''controller'') \<noteq> None"
proof -
  obtain r t' where run: "Apply (clientGoClient react demo_mapper) demo_patching [] [demo_account] (\<lambda>_. []) = (r, t')"
    by fastforce
  have "is_ok (fst (Apply (clientGoClient react demo_mapper) demo_patching [] [demo_account] (\<lambda>_. [])))" by code_simp
  then have r: "r = Ok ()" using run by (simp add: is_ok_iff)
  have "store_lookup t' (object_key (resource_for demo_mapper) demo_account) \<noteq> None"
  proof -
    have inv: "store_inv demo_mapper (\<lambda>_. [])" by (simp add: store_inv_def)
    have "store_valid demo_mapper (object_key (resource_for demo_mapper) u) \<and> wf_obj u \<and> distinct (keys u)" if "u \<in> set [demo_account]" for u
      using that demo_account_valid by simp
    from cluster_apply [OF inv this _ run] r show ?thesis by (simp add: demo_patching_def)
  qed
  with r run show ?thesis by (simp add: demo_account_key)
qed



text \<open>
  C8.
  In every status that the lifecycle operations can build from one without conditions, the serving
  is ready exactly when its dependencies are installed, its deployments are available and its
  installation succeeded.
\<close>

lemma lifecycle_ready_iff:
  assumes "lifecycle_reachable s"
  shows "IsReady (fst s) \<longleftrightarrow> IsFullySupported (fst s) \<and> IsAvailable (fst s) \<and> IsInstalled (fst s)"
  by (rule ready_iff [OF lifecycle_reachable_inv [OF assms]])

lemma lifecycle_ready_iff_witness:
  "IsReady (fst (MarkDeploymentsAvailable (MarkInstallSucceeded (empty_status, sconst 5))))"
proof -
  let ?s1 = "MarkInstallSucceeded (empty_status, sconst 5)"
  let ?s2 = "MarkDeploymentsAvailable ?s1"
  have "lifecycle_reachable (run_op OpDeploymentsAvailable (run_op OpInstallSucceeded (empty_status, sconst 5)))"
    by (intro lc_step lc_start) (simp add: empty_status_def)
  then have r: "lifecycle_reachable ?s2" by simp
  have inv: "lifecycle_inv (fst (empty_status, sconst 5))" by (simp add: empty_status_def lifecycle_inv_empty)
  have "ks_status empty_status = (\<lambda>_. None)" by (simp add: fun_eq_iff ks_status_def ks_GetCondition_def GetCondition_def empty_status_def)
  with MarkInstallSucceeded_facts [OF inv]
  have 1: "lifecycle_inv (fst ?s1)" "ks_status (fst ?s1) InstallSucceeded = Some ConditionTrue"
      "ks_status (fst ?s1) DependenciesInstalled = Some ConditionTrue"
    by (simp_all add: spec_mark_def Let_def)
  from marksD(3) [OF lifecycle_marks(3) [OF 1(1)]] 1
  show ?thesis by (simp add: lifecycle_ready_iff [OF r] test_facts(1,2,3) spec_mark_def Let_def)
qed

text \<open>
  C9.
  What an installation does to the cluster is one application of the roles, then the bindings of
  roles, then the whole manifest, in this order, stopping at the first error. After a success the
  status says installed at the version of the operator; after an error it says that the installation
  failed, with the text of the error, and the serving is not ready.
\<close>

lemma install_outcome:
  assumes "status_inv s" and "install e m s = (r, s')"
  shows "r = fst (Apply (mclient e) (patches e) [] (install_order m) (world s)) \<and>
    world s' = snd (Apply (mclient e) (patches e) [] (install_order m) (world s)) \<and>
    (r = Ok () \<longrightarrow> IsInstalled (Status (inst s')) \<and> Version (Status (inst s')) = operator_version) \<and>
    (\<forall>err. r = Err err \<longrightarrow> install_failed err (Status (inst s')) \<and> \<not> IsReady (Status (inst s')))"
proof -
  have "\<not> IsReady (Status (inst s'))" if "r = Err err" for err
    using install_status(2,3) [OF assms] that install_failed_not_ready(1) by (auto simp: status_inv_def)
  then show ?thesis using install_world [of e m s] install_status(1,2) [OF assms] assms(2) by auto
qed

lemma install_outcome_witness:
  "let e = demo_env [] demo_client demo_api; (r, s') = install e [demo_account] (demo_state (demo_store demo_ks) demo_ks) in
   r = Err (Errorf ''unreachable'') \<and> \<not> IsReady (Status (inst s'))"
proof -
  let ?e = "demo_env [] demo_client demo_api" and ?s = "demo_state (demo_store demo_ks) demo_ks"
  obtain r s' where run: "install ?e [demo_account] ?s = (r, s')" by fastforce
  have inv: "status_inv ?s" using empty_status_inv by (simp add: status_inv_def demo_state_def demo_ks_def)
  have "fst (Apply demo_client demo_patching [] (install_order [demo_account]) (world ?s)) = Err (Errorf ''unreachable'')"
    by (rule demo_apply_unreachable)
  with install_outcome [OF inv run] run show ?thesis by (simp add: demo_env_def)
qed

text \<open>
  C10.
  If nobody else writes, a changed status gets into the store even when the copy it is first written
  with is stale: the first attempt may be refused as a conflict, but then the next one works on the
  serving it has just read. What is relied on of the store is that a read shows what is stored, and
  that a write of the status is accepted unless it carries an old resource version.
\<close>

lemma status_written:
  assumes "serving_store (Client r) stored good" and "good w" and "stored w ns name = Some cur"
    and "named ns name desired" and "named ns name original" and "Status original \<noteq> Status desired"
  shows "\<exists>w' ks. updateStatus r original desired w = (Ok (), w') \<and> stored w' ns name = Some ks \<and> Status ks = Status desired"
  unfolding updateStatus_def using serving_store.status_gets_through [OF assms] by metis

lemma status_written_witness:
  "let r = operator_impl (demo_env [] demo_client demo_api) in
   \<exists>w' ks. updateStatus r demo_ks demo_started (demo_store demo_ks) = (Ok (), w') \<and>
     fake_stored w' ''serving'' ''knative-serving'' = Some ks \<and> Conditions (Status ks) \<noteq> []"
proof -
  let ?r = "operator_impl (demo_env [] demo_client demo_api)"
  have st: "serving_store (Client ?r) fake_stored fake_good"
    using metadata.serving_store_axioms by (simp add: operator_impl_def demo_env_def)
  have "Conditions (Status demo_ks) = []" by (simp add: demo_ks_def empty_status_def)
  then have ne: "Status demo_ks \<noteq> Status demo_started" using demo_started_conditions by metis
  have n: "named ''serving'' ''knative-serving'' demo_started" "named ''serving'' ''knative-serving'' demo_ks"
    by (simp_all add: named_def demo_started_def demo_ks_def)
  have g: "fake_good (demo_store demo_ks)" "fake_stored (demo_store demo_ks) ''serving'' ''knative-serving'' = Some demo_ks"
    using demo_store_good [of demo_ks] by simp_all
  obtain w' ks where "updateStatus ?r demo_ks demo_started (demo_store demo_ks) = (Ok (), w')"
      "fake_stored w' ''serving'' ''knative-serving'' = Some ks" "Status ks = Status demo_started"
    using status_written [where stored = fake_stored and good = fake_good, OF st g n ne] by blast
  then show ?thesis unfolding Let_def using demo_started_conditions by (intro exI [of _ w'] exI [of _ ks]) simp
qed

text \<open>
  C11.
  Finalizing a serving deletes nothing of the manifest while another serving is still known to the
  operator, and neither when the first finalizer of the serving is not the operator's own: all the
  cluster sees is at most one update of a serving.
\<close>

lemma finalize_guard:
  assumes "MetaNamespaceKeyFunc (inst s) = Ok key"
    and "Finalizers (inst s) = [] \<or> hd (Finalizers (inst s)) \<noteq> finalizerName \<or>
      (\<exists>k. k \<noteq> key \<and> map_of (servings s) k \<noteq> None)"
  shows "only_update e (world s) (world (snd (FinalizeKind e s)))"
  by (rule FinalizeKind_guard [OF assms])

lemma finalize_guard_witness:
  "let e = demo_env [demo_account] demo_client demo_api;
       s = (demo_state (demo_store demo_started) demo_started)\<lparr>servings := [(demo_key, 1), (''other/serving'', 1)]\<rparr>
   in only_update e (world s) (world (snd (FinalizeKind e s)))"
proof -
  let ?s = "(demo_state (demo_store demo_started) demo_started)\<lparr>servings := [(demo_key, 1), (''other/serving'', 1)]\<rparr>"
  have key: "MetaNamespaceKeyFunc (inst ?s) = Ok demo_key"
    by (simp add: MetaNamespaceKeyFunc_def demo_state_def demo_started_def demo_ks_def demo_key_def)
  have "''other/serving'' \<noteq> demo_key \<and> map_of (servings ?s) ''other/serving'' \<noteq> None" by (simp add: demo_key_def)
  then show ?thesis unfolding Let_def by (intro finalize_guard [OF key]) blast
qed





text \<open>
  C14.
  Over any run of the operator, whatever happens to the cluster and the cache between its calls,
  what it keeps of the generations of the servings and the changes it has reported are a function of
  the calls alone: a serving is known from its first reconciliation until its finalization, at the
  highest generation seen; a creation is reported only at generation 1, an edit only when the
  generation grows, and a deletion never, although the metric is documented to count deletions.
\<close>

lemma operator_books:
  assumes "operator_run e cs s"
  shows "map_of (servings s) = tracked_generations cs \<and> reported s = reported_changes cs \<and>
    (\<forall>change \<in> set (reported s). snd change \<noteq> deletionChange)"
proof -
  have "c \<noteq> deletionChange" if "(k, c) \<in> set (reported_changes cs)" for k c
    using reported_changes_kinds [OF that] by (auto simp: creationChange_def editChange_def deletionChange_def)
  with operator_run_books [OF assms] show ?thesis by auto
qed

lemma operator_books_witness:
  "let e = demo_env [] demo_client demo_api; s = snd (ReconcileKind e (demo_state (demo_store demo_ks) demo_ks)) in
   map_of (servings s) demo_key = Some 1 \<and> reported s = [(demo_key, creationChange)]"
proof -
  let ?e = "demo_env [] demo_client demo_api" and ?s = "demo_state (demo_store demo_ks) demo_ks"
  obtain r s' where run: "ReconcileKind ?e ?s = (r, s')" by fastforce
  have key: "MetaNamespaceKeyFunc (inst ?s) = Ok demo_key" and gen: "Generation (inst ?s) = 1"
    by (simp_all add: MetaNamespaceKeyFunc_def demo_state_def demo_ks_def demo_key_def)
  have "operator_run ?e [] ?s" by (rule run_start) (simp_all add: demo_state_def)
  from operator_books [OF run_reconcile [OF this refl refl key run]] run show ?thesis by (simp add: gen)
qed











text \<open>
  C20.
  The three-way patch of documents without nulls in the configuration never fails and never
  conflicts; applied to the current document it gives what a reference says: every value of the
  configuration, objects merged key by key, without the keys that the original had and the
  configuration has no more, and with all others as they were. The next patch of the result is
  empty, so applying a configuration again changes nothing.
\<close>

lemma three_way_patch:
  assumes "go_doc a" and "config_doc b" and "go_doc c"
  shows "\<exists>p x. CreateThreeWayJSONMergePatch (Text (JObj a)) (Text (JObj b)) (Text (JObj c)) = Ok p \<and>
    MergePatch (Text (JObj c)) (Text p) = Ok (JObj x) \<and> same (JObj x) (JObj (three_way a b c)) \<and>
    CreateThreeWayJSONMergePatch (Text (JObj b)) (Text (JObj b)) (Text (JObj x)) = Ok (JObj [])"
proof -
  let ?x = "patched_doc a b c"
  have "patch_of b b ?x = []"
    using patch_of_settled [OF assms(2) patched_doc_go [OF assms]] patched_doc_has [OF assms] by simp
  then show ?thesis
    using CreateThreeWay_Ok [OF assms] MergePatch_patched [of c a b] patched_doc_three_way [OF assms]
      CreateThreeWay_Ok [OF config_go_doc [OF assms(2)] assms(2) patched_doc_go [OF assms]] by metis
qed

lemma three_way_patch_witness:
  "let a = [(''x'', JStr ''1''), (''y'', JObj [(''p'', JStr ''2'')])];
       b = [(''y'', JObj [(''q'', JStr ''3'')])];
       c = [(''x'', JStr ''1''), (''y'', JObj [(''p'', JStr ''2''), (''r'', JStr ''4'')]), (''z'', JBool True)]
   in (\<exists>p x. CreateThreeWayJSONMergePatch (Text (JObj a)) (Text (JObj b)) (Text (JObj c)) = Ok p \<and>
      MergePatch (Text (JObj c)) (Text p) = Ok (JObj x) \<and> same (JObj x) (JObj (three_way a b c))) \<and>
    three_way a b c = [(''y'', JObj [(''q'', JStr ''3''), (''r'', JStr ''4'')]), (''z'', JBool True)]"
proof -
  let ?a = "[(''x'', JStr ''1''), (''y'', JObj [(''p'', JStr ''2'')])]"
  let ?b = "[(''y'', JObj [(''q'', JStr ''3'')])]"
  let ?c = "[(''x'', JStr ''1''), (''y'', JObj [(''p'', JStr ''2''), (''r'', JStr ''4'')]), (''z'', JBool True)]"
  have "go_doc ?a" "config_doc ?b" "go_doc ?c" by (simp_all add: go_doc_def config_doc_def)
  from three_way_patch [OF this]
  have "\<exists>p x. CreateThreeWayJSONMergePatch (Text (JObj ?a)) (Text (JObj ?b)) (Text (JObj ?c)) = Ok p \<and>
      MergePatch (Text (JObj ?c)) (Text p) = Ok (JObj x) \<and> same (JObj x) (JObj (three_way ?a ?b ?c))" by blast
  moreover have "three_way ?a ?b ?c = [(''y'', JObj [(''q'', JStr ''3''), (''r'', JStr ''4'')]), (''z'', JBool True)]"
    by code_simp
  ultimately show ?thesis unfolding Let_def by blast
qed

text \<open>
  C21.
  Applying a resource of a kind that gets JSON merge patches writes nothing to the cluster when the
  object there has all the resource says and carries the resource as the configuration applied last:
  the only request is the read.
\<close>

lemma apply_settled:
  assumes "\<not> registered (GroupVersionKind_of spec)"
    and spec: "distinct (keys spec)" "wf_obj spec" "null_free_obj spec" and live: "distinct (keys cur)" "wf_obj cur"
    and "getLastAppliedConfig parse cur = Text (JObj spec)"
    and "has_entries (document_obj cur) (document_obj spec)"
    and get: "c_Get c spec w = (Ok cur, w')"
  shows "mf_apply c (merge_patching parse registered strategic) opts spec w = (Ok (), w')"
proof (rule mf_apply_settled [OF get])
  show "patch_New (merge_patching parse registered strategic) cur spec = Ok None"
    using New_patch_settled [where registered = registered, OF assms(1) spec live assms(7)] assms(8) by (simp add: merge_patching_def)
qed

lemma apply_settled_witness:
  "let cur = annotate LastAppliedConfigAnnotation ''text'' demo_account;
       t = (\<lambda>_. [])(demo_gvr := [cur])
   in mf_apply (clientGoClient react demo_mapper)
        (merge_patching (\<lambda>_. Text (JObj demo_account)) (\<lambda>_. False) demo_patching) [] demo_account t = (Ok (), t)"
proof -
  let ?cur = "annotate LastAppliedConfigAnnotation ''text'' demo_account"
  let ?t = "(\<lambda>_. [])(demo_gvr := [?cur])"
  have get: "c_Get (clientGoClient react demo_mapper) demo_account ?t = (Ok ?cur, ?t)"
  proof -
    have "fst (c_Get (clientGoClient react demo_mapper) demo_account ?t) = Ok ?cur" by code_simp
    moreover have "snd (c_Get (clientGoClient react demo_mapper) demo_account ?t) = ?t" by (rule tracked.get_state)
    ultimately show ?thesis by (metis prod.collapse)
  qed
  have "distinct (keys ?cur)" "wf_obj ?cur" "null_free_obj demo_account"
      "has_entries (document_obj ?cur) (document_obj demo_account)" by code_simp+
  moreover have "getLastAppliedConfig (\<lambda>_. Text (JObj demo_account)) ?cur = Text (JObj demo_account)"
    by code_simp
  ultimately show ?thesis
    unfolding Let_def using demo_account_valid get
    by (intro apply_settled [where registered = "\<lambda>_. False"]) simp_all
qed



text \<open>
  C23.
  The work queue is fair: whatever is added, finished or shut down meanwhile, the first
  \<open>Get\<close>s return the items that are in the queue now, in their order, so an item at
  position n is returned by the n-th \<open>Get\<close>.
\<close>

lemma served_in_order:
  "take (length (wq_queue q)) (fst (queue_run ops q)) = take (length (filter is_get ops)) (wq_queue q)"
  by (rule queue_run_served)

text \<open>
  C24.
  A retry waits 5 ms doubled for every failure of the same key since it was last forgotten, at most
  1000 s, or longer if the token bucket asks for it; failures of other keys make no difference, and
  the delay always fits a 64-bit duration if the bucket's does.
\<close>

lemma retry_delays:
  "let d = fst (max_When bucket item (limit_run ops DefaultControllerRateLimiter))
   in d = max bucket (min 1000000000000 (5000000 * 2 ^ recent_failures item ops)) \<and>
      d < max (bucket + 1) (2 ^ 63)"
proof -
  let ?r = "limit_run ops DefaultControllerRateLimiter"
  have m: "maxDelay ?r = 1000000000000" and b: "baseDelay ?r = 5000000"
    by (simp_all add: limit_run_delays DefaultControllerRateLimiter_def NewItemExponentialFailureRateLimiter_def)
  have "fst (max_When bucket item ?r) = max bucket (min 1000000000000 (5000000 * 2 ^ recent_failures item ops))"
    using exp_When_min [of ?r item] by (simp add: max_When_max m b limit_run_failures)
  then show ?thesis by (simp add: Let_def max_def min_def)
qed

text \<open>
  C25.
  Marking a dependent condition refines the abstract operation on the map from condition types to
  statuses: the dependent gets its status, and the happy condition becomes false if some dependent
  is false, else unknown if some dependent is unknown or missing, else true; no other condition
  changes status, and the conditions stay sorted by type and unique.
\<close>

lemma condition_marks_refine:
  assumes "wf_set r" "wf_accessor r a" "t \<in> set (dependents r)"
  shows "status_of (MarkTrue r t a) = spec_mark r t ConditionTrue (status_of a) \<and>
    status_of (MarkTrueWithReason r t reason msg a) = spec_mark r t ConditionTrue (status_of a) \<and>
    status_of (MarkFalse r t reason msg a) = spec_mark r t ConditionFalse (status_of a) \<and>
    status_of (MarkUnknown r t reason msg a) = spec_mark r t ConditionUnknown (status_of a) \<and>
    wf_accessor r (MarkTrue r t a) \<and> wf_accessor r (MarkTrueWithReason r t reason msg a) \<and>
    wf_accessor r (MarkFalse r t reason msg a) \<and> wf_accessor r (MarkUnknown r t reason msg a)"
  using refines_markD [OF MarkTrue_refines [OF assms]] refines_markD [OF MarkTrueWithReason_refines [OF assms]]
    refines_markD [OF MarkFalse_refines [OF assms]] refines_markD [OF MarkUnknown_refines [OF assms]] by blast

lemma condition_marks_refine_witness:
  "let r = newConditionSet ''Ready'' [''A'', ''B'']; a = \<lparr>conds = [], clock = sconst 5\<rparr> in
   status_of (MarkTrue r ''A'' a) ''Ready'' = Some ''Unknown'' \<and>
   status_of (MarkFalse r ''A'' ''x'' ''y'' a) ''Ready'' = Some ''False'' \<and>
   status_of (MarkUnknown r ''A'' ''x'' ''y'' a) ''A'' = Some ''Unknown''"
proof -
  let ?r = "newConditionSet ''Ready'' [''A'', ''B'']" and ?a = "\<lparr>conds = [], clock = sconst 5\<rparr>"
  have d: "dependents ?r = [''A'', ''B'']" "happy ?r = ''Ready''" by (simp_all add: newConditionSet_def)
  have "wf_set ?r" "wf_accessor ?r ?a" "''A'' \<in> set (dependents ?r)"
    by (rule wf_newConditionSet) (simp_all add: d wf_accessor_def wf_conds_def)
  from condition_marks_refine [OF this, of "''x''" "''y''"] show ?thesis
    by (simp add: Let_def d spec_mark_def aggregate_def ConditionTrue_def ConditionFalse_def ConditionUnknown_def)
qed



text \<open>
  C27.
  Deleting a manifest through the client-go client never touches an object that no resource of the
  manifest addresses and never creates one; after a success no resource of the manifest exists any
  more, except namespaces that do not carry the mark of having been created by the library.
\<close>

lemma cluster_delete:
  assumes "store_inv mapper t"
    and "\<And>u. u \<in> set m \<Longrightarrow> store_valid mapper (object_key (resource_for mapper) u)"
    and "Delete (clientGoClient react mapper) [] m t = (r, t')"
  shows "store_inv mapper t' \<and>
    (\<forall>k. k \<notin> object_key (resource_for mapper) ` set m \<longrightarrow> store_lookup t' k = store_lookup t k) \<and>
    (\<forall>k. store_lookup t k = None \<longrightarrow> store_lookup t' k = None) \<and>
    (r = Ok () \<longrightarrow> (\<forall>u \<in> set m. okToDelete u \<longrightarrow> store_lookup t' (object_key (resource_for mapper) u) = None))"
  using tracked.Delete_effect [OF assms] by blast

lemma cluster_delete_witness:
  "let t = (\<lambda>_. [])(demo_gvr := [demo_account]); (r, t') = Delete (clientGoClient react demo_mapper) [] [demo_account] t in
   r = Ok () \<and> store_lookup t (Some demo_gvr, ''x'', ''controller'') \<noteq> None \<and>
   store_lookup t' (Some demo_gvr, ''x'', ''controller'') = None"
proof -
  let ?t = "(\<lambda>_. [])(demo_gvr := [demo_account])"
  obtain r t' where run: "Delete (clientGoClient react demo_mapper) [] [demo_account] ?t = (r, t')" by fastforce
  have "is_ok (fst (Delete (clientGoClient react demo_mapper) [] [demo_account] ?t))" by code_simp
  then have r: "r = Ok ()" using run by (simp add: is_ok_iff)
  have "store_valid demo_mapper (object_key (resource_for demo_mapper) u)" if "u \<in> set [demo_account]" for u
    using that demo_account_valid by simp
  from cluster_delete [OF demo_store_inv this run] r
  have "store_lookup t' (object_key (resource_for demo_mapper) demo_account) = None"
    by (simp add: demo_account_ok)
  moreover have "store_lookup ?t (object_key (resource_for demo_mapper) demo_account) \<noteq> None"
    by (simp add: demo_account_key store_lookup_def demo_account_place)
  ultimately show ?thesis using run r by (simp add: demo_account_key)
qed

text \<open>
  C28.
  Retrying an update after conflicts always ends, after at most five attempts: the outcome is that
  of an attempt whose predecessors all ended in a conflict, and it can be a conflict itself only if
  it is the fifth.
\<close>

lemma retries_bounded:
  "RetryUpdateConflicts updater s = (r, s') \<longleftrightarrow>
     (\<exists>n\<le>4. \<exists>s1. conflicted updater 0 n s = Some s1 \<and> updater n s1 = (r, s') \<and> (conflict r \<longrightarrow> n = 4))"
  using tries_result [of updater 0 4 s r s'] by (simp add: RetryUpdateConflicts_tries)

lemma retries_bounded_witness:
  "let busy = (\<lambda>attempt n. (Err (StatusError Conflict ''busy''), Suc n)) in
   RetryUpdateConflicts busy 0 = (Err (StatusError Conflict ''busy''), 5)"
proof -
  let ?busy = "\<lambda>attempt n. (Err (StatusError Conflict ''busy''), Suc n)"
  have "conflicted ?busy 0 4 0 = Some 4 \<and> ?busy 4 4 = (Err (StatusError Conflict ''busy''), 5)"
    by (simp add: eval_nat_numeral IsConflict_def)
  then show ?thesis
    unfolding Let_def retries_bounded by (intro exI [of _ 4] conjI) auto
qed

text \<open>
  C29.
  \<open>NewForConfigOrDie\<close>, which the injection uses, does not make the check of
  \<open>NewForConfig\<close>: with a rate and a burst of zero \<open>NewForConfig\<close> returns
  an error, and a clientset that \<open>NewForConfigOrDie\<close> makes has two limiters instead of
  one, a bucket of burst 10 for the typed client and a bucket of burst 0, which lets nothing
  through, for the discovery client. With the rates \<open>MainWithConfig\<close> sets, both buckets
  have burst 10.
\<close>

lemma or_die_unchecked:
  assumes "NewForConfigOrDie lib c n = (Ok cs, n')" and "RateLimiter c = None" and "QPS c > 0"
  shows "(Burst c \<le> 0 \<longrightarrow> (\<exists>e. NewForConfig lib c n = (Err e, n))) \<and>
    Throttle (restClient (operatorV1alpha1 cs)) = Some (TokenBucket n (QPS c) (if Burst c = 0 then 10 else Burst c)) \<and>
    Throttle (dc_restClient (cs_DiscoveryClient cs)) = Some (TokenBucket (n + 1) (QPS c) (Burst c)) \<and>
    QPS (main_config 1 c) = 5 \<and> Burst (main_config 1 c) = 10"
  using clientset_or_die_limits [OF assms] assms(2,3)
  by (simp add: NewForConfig_def bind_io_def main_config_def DefaultBurst_def DefaultQPS_def)

lemma or_die_unchecked_witness:
  "\<exists>cs. fst (NewForConfigOrDie demo_rest_lib (demo_rest_config\<lparr>QPS := 20\<rparr>) 0) = Ok cs \<and>
     Throttle (dc_restClient (cs_DiscoveryClient cs)) = Some (TokenBucket 1 20 0) \<and>
     is_ok (fst (NewForConfig demo_rest_lib (demo_rest_config\<lparr>QPS := 20\<rparr>) 0)) = False"
proof -
  obtain cs n where c: "NewForConfigOrDie demo_rest_lib (demo_rest_config\<lparr>QPS := 20\<rparr>) 0 = (Ok cs, n)"
    by (simp add: demo_client_simps)
  have d: "RateLimiter (demo_rest_config\<lparr>QPS := 20\<rparr>) = None" "QPS (demo_rest_config\<lparr>QPS := 20\<rparr>) > 0"
      "Burst (demo_rest_config\<lparr>QPS := 20\<rparr>) = 0" "QPS (demo_rest_config\<lparr>QPS := 20\<rparr>) = 20"
    by (simp_all add: demo_rest_config_def)
  note u = or_die_unchecked [OF c d(1,2), unfolded d(3,4)]
  then obtain e where "NewForConfig demo_rest_lib (demo_rest_config\<lparr>QPS := 20\<rparr>) 0 = (Err e, 0)" by auto
  then show ?thesis using u c by (intro exI [where x = cs]) simp
qed



text \<open>
  C31.
  Rewriting the images of a deployment keeps its containers, their order and their names; the image
  of every container becomes the one the registry gives for the container's name, or stays when the
  registry gives none. The statement is about the JSON before and after, through both conversions.
\<close>

lemma deployment_images:
  assumes "scheme_ok s gvk_Deployment fs_Deployment" and "GroupVersionKind_of u = gvk_Deployment"
    and "updateDeployment s ks u = Ok u'"
    and "NestedFieldNoCopy u [''spec'', ''template'', ''spec'', ''containers''] = Ok (Some (JArr cs))"
  shows "\<exists>cs'. NestedFieldNoCopy u' [''spec'', ''template'', ''spec'', ''containers''] = Ok (Some (JArr cs')) \<and>
    list_all2 (\<lambda>c c'. string_of ''name'' c' = string_of ''name'' c \<and>
                      string_of ''image'' c' = wanted_image (Registry (Spec ks)) c) cs cs'"
  by (rule updateDeployment_containers [OF assms])

lemma deployment_images_witness:
  "\<exists>u' c'. updateDeployment (operator_scheme demo_codec) demo_registry_ks demo_deployment = Ok u' \<and>
     NestedFieldNoCopy u' [''spec'', ''template'', ''spec'', ''containers''] = Ok (Some (JArr [c'])) \<and>
     string_of ''image'' c' = ''docker.io/controller:v1''"
proof -
  obtain u' where u': "updateDeployment (operator_scheme demo_codec) demo_registry_ks demo_deployment = Ok u'"
    using demo_updateDeployment by blast
  have "GroupVersionKind_of demo_deployment = gvk_Deployment" by code_simp
  moreover have "NestedFieldNoCopy demo_deployment [''spec'', ''template'', ''spec'', ''containers''] = Ok (Some (JArr [demo_container]))"
    by code_simp
  moreover have "wanted_image (Registry (Spec demo_registry_ks)) demo_container = ''docker.io/controller:v1''" by code_simp
  ultimately show ?thesis
    using deployment_images [OF conjunct1 [OF operator_scheme_ok] _ u'] u' by (fastforce simp: list_all2_Cons1)
qed

text \<open>
  C32.
  Applying a merge patch is what the pseudo code of RFC 7386 says, for every object and every patch
  that has no nulls inside arrays; with a null in an array it is not, because the null is dropped
  there too.
\<close>

lemma merge_patch_rfc:
  assumes "plain_arrays_obj ps" and "wf_obj ps" and "distinct (keys ps)"
  shows "MergePatch (Text (JObj d)) (Text (JObj ps)) = Ok (rfc_MergePatch (JObj d) (JObj ps)) \<and>
    MergePatch (Text (JObj [])) (Text (JObj [(''a'', JArr [JNull])])) \<noteq>
      Ok (rfc_MergePatch (JObj []) (JObj [(''a'', JArr [JNull])]))"
  using MergePatch_rfc [OF assms] by (simp add: MergePatch_def doMergePatch_def)

lemma merge_patch_rfc_witness:
  "MergePatch (Text (JObj [(''a'', JStr ''b''), (''c'', JObj [(''d'', JStr ''e''), (''f'', JStr ''g'')])]))
     (Text (JObj [(''a'', JStr ''z''), (''c'', JObj [(''f'', JNull)])])) =
   Ok (JObj [(''a'', JStr ''z''), (''c'', JObj [(''d'', JStr ''e'')])])"
  using merge_patch_rfc [of "[(''a'', JStr ''z''), (''c'', JObj [(''f'', JNull)])]"
      "[(''a'', JStr ''b''), (''c'', JObj [(''d'', JStr ''e''), (''f'', JStr ''g'')])]"]
  by (simp add: lookup_or_def has_key_def)







text \<open>
  C36.
  A config map whose entry exists in the spec gets every value of that entry in its data, keeps the
  other values of its data, and no other field of it changes.
\<close>

lemma config_map_override:
  assumes "GetKind u = ''ConfigMap''" "7 \<le> length (GetName u)" "data_ok u"
    and data: "map_of (Config (Spec ks)) (drop 7 (GetName u)) = Some data" "distinct (keys data)"
  shows "\<exists>u'. ConfigMapTransform ks u = Ok u' \<and>
    (\<forall>k. NestedFieldNoCopy u' [''data'', k] =
       (case map_of data k of Some v \<Rightarrow> Ok (Some (JStr v)) | None \<Rightarrow> NestedFieldNoCopy u [''data'', k])) \<and>
    (\<forall>f fs. f \<noteq> ''data'' \<longrightarrow> NestedFieldNoCopy u' (f # fs) = NestedFieldNoCopy u (f # fs))"
  using assms
  by (auto simp: ConfigMapTransform_cases UpdateConfigMap_entry UpdateConfigMap_other_entry UpdateConfigMap_other_field
      map_of_eq_None_iff split: option.split)

lemma config_map_override_witness:
  "let u = [(''kind'', JStr ''ConfigMap''), (''metadata'', JObj [(''name'', JStr ''config-domain'')]),
            (''data'', JObj [(''a'', JStr ''1''), (''b'', JStr ''2'')])];
       ks = demo_ks\<lparr>Spec := empty_spec\<lparr>Config := [(''domain'', [(''a'', ''9'')])]\<rparr>\<rparr> in
   \<exists>u'. ConfigMapTransform ks u = Ok u' \<and> NestedFieldNoCopy u' [''data'', ''a''] = Ok (Some (JStr ''9'')) \<and>
     NestedFieldNoCopy u' [''data'', ''b''] = Ok (Some (JStr ''2''))"
proof -
  let ?u = "[(''kind'', JStr ''ConfigMap''), (''metadata'', JObj [(''name'', JStr ''config-domain'')]),
            (''data'', JObj [(''a'', JStr ''1''), (''b'', JStr ''2'')])]"
  let ?ks = "demo_ks\<lparr>Spec := empty_spec\<lparr>Config := [(''domain'', [(''a'', ''9'')])]\<rparr>\<rparr>"
  have "GetKind ?u = ''ConfigMap''" "GetName ?u = ''config-domain''" by code_simp+
  moreover have "NestedFieldNoCopy ?u [''data'', ''b''] = Ok (Some (JStr ''2''))" by code_simp
  moreover have "data_ok ?u" by (simp add: level_ok_def)
  ultimately obtain u' where run: "ConfigMapTransform ?ks ?u = Ok u'"
    and k: "NestedFieldNoCopy u' [''data'', k] =
       (case map_of [(''a'', ''9'')] k of Some v \<Rightarrow> Ok (Some (JStr v)) | None \<Rightarrow> NestedFieldNoCopy ?u [''data'', k])" for k
    using config_map_override [of ?u ?ks "[(''a'', ''9'')]"] by auto
  from run k [of "''a''"] k [of "''b''"] \<open>NestedFieldNoCopy ?u [''data'', ''b''] = _\<close> show ?thesis by simp
qed

text \<open>
  C37.
  For an autoscaler the transformer leaves a minimum that is the larger of the old minimum, read as
  zero when there is none, and the replicas of the spec, which are sign-extended from 32 to 64 bits
  and compared as signed numbers; a negative number of replicas never creates a minimum.
\<close>

lemma autoscaler_minimum:
  assumes "ha_autoscaler (int64_of replicas) u = Ok u'" "GetKind u = ''HorizontalPodAutoscaler''"
    and "NestedInt64 u [''spec'', ''minReplicas''] = Ok found"
  shows "\<exists>i. NestedInt64 u' [''spec'', ''minReplicas''] = Ok (Some i) \<and>
    sint i = max (sint replicas) (sint (case found of Some i \<Rightarrow> i | None \<Rightarrow> 0))
    \<or> found = None \<and> sint replicas < 0 \<and> u' = u"
  using ha_autoscaler_min [OF assms] by simp

lemma autoscaler_minimum_witness:
  "\<exists>u' i. ha_autoscaler (int64_of 3)
       [(''kind'', JStr ''HorizontalPodAutoscaler''), (''spec'', JObj [(''minReplicas'', JInt 1)])] = Ok u' \<and>
     NestedInt64 u' [''spec'', ''minReplicas''] = Ok (Some i) \<and> sint i = 3"
proof -
  let ?u = "[(''kind'', JStr ''HorizontalPodAutoscaler''), (''spec'', JObj [(''minReplicas'', JInt 1)])]"
  have k: "GetKind ?u = ''HorizontalPodAutoscaler''" by code_simp
  have f: "NestedInt64 ?u [''spec'', ''minReplicas''] = Ok (Some 1)" by code_simp
  have "is_ok (ha_autoscaler (int64_of 3) ?u)" by code_simp
  then obtain u' where u': "ha_autoscaler (int64_of 3) ?u = Ok u'" by (auto simp: is_ok_iff)
  from autoscaler_minimum [OF this k f] u' show ?thesis by auto
qed

text \<open>
  C38.
  A shared informer factory has one informer for each type, whoever asks for it and however often,
  also after it was started; starting it runs each informer once, however often it is started.
\<close>

lemma informers_shared:
  assumes "factory_inv f" and "InformerFor t newFunc f = (i, f')"
  shows "factory_inv f' \<and> InformerFor t newFunc' f' = (i, f') \<and> InformerFor t newFunc' (factory_Start f') = (i, factory_Start f') \<and>
    distinct (f_runs (factory_Start f')) \<and> t \<in> set (f_runs (factory_Start f')) \<and>
    factory_Start (factory_Start f') = factory_Start f'"
proof -
  note i = InformerFor_shared [OF assms(2)]
  note s = factory_Start_inv [OF i(2) [OF assms(1)]]
  have "f_informers (factory_Start f') = f_informers f'"
    using start_loop_spec [of "keys (f_informers f')" f'] i(2) [OF assms(1)] by (simp add: factory_Start_def factory_inv_def)
  moreover have "t \<in> set (keys (f_informers f'))" using i(3) by (auto dest: map_of_SomeD intro: rev_image_eqI)
  ultimately show ?thesis
    using i(1,3) i(2) [OF assms(1)] s by (auto simp: InformerFor_def factory_inv_def)
qed

lemma informers_shared_witness:
  "let f = NewFilteredSharedInformerFactory 30 ''serving'' None; (i, f') = Informer f in
   Informer (factory_Start f') = (i, factory_Start f') \<and> serving_type \<in> set (f_runs (factory_Start f'))"
proof -
  let ?f = "NewFilteredSharedInformerFactory 30 ''serving'' None"
  obtain i f' where i: "Informer ?f = (i, f')" by fastforce
  have "factory_inv ?f"
    by (simp add: factory_inv_def NewFilteredSharedInformerFactory_def NewSharedInformerFactoryWithOptions_def WithNamespace_def
        WithTweakListOptions_def is_started_def)
  from informers_shared [OF this i [unfolded Informer_def]] i show ?thesis by (simp add: Informer_def)
qed





end
